(* ===== verification/Provider_Prelude.thy ===== *)
theory Provider_Prelude
  imports Main "HOL-Library.Multiset"
begin

text \<open>
  Shared material of the development: the JavaScript library routines the provider
  sources use (joining names with a separator, the insertion-ordered \<open>Set\<close> and
  \<open>Map\<close>, decimal rendering of a counter), generic lemmas on lists, prefixes and
  multisets, and the collections that carry the component proofs.

  The collections: \<open>carrier_defs\<close> holds the native carriers, \<open>builder_defs\<close>
  the declaration and operation constructors, \<open>point_simps\<close> the equations that
  compute the call points of a declaration or an operation, \<open>id_simps\<close> those that
  compute an identity.
\<close>

named_theorems carrier_defs "definitions of the native carriers"
named_theorems builder_defs "definitions of the declaration and operation constructors"
named_theorems id_simps "equations computing the identities of declarations"
named_theorems native_simps "equations computing the native shape and receivers of operations"
named_theorems ref_simps "equations computing the references between declarations"
named_theorems point_simps "equations computing the call points of declarations and operations"

section \<open>JavaScript library routines\<close>

text \<open>\<open>Array.prototype.join\<close>.\<close>

fun joinWith :: "string \<Rightarrow> string list \<Rightarrow> string" where
  "joinWith sep [] = []"
| "joinWith sep [x] = x"
| "joinWith sep (x # y # ys) = x @ sep @ joinWith sep (y # ys)"

abbreviation joinComma :: "string list \<Rightarrow> string" where
  "joinComma \<equiv> joinWith '',''"

text \<open>\<open>[...new Set(xs)]\<close>: the elements in the order of their first occurrence.\<close>

fun uniqueFrom :: "'a list \<Rightarrow> 'a list \<Rightarrow> 'a list" where
  "uniqueFrom seen [] = []"
| "uniqueFrom seen (x # xs) =
     (if x \<in> set seen then uniqueFrom seen xs else x # uniqueFrom (x # seen) xs)"

definition unique :: "'a list \<Rightarrow> 'a list" where
  "unique xs = uniqueFrom [] xs"

text \<open>
  An insertion-ordered \<open>Map\<close> from keys to arrays, with
  \<open>m.set(k, [...(m.get(k) ?? []), ...vs])\<close>: the values of a key are appended at its
  place, a new key goes to the end.
\<close>

fun pushGroup :: "'k \<Rightarrow> 'v list \<Rightarrow> ('k \<times> 'v list) list \<Rightarrow> ('k \<times> 'v list) list" where
  "pushGroup k vs [] = [(k, vs)]"
| "pushGroup k vs ((k', ws) # m) =
     (if k = k' then (k', ws @ vs) # m else (k', ws) # pushGroup k vs m)"

text \<open>\<open>xs.map(f)\<close> for an \<open>f\<close> that may throw: the first error ends the loop.\<close>

fun sequenceResults :: "('e + 'a) list \<Rightarrow> 'e + 'a list" where
  "sequenceResults [] = Inr []"
| "sequenceResults (r # rs) =
     (case r of
        Inl e \<Rightarrow> Inl e
      | Inr x \<Rightarrow>
          (case sequenceResults rs of Inl e \<Rightarrow> Inl e | Inr xs \<Rightarrow> Inr (x # xs)))"

text \<open>Decimal rendering of a natural number, as a template literal does.\<close>

fun natString :: "nat \<Rightarrow> string" where
  "natString n =
     (if n < 10 then [''0123456789'' ! n]
      else natString (n div 10) @ [''0123456789'' ! (n mod 10)])"

declare natString.simps [simp del]

section \<open>Generic lemmas\<close>

lemma set_uniqueFrom: "set (uniqueFrom seen xs) = set xs - set seen"
  by (induction seen xs rule: uniqueFrom.induct) auto

lemma distinct_uniqueFrom: "distinct (uniqueFrom seen xs)"
  by (induction seen xs rule: uniqueFrom.induct) (auto simp: set_uniqueFrom)

lemma set_unique [simp]: "set (unique xs) = set xs"
  by (simp add: unique_def set_uniqueFrom)

lemma distinct_unique [simp]: "distinct (unique xs)"
  by (simp add: unique_def distinct_uniqueFrom)

text \<open>
  Regrouping: listing the rows name by name, for a duplicate-free list of names that
  covers them, is a permutation of the rows.
\<close>

lemma mset_regroup:
  "distinct ns \<Longrightarrow> set (map f xs) \<subseteq> set ns \<Longrightarrow>
   mset (concat (map (\<lambda>n. map g (filter (\<lambda>x. f x = n) xs)) ns)) = mset (map g xs)"
proof (induction ns arbitrary: xs)
  case Nil
  then show ?case by simp
next
  case (Cons n ns)
  let ?rest = "filter (\<lambda>x. f x \<noteq> n) xs"
  have same: "map (\<lambda>m. map g (filter (\<lambda>x. f x = m) xs)) ns
            = map (\<lambda>m. map g (filter (\<lambda>x. f x = m) ?rest)) ns"
    using Cons.prems(1) by (auto intro!: arg_cong [where f = "map g"] filter_cong)
  have "mset (concat (map (\<lambda>m. map g (filter (\<lambda>x. f x = m) ?rest)) ns)) = mset (map g ?rest)"
    using Cons.prems by (intro Cons.IH) auto
  then have "mset (concat (map (\<lambda>m. map g (filter (\<lambda>x. f x = m) xs)) (n # ns)))
      = image_mset g (filter_mset (\<lambda>x. f x = n) (mset xs))
        + image_mset g (filter_mset (\<lambda>x. f x \<noteq> n) (mset xs))"
    unfolding list.map(2) same by simp
  also have "\<dots> = image_mset g (mset xs)"
    by (simp only: image_mset_union [symmetric] multiset_partition [symmetric])
  finally show ?case by simp
qed

lemma mset_regroup_unique:
  "mset (concat (map (\<lambda>n. map g (filter (\<lambda>x. f x = n) xs)) (unique (map f xs)))) = mset (map g xs)"
  by (rule mset_regroup) simp_all

text \<open>Pushing one group after another keeps every value, and keeps the keys distinct.\<close>

lemma mset_pushGroup:
  "mset (concat (map (\<lambda>(k, vs). map (g k) vs) (pushGroup k0 ws m))) =
   mset (concat (map (\<lambda>(k, vs). map (g k) vs) m)) + mset (map (g k0) ws)"
  by (induction k0 ws m rule: pushGroup.induct) (auto simp: ac_simps)

lemma keys_pushGroup: "set (map fst (pushGroup k vs m)) = insert k (set (map fst m))"
  by (induction k vs m rule: pushGroup.induct) auto

lemma distinct_pushGroup:
  "distinct (map fst m) \<Longrightarrow> distinct (map fst (pushGroup k vs m))"
proof (induction k vs m rule: pushGroup.induct)
  case (2 k vs k' ws m)
  then show ?case using keys_pushGroup [of k vs m] by auto
qed simp

definition groupRows :: "('r \<Rightarrow> 'k) \<Rightarrow> ('r \<Rightarrow> 'v list) \<Rightarrow> 'r list \<Rightarrow> ('k \<times> 'v list) list" where
  "groupRows key vals rows = fold (\<lambda>r m. pushGroup (key r) (vals r) m) rows []"

lemma mset_fold_pushGroup:
  "mset (concat (map (\<lambda>(k, vs). map (g k) vs)
       (fold (\<lambda>r m. pushGroup (key r) (vals r) m) rows m))) =
   mset (concat (map (\<lambda>(k, vs). map (g k) vs) m)) +
   mset (concat (map (\<lambda>r. map (g (key r)) (vals r)) rows))"
  by (induction rows arbitrary: m) (simp_all add: mset_pushGroup)

lemma mset_groupRows:
  "mset (concat (map (\<lambda>(k, vs). map (g k) vs) (groupRows key vals rows))) =
   mset (concat (map (\<lambda>r. map (g (key r)) (vals r)) rows))"
  by (simp add: groupRows_def mset_fold_pushGroup)

lemma distinct_groupRows: "distinct (map fst (groupRows key vals rows))"
proof -
  have "distinct (map fst m) \<Longrightarrow>
      distinct (map fst (fold (\<lambda>r m. pushGroup (key r) (vals r) m) rows m))" for m
    by (induction rows arbitrary: m) (simp_all add: distinct_pushGroup)
  then show ?thesis by (simp add: groupRows_def)
qed

lemma sequenceResults_map:
  assumes "\<And>x. f x = Inr (g x)"
  shows "sequenceResults (map f xs) = Inr (map g xs)"
  by (induction xs) (simp_all add: assms)

lemma upt_digits:
  "[0..<0] = []" "[0..<Suc 0] = [0]" "[0..<Suc (Suc 0)] = [0, Suc 0]"
  "[0..<Suc (Suc (Suc 0))] = [0, Suc 0, Suc (Suc 0)]"
  "[0..<Suc (Suc (Suc (Suc 0)))] = [0, Suc 0, Suc (Suc 0), Suc (Suc (Suc 0))]"
  "[0..<4] = [0, Suc 0, Suc (Suc 0), Suc (Suc (Suc 0))]"
  by (simp_all add: upt_rec)

lemma natString_digits:
  "natString 0 = ''0''" "natString (Suc 0) = ''1''" "natString (Suc (Suc 0)) = ''2''"
  "natString (Suc (Suc (Suc 0))) = ''3''"
  by (simp_all add: natString.simps)

section \<open>Prefixes\<close>

fun prefixOf :: "'a list \<Rightarrow> 'a list \<Rightarrow> bool" where
  "prefixOf [] ys = True"
| "prefixOf (x # xs) [] = False"
| "prefixOf (x # xs) (y # ys) = (x = y \<and> prefixOf xs ys)"

lemma prefixOf_iff: "prefixOf xs ys \<longleftrightarrow> (\<exists>zs. ys = xs @ zs)"
  by (induction xs ys rule: prefixOf.induct) auto

lemma prefixOf_comparable: "prefixOf xs zs \<Longrightarrow> prefixOf ys zs \<Longrightarrow> prefixOf xs ys \<or> prefixOf ys xs"
  by (auto simp: prefixOf_iff append_eq_append_conv2)

text \<open>No string of the list is a prefix of another one.\<close>

fun prefixFree :: "'a list list \<Rightarrow> bool" where
  "prefixFree [] = True"
| "prefixFree (p # ps) = (list_all (\<lambda>q. \<not> prefixOf p q \<and> \<not> prefixOf q p) ps \<and> prefixFree ps)"

section \<open>Checking a permutation\<close>

text \<open>
  Two lists are permutations of each other when the elements of the first can be
  removed from the second one after the other. The check walks over the second list
  only as far as the element lies, which is short where the two orders nearly agree.
\<close>

fun removeFirst :: "'a \<Rightarrow> 'a list \<Rightarrow> 'a list option" where
  "removeFirst x [] = None"
| "removeFirst x (y # ys) = (if x = y then Some ys else map_option (Cons y) (removeFirst x ys))"

fun permCheck :: "'a list \<Rightarrow> 'a list \<Rightarrow> bool" where
  "permCheck [] ys = (ys = [])"
| "permCheck (x # xs) ys = (case removeFirst x ys of None \<Rightarrow> False | Some zs \<Rightarrow> permCheck xs zs)"

text \<open>Distinctness, compared pair by pair.\<close>

fun absent :: "'a \<Rightarrow> 'a list \<Rightarrow> bool" where
  "absent x [] = True"
| "absent x (y # ys) = (x \<noteq> y \<and> absent x ys)"

fun allDistinct :: "'a list \<Rightarrow> bool" where
  "allDistinct [] = True"
| "allDistinct (x # xs) = (absent x xs \<and> allDistinct xs)"

lemma absent_iff: "absent x xs \<longleftrightarrow> x \<notin> set xs"
  by (induction xs) auto

lemma allDistinct_iff: "allDistinct xs \<longleftrightarrow> distinct xs"
  by (induction xs) (auto simp: absent_iff)

lemma removeFirst_mset: "removeFirst x ys = Some zs \<Longrightarrow> mset ys = add_mset x (mset zs)"
  by (induction x ys arbitrary: zs rule: removeFirst.induct) (auto split: if_splits)

lemma permCheck_mset: "permCheck xs ys \<Longrightarrow> mset xs = mset ys"
  by (induction xs ys rule: permCheck.induct) (auto simp: removeFirst_mset split: option.splits)

end
