(* ===== verification/Provider_Types.thy ===== *)
theory Provider_Types
  imports Provider_Prelude
begin

text \<open>
  The data model of the provider package. The declaration side (\<open>providerType\<close>,
  \<open>providerSignature\<close>, \<open>providerMember\<close>, \<open>providerExport\<close>,
  \<open>providerModule\<close>) is what the TypeScript checker is shown; the operation side
  (\<open>operation\<close>, \<open>operationTarget\<close>, \<open>typeDefinition\<close>) says which native
  Mojo entity implements it. The shapes are those of
  \<^verbatim>\<open>nodejs/src/provider/model/types.ts\<close> and of the object literals the sources
  build; a field that a literal may leave out is an \<open>option\<close>, a flag that is either
  \<open>true\<close> or left out is a \<open>bool\<close>. \<open>Object.freeze\<close> is the identity on
  values that nothing mutates.

  The second half models \<^verbatim>\<open>model/source-types.ts\<close>.
\<close>

section \<open>Source declarations\<close>

datatype literalValue = NullLiteral | BoolLiteral bool | StringLiteral string

datatype providerType =
    StringT | NumberT | BooleanT | VoidT | UndefinedT | NeverT | UnknownT | AnyT
  | LiteralT literalValue
  | SourcePrimitiveT string
  | ArrayT providerType
  | UnionT "providerType list"
  | ProviderRefT string string "providerType list option"
  | SourceGlobalT string "providerType list option"
  | TypeParameterT string
  | FunctionT string "providerParameter list" providerType
and providerParameter =
    Parameter (par_name: string) (par_type: providerType) (par_rest: bool)
      (par_optional: bool)

text \<open>The object literals \<open>{ name, type }\<close> and \<open>{ name, type, rest: true }\<close>.\<close>

definition param :: "string \<Rightarrow> providerType \<Rightarrow> providerParameter" where
  [builder_defs]: "param n t = Parameter n t False False"

definition restParam :: "string \<Rightarrow> providerType \<Rightarrow> providerParameter" where
  [builder_defs]: "restParam n t = Parameter n t True False"

record providerSignature =
  sig_id :: string
  sig_name :: string
  sig_typeParameters :: "string list option"
  sig_parameters :: "providerParameter list"
  sig_returnType :: providerType

datatype memberKind = MethodMember | PropertyMember | ConstructorMember | IndexerMember

record providerMember =
  mem_id :: string
  mem_name :: string
  mem_kind :: memberKind
  mem_static :: bool
  mem_readonly :: bool
  mem_optional :: bool
  mem_type :: "providerType option"
  mem_signatures :: "providerSignature list option"

datatype exportKind = ClassExport | InterfaceExport | FunctionExport | ValueExport

record providerExport =
  exp_id :: string
  exp_name :: string
  exp_exportName :: "string option"
  exp_isDefault :: bool
  exp_kind :: exportKind
  exp_typeParameters :: "string list option"
  exp_heritage :: "providerType list option"
  exp_members :: "providerMember list option"
  exp_signatures :: "providerSignature list option"
  exp_type :: "providerType option"

record providerImport =
  imp_moduleSpecifier :: string
  imp_namedImports :: "string list"

record providerModule =
  mod_moduleSpecifier :: string
  mod_providerModuleId :: string
  mod_imports :: "providerImport list option"
  mod_exports :: "providerExport list"

section \<open>Native types and operations\<close>

text \<open>
  A native type reference is either made by the target package
  (\<^verbatim>\<open>@tsonic/target-mojo/provider\<close>, which is not part of this repository) and then
  opaque, or one of the object literals the sources write themselves.
\<close>

datatype 'o targetType =
    OpaqueTarget 'o
  | TypeParameterTarget string
  | NeverTarget
  | NativeStringTarget
  | FutureTarget string "'o targetType" bool
  | OptionalTarget "'o targetType"
  | CaptureOriginsTarget "'o targetType" string

record 'o callableParameter =
  cp_convention :: string
  cp_passing :: string
  cp_type :: "'o targetType"

text \<open>
  The constructors of native types that the sources import from the target package. They
  are a parameter of every definition that uses them.
\<close>

record 'o mojoApi =
  mojoStringTargetType :: "'o targetType"
  mojoPrimitiveTargetType :: "string \<Rightarrow> 'o targetType"
  mojoUnitTargetType :: "'o targetType"
  mojoDynamicTargetType :: "string \<Rightarrow> 'o targetType"
  mojoListTargetType :: "'o targetType \<Rightarrow> 'o targetType"
  mojoOptionalTargetType :: "'o targetType \<Rightarrow> 'o targetType"
  mojoFutureTargetType :: "'o targetType \<Rightarrow> string \<Rightarrow> bool \<Rightarrow> 'o targetType"
  mojoNamedTargetType :: "string \<Rightarrow> string list \<Rightarrow> string \<Rightarrow> 'o targetType"
  mojoCallableTargetType ::
    "'o callableParameter list \<Rightarrow> 'o targetType \<Rightarrow> bool \<Rightarrow> 'o targetType"
  mojoUnionTargetType :: "'o targetType list \<Rightarrow> 'o targetType"
  mojoDictionaryTargetType :: "'o targetType \<Rightarrow> 'o targetType \<Rightarrow> 'o targetType"
  mojoSourceErrorType :: "'o targetType"
  mojoLifecycleTraitTargetType :: "string \<Rightarrow> 'o targetType"

record nativeArgument =
  arg_convention :: string
  arg_position :: string
  arg_variadic :: bool
  arg_restPacking :: "string option"

record genericParameter =
  gen_kind :: string
  gen_name :: string
  gen_position :: string
  gen_variadic :: bool
  gen_constraints :: "string list"

record sourceModuleBootstrap =
  boot_parameterIndex :: nat
  boot_id :: string
  boot_modulePath :: "string list"
  boot_entryName :: string
  boot_completeName :: string

datatype accessKind = MemberAccess | MethodAccess

datatype 'o operationTarget =
    FunctionCallTarget (target_modulePath: "string list") (target_name: string)
      (target_genericParameters: "genericParameter list")
      (target_arguments: "nativeArgument list")
      (target_sourceModule: "sourceModuleBootstrap option")
  | InstanceCallTarget (target_name: string) (target_receiver: string)
      (target_arguments: "nativeArgument list")
  | ConstantTarget (target_modulePath: "string list") (target_name: string)
  | FunctionReadTarget (target_modulePath: "string list") (target_name: string)
  | FunctionWriteTarget (target_modulePath: "string list") (target_name: string)
      (target_value: nativeArgument)
  | PropertyReadTarget (target_access: accessKind) (target_name: string)
      (target_receiver: string)
  | PropertyWriteTarget (target_access: accessKind) (target_name: string)
      (target_receiver: string) (target_value: nativeArgument)
  | IndexReadTarget (target_access: accessKind) (target_name: string)
      (target_receiver: string) (target_index: nativeArgument)
  | IndexWriteTarget (target_access: accessKind) (target_name: string)
      (target_receiver: string) (target_index: nativeArgument) (target_value: nativeArgument)
  | ValuePredicateTarget (target_acceptedType: "'o targetType")
      (target_modulePath: "string list") (target_name: string)
      (target_genericParameters: "genericParameter list")
      (target_arguments: "nativeArgument list")

datatype operationKind =
  CallOperation | ConstructorOperation | PropertyOperation | PropertySetOperation
  | IndexerOperation | IndexSetOperation

record 'o operation =
  op_exportId :: string
  op_memberId :: "string option"
  op_signatureId :: "string option"
  op_operationKind :: operationKind
  op_target :: "'o operationTarget"
  op_receiverType :: "'o targetType option"
  op_parameterTypes :: "'o targetType list option"
  op_resultType :: "'o targetType"
  op_errorType :: "'o targetType option"
  op_raises :: bool

record sourceGenericParameter =
  sgp_targetName :: string
  sgp_targetKind :: string
  sgp_variadic :: bool

record 'o conformance =
  conf_trait :: "'o targetType"
  conf_lifecycleRole :: string

record nativeReference =
  ref_modulePath :: "string list"
  ref_name :: string

record 'o typeDefinition =
  type_exportId :: string
  type_sourceGenericParameters :: "sourceGenericParameter list"
  type_targetType :: "'o targetType"
  type_conformances :: "'o conformance list"
  type_objectLiteralConstruction :: bool
  type_sourceValueFactory :: "nativeReference option"
  type_sourceValueExtraction :: "nativeReference option"
  type_nativeViews :: "('o targetType \<times> nativeReference) list option"

section \<open>Package definitions\<close>

text \<open>The errors the sources throw while a package is built.\<close>

datatype providerError =
    NativeCallTargetRequired
  | UnknownReadlineMember string
  | DuplicateDefault string
  | UndeclaredSignature string string

text \<open>Members that a package adds to an export only when a surface is selected.\<close>

record 'o surfaceMembers =
  sur_id :: string
  sur_requiredSurfaces :: "string list"
  sur_declarations :: "(string \<times> providerMember list) list"
  sur_operations :: "'o operation list"

record binaryEpilogue =
  epi_id :: string
  epi_modulePath :: "string list"
  epi_name :: string
  epi_raises :: bool

record runtimePackage =
  run_packageName :: string
  run_packagePath :: string

text \<open>
  The argument of \<open>createMojoProviderPackage\<close>. An alias is the pair of its module
  specifier and the canonical one.
\<close>

record 'o packageDefinition =
  pkg_id :: string
  pkg_displayName :: string
  pkg_version :: string
  pkg_moduleAliases :: "(string \<times> string) list"
  pkg_modules :: "providerModule list"
  pkg_types :: "'o typeDefinition list"
  pkg_surfaceMembers :: "'o surfaceMembers list"
  pkg_operations :: "'o operation list"
  pkg_binaryEpilogues :: "binaryEpilogue list"
  pkg_runtimePackages :: "runtimePackage list"

section \<open>Source types (model/source-types.ts)\<close>

definition stringType :: providerType where
  [builder_defs]: "stringType = StringT"

definition numberType :: providerType where
  [builder_defs]: "numberType = NumberT"

definition booleanType :: providerType where
  [builder_defs]: "booleanType = BooleanT"

definition voidType :: providerType where
  [builder_defs]: "voidType = VoidT"

definition undefinedType :: providerType where
  [builder_defs]: "undefinedType = UndefinedT"

definition nullType :: providerType where
  [builder_defs]: "nullType = LiteralT NullLiteral"

definition int32Type :: providerType where
  [builder_defs]: "int32Type = SourcePrimitiveT ''int32''"

definition stringArrayType :: providerType where
  [builder_defs]: "stringArrayType = ArrayT stringType"

definition numberArrayType :: providerType where
  [builder_defs]: "numberArrayType = ArrayT numberType"

definition providerRefWith :: "string \<Rightarrow> string \<Rightarrow> providerType list \<Rightarrow> providerType" where
  [builder_defs]: "providerRefWith moduleSpecifier exportName typeArguments =
     ProviderRefT moduleSpecifier exportName
       (if length typeArguments = 0 then None else Some typeArguments)"

text \<open>\<open>providerRef\<close> with its default \<open>typeArguments = []\<close>.\<close>

definition providerRef :: "string \<Rightarrow> string \<Rightarrow> providerType" where
  [builder_defs]: "providerRef moduleSpecifier exportName =
     providerRefWith moduleSpecifier exportName []"

definition sourcePromise :: "providerType \<Rightarrow> providerType" where
  [builder_defs]: "sourcePromise v = SourceGlobalT ''Promise'' (Some [v])"

definition providerCallbackType ::
    "string \<Rightarrow> string \<Rightarrow> providerParameter list \<Rightarrow> providerType" where
  [builder_defs]: "providerCallbackType signatureId parameterName parameters =
     FunctionT (signatureId @ ''::parameter:'' @ parameterName) parameters voidType"

definition typeParameter :: "string \<Rightarrow> providerType" where
  [builder_defs]: "typeParameter n = TypeParameterT n"

section \<open>References between declarations\<close>

text \<open>The provider exports a source type mentions, as (module specifier, export name).\<close>

primrec typeRefs :: "providerType \<Rightarrow> (string \<times> string) list"
    and parameterRefs :: "providerParameter \<Rightarrow> (string \<times> string) list" where
  "typeRefs StringT = []"
| "typeRefs NumberT = []"
| "typeRefs BooleanT = []"
| "typeRefs VoidT = []"
| "typeRefs UndefinedT = []"
| "typeRefs NeverT = []"
| "typeRefs UnknownT = []"
| "typeRefs AnyT = []"
| "typeRefs (LiteralT v) = []"
| "typeRefs (SourcePrimitiveT n) = []"
| "typeRefs (ArrayT t) = typeRefs t"
| "typeRefs (UnionT ts) = concat (map typeRefs ts)"
| "typeRefs (ProviderRefT m n ts) =
     (m, n) # (case map_option (map typeRefs) ts of None \<Rightarrow> [] | Some rs \<Rightarrow> concat rs)"
| "typeRefs (SourceGlobalT n ts) =
     (case map_option (map typeRefs) ts of None \<Rightarrow> [] | Some rs \<Rightarrow> concat rs)"
| "typeRefs (TypeParameterT n) = []"
| "typeRefs (FunctionT i ps r) = concat (map parameterRefs ps) @ typeRefs r"
| "parameterRefs (Parameter n t rest opt) = typeRefs t"

text \<open>The type parameters a source type mentions.\<close>

primrec typeVars :: "providerType \<Rightarrow> string list"
    and parameterVars :: "providerParameter \<Rightarrow> string list" where
  "typeVars StringT = []"
| "typeVars NumberT = []"
| "typeVars BooleanT = []"
| "typeVars VoidT = []"
| "typeVars UndefinedT = []"
| "typeVars NeverT = []"
| "typeVars UnknownT = []"
| "typeVars AnyT = []"
| "typeVars (LiteralT v) = []"
| "typeVars (SourcePrimitiveT n) = []"
| "typeVars (ArrayT t) = typeVars t"
| "typeVars (UnionT ts) = concat (map typeVars ts)"
| "typeVars (ProviderRefT m n ts) =
     (case map_option (map typeVars) ts of None \<Rightarrow> [] | Some rs \<Rightarrow> concat rs)"
| "typeVars (SourceGlobalT n ts) =
     (case map_option (map typeVars) ts of None \<Rightarrow> [] | Some rs \<Rightarrow> concat rs)"
| "typeVars (TypeParameterT n) = [n]"
| "typeVars (FunctionT i ps r) = concat (map parameterVars ps) @ typeVars r"
| "parameterVars (Parameter n t rest opt) = typeVars t"

end
