(* ===== verification/Provider_Carriers.thy ===== *)
theory Provider_Carriers
  imports Provider_Types
begin

text \<open>
  The native carriers of \<^verbatim>\<open>nodejs/src/provider/model/carriers.ts\<close>, over the type
  constructors of the target package (\<open>api\<close>): which Mojo type holds a value of
  which source type. One definition per exported constant, in the order of the source.
\<close>

definition nativeString :: "'o mojoApi \<Rightarrow> 'o targetType" where
  [carrier_defs]: "nativeString api = mojoStringTargetType api"

definition boolCarrier :: "'o mojoApi \<Rightarrow> 'o targetType" where
  [carrier_defs]: "boolCarrier api = mojoPrimitiveTargetType api ''bool''"

definition nativeIntCarrier :: "'o mojoApi \<Rightarrow> 'o targetType" where
  [carrier_defs]: "nativeIntCarrier api = mojoPrimitiveTargetType api ''native-int''"

definition float64Carrier :: "'o mojoApi \<Rightarrow> 'o targetType" where
  [carrier_defs]: "float64Carrier api = mojoPrimitiveTargetType api ''float64''"

definition int32Carrier :: "'o mojoApi \<Rightarrow> 'o targetType" where
  [carrier_defs]: "int32Carrier api = mojoPrimitiveTargetType api ''int32''"

definition uint8Carrier :: "'o mojoApi \<Rightarrow> 'o targetType" where
  [carrier_defs]: "uint8Carrier api = mojoPrimitiveTargetType api ''uint8''"

definition unitCarrier :: "'o mojoApi \<Rightarrow> 'o targetType" where
  [carrier_defs]: "unitCarrier api = mojoUnitTargetType api"

definition jsValueCarrier :: "'o mojoApi \<Rightarrow> 'o targetType" where
  [carrier_defs]: "jsValueCarrier api = mojoDynamicTargetType api ''js''"

definition stringListCarrier :: "'o mojoApi \<Rightarrow> 'o targetType" where
  [carrier_defs]: "stringListCarrier api = mojoListTargetType api (nativeString api)"

definition numberListCarrier :: "'o mojoApi \<Rightarrow> 'o targetType" where
  [carrier_defs]: "numberListCarrier api = mojoListTargetType api (float64Carrier api)"

definition optionalInt32Carrier :: "'o mojoApi \<Rightarrow> 'o targetType" where
  [carrier_defs]: "optionalInt32Carrier api = mojoOptionalTargetType api (int32Carrier api)"

definition optionalBoolCarrier :: "'o mojoApi \<Rightarrow> 'o targetType" where
  [carrier_defs]: "optionalBoolCarrier api = mojoOptionalTargetType api (boolCarrier api)"

definition optionalFloat64Carrier :: "'o mojoApi \<Rightarrow> 'o targetType" where
  [carrier_defs]: "optionalFloat64Carrier api = mojoOptionalTargetType api (float64Carrier api)"

definition optionalStringCarrier :: "'o mojoApi \<Rightarrow> 'o targetType" where
  [carrier_defs]: "optionalStringCarrier api = mojoOptionalTargetType api (nativeString api)"

definition nativeStringFutureCarrier :: "'o mojoApi \<Rightarrow> 'o targetType" where
  [carrier_defs]: "nativeStringFutureCarrier api = mojoFutureTargetType api (nativeString api) ''native'' True"

definition unitFutureCarrier :: "'o mojoApi \<Rightarrow> 'o targetType" where
  [carrier_defs]: "unitFutureCarrier api = mojoFutureTargetType api (unitCarrier api) ''native'' True"

definition stringListFutureCarrier :: "'o mojoApi \<Rightarrow> 'o targetType" where
  [carrier_defs]: "stringListFutureCarrier api = mojoFutureTargetType api (stringListCarrier api) ''native'' True"

definition bufferCarrier :: "'o mojoApi \<Rightarrow> 'o targetType" where
  [carrier_defs]: "bufferCarrier api = mojoNamedTargetType api ''tsonic.mojo.node.Buffer''
     [''tsonic_node'', ''buffer''] ''Buffer''"

definition statsCarrier :: "'o mojoApi \<Rightarrow> 'o targetType" where
  [carrier_defs]: "statsCarrier api = mojoNamedTargetType api ''tsonic.mojo.node.Stats''
     [''tsonic_node'', ''filesystem''] ''Stats''"

definition mkdirOptionsCarrier :: "'o mojoApi \<Rightarrow> 'o targetType" where
  [carrier_defs]: "mkdirOptionsCarrier api = mojoNamedTargetType api ''tsonic.mojo.node.MkdirOptions''
     [''tsonic_node'', ''filesystem''] ''MkdirOptions''"

definition rmOptionsCarrier :: "'o mojoApi \<Rightarrow> 'o targetType" where
  [carrier_defs]: "rmOptionsCarrier api = mojoNamedTargetType api ''tsonic.mojo.node.RmOptions''
     [''tsonic_node'', ''filesystem''] ''RmOptions''"

definition readdirOptionsCarrier :: "'o mojoApi \<Rightarrow> 'o targetType" where
  [carrier_defs]: "readdirOptionsCarrier api = mojoNamedTargetType api ''tsonic.mojo.node.ReaddirOptions''
     [''tsonic_node'', ''filesystem''] ''ReaddirOptions''"

definition direntCarrier :: "'o mojoApi \<Rightarrow> 'o targetType" where
  [carrier_defs]: "direntCarrier api = mojoNamedTargetType api ''tsonic.mojo.node.Dirent''
     [''tsonic_node'', ''filesystem''] ''Dirent''"

definition direntListCarrier :: "'o mojoApi \<Rightarrow> 'o targetType" where
  [carrier_defs]: "direntListCarrier api = mojoListTargetType api (direntCarrier api)"

definition pathPartsCarrier :: "'o mojoApi \<Rightarrow> 'o targetType" where
  [carrier_defs]: "pathPartsCarrier api = mojoNamedTargetType api ''tsonic.mojo.node.PathParts''
     [''tsonic_node'', ''path''] ''PathParts''"

definition processWriteStreamCarrier :: "'o mojoApi \<Rightarrow> 'o targetType" where
  [carrier_defs]: "processWriteStreamCarrier api = mojoNamedTargetType api ''tsonic.mojo.node.stream.Writable''
     [''tsonic_node'', ''stream''] ''Writable''"

definition processEnvCarrier :: "'o mojoApi \<Rightarrow> 'o targetType" where
  [carrier_defs]: "processEnvCarrier api = mojoNamedTargetType api ''tsonic.mojo.node.ProcessEnv''
     [''tsonic_node'', ''process''] ''ProcessEnv''"

definition processMemoryUsageCarrier :: "'o mojoApi \<Rightarrow> 'o targetType" where
  [carrier_defs]: "processMemoryUsageCarrier api = mojoNamedTargetType api ''tsonic.mojo.node.MemoryUsage''
     [''tsonic_node'', ''process''] ''MemoryUsage''"

definition spawnSyncResultCarrier :: "'o mojoApi \<Rightarrow> 'o targetType" where
  [carrier_defs]: "spawnSyncResultCarrier api = mojoNamedTargetType api ''tsonic.mojo.node.SpawnSyncResult''
     [''tsonic_node'', ''child_process''] ''SpawnSyncResult''"

definition textDecoderCarrier :: "'o mojoApi \<Rightarrow> 'o targetType" where
  [carrier_defs]: "textDecoderCarrier api = mojoNamedTargetType api ''tsonic.mojo.node.TextDecoder''
     [''tsonic_node'', ''util''] ''TextDecoder''"

definition legacyUrlCarrier :: "'o mojoApi \<Rightarrow> 'o targetType" where
  [carrier_defs]: "legacyUrlCarrier api = mojoNamedTargetType api ''tsonic.mojo.node.LegacyUrl''
     [''tsonic_node'', ''url''] ''LegacyUrl''"

definition hashCarrier :: "'o mojoApi \<Rightarrow> 'o targetType" where
  [carrier_defs]: "hashCarrier api = mojoNamedTargetType api ''tsonic.mojo.node.Hash''
     [''tsonic_node'', ''crypto''] ''Hash''"

definition hmacCarrier :: "'o mojoApi \<Rightarrow> 'o targetType" where
  [carrier_defs]: "hmacCarrier api = mojoNamedTargetType api ''tsonic.mojo.node.Hmac''
     [''tsonic_node'', ''crypto''] ''Hmac''"

definition timeoutCarrier :: "'o mojoApi \<Rightarrow> 'o targetType" where
  [carrier_defs]: "timeoutCarrier api = mojoNamedTargetType api ''tsonic.mojo.node.Timeout''
     [''tsonic_node'', ''timers''] ''Timeout''"

definition httpIncomingMessageCarrier :: "'o mojoApi \<Rightarrow> 'o targetType" where
  [carrier_defs]: "httpIncomingMessageCarrier api = mojoNamedTargetType api ''tsonic.mojo.node.HttpIncomingMessage''
     [''tsonic_node'', ''http''] ''IncomingMessage''"

definition httpServerResponseCarrier :: "'o mojoApi \<Rightarrow> 'o targetType" where
  [carrier_defs]: "httpServerResponseCarrier api = mojoNamedTargetType api ''tsonic.mojo.node.HttpServerResponse''
     [''tsonic_node'', ''http''] ''ServerResponse''"

definition httpServerCarrier :: "'o mojoApi \<Rightarrow> 'o targetType" where
  [carrier_defs]: "httpServerCarrier api = mojoNamedTargetType api ''tsonic.mojo.node.HttpServer''
     [''tsonic_node'', ''http''] ''Server''"

definition namedCarrier :: "'o mojoApi \<Rightarrow> string \<Rightarrow> string \<Rightarrow> 'o targetType" where
  [carrier_defs]: "namedCarrier api name moduleName =
     mojoNamedTargetType api (''tsonic.mojo.node.'' @ moduleName @ ''.'' @ name)
       [''tsonic_node'', moduleName] name"

definition eventEmitterCarrier :: "'o mojoApi \<Rightarrow> 'o targetType" where
  [carrier_defs]: "eventEmitterCarrier api = namedCarrier api ''EventEmitter'' ''events''"

definition readableCarrier :: "'o mojoApi \<Rightarrow> 'o targetType" where
  [carrier_defs]: "readableCarrier api = namedCarrier api ''Readable'' ''stream''"

definition writableCarrier :: "'o mojoApi \<Rightarrow> 'o targetType" where
  [carrier_defs]: "writableCarrier api = namedCarrier api ''Writable'' ''stream''"

definition dnsLookupAddressCarrier :: "'o mojoApi \<Rightarrow> 'o targetType" where
  [carrier_defs]: "dnsLookupAddressCarrier api = namedCarrier api ''LookupAddress'' ''dns''"

definition zlibOptionsCarrier :: "'o mojoApi \<Rightarrow> 'o targetType" where
  [carrier_defs]: "zlibOptionsCarrier api = namedCarrier api ''ZlibOptions'' ''zlib''"

definition zlibTransformCarrier :: "'o mojoApi \<Rightarrow> 'o targetType" where
  [carrier_defs]: "zlibTransformCarrier api = namedCarrier api ''Zlib'' ''zlib''"

definition netSocketCarrier :: "'o mojoApi \<Rightarrow> 'o targetType" where
  [carrier_defs]: "netSocketCarrier api = namedCarrier api ''Socket'' ''net''"

definition netServerCarrier :: "'o mojoApi \<Rightarrow> 'o targetType" where
  [carrier_defs]: "netServerCarrier api = namedCarrier api ''Server'' ''net''"

definition tlsConnectOptionsCarrier :: "'o mojoApi \<Rightarrow> 'o targetType" where
  [carrier_defs]: "tlsConnectOptionsCarrier api = namedCarrier api ''ConnectionOptions'' ''tls''"

definition tlsServerOptionsCarrier :: "'o mojoApi \<Rightarrow> 'o targetType" where
  [carrier_defs]: "tlsServerOptionsCarrier api = namedCarrier api ''TlsOptions'' ''tls''"

definition tlsSocketCarrier :: "'o mojoApi \<Rightarrow> 'o targetType" where
  [carrier_defs]: "tlsSocketCarrier api = namedCarrier api ''TLSSocket'' ''tls''"

definition tlsServerCarrier :: "'o mojoApi \<Rightarrow> 'o targetType" where
  [carrier_defs]: "tlsServerCarrier api = namedCarrier api ''Server'' ''tls''"

definition httpsServerCarrier :: "'o mojoApi \<Rightarrow> 'o targetType" where
  [carrier_defs]: "httpsServerCarrier api = namedCarrier api ''Server'' ''https''"

definition readlineOptionsCarrier :: "'o mojoApi \<Rightarrow> 'o targetType" where
  [carrier_defs]: "readlineOptionsCarrier api = namedCarrier api ''ReadLineOptions'' ''readline''"

definition readlineInterfaceCarrier :: "'o mojoApi \<Rightarrow> 'o targetType" where
  [carrier_defs]: "readlineInterfaceCarrier api = namedCarrier api ''Interface'' ''readline''"

definition workerCarrier :: "'o mojoApi \<Rightarrow> 'o targetType" where
  [carrier_defs]: "workerCarrier api = namedCarrier api ''Worker'' ''worker_threads''"

definition workerOptionsCarrier :: "'o mojoApi \<Rightarrow> 'o targetType" where
  [carrier_defs]: "workerOptionsCarrier api = namedCarrier api ''WorkerOptions'' ''worker_threads''"

definition messagePortCarrier :: "'o mojoApi \<Rightarrow> 'o targetType" where
  [carrier_defs]: "messagePortCarrier api = namedCarrier api ''MessagePort'' ''worker_threads''"

definition messageChannelCarrier :: "'o mojoApi \<Rightarrow> 'o targetType" where
  [carrier_defs]: "messageChannelCarrier api = namedCarrier api ''MessageChannel'' ''worker_threads''"

definition emptyCallbackCarrier :: "'o mojoApi \<Rightarrow> 'o targetType" where
  [carrier_defs]: "emptyCallbackCarrier api = mojoCallableTargetType api [] (unitCarrier api) True"

text \<open>The literal \<open>{ convention: "imm", passing: "plain", type }\<close>.\<close>

definition immPlain :: "'o targetType \<Rightarrow> 'o callableParameter" where
  [carrier_defs]: "immPlain t = \<lparr>cp_convention = ''imm'', cp_passing = ''plain'', cp_type = t\<rparr>"

definition callbackCarrier :: "'o mojoApi \<Rightarrow> 'o targetType list \<Rightarrow> 'o targetType" where
  [carrier_defs]: "callbackCarrier api types =
     mojoCallableTargetType api (map immPlain types) (unitCarrier api) True"

definition oneValueCallbackCarrier :: "'o mojoApi \<Rightarrow> 'o targetType" where
  [carrier_defs]: "oneValueCallbackCarrier api = callbackCarrier api [(jsValueCarrier api)]"

definition twoValueCallbackCarrier :: "'o mojoApi \<Rightarrow> 'o targetType" where
  [carrier_defs]: "twoValueCallbackCarrier api = callbackCarrier api [(jsValueCarrier api), (jsValueCarrier api)]"

definition threeValueCallbackCarrier :: "'o mojoApi \<Rightarrow> 'o targetType" where
  [carrier_defs]: "threeValueCallbackCarrier api = callbackCarrier api [(jsValueCarrier api), (jsValueCarrier api), (jsValueCarrier api)]"

definition dnsLookupCallbackCarrier :: "'o mojoApi \<Rightarrow> 'o targetType" where
  [carrier_defs]: "dnsLookupCallbackCarrier api = callbackCarrier api [(jsValueCarrier api), mojoOptionalTargetType api (nativeString api), mojoOptionalTargetType api (float64Carrier api)]"

definition dnsAddressArrayCallbackCarrier :: "'o mojoApi \<Rightarrow> 'o targetType" where
  [carrier_defs]: "dnsAddressArrayCallbackCarrier api = callbackCarrier api [(jsValueCarrier api), mojoOptionalTargetType api (stringListCarrier api)]"

definition zlibCallbackCarrier :: "'o mojoApi \<Rightarrow> 'o targetType" where
  [carrier_defs]: "zlibCallbackCarrier api = callbackCarrier api [(jsValueCarrier api), mojoOptionalTargetType api (bufferCarrier api)]"

definition netConnectionCallbackCarrier :: "'o mojoApi \<Rightarrow> 'o targetType" where
  [carrier_defs]: "netConnectionCallbackCarrier api = callbackCarrier api [(netSocketCarrier api)]"

definition tlsSocketCallbackCarrier :: "'o mojoApi \<Rightarrow> 'o targetType" where
  [carrier_defs]: "tlsSocketCallbackCarrier api = callbackCarrier api [(tlsSocketCarrier api)]"

definition readlineQuestionCallbackCarrier :: "'o mojoApi \<Rightarrow> 'o targetType" where
  [carrier_defs]: "readlineQuestionCallbackCarrier api = callbackCarrier api [(nativeString api)]"

definition httpResponseCallbackCarrier :: "'o mojoApi \<Rightarrow> 'o targetType" where
  [carrier_defs]: "httpResponseCallbackCarrier api = callbackCarrier api [(httpIncomingMessageCarrier api)]"

definition httpRequestCallbackCarrier :: "'o mojoApi \<Rightarrow> 'o targetType" where
  [carrier_defs]: "httpRequestCallbackCarrier api = mojoCallableTargetType api
     (map immPlain [httpIncomingMessageCarrier api, httpServerResponseCarrier api])
     (unitCarrier api) True"

definition targetTypeParameter :: "string \<Rightarrow> 'o targetType" where
  [carrier_defs]: "targetTypeParameter name = TypeParameterTarget name"

end
