(* ===== verification/Provider_Declarations.thy ===== *)
theory Provider_Declarations
  imports Provider_Carriers
begin

text \<open>
  The declaration constructors of \<^verbatim>\<open>nodejs/src/provider/model/declarations.ts\<close>.
  Every identity is a string built from its owner: an export \<open>module::name\<close>, a
  member \<open>owner.name\<close>, a signature \<open>owner.name(suffix)\<close>. An optional argument
  object of the source is spelled out as separate arguments; the variant without them is
  the call with the source's defaults.
\<close>

section \<open>Object literals\<close>

text \<open>
  The literals that the sources write out in full, with the fields they leave out.
\<close>

definition plainSignature ::
    "string \<Rightarrow> string \<Rightarrow> providerParameter list \<Rightarrow> providerType \<Rightarrow> providerSignature" where
  [builder_defs]: "plainSignature i n ps r =
     \<lparr>sig_id = i, sig_name = n, sig_typeParameters = None, sig_parameters = ps,
      sig_returnType = r\<rparr>"

definition genericSignature ::
    "string \<Rightarrow> string \<Rightarrow> string list \<Rightarrow> providerParameter list \<Rightarrow> providerType
      \<Rightarrow> providerSignature" where
  [builder_defs]: "genericSignature i n tps ps r =
     \<lparr>sig_id = i, sig_name = n, sig_typeParameters = Some tps, sig_parameters = ps,
      sig_returnType = r\<rparr>"

definition callableMember ::
    "string \<Rightarrow> string \<Rightarrow> memberKind \<Rightarrow> bool \<Rightarrow> providerSignature list \<Rightarrow> providerMember" where
  [builder_defs]: "callableMember i n k static sigs =
     \<lparr>mem_id = i, mem_name = n, mem_kind = k, mem_static = static, mem_readonly = False,
      mem_optional = False, mem_type = None, mem_signatures = Some sigs\<rparr>"

definition functionDeclaration ::
    "string \<Rightarrow> string \<Rightarrow> bool \<Rightarrow> providerSignature list \<Rightarrow> providerExport" where
  [builder_defs]: "functionDeclaration i n isDefault sigs =
     \<lparr>exp_id = i, exp_name = n, exp_exportName = None, exp_isDefault = isDefault,
      exp_kind = FunctionExport, exp_typeParameters = None, exp_heritage = None,
      exp_members = None, exp_signatures = Some sigs, exp_type = None\<rparr>"

definition typeDeclaration ::
    "exportKind \<Rightarrow> string \<Rightarrow> string \<Rightarrow> providerMember list \<Rightarrow> providerExport" where
  [builder_defs]: "typeDeclaration k i n ms =
     \<lparr>exp_id = i, exp_name = n, exp_exportName = None, exp_isDefault = False,
      exp_kind = k, exp_typeParameters = None, exp_heritage = None,
      exp_members = Some ms, exp_signatures = None, exp_type = None\<rparr>"

abbreviation classDeclaration :: "string \<Rightarrow> string \<Rightarrow> providerMember list \<Rightarrow> providerExport" where
  "classDeclaration \<equiv> typeDeclaration ClassExport"

abbreviation interfaceDeclaration ::
    "string \<Rightarrow> string \<Rightarrow> providerMember list \<Rightarrow> providerExport" where
  "interfaceDeclaration \<equiv> typeDeclaration InterfaceExport"

text \<open>\<open>{ moduleSpecifier, namedImports: [{ exportedName }, ...] }\<close>.\<close>

definition importOf :: "string \<Rightarrow> string list \<Rightarrow> providerImport" where
  [builder_defs]: "importOf m ns = \<lparr>imp_moduleSpecifier = m, imp_namedImports = ns\<rparr>"

definition moduleOf ::
    "string \<Rightarrow> string \<Rightarrow> providerImport list option \<Rightarrow> providerExport list \<Rightarrow> providerModule" where
  [builder_defs]: "moduleOf spec i imports exports =
     \<lparr>mod_moduleSpecifier = spec, mod_providerModuleId = i, mod_imports = imports,
      mod_exports = exports\<rparr>"

section \<open>Functions\<close>

record overload =
  ov_parameters :: "providerParameter list"
  ov_returnType :: providerType
  ov_signatureSuffix :: "string option"

text \<open>\<open>{ parameters, returnType }\<close> and \<open>{ parameters, returnType, signatureSuffix }\<close>.\<close>

definition overloadOf :: "providerParameter list \<Rightarrow> providerType \<Rightarrow> overload" where
  [builder_defs]: "overloadOf ps r =
     \<lparr>ov_parameters = ps, ov_returnType = r, ov_signatureSuffix = None\<rparr>"

definition overloadAs :: "string \<Rightarrow> providerParameter list \<Rightarrow> providerType \<Rightarrow> overload" where
  [builder_defs]: "overloadAs s ps r =
     \<lparr>ov_parameters = ps, ov_returnType = r, ov_signatureSuffix = Some s\<rparr>"

text \<open>\<open>signatureSuffix ?? parameters.map((p) => p.name).join(",")\<close>.\<close>

definition suffixOf :: "string option \<Rightarrow> providerParameter list \<Rightarrow> string" where
  [builder_defs]: "suffixOf s ps = (case s of Some x \<Rightarrow> x | None \<Rightarrow> joinComma (map par_name ps))"

definition overloadedFunctionExport :: "string \<Rightarrow> string \<Rightarrow> overload list \<Rightarrow> providerExport" where
  [builder_defs]: "overloadedFunctionExport moduleSpecifier name overloads =
     (let i = moduleSpecifier @ ''::'' @ name in
      functionDeclaration i name False
        (map (\<lambda>o'. plainSignature
           (i @ ''('' @ suffixOf (ov_signatureSuffix o') (ov_parameters o') @ '')'')
           name (ov_parameters o') (ov_returnType o')) overloads))"

definition fnExportWith ::
    "string \<Rightarrow> string \<Rightarrow> providerParameter list \<Rightarrow> providerType \<Rightarrow> string \<Rightarrow> providerExport" where
  [builder_defs]: "fnExportWith moduleSpecifier name parameters returnType signatureSuffix =
     overloadedFunctionExport moduleSpecifier name
       [overloadAs signatureSuffix parameters returnType]"

definition fnExport ::
    "string \<Rightarrow> string \<Rightarrow> providerParameter list \<Rightarrow> providerType \<Rightarrow> providerExport" where
  [builder_defs]: "fnExport moduleSpecifier name parameters returnType =
     fnExportWith moduleSpecifier name parameters returnType (joinComma (map par_name parameters))"

section \<open>Members\<close>

definition methodMemberWith ::
    "string \<Rightarrow> string \<Rightarrow> providerParameter list \<Rightarrow> providerType \<Rightarrow> bool \<Rightarrow> string option
      \<Rightarrow> providerMember" where
  [builder_defs]: "methodMemberWith ownerId name parameters returnType static signatureSuffix =
     (let i = ownerId @ ''.'' @ name in
      callableMember i name MethodMember static
        [plainSignature (i @ ''('' @ suffixOf signatureSuffix parameters @ '')'')
           name parameters returnType])"

definition methodMember ::
    "string \<Rightarrow> string \<Rightarrow> providerParameter list \<Rightarrow> providerType \<Rightarrow> providerMember" where
  [builder_defs]: "methodMember ownerId name parameters returnType =
     methodMemberWith ownerId name parameters returnType False None"

definition overloadedMethodMemberWith ::
    "string \<Rightarrow> string \<Rightarrow> overload list \<Rightarrow> bool \<Rightarrow> providerMember" where
  [builder_defs]: "overloadedMethodMemberWith ownerId name overloads static =
     (let i = ownerId @ ''.'' @ name in
      callableMember i name MethodMember static
        (map (\<lambda>o'. plainSignature
           (i @ ''('' @ suffixOf (ov_signatureSuffix o') (ov_parameters o') @ '')'')
           name (ov_parameters o') (ov_returnType o')) overloads))"

definition overloadedMethodMember :: "string \<Rightarrow> string \<Rightarrow> overload list \<Rightarrow> providerMember" where
  [builder_defs]: "overloadedMethodMember ownerId name overloads =
     overloadedMethodMemberWith ownerId name overloads False"

definition propertyMemberWith ::
    "string \<Rightarrow> string \<Rightarrow> providerType \<Rightarrow> bool \<Rightarrow> bool \<Rightarrow> bool \<Rightarrow> providerMember" where
  [builder_defs]: "propertyMemberWith ownerId name type readonly static optional =
     \<lparr>mem_id = ownerId @ ''.'' @ name, mem_name = name, mem_kind = PropertyMember,
      mem_static = static, mem_readonly = readonly, mem_optional = optional,
      mem_type = Some type, mem_signatures = None\<rparr>"

definition propertyMember :: "string \<Rightarrow> string \<Rightarrow> providerType \<Rightarrow> providerMember" where
  [builder_defs]: "propertyMember ownerId name type =
     propertyMemberWith ownerId name type True False False"

definition constructorMember :: "string \<Rightarrow> providerParameter list \<Rightarrow> providerMember" where
  [builder_defs]: "constructorMember ownerId parameters =
     (let i = ownerId @ ''.constructor'' in
      callableMember i ''constructor'' ConstructorMember False
        [plainSignature (i @ ''('' @ joinComma (map par_name parameters) @ '')'')
           ''constructor'' parameters voidType])"

definition valueExport :: "string \<Rightarrow> string \<Rightarrow> providerType \<Rightarrow> providerExport" where
  [builder_defs]: "valueExport moduleSpecifier name type =
     \<lparr>exp_id = moduleSpecifier @ ''::'' @ name, exp_name = name, exp_exportName = None,
      exp_isDefault = False, exp_kind = ValueExport, exp_typeParameters = None,
      exp_heritage = None, exp_members = None, exp_signatures = None, exp_type = Some type\<rparr>"

end
