(* ===== verification/Provider_Operations.thy ===== *)
theory Provider_Operations
  imports Provider_Declarations
begin

text \<open>
  The operation constructors of \<^verbatim>\<open>nodejs/src/provider/model/operations/calls.ts\<close> and
  \<^verbatim>\<open>properties.ts\<close>, the lifecycle of \<^verbatim>\<open>model/type-definitions.ts\<close> and the event
  tables of \<^verbatim>\<open>model/events.ts\<close>. A default argument of the source (\<open>raises = false\<close>,
  \<open>receiver = "imm"\<close>, \<open>access = "member"\<close>) is passed explicitly.
\<close>

section \<open>Arguments\<close>

text \<open>The literal \<open>{ convention: "imm", position: "positional-or-keyword" }\<close> and variants.\<close>

definition argumentOf :: "string \<Rightarrow> nativeArgument" where
  [builder_defs]: "argumentOf convention =
     \<lparr>arg_convention = convention, arg_position = ''positional-or-keyword'',
      arg_variadic = False, arg_restPacking = None\<rparr>"

abbreviation immArgument :: nativeArgument where
  "immArgument \<equiv> argumentOf ''imm''"

definition variadicArgument :: nativeArgument where
  [builder_defs]: "variadicArgument = immArgument\<lparr>arg_variadic := True, arg_restPacking := Some ''list''\<rparr>"

section \<open>Calls (model/operations/calls.ts)\<close>

text \<open>\<open>functionCall\<close> with a list of path segments below \<^verbatim>\<open>tsonic_node\<close>.\<close>

definition functionCallPath ::
    "string \<Rightarrow> string \<Rightarrow> string list \<Rightarrow> string \<Rightarrow> 'o targetType list \<Rightarrow> 'o targetType \<Rightarrow> bool
      \<Rightarrow> 'o operation" where
  [builder_defs]: "functionCallPath exportId signatureId modulePath targetName parameterTypes resultType raises =
     \<lparr>op_exportId = exportId, op_memberId = None, op_signatureId = Some signatureId,
      op_operationKind = CallOperation,
      op_target = FunctionCallTarget (''tsonic_node'' # modulePath) targetName []
        (map (\<lambda>_. immArgument) parameterTypes) None,
      op_receiverType = None, op_parameterTypes = Some parameterTypes,
      op_resultType = resultType, op_errorType = None, op_raises = raises\<rparr>"

definition functionCall ::
    "string \<Rightarrow> string \<Rightarrow> string \<Rightarrow> string \<Rightarrow> 'o targetType list \<Rightarrow> 'o targetType \<Rightarrow> bool
      \<Rightarrow> 'o operation" where
  [builder_defs]: "functionCall exportId signatureId moduleName targetName parameterTypes resultType raises =
     functionCallPath exportId signatureId [moduleName] targetName parameterTypes resultType raises"

definition staticCall ::
    "string \<Rightarrow> string \<Rightarrow> string \<Rightarrow> string \<Rightarrow> string \<Rightarrow> 'o targetType list \<Rightarrow> 'o targetType \<Rightarrow> bool
      \<Rightarrow> 'o operation" where
  [builder_defs]: "staticCall exportId memberId signatureId moduleName targetName parameterTypes resultType raises =
     (functionCall exportId signatureId moduleName targetName parameterTypes resultType raises)
       \<lparr>op_memberId := Some memberId\<rparr>"

definition variadicFunctionCall ::
    "string \<Rightarrow> string \<Rightarrow> string \<Rightarrow> string \<Rightarrow> 'o targetType \<Rightarrow> 'o targetType \<Rightarrow> bool \<Rightarrow> 'o operation" where
  [builder_defs]: "variadicFunctionCall exportId signatureId moduleName targetName parameterType resultType raises =
     \<lparr>op_exportId = exportId, op_memberId = None, op_signatureId = Some signatureId,
      op_operationKind = CallOperation,
      op_target = FunctionCallTarget [''tsonic_node'', moduleName] targetName [] [variadicArgument] None,
      op_receiverType = None, op_parameterTypes = Some [parameterType],
      op_resultType = resultType, op_errorType = None, op_raises = raises\<rparr>"

definition instanceCall ::
    "string \<Rightarrow> string \<Rightarrow> string \<Rightarrow> string \<Rightarrow> 'o targetType \<Rightarrow> 'o targetType list \<Rightarrow> 'o targetType
      \<Rightarrow> bool \<Rightarrow> string \<Rightarrow> 'o operation" where
  [builder_defs]: "instanceCall exportId memberId signatureId targetName receiverType parameterTypes resultType
       raises receiver =
     \<lparr>op_exportId = exportId, op_memberId = Some memberId, op_signatureId = Some signatureId,
      op_operationKind = CallOperation,
      op_target = InstanceCallTarget targetName receiver (map (\<lambda>_. immArgument) parameterTypes),
      op_receiverType = Some receiverType, op_parameterTypes = Some parameterTypes,
      op_resultType = resultType, op_errorType = None, op_raises = raises\<rparr>"

section \<open>Properties (model/operations/properties.ts)\<close>

definition constantValue ::
    "string \<Rightarrow> string \<Rightarrow> string \<Rightarrow> 'o targetType \<Rightarrow> 'o operation" where
  [builder_defs]: "constantValue exportId moduleName targetName resultType =
     \<lparr>op_exportId = exportId, op_memberId = None, op_signatureId = None,
      op_operationKind = PropertyOperation,
      op_target = ConstantTarget [''tsonic_node'', moduleName] targetName,
      op_receiverType = None, op_parameterTypes = None, op_resultType = resultType,
      op_errorType = None, op_raises = False\<rparr>"

definition functionValue ::
    "string \<Rightarrow> string \<Rightarrow> string \<Rightarrow> 'o targetType \<Rightarrow> bool \<Rightarrow> 'o operation" where
  [builder_defs]: "functionValue exportId moduleName targetName resultType raises =
     \<lparr>op_exportId = exportId, op_memberId = None, op_signatureId = None,
      op_operationKind = PropertyOperation,
      op_target = FunctionReadTarget [''tsonic_node'', moduleName] targetName,
      op_receiverType = None, op_parameterTypes = None, op_resultType = resultType,
      op_errorType = None, op_raises = raises\<rparr>"

definition propertyReadVia ::
    "accessKind \<Rightarrow> string \<Rightarrow> string \<Rightarrow> string \<Rightarrow> 'o targetType \<Rightarrow> 'o targetType \<Rightarrow> 'o operation" where
  [builder_defs]: "propertyReadVia access exportId memberId targetName receiverType resultType =
     \<lparr>op_exportId = exportId, op_memberId = Some memberId, op_signatureId = None,
      op_operationKind = PropertyOperation,
      op_target = PropertyReadTarget access targetName ''imm'',
      op_receiverType = Some receiverType, op_parameterTypes = None, op_resultType = resultType,
      op_errorType = None, op_raises = False\<rparr>"

abbreviation propertyRead ::
    "string \<Rightarrow> string \<Rightarrow> string \<Rightarrow> 'o targetType \<Rightarrow> 'o targetType \<Rightarrow> 'o operation" where
  "propertyRead \<equiv> propertyReadVia MemberAccess"

definition propertyWriteVia ::
    "accessKind \<Rightarrow> 'o mojoApi \<Rightarrow> string \<Rightarrow> string \<Rightarrow> string \<Rightarrow> 'o targetType \<Rightarrow> 'o targetType
      \<Rightarrow> 'o operation" where
  [builder_defs]: "propertyWriteVia access api exportId memberId targetName receiverType valueType =
     \<lparr>op_exportId = exportId, op_memberId = Some memberId, op_signatureId = None,
      op_operationKind = PropertySetOperation,
      op_target = PropertyWriteTarget access targetName
        (if access = MethodAccess then ''imm'' else ''mut'') immArgument,
      op_receiverType = Some receiverType, op_parameterTypes = Some [valueType],
      op_resultType = unitCarrier api, op_errorType = None, op_raises = False\<rparr>"

abbreviation propertyWrite ::
    "'o mojoApi \<Rightarrow> string \<Rightarrow> string \<Rightarrow> string \<Rightarrow> 'o targetType \<Rightarrow> 'o targetType \<Rightarrow> 'o operation" where
  "propertyWrite \<equiv> propertyWriteVia MemberAccess"

definition staticPropertyRead ::
    "string \<Rightarrow> string \<Rightarrow> string \<Rightarrow> string \<Rightarrow> 'o targetType \<Rightarrow> bool \<Rightarrow> 'o operation" where
  [builder_defs]: "staticPropertyRead exportId memberId moduleName targetName resultType raises =
     \<lparr>op_exportId = exportId, op_memberId = Some memberId, op_signatureId = None,
      op_operationKind = PropertyOperation,
      op_target = FunctionReadTarget [''tsonic_node'', moduleName] targetName,
      op_receiverType = None, op_parameterTypes = None, op_resultType = resultType,
      op_errorType = None, op_raises = raises\<rparr>"

definition staticPropertyWrite ::
    "'o mojoApi \<Rightarrow> string \<Rightarrow> string \<Rightarrow> string \<Rightarrow> string \<Rightarrow> 'o targetType \<Rightarrow> bool \<Rightarrow> 'o operation" where
  [builder_defs]: "staticPropertyWrite api exportId memberId moduleName targetName valueType raises =
     \<lparr>op_exportId = exportId, op_memberId = Some memberId, op_signatureId = None,
      op_operationKind = PropertySetOperation,
      op_target = FunctionWriteTarget [''tsonic_node'', moduleName] targetName immArgument,
      op_receiverType = None, op_parameterTypes = Some [valueType],
      op_resultType = unitCarrier api, op_errorType = None, op_raises = raises\<rparr>"

definition indexRead ::
    "string \<Rightarrow> string \<Rightarrow> string \<Rightarrow> string \<Rightarrow> 'o targetType \<Rightarrow> 'o targetType \<Rightarrow> 'o targetType \<Rightarrow> bool
      \<Rightarrow> 'o operation" where
  [builder_defs]: "indexRead exportId memberId signatureId targetName receiverType indexType resultType raises =
     \<lparr>op_exportId = exportId, op_memberId = Some memberId, op_signatureId = Some signatureId,
      op_operationKind = IndexerOperation,
      op_target = IndexReadTarget MethodAccess targetName ''imm'' immArgument,
      op_receiverType = Some receiverType, op_parameterTypes = Some [indexType],
      op_resultType = resultType, op_errorType = None, op_raises = raises\<rparr>"

section \<open>Type definitions (model/type-definitions.ts)\<close>

datatype copySemantics = Copyable | ImplicitlyCopyable

fun providerLifecycleRoles :: "copySemantics \<Rightarrow> string list" where
  "providerLifecycleRoles Copyable = [''copyable'', ''movable'', ''deinitializable'']"
| "providerLifecycleRoles ImplicitlyCopyable =
     [''implicitly-copyable'', ''movable'', ''deinitializable'']"

definition nodeProviderTypeWith ::
    "'o mojoApi \<Rightarrow> string \<Rightarrow> 'o targetType \<Rightarrow> copySemantics \<Rightarrow> sourceGenericParameter list \<Rightarrow> bool
      \<Rightarrow> 'o typeDefinition" where
  "nodeProviderTypeWith api exportId targetType semantics generics literalConstruction =
     \<lparr>type_exportId = exportId, type_sourceGenericParameters = generics,
      type_targetType = targetType,
      type_conformances = map (\<lambda>role.
        \<lparr>conf_trait = mojoLifecycleTraitTargetType api role, conf_lifecycleRole = role\<rparr>)
        (providerLifecycleRoles semantics),
      type_objectLiteralConstruction = literalConstruction,
      type_sourceValueFactory = None, type_sourceValueExtraction = None,
      type_nativeViews = None\<rparr>"

definition nodeProviderType ::
    "'o mojoApi \<Rightarrow> string \<Rightarrow> 'o targetType \<Rightarrow> copySemantics \<Rightarrow> 'o typeDefinition" where
  "nodeProviderType api exportId targetType semantics =
     nodeProviderTypeWith api exportId targetType semantics [] False"

text \<open>\<open>nodeProviderType(..., { objectLiteralConstruction: true })\<close>.\<close>

definition nodeProviderRecordType ::
    "'o mojoApi \<Rightarrow> string \<Rightarrow> 'o targetType \<Rightarrow> copySemantics \<Rightarrow> 'o typeDefinition" where
  "nodeProviderRecordType api exportId targetType semantics =
     nodeProviderTypeWith api exportId targetType semantics [] True"

section \<open>Event tables (model/events.ts)\<close>

record 'o eventParameter =
  evp_name :: string
  evp_source :: providerType
  evp_target :: "'o targetType"

record 'o nodeEvent =
  ev_suffix :: string
  ev_names :: "string list"
  ev_parameters :: "'o eventParameter list"

definition eventNameType :: "string list \<Rightarrow> providerType" where
  "eventNameType names = (case names of
      [n] \<Rightarrow> LiteralT (StringLiteral n)
    | _ \<Rightarrow> UnionT (map (\<lambda>n. LiteralT (StringLiteral n)) names))"

definition eventMethods :: "string list" where
  "eventMethods = [''on'', ''once'', ''off'']"

definition nodeEventMembers :: "string \<Rightarrow> string \<Rightarrow> 'o nodeEvent list \<Rightarrow> providerMember list" where
  "nodeEventMembers module name events =
     (let owner = module @ ''::'' @ name in
      map (\<lambda>method. overloadedMethodMember owner method
        (map (\<lambda>event. overloadAs (ev_suffix event)
           [param ''event'' (eventNameType (ev_names event)),
            param ''listener'' (providerCallbackType
              (owner @ ''.'' @ method @ ''('' @ ev_suffix event @ '')'') ''listener''
              (map (\<lambda>p. param (evp_name p) (evp_source p)) (ev_parameters event)))]
           (providerRef module name)) events)) eventMethods)"

definition nodeEventOperations ::
    "'o mojoApi \<Rightarrow> string \<Rightarrow> string \<Rightarrow> 'o targetType \<Rightarrow> 'o nodeEvent list \<Rightarrow> 'o operation list" where
  "nodeEventOperations api module name receiver events =
     (let owner = module @ ''::'' @ name in
      concat (map (\<lambda>method. map (\<lambda>event.
        instanceCall owner (owner @ ''.'' @ method)
          (owner @ ''.'' @ method @ ''('' @ ev_suffix event @ '')'')
          (method @ ''_'' @ ev_suffix event) receiver
          [nativeString api, mojoCallableTargetType api
             (map (\<lambda>p. immPlain (evp_target p)) (ev_parameters event)) (unitCarrier api) True]
          receiver True ''mut'') events) eventMethods))"

end
