(* ===== verification/Provider_Contract.thy ===== *)
theory Provider_Contract
  imports Provider_Operations
begin

text \<open>
  What it means that a table of operations implements a table of declarations.

  A \<open>point\<close> is one way user code can use a declaration: a call of one signature with
  its number of parameters, a construction, a read or a write of a property, an indexed
  read. A declaration has the points its kind gives it; an operation has the point its
  identities, its operation kind and its native parameter list give it. The operations
  implement the declarations (\<open>implements\<close>) when the two sides have the same points,
  each exactly once: nothing declared lacks a native implementation, no operation hangs
  on an undeclared identity, none is given twice, and the native arity is the declared
  one. Indexed writes are kept apart, since an indexer declaration carries no writability
  flag.

  The locales \<open>method_rows\<close> and \<open>function_rows\<close> are the interface between the
  row tables of the modules and this contract.
\<close>

section \<open>Points\<close>

type_synonym point = "string \<times> string option \<times> string option \<times> operationKind \<times> nat option"

definition operationPoint :: "'o operation \<Rightarrow> point" where
  "operationPoint p =
     (op_exportId p, op_memberId p, op_signatureId p, op_operationKind p,
      map_option length (op_parameterTypes p))"

definition signaturePoint ::
    "string \<Rightarrow> string option \<Rightarrow> operationKind \<Rightarrow> providerSignature \<Rightarrow> point" where
  "signaturePoint e m k s = (e, m, Some (sig_id s), k, Some (length (sig_parameters s)))"

definition optionalList :: "'a list option \<Rightarrow> 'a list" where
  "optionalList xs = (case xs of None \<Rightarrow> [] | Some ys \<Rightarrow> ys)"

lemma optionalList_simps [simp]: "optionalList None = []" "optionalList (Some xs) = xs"
  by (simp_all add: optionalList_def)

definition memberPoints :: "string \<Rightarrow> providerMember \<Rightarrow> point list" where
  "memberPoints e m = (case mem_kind m of
      MethodMember \<Rightarrow>
        map (signaturePoint e (Some (mem_id m)) CallOperation) (optionalList (mem_signatures m))
    | ConstructorMember \<Rightarrow>
        map (signaturePoint e (Some (mem_id m)) ConstructorOperation) (optionalList (mem_signatures m))
    | IndexerMember \<Rightarrow>
        map (signaturePoint e (Some (mem_id m)) IndexerOperation) (optionalList (mem_signatures m))
    | PropertyMember \<Rightarrow>
        (e, Some (mem_id m), None, PropertyOperation, None) #
        (if mem_readonly m then [] else [(e, Some (mem_id m), None, PropertySetOperation, Some 1)]))"

definition exportPoints :: "providerExport \<Rightarrow> point list" where
  "exportPoints x = (case exp_kind x of
      FunctionExport \<Rightarrow>
        map (signaturePoint (exp_id x) None CallOperation) (optionalList (exp_signatures x))
    | ValueExport \<Rightarrow> [(exp_id x, None, None, PropertyOperation, None)]
    | ClassExport \<Rightarrow> concat (map (memberPoints (exp_id x)) (optionalList (exp_members x)))
    | InterfaceExport \<Rightarrow> concat (map (memberPoints (exp_id x)) (optionalList (exp_members x))))"

definition membersPoints :: "string \<Rightarrow> providerMember list \<Rightarrow> point list" where
  "membersPoints e ms = concat (map (memberPoints e) ms)"

definition exportsPoints :: "providerExport list \<Rightarrow> point list" where
  "exportsPoints xs = concat (map exportPoints xs)"

definition operationsPoints :: "'o operation list \<Rightarrow> point list" where
  "operationsPoints ops =
     map operationPoint (filter (\<lambda>p. op_operationKind p \<noteq> IndexSetOperation) ops)"

definition implements :: "'o operation list \<Rightarrow> providerExport list \<Rightarrow> bool" where
  "implements ops xs \<longleftrightarrow> mset (operationsPoints ops) = mset (exportsPoints xs)"

definition implementsMembers :: "'o operation list \<Rightarrow> string \<Rightarrow> providerMember list \<Rightarrow> bool" where
  "implementsMembers ops e ms \<longleftrightarrow> mset (operationsPoints ops) = mset (membersPoints e ms)"

subsection \<open>Composition\<close>

lemma exportsPoints_simps [point_simps]:
  "exportsPoints [] = []"
  "exportsPoints (x # xs) = exportPoints x @ exportsPoints xs"
  "exportsPoints (xs @ ys) = exportsPoints xs @ exportsPoints ys"
  by (simp_all add: exportsPoints_def)

lemma membersPoints_simps [point_simps]:
  "membersPoints e [] = []"
  "membersPoints e (m # ms) = memberPoints e m @ membersPoints e ms"
  "membersPoints e (ms @ ns) = membersPoints e ms @ membersPoints e ns"
  by (simp_all add: membersPoints_def)

lemma operationsPoints_Nil [point_simps]: "operationsPoints [] = []"
  by (simp add: operationsPoints_def)

lemma operationsPoints_append [point_simps]:
  "operationsPoints (ps @ qs) = operationsPoints ps @ operationsPoints qs"
  by (simp add: operationsPoints_def)

lemma operationsPoints_Cons [point_simps]:
  "operationsPoints (p # ps) =
     (if op_operationKind p = IndexSetOperation then [] else [operationPoint p]) @ operationsPoints ps"
  by (simp add: operationsPoints_def)

lemma implements_Nil: "implements [] []"
  by (simp add: implements_def point_simps)

lemma implements_append:
  "implements ps xs \<Longrightarrow> implements qs ys \<Longrightarrow> implements (ps @ qs) (xs @ ys)"
  by (simp add: implements_def point_simps)

lemma mset_concat_map_cong:
  assumes "mset xs = mset ys"
  shows "mset (concat (map f xs)) = mset (concat (map f ys))"
proof -
  have "mset (concat (map f zs)) = sum_mset (image_mset (\<lambda>z. mset (f z)) (mset zs))" for zs
    by (induction zs) simp_all
  with assms show ?thesis by simp
qed

lemma implements_perm:
  assumes "implements ps xs" and "mset ps' = mset ps" and "mset xs' = mset xs"
  shows "implements ps' xs'"
  using assms mset_concat_map_cong [OF assms(3), of exportPoints]
  by (simp add: implements_def operationsPoints_def exportsPoints_def)

lemma implementsMembers_append:
  "implementsMembers ps e ms \<Longrightarrow> implementsMembers qs e ns \<Longrightarrow> implementsMembers (ps @ qs) e (ms @ ns)"
  by (simp add: implementsMembers_def point_simps)

lemma implementsMembers_append_swap:
  "implementsMembers ps e ms \<Longrightarrow> implementsMembers qs e ns \<Longrightarrow> implementsMembers (qs @ ps) e (ms @ ns)"
  by (simp add: implementsMembers_def point_simps ac_simps)

subsection \<open>What the contract gives\<close>

lemma implements_points_eq:
  "implements ops xs \<Longrightarrow> set (operationsPoints ops) = set (exportsPoints xs)"
  unfolding implements_def by (rule mset_eq_setD)

lemma implements_length:
  "implements ops xs \<Longrightarrow> length (operationsPoints ops) = length (exportsPoints xs)"
  unfolding implements_def by (rule mset_eq_length)

lemma implements_distinct:
  "implements ops xs \<Longrightarrow> distinct (exportsPoints xs) \<Longrightarrow> distinct (operationsPoints ops)"
  unfolding implements_def by (rule mset_eq_imp_distinct_iff [THEN iffD2])

lemma permCheck_implements:
  "permCheck (operationsPoints ops) (exportsPoints xs) \<Longrightarrow> implements ops xs"
  unfolding implements_def by (rule permCheck_mset)

lemma permCheck_implementsMembers:
  "permCheck (operationsPoints ops) (membersPoints e ms) \<Longrightarrow> implementsMembers ops e ms"
  unfolding implementsMembers_def by (rule permCheck_mset)

subsection \<open>Every point once\<close>

lemma memberPoints_fst: "q \<in> set (memberPoints e m) \<Longrightarrow> fst q = e"
  by (cases "mem_kind m") (auto simp: memberPoints_def signaturePoint_def split: if_splits)

lemma exportPoints_fst: "q \<in> set (exportPoints x) \<Longrightarrow> fst q = exp_id x"
  by (cases "exp_kind x") (auto simp: exportPoints_def signaturePoint_def memberPoints_fst)

text \<open>
  Points of different exports differ in the export identity, so distinct identities and
  distinct points in each export make the points of the package distinct.
\<close>

definition pointsDistinct :: "providerExport list \<Rightarrow> bool" where
  "pointsDistinct xs \<longleftrightarrow> list_all (\<lambda>x. allDistinct (exportPoints x)) xs"

lemma pointsDistinct_simps [point_simps]:
  "pointsDistinct []"
  "pointsDistinct (x # xs) \<longleftrightarrow> allDistinct (exportPoints x) \<and> pointsDistinct xs"
  "pointsDistinct (xs @ ys) \<longleftrightarrow> pointsDistinct xs \<and> pointsDistinct ys"
  by (simp_all add: pointsDistinct_def)

lemma exportsPoints_distinct:
  assumes "distinct (map exp_id xs)" and "pointsDistinct xs"
  shows "distinct (exportsPoints xs)"
  using assms
proof (induction xs)
  case (Cons x xs)
  have "q \<notin> set (exportsPoints xs)" if "q \<in> set (exportPoints x)" for q
  proof
    assume "q \<in> set (exportsPoints xs)"
    then obtain y where "y \<in> set xs" "q \<in> set (exportPoints y)" by (auto simp: exportsPoints_def)
    then have "exp_id x \<in> set (map exp_id xs)"
      using exportPoints_fst [OF that] exportPoints_fst [of q y] by (metis image_eqI set_map)
    then show False using Cons.prems(1) by simp
  qed
  then have "set (exportPoints x) \<inter> set (exportsPoints xs) = {}" by blast
  moreover have "distinct (exportsPoints xs)" using Cons by (simp add: pointsDistinct_simps)
  ultimately show ?case
    using Cons.prems(2) by (simp add: exportsPoints_simps pointsDistinct_simps allDistinct_iff)
qed (simp add: point_simps)

section \<open>Points of the constructors\<close>

lemma functionCallPath_point [point_simps]:
  "operationPoint (functionCallPath e s m t ps r ra) = (e, None, Some s, CallOperation, Some (length ps))"
  "op_operationKind (functionCallPath e s m t ps r ra) = CallOperation"
  by (simp_all add: operationPoint_def functionCallPath_def)

lemma functionCall_point [point_simps]:
  "operationPoint (functionCall e s m t ps r ra) = (e, None, Some s, CallOperation, Some (length ps))"
  "op_operationKind (functionCall e s m t ps r ra) = CallOperation"
  by (simp_all add: functionCall_def point_simps)

lemma staticCall_point [point_simps]:
  "operationPoint (staticCall e i s m t ps r ra) = (e, Some i, Some s, CallOperation, Some (length ps))"
  "op_operationKind (staticCall e i s m t ps r ra) = CallOperation"
  by (simp_all add: operationPoint_def staticCall_def functionCall_def functionCallPath_def)

lemma variadicFunctionCall_point [point_simps]:
  "operationPoint (variadicFunctionCall e s m t p r ra) = (e, None, Some s, CallOperation, Some 1)"
  "op_operationKind (variadicFunctionCall e s m t p r ra) = CallOperation"
  by (simp_all add: operationPoint_def variadicFunctionCall_def)

lemma instanceCall_point [point_simps]:
  "operationPoint (instanceCall e i s t rt ps r ra rc) = (e, Some i, Some s, CallOperation, Some (length ps))"
  "op_operationKind (instanceCall e i s t rt ps r ra rc) = CallOperation"
  by (simp_all add: operationPoint_def instanceCall_def)

lemma value_points [point_simps]:
  "operationPoint (constantValue e m t r) = (e, None, None, PropertyOperation, None)"
  "op_operationKind (constantValue e m t r) = PropertyOperation"
  "operationPoint (functionValue e m t r ra) = (e, None, None, PropertyOperation, None)"
  "op_operationKind (functionValue e m t r ra) = PropertyOperation"
  by (simp_all add: operationPoint_def constantValue_def functionValue_def)

lemma property_points [point_simps]:
  "operationPoint (propertyReadVia a e i t rt r) = (e, Some i, None, PropertyOperation, None)"
  "op_operationKind (propertyReadVia a e i t rt r) = PropertyOperation"
  "operationPoint (propertyWriteVia a api e i t rt v) = (e, Some i, None, PropertySetOperation, Some 1)"
  "op_operationKind (propertyWriteVia a api e i t rt v) = PropertySetOperation"
  "operationPoint (staticPropertyRead e i m t r ra) = (e, Some i, None, PropertyOperation, None)"
  "op_operationKind (staticPropertyRead e i m t r ra) = PropertyOperation"
  "operationPoint (staticPropertyWrite api e i m t v ra) = (e, Some i, None, PropertySetOperation, Some 1)"
  "op_operationKind (staticPropertyWrite api e i m t v ra) = PropertySetOperation"
  by (simp_all add: operationPoint_def propertyReadVia_def propertyWriteVia_def
      staticPropertyRead_def staticPropertyWrite_def)

lemma indexRead_point [point_simps]:
  "operationPoint (indexRead e i s t rt it r ra) = (e, Some i, Some s, IndexerOperation, Some 1)"
  "op_operationKind (indexRead e i s t rt it r ra) = IndexerOperation"
  by (simp_all add: operationPoint_def indexRead_def)

text \<open>An object spread that replaces one field of an operation.\<close>

lemma operation_update_points [point_simps]:
  "operationPoint (p\<lparr>op_target := t\<rparr>) = operationPoint p"
  "op_operationKind (p\<lparr>op_target := t\<rparr>) = op_operationKind p"
  "operationPoint (p\<lparr>op_raises := b\<rparr>) = operationPoint p"
  "op_operationKind (p\<lparr>op_raises := b\<rparr>) = op_operationKind p"
  "operationPoint (p\<lparr>op_resultType := r\<rparr>) = operationPoint p"
  "op_operationKind (p\<lparr>op_resultType := r\<rparr>) = op_operationKind p"
  "operationPoint (p\<lparr>op_errorType := x\<rparr>) = operationPoint p"
  "op_operationKind (p\<lparr>op_errorType := x\<rparr>) = op_operationKind p"
  "operationPoint (p\<lparr>op_memberId := m\<rparr>) =
     (case operationPoint p of (e, _, s, k, n) \<Rightarrow> (e, m, s, k, n))"
  "op_operationKind (p\<lparr>op_memberId := m\<rparr>) = op_operationKind p"
  "operationPoint (p\<lparr>op_operationKind := k'\<rparr>) =
     (case operationPoint p of (e, m, s, _, n) \<Rightarrow> (e, m, s, k', n))"
  "op_operationKind (p\<lparr>op_operationKind := k'\<rparr>) = k'"
  by (simp_all add: operationPoint_def)

lemma operation_literal_points [point_simps]:
  "operationPoint \<lparr>op_exportId = e, op_memberId = m, op_signatureId = s, op_operationKind = k,
     op_target = t, op_receiverType = rt, op_parameterTypes = ps, op_resultType = r,
     op_errorType = x, op_raises = b\<rparr> = (e, m, s, k, map_option length ps)"
  "op_operationKind \<lparr>op_exportId = e, op_memberId = m, op_signatureId = s, op_operationKind = k,
     op_target = t, op_receiverType = rt, op_parameterTypes = ps, op_resultType = r,
     op_errorType = x, op_raises = b\<rparr> = k"
  by (simp_all add: operationPoint_def)

text \<open>Declarations.\<close>

definition overloadPoint ::
    "string \<Rightarrow> string option \<Rightarrow> string \<Rightarrow> overload \<Rightarrow> point" where
  "overloadPoint e m i o' =
     (e, m, Some (i @ ''('' @ suffixOf (ov_signatureSuffix o') (ov_parameters o') @ '')''),
      CallOperation, Some (length (ov_parameters o')))"

lemma suffixOf_simps [point_simps]:
  "suffixOf None ps = joinComma (map par_name ps)"
  "suffixOf (Some s) ps = s"
  by (simp_all add: suffixOf_def)

lemma overloadPoint_simps [point_simps]:
  "overloadPoint e m i (overloadAs s ps r) = (e, m, Some (i @ ''('' @ s @ '')''), CallOperation, Some (length ps))"
  "overloadPoint e m i (overloadOf ps r) =
     (e, m, Some (i @ ''('' @ joinComma (map par_name ps) @ '')''), CallOperation, Some (length ps))"
  by (simp_all add: overloadPoint_def overloadAs_def overloadOf_def suffixOf_def)

lemma callableMember_points [point_simps]:
  "memberPoints e (callableMember i n MethodMember st sigs) = map (signaturePoint e (Some i) CallOperation) sigs"
  "memberPoints e (callableMember i n ConstructorMember st sigs) =
     map (signaturePoint e (Some i) ConstructorOperation) sigs"
  "memberPoints e (callableMember i n IndexerMember st sigs) =
     map (signaturePoint e (Some i) IndexerOperation) sigs"
  by (simp_all add: memberPoints_def callableMember_def)

lemma signaturePoint_simps [point_simps]:
  "signaturePoint e m k (plainSignature i n ps r) = (e, m, Some i, k, Some (length ps))"
  "signaturePoint e m k (genericSignature i n tps ps r) = (e, m, Some i, k, Some (length ps))"
  by (simp_all add: signaturePoint_def plainSignature_def genericSignature_def)

lemma signature_ids [point_simps]:
  "sig_id (plainSignature i n ps r) = i"
  "sig_id (genericSignature i n tps ps r) = i"
  by (simp_all add: plainSignature_def genericSignature_def)

lemma methodMember_points [point_simps]:
  "memberPoints e (methodMemberWith w n ps r st sfx) =
     [(e, Some (w @ ''.'' @ n), Some (w @ ''.'' @ n @ ''('' @ suffixOf sfx ps @ '')''),
       CallOperation, Some (length ps))]"
  "memberPoints e (methodMember w n ps r) =
     [(e, Some (w @ ''.'' @ n), Some (w @ ''.'' @ n @ ''('' @ joinComma (map par_name ps) @ '')''),
       CallOperation, Some (length ps))]"
  by (simp_all add: methodMember_def methodMemberWith_def Let_def point_simps suffixOf_def)

lemma overloadedMethodMember_points [point_simps]:
  "memberPoints e (overloadedMethodMemberWith w n ovs st) =
     map (overloadPoint e (Some (w @ ''.'' @ n)) (w @ ''.'' @ n)) ovs"
  "memberPoints e (overloadedMethodMember w n ovs) =
     map (overloadPoint e (Some (w @ ''.'' @ n)) (w @ ''.'' @ n)) ovs"
  by (simp_all add: overloadedMethodMember_def overloadedMethodMemberWith_def Let_def
      point_simps overloadPoint_def)

lemma propertyMember_points [point_simps]:
  "memberPoints e (propertyMemberWith w n t ro st opt) =
     (e, Some (w @ ''.'' @ n), None, PropertyOperation, None) #
     (if ro then [] else [(e, Some (w @ ''.'' @ n), None, PropertySetOperation, Some 1)])"
  "memberPoints e (propertyMember w n t) = [(e, Some (w @ ''.'' @ n), None, PropertyOperation, None)]"
  by (simp_all add: propertyMember_def propertyMemberWith_def memberPoints_def)

lemma constructorMember_points [point_simps]:
  "memberPoints e (constructorMember w ps) =
     [(e, Some (w @ ''.constructor''), Some (w @ ''.constructor('' @ joinComma (map par_name ps) @ '')''),
       ConstructorOperation, Some (length ps))]"
  by (simp add: constructorMember_def Let_def point_simps)

lemma export_points [point_simps]:
  "exportPoints (functionDeclaration i n d sigs) = map (signaturePoint i None CallOperation) sigs"
  "exportPoints (typeDeclaration ClassExport i n ms) = membersPoints i ms"
  "exportPoints (typeDeclaration InterfaceExport i n ms) = membersPoints i ms"
  "exportPoints (valueExport m n t) = [(m @ ''::'' @ n, None, None, PropertyOperation, None)]"
  by (simp_all add: exportPoints_def functionDeclaration_def typeDeclaration_def valueExport_def
      membersPoints_def)

lemma export_update_points [point_simps]:
  "exportPoints (x\<lparr>exp_exportName := n\<rparr>) = exportPoints x"
  "exportPoints (x\<lparr>exp_isDefault := d\<rparr>) = exportPoints x"
  "exportPoints (x\<lparr>exp_typeParameters := tps\<rparr>) = exportPoints x"
  "exportPoints (x\<lparr>exp_heritage := h\<rparr>) = exportPoints x"
  by (simp_all add: exportPoints_def split: exportKind.split)

lemma members_update_points [point_simps]:
  "exportPoints ((typeDeclaration k i n ms)\<lparr>exp_members := Some ms'\<rparr>) =
     exportPoints (typeDeclaration k i n ms')"
  by (cases k) (simp_all add: exportPoints_def typeDeclaration_def)

lemma overloadedFunctionExport_points [point_simps]:
  "exportPoints (overloadedFunctionExport m n ovs) =
     map (overloadPoint (m @ ''::'' @ n) None (m @ ''::'' @ n)) ovs"
  by (simp add: overloadedFunctionExport_def Let_def point_simps overloadPoint_def)

lemma fnExport_points [point_simps]:
  "exportPoints (fnExportWith m n ps r s) =
     [(m @ ''::'' @ n, None, Some (m @ ''::'' @ n @ ''('' @ s @ '')''), CallOperation, Some (length ps))]"
  "exportPoints (fnExport m n ps r) =
     [(m @ ''::'' @ n, None, Some (m @ ''::'' @ n @ ''('' @ joinComma (map par_name ps) @ '')''),
       CallOperation, Some (length ps))]"
  by (simp_all add: fnExport_def fnExportWith_def point_simps)

lemma implements_typeDeclaration:
  "implementsMembers ops i ms \<Longrightarrow> implements ops [typeDeclaration ClassExport i n ms]"
  "implementsMembers ops i ms \<Longrightarrow> implements ops [typeDeclaration InterfaceExport i n ms]"
  by (simp_all add: implements_def implementsMembers_def point_simps)

section \<open>Identities of the constructors\<close>

lemma export_ids [id_simps]:
  "exp_id (functionDeclaration i n d sigs) = i"
  "exp_id (typeDeclaration k i n ms) = i"
  "exp_id (valueExport m n t) = m @ ''::'' @ n"
  "exp_id (overloadedFunctionExport m n ovs) = m @ ''::'' @ n"
  "exp_id (fnExportWith m n ps r s) = m @ ''::'' @ n"
  "exp_id (fnExport m n ps r) = m @ ''::'' @ n"
  by (simp_all add: functionDeclaration_def typeDeclaration_def valueExport_def
      overloadedFunctionExport_def fnExport_def fnExportWith_def Let_def)

lemma export_update_ids [id_simps]:
  "exp_id (x\<lparr>exp_exportName := n\<rparr>) = exp_id x"
  "exp_id (x\<lparr>exp_isDefault := d\<rparr>) = exp_id x"
  "exp_id (x\<lparr>exp_typeParameters := tps\<rparr>) = exp_id x"
  "exp_id (x\<lparr>exp_heritage := h\<rparr>) = exp_id x"
  "exp_id (x\<lparr>exp_members := ms\<rparr>) = exp_id x"
  by simp_all

lemma export_defaults [id_simps]:
  "exp_isDefault (functionDeclaration i n d sigs) = d"
  "exp_isDefault (typeDeclaration k i n ms) = False"
  "exp_isDefault (valueExport m n t) = False"
  "exp_isDefault (overloadedFunctionExport m n ovs) = False"
  "exp_isDefault (fnExportWith m n ps r s) = False"
  "exp_isDefault (fnExport m n ps r) = False"
  "exp_isDefault (x\<lparr>exp_exportName := en\<rparr>) = exp_isDefault x"
  "exp_isDefault (x\<lparr>exp_typeParameters := tps\<rparr>) = exp_isDefault x"
  "exp_isDefault (x\<lparr>exp_heritage := h\<rparr>) = exp_isDefault x"
  "exp_isDefault (x\<lparr>exp_members := mms\<rparr>) = exp_isDefault x"
  "exp_isDefault (x\<lparr>exp_isDefault := d\<rparr>) = d"
  by (simp_all add: functionDeclaration_def typeDeclaration_def valueExport_def
      overloadedFunctionExport_def fnExport_def fnExportWith_def Let_def)

section \<open>Components\<close>

text \<open>
  The interface between a module and the package: the identities of a module's exports
  stand below its specifier and are unique, and the operations of the component implement
  its declarations. An indexed write, which is not a point, stands on a member.
\<close>

definition packageExports :: "providerModule list \<Rightarrow> providerExport list" where
  "packageExports ms = concat (map mod_exports ms)"

text \<open>The module specifier an export identity starts with: \<open>spec::name\<close> or \<open>spec.default\<close>.\<close>

fun idScope :: "string \<Rightarrow> string" where
  "idScope [] = []"
| "idScope (c # cs) =
     (if prefixOf ''::'' (c # cs) \<or> c # cs = ''.default'' then [] else c # idScope cs)"

definition moduleScoped :: "providerModule \<Rightarrow> bool" where
  "moduleScoped m \<longleftrightarrow> list_all (\<lambda>i. idScope i = mod_moduleSpecifier m) (map exp_id (mod_exports m))"

text \<open>No export of the module is its default export or has the identity of one.\<close>

definition defaultFree :: "providerModule \<Rightarrow> bool" where
  "defaultFree m \<longleftrightarrow>
     list_all (\<lambda>x. \<not> exp_isDefault x \<and> exp_id x \<noteq> mod_moduleSpecifier m @ ''.default'')
       (mod_exports m)"

definition memberIndexWrites :: "'o operation list \<Rightarrow> bool" where
  "memberIndexWrites ops \<longleftrightarrow>
     list_all (\<lambda>p. op_operationKind p = IndexSetOperation \<longrightarrow> op_memberId p \<noteq> None) ops"

lemma memberIndexWrites_simps [point_simps]:
  "memberIndexWrites []"
  "memberIndexWrites (p # ps) \<longleftrightarrow>
     (op_operationKind p = IndexSetOperation \<longrightarrow> op_memberId p \<noteq> None) \<and> memberIndexWrites ps"
  "memberIndexWrites (ps @ qs) \<longleftrightarrow> memberIndexWrites ps \<and> memberIndexWrites qs"
  by (simp_all add: memberIndexWrites_def)

section \<open>Event tables\<close>

text \<open>
  The listener methods of an event table: one point per method and event, the same on both
  sides.
\<close>

definition eventPoints :: "string \<Rightarrow> string \<Rightarrow> 'o nodeEvent list \<Rightarrow> point list" where
  "eventPoints e w events = concat (map (\<lambda>method. map (\<lambda>event.
     (e, Some (w @ ''.'' @ method), Some (w @ ''.'' @ method @ ''('' @ ev_suffix event @ '')''),
      CallOperation, Some (Suc (Suc 0)))) events) eventMethods)"

lemma nodeEventMembers_points [point_simps]:
  "membersPoints e (nodeEventMembers m n events) = eventPoints e (m @ ''::'' @ n) events"
  by (simp add: nodeEventMembers_def eventPoints_def eventMethods_def Let_def point_simps comp_def)

lemma operationsPoints_calls:
  assumes "\<And>x. x \<in> set xs \<Longrightarrow> op_operationKind (f x) = CallOperation"
  shows "operationsPoints (map f xs) = map (operationPoint \<circ> f) xs"
  using assms by (induction xs) (simp_all add: point_simps)

lemma nodeEventOperations_points [point_simps]:
  "operationsPoints (nodeEventOperations api m n r events) =
     eventPoints (m @ ''::'' @ n) (m @ ''::'' @ n) events"
  by (simp add: nodeEventOperations_def eventPoints_def eventMethods_def Let_def point_simps
      operationsPoints_calls comp_def)

lemma nodeEventOperations_index [point_simps]:
  "memberIndexWrites (nodeEventOperations api m n r events)"
  by (auto simp: memberIndexWrites_def list_all_iff nodeEventOperations_def Let_def point_simps)

lemma nodeEvents_implemented:
  "implementsMembers (nodeEventOperations api m n r events) (m @ ''::'' @ n) (nodeEventMembers m n events)"
  by (simp add: implementsMembers_def point_simps)

lemmas event_eval = eventPoints_def eventMethods_def nodeEvent.select_convs

section \<open>Row tables\<close>

text \<open>
  Several modules keep one table of rows and derive from it both the declarations (the
  rows grouped by name, one overloaded member or function per name) and the operations
  (one per row). A row promises that its overload and its operation agree on name, suffix
  and arity; then the derived operations implement the derived declarations, whatever
  rows the table has.
\<close>

locale method_rows =
  fixes owner :: string
    and rowName :: "'r \<Rightarrow> string"
    and rowOverload :: "'r \<Rightarrow> overload"
    and rowOperation :: "'r \<Rightarrow> 'o operation"
  assumes row_point: "operationPoint (rowOperation r) =
      overloadPoint owner (Some (owner @ ''.'' @ rowName r)) (owner @ ''.'' @ rowName r) (rowOverload r)"
begin

lemma row_call: "op_operationKind (rowOperation r) = CallOperation"
  using row_point [of r] by (simp add: operationPoint_def overloadPoint_def)

lemma row_operations_points: "operationsPoints (map rowOperation rows) =
    map (\<lambda>r. overloadPoint owner (Some (owner @ ''.'' @ rowName r)) (owner @ ''.'' @ rowName r)
      (rowOverload r)) rows"
  by (induction rows) (simp_all add: point_simps row_point row_call)

lemma row_member_points: "memberPoints owner
    (overloadedMethodMember owner n (map rowOverload (filter (\<lambda>r. rowName r = n) rows))) =
    map (\<lambda>r. overloadPoint owner (Some (owner @ ''.'' @ rowName r)) (owner @ ''.'' @ rowName r)
      (rowOverload r)) (filter (\<lambda>r. rowName r = n) rows)"
  by (auto simp: point_simps)

lemma rows_implement:
  assumes "distinct names" and "set (map rowName rows) \<subseteq> set names"
  shows "implementsMembers (map rowOperation rows) owner
    (map (\<lambda>n. overloadedMethodMember owner n (map rowOverload (filter (\<lambda>r. rowName r = n) rows))) names)"
  using mset_regroup [OF assms, where g = "\<lambda>r. overloadPoint owner (Some (owner @ ''.'' @ rowName r))
      (owner @ ''.'' @ rowName r) (rowOverload r)"]
  by (simp add: implementsMembers_def membersPoints_def row_operations_points row_member_points comp_def)

end

text \<open>
  Rows grouped by a \<open>Map\<close> that keeps the order in which its keys came up: when every row's
  operations have the points of its overloads, the grouped declarations are implemented.
\<close>

lemma implements_groups:
  assumes "\<And>r. r \<in> set rows \<Longrightarrow> operationsPoints (ops r) =
      map (overloadPoint (specifier @ ''::'' @ key r) None (specifier @ ''::'' @ key r)) (vals r)"
  shows "implements (concat (map ops rows))
    (map (\<lambda>(n, ovs). overloadedFunctionExport specifier n ovs) (groupRows key vals rows))"
proof -
  let ?g = "\<lambda>n. overloadPoint (specifier @ ''::'' @ n) None (specifier @ ''::'' @ n)"
  have "exportsPoints (map (\<lambda>(n, ovs). overloadedFunctionExport specifier n ovs) gs) =
      concat (map (\<lambda>(n, ovs). map (?g n) ovs) gs)" for gs
    by (induction gs) (auto simp: point_simps)
  moreover have "operationsPoints (concat (map ops rows)) = concat (map (\<lambda>r. map (?g (key r)) (vals r)) rows)"
    using assms by (induction rows) (simp_all add: point_simps)
  ultimately show ?thesis by (simp add: implements_def mset_groupRows)
qed

locale function_rows =
  fixes specifier :: string
    and rowName :: "'r \<Rightarrow> string"
    and rowOverload :: "'r \<Rightarrow> overload"
    and rowOperation :: "'r \<Rightarrow> 'o operation"
  assumes row_point: "operationPoint (rowOperation r) =
      overloadPoint (specifier @ ''::'' @ rowName r) None (specifier @ ''::'' @ rowName r) (rowOverload r)"
begin

lemma row_call: "op_operationKind (rowOperation r) = CallOperation"
  using row_point [of r] by (simp add: operationPoint_def overloadPoint_def)

lemma row_operations_points: "operationsPoints (map rowOperation rows) =
    map (\<lambda>r. overloadPoint (specifier @ ''::'' @ rowName r) None (specifier @ ''::'' @ rowName r)
      (rowOverload r)) rows"
  by (induction rows) (simp_all add: point_simps row_point row_call)

lemma row_export_points: "exportPoints
    (overloadedFunctionExport specifier n (map rowOverload (filter (\<lambda>r. rowName r = n) rows))) =
    map (\<lambda>r. overloadPoint (specifier @ ''::'' @ rowName r) None (specifier @ ''::'' @ rowName r)
      (rowOverload r)) (filter (\<lambda>r. rowName r = n) rows)"
  by (auto simp: point_simps)

lemma rows_implement:
  assumes "distinct names" and "set (map rowName rows) \<subseteq> set names"
  shows "implements (map rowOperation rows)
    (map (\<lambda>n. overloadedFunctionExport specifier n
       (map rowOverload (filter (\<lambda>r. rowName r = n) rows))) names)"
  using mset_regroup [OF assms, where g = "\<lambda>r. overloadPoint (specifier @ ''::'' @ rowName r) None
      (specifier @ ''::'' @ rowName r) (rowOverload r)"]
  by (simp add: implements_def exportsPoints_def row_operations_points row_export_points comp_def)

lemma groups_implement:
  "implements (map rowOperation rows)
    (map (\<lambda>(n, ovs). overloadedFunctionExport specifier n ovs)
      (groupRows rowName (\<lambda>r. [rowOverload r]) rows))"
  using implements_groups [of rows "\<lambda>r. [rowOperation r]" specifier rowName "\<lambda>r. [rowOverload r]"]
  by (simp add: point_simps row_point row_call concat_map_singleton)

end

section \<open>The interface of a component\<close>

lemma packageExports_Cons: "packageExports (m # ms) = mod_exports m @ packageExports ms"
  by (simp add: packageExports_def)

lemma scoped_id:
  assumes "list_all moduleScoped ms" and "i \<in> set (map exp_id (packageExports ms))"
  shows "idScope i \<in> set (map mod_moduleSpecifier ms)"
  using assms by (auto simp: list_all_iff moduleScoped_def packageExports_def)

lemma scoped_ids_distinct:
  assumes "distinct (map mod_moduleSpecifier ms)"
    and "list_all (\<lambda>m. distinct (map exp_id (mod_exports m))) ms" and "list_all moduleScoped ms"
  shows "distinct (map exp_id (packageExports ms))"
  using assms
proof (induction ms)
  case (Cons m ms)
  have "i \<notin> set (map exp_id (packageExports ms))" if "i \<in> set (map exp_id (mod_exports m))" for i
  proof
    assume "i \<in> set (map exp_id (packageExports ms))"
    then have "idScope i \<in> set (map mod_moduleSpecifier ms)"
      using Cons.prems(3) by (intro scoped_id) simp_all
    moreover have "idScope i = mod_moduleSpecifier m"
      using that Cons.prems(3) by (auto simp: moduleScoped_def list_all_iff)
    ultimately show False using Cons.prems(1) by simp
  qed
  then have "set (map exp_id (mod_exports m)) \<inter> set (map exp_id (packageExports ms)) = {}"
    by blast
  moreover have "distinct (map exp_id (packageExports ms))"
    using Cons.prems by (intro Cons.IH) simp_all
  ultimately show ?case using Cons.prems(2) by (simp add: packageExports_Cons)
qed (simp add: packageExports_def)

locale component =
  fixes modules :: "providerModule list"
    and operations :: "'o operation list"
  assumes implemented: "implements operations (packageExports modules)"
    and unique_ids: "list_all (\<lambda>m. distinct (map exp_id (mod_exports m))) modules"
    and scoped: "list_all moduleScoped modules"
    and index_writes: "memberIndexWrites operations"
begin

lemma declared_iff_implemented:
  "q \<in> set (exportsPoints (packageExports modules)) \<longleftrightarrow> q \<in> set (operationsPoints operations)"
  using implements_points_eq [OF implemented] by blast

lemma operation_declared:
  assumes "p \<in> set operations" and "op_operationKind p \<noteq> IndexSetOperation"
  shows "operationPoint p \<in> set (exportsPoints (packageExports modules))"
  using assms declared_iff_implemented by (auto simp: operationsPoints_def)
lemma export_scope:
  assumes "m \<in> set modules" and "x \<in> set (mod_exports m)"
  shows "idScope (exp_id x) = mod_moduleSpecifier m"
  using assms scoped by (auto simp: list_all_iff moduleScoped_def)

lemma package_ids:
  "distinct (map mod_moduleSpecifier modules) \<Longrightarrow> distinct (map exp_id (packageExports modules))"
  using scoped_ids_distinct unique_ids scoped by blast

end

text \<open>Components side by side are a component.\<close>

lemma component_append:
  assumes "component ms ps" and "component ns qs"
  shows "component (ms @ ns) (ps @ qs)"
  using assms implements_append [OF component.implemented [OF assms(1)] component.implemented [OF assms(2)]]
  by (auto simp: component_def packageExports_def memberIndexWrites_def)

lemma component_Cons:
  "component [m] ps \<Longrightarrow> component ns qs \<Longrightarrow> component (m # ns) (ps @ qs)"
  using component_append [of "[m]" ps ns qs] by simp

lemma componentI:
  assumes "implements ops (mod_exports m)"
    and "distinct (map exp_id (mod_exports m)) \<and> moduleScoped m \<and> P"
    and "memberIndexWrites ops"
  shows "component [m] ops"
  using assms by unfold_locales (simp_all add: packageExports_def)

section \<open>Evaluation\<close>

text \<open>
  The facts an evaluation of points needs, and nothing else: \<open>point_eval\<close> unfolds the
  two sides to lists of points, \<open>perm_eval\<close> compares them. The congruences keep the
  branches of a conditional unevaluated until its condition is known.
\<close>

lemma mod_exports_moduleOf: "mod_exports (moduleOf s i imps xs) = xs"
  by (simp add: moduleOf_def)

lemma module_update_simps [point_simps, id_simps]:
  "mod_exports (m\<lparr>mod_imports := i, mod_exports := xs\<rparr>) = xs"
  "mod_moduleSpecifier (m\<lparr>mod_imports := i, mod_exports := xs\<rparr>) = mod_moduleSpecifier m"
  "mod_imports (m\<lparr>mod_imports := i, mod_exports := xs\<rparr>) = i"
  by simp_all

lemma mod_moduleSpecifier_moduleOf: "mod_moduleSpecifier (moduleOf s i imps xs) = s"
  by (simp add: moduleOf_def)

lemma mod_imports_moduleOf: "mod_imports (moduleOf s i imps xs) = imps"
  by (simp add: moduleOf_def)

lemmas point_eval = point_simps mod_exports_moduleOf append.simps append_assoc append_Nil2 list.map
  joinWith.simps param_def restParam_def providerParameter.sel list.size Let_def concat.simps
  case_prod_conv operationKind.distinct simp_thms if_True if_False option.map option.case
  list.inject list.distinct char.inject One_nat_def add_0 add_Suc add_Suc_right

lemmas perm_eval = permCheck.simps removeFirst.simps option.case option.map prod.inject option.inject
  option.distinct list.inject list.distinct char.inject operationKind.distinct nat.inject
  nat.distinct simp_thms if_True if_False

lemmas distinct_eval = absent.simps allDistinct.simps prod.inject option.inject option.distinct
  list.inject list.distinct char.inject operationKind.distinct nat.inject nat.distinct simp_thms

lemmas id_eval = id_simps mod_exports_moduleOf mod_moduleSpecifier_moduleOf append.simps append_assoc
  append_Nil2 list.map Let_def concat.simps case_prod_conv simp_thms if_True if_False
  list.inject list.distinct char.inject list.pred_inject prefixOf.simps idScope.simps distinct.simps list.set
  insert_iff empty_iff

lemma comparison_congs:
  "permCheck xs ys = permCheck xs ys"
  "removeFirst x xs = removeFirst x xs"
  "Some x = Some x"
  "(x = y) = (x = y)"
  "P = P' \<Longrightarrow> (P \<and> Q) = (P' \<and> Q)"
  "allDistinct xs = allDistinct xs"
  "absent x xs = absent x xs"
  "r = r' \<Longrightarrow> map_option f r = map_option f r'"
  by simp_all

lemmas weak_congs = if_weak_cong option.case_cong_weak

text \<open>
  The comparison works on evaluated points, so it does not descend into them again.
\<close>

lemmas perm_congs = weak_congs comparison_congs

end
