(* ===== verification/Provider_Native.thy ===== *)
theory Provider_Native
  imports Provider_Contract
begin

text \<open>
  What the native side of an operation must look like. \<open>nativeShape\<close> relates the kind of
  an operation, its native target, its receiver and its native parameter list; \<open>typeOf\<close>
  is the native type that the type definitions of a package give to an export, and
  \<open>receiverMapped\<close> says that an operation on instances of an export has this type as its
  receiver.

  Every operation constructor has its shape by construction, so a module's table is
  checked by looking at its receivers only (\<open>native_simps\<close>).
\<close>

section \<open>Shape\<close>

definition parameterCount :: "'o operation \<Rightarrow> nat option" where
  "parameterCount p = map_option length (op_parameterTypes p)"

definition nativeShape :: "'o operation \<Rightarrow> bool" where
  "nativeShape p = (case op_target p of
      FunctionCallTarget path n generics args boot \<Rightarrow>
        path \<noteq> [] \<and> hd path = ''tsonic_node'' \<and> op_receiverType p = None \<and>
        parameterCount p = Some (length args) \<and>
        (op_operationKind p = CallOperation \<or> op_operationKind p = ConstructorOperation)
    | InstanceCallTarget n receiver args \<Rightarrow>
        op_receiverType p \<noteq> None \<and> parameterCount p = Some (length args) \<and>
        op_operationKind p = CallOperation
    | ConstantTarget path n \<Rightarrow>
        path \<noteq> [] \<and> hd path = ''tsonic_node'' \<and> op_receiverType p = None \<and>
        parameterCount p = None \<and> op_operationKind p = PropertyOperation
    | FunctionReadTarget path n \<Rightarrow>
        path \<noteq> [] \<and> hd path = ''tsonic_node'' \<and> op_receiverType p = None \<and>
        parameterCount p = None \<and> op_operationKind p = PropertyOperation
    | FunctionWriteTarget path n v \<Rightarrow>
        path \<noteq> [] \<and> hd path = ''tsonic_node'' \<and> op_receiverType p = None \<and>
        parameterCount p = Some 1 \<and> op_operationKind p = PropertySetOperation
    | PropertyReadTarget access n receiver \<Rightarrow>
        op_receiverType p \<noteq> None \<and> parameterCount p = None \<and> op_operationKind p = PropertyOperation
    | PropertyWriteTarget access n receiver v \<Rightarrow>
        op_receiverType p \<noteq> None \<and> parameterCount p = Some 1 \<and>
        op_operationKind p = PropertySetOperation
    | IndexReadTarget access n receiver i \<Rightarrow>
        op_receiverType p \<noteq> None \<and> parameterCount p = Some 1 \<and> op_operationKind p = IndexerOperation
    | IndexWriteTarget access n receiver i v \<Rightarrow>
        op_receiverType p \<noteq> None \<and> parameterCount p = Some 2 \<and> op_operationKind p = IndexSetOperation
    | ValuePredicateTarget t path n generics args \<Rightarrow>
        path \<noteq> [] \<and> hd path = ''tsonic_node'' \<and> op_receiverType p = None \<and>
        parameterCount p = Some (length args) \<and> op_operationKind p = CallOperation)"

section \<open>Receivers\<close>

fun typeOf :: "'o typeDefinition list \<Rightarrow> string \<Rightarrow> 'o targetType option" where
  "typeOf [] i = None"
| "typeOf (t # ts) i = (if type_exportId t = i then Some (type_targetType t) else typeOf ts i)"

lemma typeOf_SomeD:
  "typeOf ts i = Some r \<Longrightarrow> \<exists>t \<in> set ts. type_exportId t = i \<and> type_targetType t = r"
  by (induction ts i rule: typeOf.induct) (auto split: if_splits)

lemma typeOf_distinct:
  "distinct (map type_exportId ts) \<Longrightarrow> t \<in> set ts \<Longrightarrow> typeOf ts (type_exportId t) = Some (type_targetType t)"
  by (induction ts) auto

lemma typeOf_subset:
  assumes "distinct (map type_exportId us)" and "set ts \<subseteq> set us" and "typeOf ts i = Some r"
  shows "typeOf us i = Some r"
  using assms(2) typeOf_SomeD [OF assms(3)] typeOf_distinct [OF assms(1)] by fastforce

definition receiverMapped :: "'o typeDefinition list \<Rightarrow> 'o operation \<Rightarrow> bool" where
  "receiverMapped ts p =
     (case op_receiverType p of None \<Rightarrow> True | Some r \<Rightarrow> typeOf ts (op_exportId p) = Some r)"

definition nativeOperation :: "'o typeDefinition list \<Rightarrow> 'o operation \<Rightarrow> bool" where
  "nativeOperation ts p \<longleftrightarrow> nativeShape p \<and> receiverMapped ts p"

definition nativeOperations :: "'o typeDefinition list \<Rightarrow> 'o operation list \<Rightarrow> bool" where
  "nativeOperations ts ops \<longleftrightarrow> list_all (nativeOperation ts) ops"

lemma nativeOperations_simps [native_simps]:
  "nativeOperations ts []"
  "nativeOperations ts (p # ps) \<longleftrightarrow> nativeOperation ts p \<and> nativeOperations ts ps"
  "nativeOperations ts (ps @ qs) \<longleftrightarrow> nativeOperations ts ps \<and> nativeOperations ts qs"
  by (simp_all add: nativeOperations_def)

lemma nativeOperations_subset:
  assumes "nativeOperations ts ops" and "distinct (map type_exportId us)" and "set ts \<subseteq> set us"
  shows "nativeOperations us ops"
  using assms typeOf_subset [OF assms(2,3)]
  by (auto simp: nativeOperations_def list_all_iff nativeOperation_def receiverMapped_def
      split: option.splits)

lemmas native_defs = nativeOperation_def nativeShape_def receiverMapped_def parameterCount_def

section \<open>The constructors\<close>

lemma call_native [native_simps]:
  "nativeOperation ts (functionCallPath e s path t ps r ra)"
  "nativeOperation ts (functionCall e s m t ps r ra)"
  "nativeOperation ts (staticCall e i s m t ps r ra)"
  "nativeOperation ts (variadicFunctionCall e s m t p r ra)"
  "nativeOperation ts (instanceCall e i s t rt ps r ra rc) \<longleftrightarrow> typeOf ts e = Some rt"
  by (simp_all add: native_defs functionCallPath_def functionCall_def staticCall_def
      variadicFunctionCall_def instanceCall_def)

lemma property_native [native_simps]:
  "nativeOperation ts (constantValue e m t r)"
  "nativeOperation ts (functionValue e m t r ra)"
  "nativeOperation ts (staticPropertyRead e i m t r ra)"
  "nativeOperation ts (staticPropertyWrite api e i m t v ra)"
  "nativeOperation ts (propertyReadVia a e i t rt r) \<longleftrightarrow> typeOf ts e = Some rt"
  "nativeOperation ts (propertyWriteVia a api e i t rt v) \<longleftrightarrow> typeOf ts e = Some rt"
  "nativeOperation ts (indexRead e i s t rt it r ra) \<longleftrightarrow> typeOf ts e = Some rt"
  by (simp_all add: native_defs constantValue_def functionValue_def staticPropertyRead_def
      staticPropertyWrite_def propertyReadVia_def propertyWriteVia_def indexRead_def)

lemma update_native [native_simps]:
  "nativeOperation ts (p\<lparr>op_raises := b\<rparr>) \<longleftrightarrow> nativeOperation ts p"
  "nativeOperation ts (p\<lparr>op_resultType := r\<rparr>) \<longleftrightarrow> nativeOperation ts p"
  "nativeOperation ts (p\<lparr>op_errorType := x\<rparr>) \<longleftrightarrow> nativeOperation ts p"
  "nativeOperation ts (p\<lparr>op_memberId := m\<rparr>) \<longleftrightarrow> nativeOperation ts p"
  by (simp_all add: native_defs split: operationTarget.split option.split)

lemma construct_native [native_simps]:
  "nativeOperation ts ((functionCall e s m t ps r ra)\<lparr>op_memberId := i, op_operationKind := ConstructorOperation\<rparr>)"
  by (simp add: native_defs functionCall_def functionCallPath_def)

lemma retarget_native [native_simps]:
  "nativeOperation ts ((functionCall e s m t ps r ra)\<lparr>op_target := FunctionCallTarget path n g args b\<rparr>) \<longleftrightarrow>
     path \<noteq> [] \<and> hd path = ''tsonic_node'' \<and> length ps = length args"
  by (simp add: native_defs functionCall_def functionCallPath_def)

lemma literal_native [native_simps]:
  "nativeOperation ts \<lparr>op_exportId = e, op_memberId = m, op_signatureId = s, op_operationKind = k,
     op_target = t, op_receiverType = rt, op_parameterTypes = ps, op_resultType = r,
     op_errorType = x, op_raises = b\<rparr> \<longleftrightarrow>
   nativeShape \<lparr>op_exportId = e, op_memberId = m, op_signatureId = s, op_operationKind = k,
     op_target = t, op_receiverType = rt, op_parameterTypes = ps, op_resultType = r,
     op_errorType = x, op_raises = b\<rparr> \<and>
   (case rt of None \<Rightarrow> True | Some c \<Rightarrow> typeOf ts e = Some c)"
  by (simp add: nativeOperation_def receiverMapped_def split: option.split)

lemma event_table_native [native_simps]:
  "typeOf ts (m @ ''::'' @ n) = Some r \<Longrightarrow> nativeOperations ts (nodeEventOperations api m n r events)"
  by (auto simp: nativeOperations_def list_all_iff nodeEventOperations_def Let_def native_simps)

section \<open>The type definitions\<close>

lemma type_definition_simps [native_simps]:
  "type_exportId (nodeProviderTypeWith api i t c g l) = i"
  "type_targetType (nodeProviderTypeWith api i t c g l) = t"
  "type_exportId (nodeProviderType api i t c) = i"
  "type_targetType (nodeProviderType api i t c) = t"
  "type_exportId (nodeProviderRecordType api i t c) = i"
  "type_targetType (nodeProviderRecordType api i t c) = t"
  "type_exportId (d\<lparr>type_nativeViews := v\<rparr>) = type_exportId d"
  "type_targetType (d\<lparr>type_nativeViews := v\<rparr>) = type_targetType d"
  "type_exportId (d\<lparr>type_sourceValueFactory := f\<rparr>) = type_exportId d"
  "type_targetType (d\<lparr>type_sourceValueFactory := f\<rparr>) = type_targetType d"
  "type_exportId (d\<lparr>type_sourceValueExtraction := g'\<rparr>) = type_exportId d"
  "type_targetType (d\<lparr>type_sourceValueExtraction := g'\<rparr>) = type_targetType d"
  by (simp_all add: nodeProviderTypeWith_def nodeProviderType_def nodeProviderRecordType_def)

lemmas native_eval = native_simps typeOf.simps nativeShape_def parameterCount_def
  operation.select_convs operationTarget.case option.case option.map option.distinct option.inject
  list.sel list.size list.distinct list.inject char.inject list.map append.simps append_assoc
  append_Nil2 concat.simps case_prod_conv Let_def simp_thms if_True if_False One_nat_def
  numeral_2_eq_2 add_0 add_Suc add_Suc_right

end
