(* ===== verification/Provider_References.thy ===== *)
theory Provider_References
  imports Provider_Native
begin

text \<open>
  References between declarations. A source type may name an export of a module
  (\<open>providerRef\<close>); the checker resolves such a name against the classes and interfaces
  of the module itself and against its named imports. \<open>refsResolved\<close> says that every
  reference of a module can be resolved in this way, \<open>importsResolved\<close> that every named
  import is a class or an interface of a module of the package.
\<close>

section \<open>The references of a declaration\<close>

definition signatureRefs :: "providerSignature \<Rightarrow> (string \<times> string) list" where
  "signatureRefs s = concat (map parameterRefs (sig_parameters s)) @ typeRefs (sig_returnType s)"

definition optionalTypeRefs :: "providerType option \<Rightarrow> (string \<times> string) list" where
  "optionalTypeRefs t = (case t of None \<Rightarrow> [] | Some u \<Rightarrow> typeRefs u)"

definition memberRefs :: "providerMember \<Rightarrow> (string \<times> string) list" where
  "memberRefs m =
     optionalTypeRefs (mem_type m) @ concat (map signatureRefs (optionalList (mem_signatures m)))"

definition exportRefs :: "providerExport \<Rightarrow> (string \<times> string) list" where
  "exportRefs x =
     optionalTypeRefs (exp_type x) @
     concat (map typeRefs (optionalList (exp_heritage x))) @
     concat (map signatureRefs (optionalList (exp_signatures x))) @
     concat (map memberRefs (optionalList (exp_members x)))"

definition moduleRefs :: "providerModule \<Rightarrow> (string \<times> string) list" where
  "moduleRefs m = concat (map exportRefs (mod_exports m))"

section \<open>What a module can see\<close>

definition typeExport :: "providerExport \<Rightarrow> bool" where
  "typeExport x \<longleftrightarrow> exp_kind x = ClassExport \<or> exp_kind x = InterfaceExport"

definition declaredTypes :: "providerModule \<Rightarrow> (string \<times> string) list" where
  "declaredTypes m = map (\<lambda>x. (mod_moduleSpecifier m, exp_name x)) (filter typeExport (mod_exports m))"

definition importedTypes :: "providerModule \<Rightarrow> (string \<times> string) list" where
  "importedTypes m =
     concat (map (\<lambda>i. map (\<lambda>n. (imp_moduleSpecifier i, n)) (imp_namedImports i))
       (optionalList (mod_imports m)))"

definition refsResolved :: "providerModule \<Rightarrow> bool" where
  "refsResolved m \<longleftrightarrow> list_all (\<lambda>r. r \<in> set (declaredTypes m @ importedTypes m)) (moduleRefs m)"

definition importsResolved :: "providerModule list \<Rightarrow> bool" where
  "importsResolved ms \<longleftrightarrow>
     list_all (\<lambda>m. list_all (\<lambda>r. r \<in> set (concat (map declaredTypes ms))) (importedTypes m)) ms"

lemma refsResolvedI:
  assumes "declaredTypes m @ importedTypes m = visible"
    and "list_all (\<lambda>r. r \<in> set visible) (moduleRefs m)"
  shows "refsResolved m"
  using assms by (simp add: refsResolved_def)

lemma importsResolvedI:
  assumes "concat (map declaredTypes ms) = declared"
    and "concat (map importedTypes ms) = imported"
    and "list_all (\<lambda>r. r \<in> set declared) imported"
  shows "importsResolved ms"
  using assms by (auto simp: importsResolved_def list_all_iff)

text \<open>A reference of a resolved package is a class or an interface of one of its modules.\<close>

lemma reference_declared:
  assumes "list_all refsResolved ms" and "importsResolved ms"
    and "m \<in> set ms" and "r \<in> set (moduleRefs m)"
  shows "r \<in> set (concat (map declaredTypes ms))"
  using assms by (fastforce simp: refsResolved_def importsResolved_def list_all_iff)

section \<open>Type definitions\<close>

text \<open>
  A class or an interface has no instances when it only groups static members. The type
  definitions of a package are exact when they give a native type to each class and interface
  with instances once and to nothing else.
\<close>

definition staticMembers :: "providerMember list \<Rightarrow> bool" where
  "staticMembers ms \<longleftrightarrow> ms \<noteq> [] \<and> list_all mem_static ms"

definition instanceExport :: "providerExport \<Rightarrow> bool" where
  "instanceExport x \<longleftrightarrow> typeExport x \<and> \<not> staticMembers (optionalList (exp_members x))"

definition typesExact :: "'o typeDefinition list \<Rightarrow> providerExport list \<Rightarrow> bool" where
  "typesExact ts xs \<longleftrightarrow> mset (map type_exportId ts) = mset (map exp_id (filter instanceExport xs))"

lemma typesExact_declared:
  assumes "typesExact ts xs" and "t \<in> set ts"
  shows "\<exists>x \<in> set xs. typeExport x \<and> exp_id x = type_exportId t"
proof -
  have "type_exportId t \<in> set (map exp_id (filter instanceExport xs))"
    using assms mset_eq_setD [OF assms(1) [unfolded typesExact_def]] by auto
  then show ?thesis by (auto simp: instanceExport_def)
qed

lemma typesExact_distinct:
  assumes "typesExact ts xs" and "distinct (map exp_id xs)"
  shows "distinct (map type_exportId ts)"
proof -
  have "distinct (map exp_id (filter instanceExport xs))"
    using assms(2) by (simp add: distinct_map inj_on_def)
  with mset_eq_imp_distinct_iff [OF assms(1) [unfolded typesExact_def]] show ?thesis by simp
qed

lemma typesExact_append:
  "typesExact ts xs \<Longrightarrow> typesExact us ys \<Longrightarrow> typesExact (ts @ us) (xs @ ys)"
  by (simp add: typesExact_def)

lemma permCheck_typesExact:
  "permCheck (map type_exportId ts) (map exp_id (filter instanceExport xs)) \<Longrightarrow> typesExact ts xs"
  unfolding typesExact_def by (rule permCheck_mset)

section \<open>The constructors\<close>

lemma type_refs [ref_simps]:
  "typeRefs stringType = []" "typeRefs numberType = []" "typeRefs booleanType = []"
  "typeRefs voidType = []" "typeRefs undefinedType = []" "typeRefs nullType = []"
  "typeRefs int32Type = []" "typeRefs stringArrayType = []" "typeRefs numberArrayType = []"
  "typeRefs (providerRef m n) = [(m, n)]"
  "typeRefs (providerRefWith m n ts) = (m, n) # concat (map typeRefs ts)"
  "typeRefs (sourcePromise t) = typeRefs t"
  "typeRefs (providerCallbackType s n ps) = concat (map parameterRefs ps)"
  "typeRefs (typeParameter n) = []"
  "parameterRefs (param n t) = typeRefs t"
  "parameterRefs (restParam n t) = typeRefs t"
  by (simp_all add: builder_defs)

definition overloadRefs :: "overload \<Rightarrow> (string \<times> string) list" where
  "overloadRefs v = concat (map parameterRefs (ov_parameters v)) @ typeRefs (ov_returnType v)"

lemma overload_refs [ref_simps]:
  "overloadRefs (overloadOf ps r) = concat (map parameterRefs ps) @ typeRefs r"
  "overloadRefs (overloadAs s ps r) = concat (map parameterRefs ps) @ typeRefs r"
  by (simp_all add: overloadRefs_def overloadOf_def overloadAs_def)

lemma signature_refs [ref_simps]:
  "signatureRefs (plainSignature i n ps r) = concat (map parameterRefs ps) @ typeRefs r"
  "signatureRefs (genericSignature i n tps ps r) = concat (map parameterRefs ps) @ typeRefs r"
  by (simp_all add: signatureRefs_def plainSignature_def genericSignature_def)

lemma callable_refs [ref_simps]:
  "memberRefs (callableMember i n k st sigs) = concat (map signatureRefs sigs)"
  by (simp add: memberRefs_def callableMember_def optionalTypeRefs_def)

lemma member_refs [ref_simps]:
  "memberRefs (methodMemberWith w n ps r st sfx) = concat (map parameterRefs ps) @ typeRefs r"
  "memberRefs (methodMember w n ps r) = concat (map parameterRefs ps) @ typeRefs r"
  "memberRefs (overloadedMethodMemberWith w n ovs st) = concat (map overloadRefs ovs)"
  "memberRefs (overloadedMethodMember w n ovs) = concat (map overloadRefs ovs)"
  "memberRefs (propertyMemberWith w n t ro st opt) = typeRefs t"
  "memberRefs (propertyMember w n t) = typeRefs t"
  "memberRefs (constructorMember w ps) = concat (map parameterRefs ps)"
  by (simp_all add: methodMember_def methodMemberWith_def overloadedMethodMember_def
      overloadedMethodMemberWith_def propertyMember_def constructorMember_def ref_simps Let_def
      comp_def overloadRefs_def [abs_def])
    (simp_all add: memberRefs_def propertyMemberWith_def optionalTypeRefs_def)

lemma export_refs [ref_simps]:
  "exportRefs (functionDeclaration i n d sigs) = concat (map signatureRefs sigs)"
  "exportRefs (typeDeclaration k i n ms) = concat (map memberRefs ms)"
  "exportRefs (valueExport m n t) = typeRefs t"
  "exportRefs ((typeDeclaration k i n ms)\<lparr>exp_members := Some ms'\<rparr>) = concat (map memberRefs ms')"
  "exportRefs ((typeDeclaration k i n ms)\<lparr>exp_heritage := Some ts\<rparr>) =
     concat (map typeRefs ts) @ concat (map memberRefs ms)"
  by (simp_all add: exportRefs_def functionDeclaration_def typeDeclaration_def valueExport_def
      optionalTypeRefs_def)

lemma function_refs [ref_simps]:
  "exportRefs (overloadedFunctionExport m n ovs) = concat (map overloadRefs ovs)"
  "exportRefs (fnExportWith m n ps r s) = concat (map parameterRefs ps) @ typeRefs r"
  "exportRefs (fnExport m n ps r) = concat (map parameterRefs ps) @ typeRefs r"
  by (simp_all add: fnExport_def fnExportWith_def overloadedFunctionExport_def ref_simps Let_def
      comp_def overloadRefs_def [abs_def] overloadAs_def)

lemma export_update_refs [ref_simps]:
  "exportRefs (x\<lparr>exp_exportName := n\<rparr>) = exportRefs x"
  "exportRefs (x\<lparr>exp_isDefault := d\<rparr>) = exportRefs x"
  "exportRefs (x\<lparr>exp_typeParameters := tps\<rparr>) = exportRefs x"
  by (simp_all add: exportRefs_def)

text \<open>The three listener methods of an event refer to the same types.\<close>

lemma event_refs [ref_simps]:
  "list_all P (concat (map memberRefs (nodeEventMembers m n events))) \<longleftrightarrow>
   list_all (\<lambda>e. list_all P (concat (map (\<lambda>p. typeRefs (evp_source p)) (ev_parameters e))) \<and> P (m, n))
     events"
proof -
  have names: "typeRefs (eventNameType ns) = []" for ns
    by (auto simp: eventNameType_def split: list.split)
  show ?thesis
    by (auto simp: nodeEventMembers_def eventMethods_def Let_def ref_simps names list_all_iff neq_Nil_conv)
qed

lemma import_simps [ref_simps]:
  "imp_moduleSpecifier (importOf m ns) = m"
  "imp_namedImports (importOf m ns) = ns"
  by (simp_all add: importOf_def)

lemma type_export_simps [ref_simps]:
  "\<not> typeExport (functionDeclaration i n d sigs)"
  "typeExport (typeDeclaration ClassExport i n ms)"
  "typeExport (typeDeclaration InterfaceExport i n ms)"
  "\<not> typeExport (valueExport m n t)"
  "\<not> typeExport (overloadedFunctionExport m n ovs)"
  "\<not> typeExport (fnExportWith m n ps r s)"
  "\<not> typeExport (fnExport m n ps r)"
  "typeExport (x\<lparr>exp_exportName := en\<rparr>) = typeExport x"
  "typeExport (x\<lparr>exp_isDefault := d\<rparr>) = typeExport x"
  "typeExport (x\<lparr>exp_typeParameters := tps\<rparr>) = typeExport x"
  "typeExport (x\<lparr>exp_heritage := h\<rparr>) = typeExport x"
  "typeExport (x\<lparr>exp_members := mms\<rparr>) = typeExport x"
  by (simp_all add: typeExport_def functionDeclaration_def typeDeclaration_def valueExport_def
      overloadedFunctionExport_def fnExport_def fnExportWith_def Let_def)

lemma export_name_simps [ref_simps]:
  "exp_name (typeDeclaration k i n ms) = n"
  "exp_name (x\<lparr>exp_exportName := en\<rparr>) = exp_name x"
  "exp_name (x\<lparr>exp_isDefault := d\<rparr>) = exp_name x"
  "exp_name (x\<lparr>exp_typeParameters := tps\<rparr>) = exp_name x"
  "exp_name (x\<lparr>exp_heritage := h\<rparr>) = exp_name x"
  "exp_name (x\<lparr>exp_members := mms\<rparr>) = exp_name x"
  by (simp_all add: typeDeclaration_def)

lemma member_static_simps [ref_simps]:
  "mem_static (callableMember i n k st sigs) = st"
  "mem_static (methodMemberWith w n ps r st sfx) = st"
  "mem_static (methodMember w n ps r) = False"
  "mem_static (overloadedMethodMemberWith w n ovs st) = st"
  "mem_static (overloadedMethodMember w n ovs) = False"
  "mem_static (propertyMemberWith w n t ro st opt) = st"
  "mem_static (propertyMember w n t) = False"
  "mem_static (constructorMember w ps) = False"
  by (simp_all add: methodMember_def methodMemberWith_def overloadedMethodMember_def
      overloadedMethodMemberWith_def propertyMember_def propertyMemberWith_def constructorMember_def
      callableMember_def Let_def)

lemma instance_export_simps [ref_simps]:
  "instanceExport (typeDeclaration ClassExport i n ms) \<longleftrightarrow> \<not> staticMembers ms"
  "instanceExport (typeDeclaration InterfaceExport i n ms) \<longleftrightarrow> \<not> staticMembers ms"
  "\<not> instanceExport (functionDeclaration i n d sigs)"
  "\<not> instanceExport (valueExport m n t)"
  "\<not> instanceExport (overloadedFunctionExport m n ovs)"
  "\<not> instanceExport (fnExportWith m n ps r s)"
  "\<not> instanceExport (fnExport m n ps r)"
  "instanceExport (x\<lparr>exp_exportName := en\<rparr>) = instanceExport x"
  "instanceExport (x\<lparr>exp_isDefault := d\<rparr>) = instanceExport x"
  "instanceExport (x\<lparr>exp_typeParameters := tps\<rparr>) = instanceExport x"
  "instanceExport (x\<lparr>exp_heritage := h\<rparr>) = instanceExport x"
  "instanceExport (x\<lparr>exp_members := Some mms\<rparr>) \<longleftrightarrow> typeExport x \<and> \<not> staticMembers mms"
  by (simp_all add: instanceExport_def ref_simps) (simp_all add: typeDeclaration_def typeExport_def)

lemma staticMembers_simps [ref_simps]:
  "\<not> staticMembers []"
  "staticMembers (m # ms) \<longleftrightarrow> mem_static m \<and> list_all mem_static ms"
  "staticMembers (map f xs) \<longleftrightarrow> xs \<noteq> [] \<and> list_all (\<lambda>x. mem_static (f x)) xs"
  "staticMembers (ms @ ns) \<longleftrightarrow> (ms \<noteq> [] \<or> ns \<noteq> []) \<and> list_all mem_static ms \<and> list_all mem_static ns"
  by (auto simp: staticMembers_def list_all_iff)

lemma event_members_static [ref_simps]:
  "list_all mem_static (nodeEventMembers m n events) \<longleftrightarrow> False"
  by (simp add: nodeEventMembers_def eventMethods_def Let_def member_static_simps)

lemmas visible_eval = declaredTypes_def importedTypes_def ref_simps id_simps mod_exports_moduleOf
  mod_moduleSpecifier_moduleOf mod_imports_moduleOf optionalList_simps filter.simps list.map
  concat.simps append.simps append_assoc append_Nil2 case_prod_conv Let_def simp_thms if_True
  if_False list.inject list.distinct char.inject option.case

lemmas type_eval = visible_eval type_definition_simps list.pred_inject list_all_append
  filter_append map_append

lemmas resolve_eval = moduleRefs_def ref_simps id_simps mod_exports_moduleOf typeRefs.simps
  parameterRefs.simps
  list.pred_inject list_all_append map_append concat_append list.size One_nat_def add_0 add_Suc
  add_Suc_right list.set insert_iff empty_iff prod.inject list.map concat.simps
  append.simps append_assoc append_Nil2 case_prod_conv Let_def simp_thms if_True if_False
  list.inject list.distinct char.inject option.case option.map eventParameter.select_convs
  nodeEvent.select_convs

end
