(* ===== verification/Module_Objects.thy ===== *)
theory Module_Objects
  imports Provider_References
begin

text \<open>
  The pass of \<^verbatim>\<open>nodejs/src/provider/module-objects.ts\<close> that gives a module its
  default export.
  For every module listed in \<open>moduleObjects\<close> the pass adds one class export
  \<open>module.default\<close> whose static members mirror the function and value exports of the
  module, and one operation per operation of such an export, under fresh identities. The
  pass throws on a module that has a default export already and on an operation whose
  signature its declaration does not have.

  The first part translates the pass. The second part states what it computes without the
  loop (\<open>projectionFault\<close>, \<open>addedOperations\<close>, \<open>objectModule\<close>) and proves that
  the pass returns exactly that; the laws of the pass follow from the closed form.
\<close>

section \<open>The pass\<close>

definition moduleObjects :: "(string \<times> string) list" where
  "moduleObjects =
     [(''node:buffer'', ''NodeBufferModule''),
      (''node:child_process'', ''NodeChildProcessModule''),
      (''node:crypto'', ''NodeCryptoModule''),
      (''node:dns'', ''NodeDnsModule''),
      (''node:dns/promises'', ''NodeDnsPromisesModule''),
      (''node:fs'', ''NodeFsModule''),
      (''node:fs/promises'', ''NodeFsPromisesModule''),
      (''node:http'', ''NodeHttpModule''),
      (''node:https'', ''NodeHttpsModule''),
      (''node:net'', ''NodeNetModule''),
      (''node:os'', ''NodeOsModule''),
      (''node:path'', ''NodePathModule''),
      (''node:readline'', ''NodeReadlineModule''),
      (''node:timers'', ''NodeTimersModule''),
      (''node:tls'', ''NodeTlsModule''),
      (''node:url'', ''NodeUrlModule''),
      (''node:util'', ''NodeUtilModule''),
      (''node:worker_threads'', ''NodeWorkerThreadsModule''),
      (''node:zlib'', ''NodeZlibModule'')]"

text \<open>\<open>moduleObjects.find(([specifier]) => specifier === module.moduleSpecifier)\<close>.\<close>

definition objectMetadata :: "providerModule \<Rightarrow> (string \<times> string) option" where
  "objectMetadata module =
     find (\<lambda>(specifier, _). specifier = mod_moduleSpecifier module) moduleObjects"

definition objectExportId :: "providerModule \<Rightarrow> string" where
  "objectExportId module = mod_moduleSpecifier module @ ''.default''"

text \<open>\<open>`${exportId}#${declaration.id}`\<close>.\<close>

definition objectMemberId :: "string \<Rightarrow> providerExport \<Rightarrow> string" where
  "objectMemberId exportId declaration = exportId @ ''#'' @ exp_id declaration"

text \<open>
  \<open>new Map((declaration.signatures ?? []).map(...))\<close>: a later entry of a key
  replaces an earlier one.
\<close>

definition signatureIds :: "string \<Rightarrow> providerExport \<Rightarrow> string \<rightharpoonup> string" where
  "signatureIds memberId declaration =
     map_of (rev (map (\<lambda>signature. (sig_id signature, memberId @ ''#'' @ sig_id signature))
       (optionalList (exp_signatures declaration))))"

definition objectMember :: "string \<Rightarrow> providerExport \<Rightarrow> providerMember" where
  "objectMember exportId declaration =
     (let memberId = objectMemberId exportId declaration;
          name = (case exp_exportName declaration of
            None \<Rightarrow> exp_name declaration | Some n \<Rightarrow> n)
      in if exp_kind declaration = FunctionExport then
        \<lparr>mem_id = memberId, mem_name = name, mem_kind = MethodMember, mem_static = True,
         mem_readonly = False, mem_optional = False, mem_type = None,
         mem_signatures = Some (map (\<lambda>signature. signature
           \<lparr>sig_id := the (signatureIds memberId declaration (sig_id signature))\<rparr>)
           (optionalList (exp_signatures declaration)))\<rparr>
      else
        \<lparr>mem_id = memberId, mem_name = name, mem_kind = PropertyMember, mem_static = True,
         mem_readonly = True, mem_optional = False, mem_type = exp_type declaration,
         mem_signatures = None\<rparr>)"

text \<open>The inner loop over \<open>definition.operations\<close> for one declaration.\<close>

fun projectOperations ::
    "string \<Rightarrow> providerExport \<Rightarrow> 'o operation list \<Rightarrow> providerError + 'o operation list" where
  "projectOperations exportId declaration [] = Inr []"
| "projectOperations exportId declaration (operation # operations) =
     (if op_exportId operation \<noteq> exp_id declaration \<or> op_memberId operation \<noteq> None
      then projectOperations exportId declaration operations
      else
        (let memberId = objectMemberId exportId declaration;
             signatureId = (case op_signatureId operation of
               None \<Rightarrow> None | Some s \<Rightarrow> signatureIds memberId declaration s)
         in if op_signatureId operation \<noteq> None \<and> signatureId = None
            then Inl (UndeclaredSignature exportId (the (op_signatureId operation)))
            else
              (case projectOperations exportId declaration operations of
                 Inl e \<Rightarrow> Inl e
               | Inr additions \<Rightarrow> Inr (operation
                   \<lparr>op_exportId := exportId, op_memberId := Some memberId,
                    op_signatureId := (case signatureId of
                      None \<Rightarrow> op_signatureId operation | Some s \<Rightarrow> Some s),
                    op_operationKind := (if exp_kind declaration = ValueExport
                      then PropertyOperation else op_operationKind operation)\<rparr> # additions))))"

text \<open>The loop over \<open>module.exports\<close>.\<close>

fun projectDeclarations ::
    "string \<Rightarrow> 'o operation list \<Rightarrow> providerExport list
      \<Rightarrow> providerError + providerMember list \<times> 'o operation list" where
  "projectDeclarations exportId operations [] = Inr ([], [])"
| "projectDeclarations exportId operations (declaration # declarations) =
     (if exp_kind declaration \<noteq> FunctionExport \<and> exp_kind declaration \<noteq> ValueExport
      then projectDeclarations exportId operations declarations
      else (case projectOperations exportId declaration operations of
          Inl e \<Rightarrow> Inl e
        | Inr additions \<Rightarrow>
            (case projectDeclarations exportId operations declarations of
               Inl e \<Rightarrow> Inl e
             | Inr (members, later) \<Rightarrow>
                 Inr (objectMember exportId declaration # members, additions @ later))))"

definition projectModule ::
    "'o operation list \<Rightarrow> providerModule \<Rightarrow> providerError + providerModule \<times> 'o operation list" where
  "projectModule operations module =
     (case objectMetadata module of
        None \<Rightarrow> Inr (module, [])
      | Some metadata \<Rightarrow>
          if list_ex exp_isDefault (mod_exports module)
          then Inl (DuplicateDefault (mod_moduleSpecifier module))
          else (case projectDeclarations (objectExportId module) operations (mod_exports module) of
              Inl e \<Rightarrow> Inl e
            | Inr (members, additions) \<Rightarrow>
                Inr (module\<lparr>mod_exports := mod_exports module @
                  [(classDeclaration (objectExportId module) (snd metadata) members)
                     \<lparr>exp_isDefault := True\<rparr>]\<rparr>, additions)))"

fun projectModules ::
    "'o operation list \<Rightarrow> providerModule list
      \<Rightarrow> providerError + providerModule list \<times> 'o operation list" where
  "projectModules operations [] = Inr ([], [])"
| "projectModules operations (module # modules) =
     (case projectModule operations module of
        Inl e \<Rightarrow> Inl e
      | Inr (projected, additions) \<Rightarrow>
          (case projectModules operations modules of
             Inl e \<Rightarrow> Inl e
           | Inr (rest, later) \<Rightarrow> Inr (projected # rest, additions @ later)))"

definition withNodeModuleObjects ::
    "'o packageDefinition \<Rightarrow> providerError + 'o packageDefinition" where
  "withNodeModuleObjects def =
     (case projectModules (pkg_operations def) (pkg_modules def) of
        Inl e \<Rightarrow> Inl e
      | Inr (modules, additions) \<Rightarrow>
          Inr (def\<lparr>pkg_modules := modules, pkg_operations := pkg_operations def @ additions\<rparr>))"

section \<open>What the pass computes\<close>

definition projectable :: "providerExport \<Rightarrow> bool" where
  "projectable x \<longleftrightarrow> exp_kind x = FunctionExport \<or> exp_kind x = ValueExport"

definition belongsTo :: "providerExport \<Rightarrow> 'o operation \<Rightarrow> bool" where
  "belongsTo x p \<longleftrightarrow> op_exportId p = exp_id x \<and> op_memberId p = None"

definition exportSignatureIds :: "providerExport \<Rightarrow> string list" where
  "exportSignatureIds x = map sig_id (optionalList (exp_signatures x))"

definition undeclaredSignatures :: "'o operation list \<Rightarrow> providerExport \<Rightarrow> string list" where
  "undeclaredSignatures ops x =
     filter (\<lambda>s. s \<notin> set (exportSignatureIds x))
       (concat (map (\<lambda>p. case op_signatureId p of None \<Rightarrow> [] | Some s \<Rightarrow> [s])
         (filter (belongsTo x) ops)))"

definition objectOperation :: "string \<Rightarrow> providerExport \<Rightarrow> 'o operation \<Rightarrow> 'o operation" where
  "objectOperation e x p = p
     \<lparr>op_exportId := e, op_memberId := Some (objectMemberId e x),
      op_signatureId := map_option (\<lambda>s. objectMemberId e x @ ''#'' @ s) (op_signatureId p),
      op_operationKind := (if exp_kind x = ValueExport then PropertyOperation
        else op_operationKind p)\<rparr>"

definition exportAdditions :: "'o operation list \<Rightarrow> string \<Rightarrow> providerExport \<Rightarrow> 'o operation list" where
  "exportAdditions ops e x = map (objectOperation e x) (filter (belongsTo x) ops)"

definition projectionFaults :: "'o operation list \<Rightarrow> providerModule \<Rightarrow> providerError list" where
  "projectionFaults ops m =
     (if objectMetadata m = None then []
      else if list_ex exp_isDefault (mod_exports m) then [DuplicateDefault (mod_moduleSpecifier m)]
      else map (UndeclaredSignature (objectExportId m))
        (concat (map (undeclaredSignatures ops) (filter projectable (mod_exports m)))))"

definition objectExport :: "string \<Rightarrow> providerModule \<Rightarrow> providerExport" where
  "objectExport n m =
     (classDeclaration (objectExportId m) n
        (map (objectMember (objectExportId m)) (filter projectable (mod_exports m))))
       \<lparr>exp_isDefault := True\<rparr>"

definition objectModule :: "providerModule \<Rightarrow> providerModule" where
  "objectModule m =
     (case objectMetadata m of
        None \<Rightarrow> m
      | Some metadata \<Rightarrow> m\<lparr>mod_exports := mod_exports m @ [objectExport (snd metadata) m]\<rparr>)"

definition addedOperations :: "'o operation list \<Rightarrow> providerModule \<Rightarrow> 'o operation list" where
  "addedOperations ops m =
     (if objectMetadata m = None then []
      else concat (map (exportAdditions ops (objectExportId m))
        (filter projectable (mod_exports m))))"

definition packageFaults :: "'o packageDefinition \<Rightarrow> providerError list" where
  "packageFaults def = concat (map (projectionFaults (pkg_operations def)) (pkg_modules def))"

definition objectPackage :: "'o packageDefinition \<Rightarrow> 'o packageDefinition" where
  "objectPackage def =
     def\<lparr>pkg_modules := map objectModule (pkg_modules def),
       pkg_operations := pkg_operations def @
         concat (map (addedOperations (pkg_operations def)) (pkg_modules def))\<rparr>"

definition firstFault :: "'e list \<Rightarrow> 'a \<Rightarrow> 'e + 'a" where
  "firstFault es r = (case es of [] \<Rightarrow> Inr r | e # _ \<Rightarrow> Inl e)"

lemma firstFault_simps [simp]:
  "firstFault [] r = Inr r"
  "firstFault (e # es) r = Inl e"
  by (simp_all add: firstFault_def)

lemma firstFault_if: "firstFault es r = (if es = [] then Inr r else Inl (hd es))"
  by (cases es) simp_all

lemma firstFault_Inr_iff: "firstFault es r = Inr r' \<longleftrightarrow> es = [] \<and> r' = r"
  by (auto simp: firstFault_def split: list.splits)

section \<open>The pass returns the closed form\<close>

lemma signatureIds_eq:
  "signatureIds i x s =
     (if s \<in> set (exportSignatureIds x) then Some (i @ ''#'' @ s) else None)"
proof -
  have "map_of (rev (map (\<lambda>g. (sig_id g, i @ ''#'' @ sig_id g)) gs)) s =
      (if s \<in> set (map sig_id gs) then Some (i @ ''#'' @ s) else None)" for gs
    by (induction gs rule: rev_induct) (auto simp: map_add_def)
  from this [of "optionalList (exp_signatures x)"] show ?thesis
    by (simp only: signatureIds_def exportSignatureIds_def)
qed

lemma projectOperations_eq:
  "projectOperations e x ops =
     firstFault (map (UndeclaredSignature e) (undeclaredSignatures ops x)) (exportAdditions ops e x)"
proof (induction ops)
  case Nil
  then show ?case by (simp add: undeclaredSignatures_def exportAdditions_def)
next
  case (Cons p ops)
  then show ?case
    by (auto simp: undeclaredSignatures_def exportAdditions_def objectOperation_def belongsTo_def
        signatureIds_eq Let_def firstFault_def split: option.splits list.splits)
qed

lemma projectDeclarations_eq:
  "projectDeclarations e ops xs =
     firstFault (map (UndeclaredSignature e)
         (concat (map (undeclaredSignatures ops) (filter projectable xs))))
       (map (objectMember e) (filter projectable xs),
        concat (map (exportAdditions ops e) (filter projectable xs)))"
proof (induction xs)
  case (Cons x xs)
  then show ?case
    by (auto simp: projectOperations_eq projectable_def firstFault_if hd_append hd_map)
qed simp

lemma projectModule_eq:
  "projectModule ops m = firstFault (projectionFaults ops m) (objectModule m, addedOperations ops m)"
proof (cases "objectMetadata m")
  case None
  then show ?thesis
    by (simp add: projectModule_def projectionFaults_def objectModule_def addedOperations_def)
next
  case (Some metadata)
  then show ?thesis
    by (simp add: projectModule_def projectionFaults_def objectModule_def addedOperations_def
        objectExport_def projectDeclarations_eq firstFault_if)
qed

lemma projectModules_eq:
  "projectModules ops ms =
     firstFault (concat (map (projectionFaults ops) ms))
       (map objectModule ms, concat (map (addedOperations ops) ms))"
proof (induction ms)
  case (Cons m ms)
  then show ?case by (auto simp: projectModule_eq firstFault_if hd_append)
qed simp

lemma withNodeModuleObjects_eq:
  "withNodeModuleObjects def = firstFault (packageFaults def) (objectPackage def)"
  by (simp add: withNodeModuleObjects_def projectModules_eq packageFaults_def objectPackage_def
      firstFault_if)

section \<open>When the pass throws\<close>

text \<open>
  The modules the pass can project: no default export yet, and every operation of a
  function or value export is for one of its signatures.
\<close>

definition projectableModule :: "'o operation list \<Rightarrow> providerModule \<Rightarrow> bool" where
  "projectableModule ops m \<longleftrightarrow>
     list_all (\<lambda>x. \<not> exp_isDefault x) (mod_exports m) \<and>
     list_all (\<lambda>x. undeclaredSignatures ops x = []) (filter projectable (mod_exports m))"

lemma projectionFaults_Nil_iff:
  "projectionFaults ops m = [] \<longleftrightarrow> objectMetadata m = None \<or> projectableModule ops m"
  by (auto simp: projectionFaults_def projectableModule_def list_all_iff list_ex_iff)

lemma packageFaults_Nil_iff:
  "packageFaults def = [] \<longleftrightarrow>
     list_all (\<lambda>m. objectMetadata m = None \<or> projectableModule (pkg_operations def) m) (pkg_modules def)"
  by (auto simp: packageFaults_def projectionFaults_Nil_iff list_all_iff)

lemma objectMetadata_update [simp]:
  "objectMetadata (m\<lparr>mod_exports := xs\<rparr>) = objectMetadata m"
  by (simp add: objectMetadata_def)

lemma objectModule_specifier [simp]:
  "mod_moduleSpecifier (objectModule m) = mod_moduleSpecifier m"
  "mod_providerModuleId (objectModule m) = mod_providerModuleId m"
  "mod_imports (objectModule m) = mod_imports m"
  "objectMetadata (objectModule m) = objectMetadata m"
  by (simp_all add: objectModule_def split: option.split)

lemma objectExport_simps [simp]:
  "exp_id (objectExport n m) = objectExportId m"
  "exp_name (objectExport n m) = n"
  "exp_isDefault (objectExport n m)"
  "exp_kind (objectExport n m) = ClassExport"
  "exp_members (objectExport n m) =
     Some (map (objectMember (objectExportId m)) (filter projectable (mod_exports m)))"
  by (simp_all add: objectExport_def typeDeclaration_def)

lemma objectModule_exports:
  "mod_exports (objectModule m) =
     mod_exports m @ (case objectMetadata m of None \<Rightarrow> [] | Some d \<Rightarrow> [objectExport (snd d) m])"
  by (simp add: objectModule_def split: option.split)

lemma objectModule_faults:
  assumes "objectMetadata m \<noteq> None"
  shows "projectionFaults ops (objectModule m) = [DuplicateDefault (mod_moduleSpecifier m)]"
  using assms by (auto simp: projectionFaults_def objectModule_exports)

section \<open>Points of a module object\<close>

definition objectPoint :: "string \<Rightarrow> providerExport \<Rightarrow> point \<Rightarrow> point" where
  "objectPoint e x = (\<lambda>(_, _, s, k, n).
     (e, Some (objectMemberId e x), map_option (\<lambda>s. objectMemberId e x @ ''#'' @ s) s, k, n))"

lemma objectMember_signature_id:
  "g \<in> set (optionalList (exp_signatures x)) \<Longrightarrow>
   the (signatureIds i x (sig_id g)) = i @ ''#'' @ sig_id g"
  by (simp add: signatureIds_eq exportSignatureIds_def)

lemma objectMember_points:
  assumes "projectable x"
  shows "memberPoints e (objectMember e x) = map (objectPoint e x) (exportPoints x)"
  using assms
  by (auto simp: projectable_def memberPoints_def objectMember_def exportPoints_def Let_def
      objectPoint_def signaturePoint_def objectMember_signature_id)

lemma objectOperation_point:
  assumes "exp_kind x = ValueExport \<Longrightarrow> op_operationKind p = PropertyOperation"
  shows "operationPoint (objectOperation e x p) = objectPoint e x (operationPoint p)"
  using assms by (auto simp: objectOperation_def operationPoint_def objectPoint_def)

lemma objectOperation_kind:
  "op_operationKind (objectOperation e x p) =
     (if exp_kind x = ValueExport then PropertyOperation else op_operationKind p)"
  by (simp add: objectOperation_def)

lemma exportPoints_projectable:
  "projectable x \<Longrightarrow> q \<in> set (exportPoints x) \<Longrightarrow> fst (snd q) = None"
  by (auto simp: exportPoints_def projectable_def signaturePoint_def)

lemma filter_exportsPoints:
  assumes "x \<in> set xs" and "distinct (map exp_id xs)" and "projectable x"
  shows "filter (\<lambda>q. fst q = exp_id x \<and> fst (snd q) = None) (exportsPoints xs) = exportPoints x"
proof -
  let ?Q = "\<lambda>q :: point. fst q = exp_id x \<and> fst (snd q) = None"
  from assms(1) obtain ys zs where xs: "xs = ys @ x # zs" by (meson split_list)
  have none: "filter ?Q (exportsPoints ws) = []" if "exp_id x \<notin> set (map exp_id ws)" for ws
    using that exportPoints_fst by (fastforce simp: exportsPoints_def filter_empty_conv)
  have "filter ?Q (exportPoints x) = exportPoints x"
    using assms(3) by (auto simp: filter_id_conv exportPoints_fst exportPoints_projectable)
  then show ?thesis
    using assms(2) none [of ys] none [of zs] by (auto simp: xs point_simps)
qed

lemma filter_operationsPoints:
  assumes "memberIndexWrites ops"
  shows "map operationPoint (filter (belongsTo x) ops) =
    filter (\<lambda>q. fst q = exp_id x \<and> fst (snd q) = None) (operationsPoints ops)"
  using assms
  by (induction ops)
    (auto simp: belongsTo_def memberIndexWrites_def operationsPoints_def operationPoint_def)

lemma mset_filter_eq: "mset xs = mset ys \<Longrightarrow> mset (filter P xs) = mset (filter P ys)"
  by simp

lemma export_operations_points:
  assumes "implements ops xs" and "memberIndexWrites ops"
    and "x \<in> set xs" and "distinct (map exp_id xs)" and "projectable x"
  shows "mset (map operationPoint (filter (belongsTo x) ops)) = mset (exportPoints x)"
  using assms mset_filter_eq [OF assms(1) [unfolded implements_def]]
  by (simp only: filter_operationsPoints filter_exportsPoints flip: filter_exportsPoints)

lemma exportAdditions_points:
  assumes "implements ops xs" and "memberIndexWrites ops"
    and "x \<in> set xs" and "distinct (map exp_id xs)" and "projectable x"
  shows "mset (operationsPoints (exportAdditions ops e x)) = mset (memberPoints e (objectMember e x))"
proof -
  note pts = export_operations_points [OF assms]
  have kinds: "op_operationKind p \<noteq> IndexSetOperation \<and>
      (exp_kind x = ValueExport \<longrightarrow> op_operationKind p = PropertyOperation)"
    if "p \<in> set (filter (belongsTo x) ops)" for p
  proof -
    have "operationPoint p \<in> set (exportPoints x)"
      using that mset_eq_setD [OF pts] by auto
    then show ?thesis
      using assms(5) by (auto simp: exportPoints_def projectable_def operationPoint_def signaturePoint_def)
  qed
  let ?F = "filter (belongsTo x) ops"
  have "filter (\<lambda>p. op_operationKind p \<noteq> IndexSetOperation) (exportAdditions ops e x) =
      exportAdditions ops e x"
    using kinds by (intro filter_True) (auto simp: exportAdditions_def objectOperation_kind)
  then have "operationsPoints (exportAdditions ops e x) =
      map operationPoint (map (objectOperation e x) ?F)"
    by (simp add: operationsPoints_def exportAdditions_def)
  also have "\<dots> = map (objectPoint e x) (map operationPoint ?F)"
    unfolding map_map comp_def using kinds by (intro map_cong refl objectOperation_point) simp
  finally have "mset (operationsPoints (exportAdditions ops e x)) =
      image_mset (objectPoint e x) (mset (map operationPoint ?F))"
    by (simp only: mset_map)
  also have "\<dots> = mset (map (objectPoint e x) (exportPoints x))"
    unfolding pts by simp
  finally show ?thesis by (simp only: objectMember_points [OF assms(5)])
qed

section \<open>The contract of the projected package\<close>

text \<open>
  The contract of a package: its operations implement its declarations, and export
  identities are unique.
\<close>

definition packageContract :: "'o packageDefinition \<Rightarrow> bool" where
  "packageContract def \<longleftrightarrow>
     implements (pkg_operations def) (packageExports (pkg_modules def)) \<and>
     distinct (map exp_id (packageExports (pkg_modules def))) \<and>
     memberIndexWrites (pkg_operations def)"

lemma exports_subset: "m \<in> set ms \<Longrightarrow> set (mod_exports m) \<subseteq> set (packageExports ms)"
  by (auto simp: packageExports_def)

lemma concat_additions_points:
  assumes "implements ops xs" and "memberIndexWrites ops" and "distinct (map exp_id xs)"
    and "set ys \<subseteq> set xs" and "list_all projectable ys"
  shows "mset (operationsPoints (concat (map (exportAdditions ops e) ys))) =
    mset (membersPoints e (map (objectMember e) ys))"
  using assms(4,5)
  by (induction ys) (auto simp: point_simps exportAdditions_points [OF assms(1,2) _ assms(3)])

lemma addedOperations_points:
  assumes "implements ops (packageExports ms)" and "memberIndexWrites ops"
    and "distinct (map exp_id (packageExports ms))" and "m \<in> set ms"
  shows "mset (exportsPoints (mod_exports (objectModule m))) =
    mset (exportsPoints (mod_exports m)) + mset (operationsPoints (addedOperations ops m))"
proof (cases "objectMetadata m")
  case None
  then show ?thesis by (simp add: addedOperations_def objectModule_def point_simps)
next
  case (Some d)
  have "mset (operationsPoints (addedOperations ops m)) =
      mset (exportPoints (objectExport (snd d) m))"
    using Some concat_additions_points [OF assms(1-3), of "filter projectable (mod_exports m)"]
      exports_subset [OF assms(4)]
    by (auto simp: addedOperations_def exportPoints_def membersPoints_def list_all_iff)
  then show ?thesis using Some by (simp add: objectModule_exports point_simps)
qed

lemma package_additions_points:
  assumes "implements ops (packageExports ms)" and "memberIndexWrites ops"
    and "distinct (map exp_id (packageExports ms))" and "set ns \<subseteq> set ms"
  shows "mset (exportsPoints (packageExports (map objectModule ns))) =
    mset (exportsPoints (packageExports ns)) +
    mset (operationsPoints (concat (map (addedOperations ops) ns)))"
  using assms(4)
proof (induction ns)
  case (Cons m ns)
  then show ?case
    using addedOperations_points [OF assms(1-3), of m]
    by (auto simp: packageExports_Cons point_simps ac_simps)
qed (simp add: packageExports_def point_simps)

lemma objectPackage_implements:
  assumes "packageContract def"
  shows "implements (pkg_operations (objectPackage def)) (packageExports (pkg_modules (objectPackage def)))"
  using assms package_additions_points [of "pkg_operations def" "pkg_modules def" "pkg_modules def"]
  by (simp add: packageContract_def implements_def objectPackage_def point_simps ac_simps)

subsection \<open>No throw under the contract\<close>

lemma implements_declared:
  assumes "packageContract def" and "x \<in> set (packageExports (pkg_modules def))" and "projectable x"
  shows "undeclaredSignatures (pkg_operations def) x = []"
proof -
  have "s \<in> set (exportSignatureIds x)"
    if "p \<in> set (pkg_operations def)" "belongsTo x p" "op_signatureId p = Some s" for p s
  proof -
    have "operationPoint p \<in> set (exportPoints x)"
      using that mset_eq_setD [OF export_operations_points [OF _ _ assms(2) _ assms(3)]] assms(1)
      by (fastforce simp: packageContract_def)
    then show ?thesis
      using that assms(3)
      by (auto simp: projectable_def exportPoints_def operationPoint_def signaturePoint_def
          exportSignatureIds_def)
  qed
  then show ?thesis by (auto simp: undeclaredSignatures_def filter_empty_conv split: option.splits)
qed

lemma contract_no_faults:
  assumes "packageContract def"
    and "list_all (\<lambda>m. objectMetadata m \<noteq> None \<longrightarrow> list_all (\<lambda>x. \<not> exp_isDefault x) (mod_exports m))
      (pkg_modules def)"
  shows "packageFaults def = []"
  using assms(2) implements_declared [OF assms(1)] exports_subset
  by (fastforce simp: packageFaults_Nil_iff projectableModule_def list_all_iff)

subsection \<open>The contract is kept\<close>

lemma addedOperations_members: "p \<in> set (addedOperations ops m) \<Longrightarrow> op_memberId p \<noteq> None"
  by (auto simp: addedOperations_def exportAdditions_def objectOperation_def split: if_splits)

lemma objectPackage_index:
  "memberIndexWrites (pkg_operations def) \<Longrightarrow> memberIndexWrites (pkg_operations (objectPackage def))"
  using addedOperations_members by (fastforce simp: objectPackage_def memberIndexWrites_def list_all_iff)

text \<open>The identity of a module object stands below the specifier of its module.\<close>

lemma moduleObjects_scoped: "list_all (\<lambda>(s, _). idScope (s @ ''.default'') = s) moduleObjects"
  by (simp add: moduleObjects_def)

lemma objectExportId_scope:
  assumes "objectMetadata m \<noteq> None"
  shows "idScope (objectExportId m) = mod_moduleSpecifier m"
  using assms moduleObjects_scoped
  by (auto simp: objectMetadata_def find_None_iff list_all_iff objectExportId_def)

definition scopedPackage :: "'o packageDefinition \<Rightarrow> bool" where
  "scopedPackage def \<longleftrightarrow>
     distinct (map mod_moduleSpecifier (pkg_modules def)) \<and>
     list_all moduleScoped (pkg_modules def) \<and>
     list_all (\<lambda>m. objectMetadata m = None \<or> defaultFree m) (pkg_modules def)"

lemma objectModule_scoped: "moduleScoped m \<Longrightarrow> moduleScoped (objectModule m)"
  by (auto simp: moduleScoped_def objectModule_exports objectExportId_scope split: option.splits)

lemma objectModule_ids:
  assumes "distinct (map exp_id (mod_exports m))" and "objectMetadata m = None \<or> defaultFree m"
  shows "distinct (map exp_id (mod_exports (objectModule m)))"
  using assms
  by (auto simp: objectModule_exports defaultFree_def list_all_iff objectExportId_def split: option.splits)

lemma packageExports_ids:
  "distinct (map exp_id (packageExports ms)) \<Longrightarrow> m \<in> set ms \<Longrightarrow> distinct (map exp_id (mod_exports m))"
  by (induction ms) (auto simp: packageExports_def)

lemma scoped_no_faults:
  assumes "packageContract def" and "scopedPackage def"
  shows "packageFaults def = []"
  using assms
  by (intro contract_no_faults) (auto simp: scopedPackage_def defaultFree_def list_all_iff)

lemma objectPackage_component:
  assumes "packageContract def" and "scopedPackage def"
  shows "component (pkg_modules (objectPackage def)) (pkg_operations (objectPackage def))"
proof
  show "implements (pkg_operations (objectPackage def)) (packageExports (pkg_modules (objectPackage def)))"
    by (rule objectPackage_implements [OF assms(1)])
  show "memberIndexWrites (pkg_operations (objectPackage def))"
    using assms(1) by (simp add: packageContract_def objectPackage_index)
  show "list_all moduleScoped (pkg_modules (objectPackage def))"
    using assms(2) by (auto simp: scopedPackage_def objectPackage_def list_all_iff objectModule_scoped)
  show "list_all (\<lambda>m. distinct (map exp_id (mod_exports m))) (pkg_modules (objectPackage def))"
    using assms
    by (auto simp: packageContract_def scopedPackage_def objectPackage_def list_all_iff
        intro: objectModule_ids packageExports_ids)
qed

lemma objectPackage_contract:
  assumes "packageContract def" and "scopedPackage def"
  shows "packageContract (objectPackage def)"
proof -
  have c: "component (pkg_modules (objectPackage def)) (pkg_operations (objectPackage def))"
    by (rule objectPackage_component [OF assms])
  have "map mod_moduleSpecifier (pkg_modules (objectPackage def)) = map mod_moduleSpecifier (pkg_modules def)"
    by (simp add: objectPackage_def)
  then have "distinct (map exp_id (packageExports (pkg_modules (objectPackage def))))"
    using component.package_ids [OF c] assms(2) by (simp add: scopedPackage_def)
  then show ?thesis
    using component.implemented [OF c] component.index_writes [OF c] by (simp add: packageContract_def)
qed

subsection \<open>Every point stays unique\<close>

lemma objectPoint_inj:
  assumes "projectable x"
  shows "inj_on (objectPoint e x) (set (exportPoints x))"
proof (rule inj_onI)
  fix q r
  assume q: "q \<in> set (exportPoints x)" and r: "r \<in> set (exportPoints x)"
    and eq: "objectPoint e x q = objectPoint e x r"
  have "fst q = fst r" "fst (snd q) = fst (snd r)"
    using q r assms by (simp_all add: exportPoints_fst exportPoints_projectable)
  moreover have "snd (snd q) = snd (snd r)"
    using eq by (auto simp: objectPoint_def split: prod.splits elim: option.inj_map_strong [rotated])
  ultimately show "q = r" by (simp add: prod_eq_iff)
qed

lemma objectMember_points_distinct:
  assumes "projectable x" and "distinct (exportPoints x)"
  shows "distinct (memberPoints e (objectMember e x))"
  using assms by (simp add: objectMember_points distinct_map objectPoint_inj)

lemma objectMember_points_member:
  "projectable x \<Longrightarrow> q \<in> set (memberPoints e (objectMember e x)) \<Longrightarrow>
   fst (snd q) = Some (objectMemberId e x)"
  by (auto simp: objectMember_points objectPoint_def)

lemma objectMembers_points_distinct:
  assumes "distinct (map exp_id xs)" and "list_all projectable xs" and "pointsDistinct xs"
  shows "distinct (membersPoints e (map (objectMember e) xs))"
  using assms
proof (induction xs)
  case (Cons x xs)
  have "q \<notin> set (membersPoints e (map (objectMember e) xs))"
    if q: "q \<in> set (memberPoints e (objectMember e x))" for q
  proof
    assume "q \<in> set (membersPoints e (map (objectMember e) xs))"
    then obtain y where y: "y \<in> set xs" "q \<in> set (memberPoints e (objectMember e y))"
      by (auto simp: membersPoints_def)
    moreover have "projectable x" "projectable y"
      using Cons.prems(2) y(1) by (auto simp: list_all_iff)
    ultimately have "exp_id x = exp_id y"
      using objectMember_points_member [OF _ q] objectMember_points_member [OF _ y(2)]
      by (simp add: objectMemberId_def)
    then show False using Cons.prems(1) y(1) by auto
  qed
  then show ?case
    using Cons by (auto simp: membersPoints_simps pointsDistinct_simps allDistinct_iff
        objectMember_points_distinct)
qed (simp add: membersPoints_simps)

lemma pointsDistinct_iff:
  assumes "distinct (map exp_id xs)"
  shows "distinct (exportsPoints xs) \<longleftrightarrow> pointsDistinct xs"
proof
  assume "distinct (exportsPoints xs)"
  then show "pointsDistinct xs"
    by (induction xs) (auto simp: exportsPoints_simps pointsDistinct_simps allDistinct_iff)
qed (rule exportsPoints_distinct [OF assms])

lemma objectModule_points:
  assumes "distinct (map exp_id (mod_exports m))" and "pointsDistinct (mod_exports m)"
  shows "pointsDistinct (mod_exports (objectModule m))"
proof -
  have "distinct (exportPoints (objectExport n m))" for n
  proof -
    have "distinct (membersPoints (objectExportId m)
        (map (objectMember (objectExportId m)) (filter projectable (mod_exports m))))"
      using assms
      by (intro objectMembers_points_distinct)
        (auto simp: distinct_map_filter list_all_iff pointsDistinct_def)
    then show ?thesis by (simp add: objectExport_def point_simps)
  qed
  then show ?thesis
    using assms(2)
    by (auto simp: objectModule_exports pointsDistinct_simps allDistinct_iff split: option.split)
qed

lemma objectPackage_points:
  assumes "packageContract def" and "scopedPackage def"
    and "distinct (exportsPoints (packageExports (pkg_modules def)))"
  shows "distinct (exportsPoints (packageExports (pkg_modules (objectPackage def))))"
proof (rule exportsPoints_distinct)
  show "distinct (map exp_id (packageExports (pkg_modules (objectPackage def))))"
    using objectPackage_contract [OF assms(1,2)] by (simp add: packageContract_def)
  have ids: "distinct (map exp_id (packageExports (pkg_modules def)))"
    using assms(1) by (simp add: packageContract_def)
  have "pointsDistinct (mod_exports (objectModule m))" if "m \<in> set (pkg_modules def)" for m
    using assms(3) that packageExports_ids [OF ids that] exports_subset [OF that]
    unfolding pointsDistinct_iff [OF ids]
    by (intro objectModule_points) (auto simp: pointsDistinct_def list_all_iff)
  then show "pointsDistinct (packageExports (pkg_modules (objectPackage def)))"
    by (auto simp: pointsDistinct_def list_all_iff packageExports_def objectPackage_def)
qed

subsection \<open>The interface of the pass\<close>

text \<open>
  What the pass relies on: a package that meets the contract, whose export identities stand
  below distinct module specifiers and whose projected modules have no default export.
\<close>

locale projectable_package =
  fixes def :: "'o packageDefinition"
  assumes contract: "packageContract def"
    and scoped: "scopedPackage def"
begin

lemma pass_returns: "withNodeModuleObjects def = Inr (objectPackage def)"
  using scoped_no_faults [OF contract scoped] by (simp add: withNodeModuleObjects_eq)

lemma result_contract: "packageContract (objectPackage def)"
  by (rule objectPackage_contract [OF contract scoped])

lemma result_component:
  "component (pkg_modules (objectPackage def)) (pkg_operations (objectPackage def))"
  by (rule objectPackage_component [OF contract scoped])

end

section \<open>What the pass keeps\<close>

text \<open>An added operation forwards to the native entity of an operation of the package.\<close>

definition forwards :: "'o operation \<Rightarrow> 'o operation \<Rightarrow> bool" where
  "forwards p' p \<longleftrightarrow>
     op_target p' = op_target p \<and> op_receiverType p' = op_receiverType p \<and>
     op_parameterTypes p' = op_parameterTypes p \<and> op_resultType p' = op_resultType p \<and>
     op_errorType p' = op_errorType p \<and> op_raises p' = op_raises p"

lemma objectOperation_simps:
  "forwards (objectOperation e x p) p"
  "op_exportId (objectOperation e x p) = e"
  "op_memberId (objectOperation e x p) = Some (objectMemberId e x)"
  by (simp_all add: forwards_def objectOperation_def)

lemma addedOperationsE:
  assumes "p' \<in> set (addedOperations ops m)"
  obtains x p where "objectMetadata m \<noteq> None" "x \<in> set (mod_exports m)" "projectable x"
    "p \<in> set ops" "belongsTo x p" "p' = objectOperation (objectExportId m) x p"
  using assms by (auto simp: addedOperations_def exportAdditions_def split: if_splits)

lemma added_forwards:
  assumes "p' \<in> set (concat (map (addedOperations ops) ms))"
  shows "\<exists>m \<in> set ms. \<exists>p \<in> set ops. objectMetadata m \<noteq> None \<and> forwards p' p \<and>
    op_memberId p = None \<and> op_exportId p' = objectExportId m"
proof -
  from assms obtain m where m: "m \<in> set ms" and "p' \<in> set (addedOperations ops m)" by auto
  from this(2) obtain x p where "objectMetadata m \<noteq> None" "p \<in> set ops" "belongsTo x p"
      "p' = objectOperation (objectExportId m) x p"
    by (rule addedOperationsE)
  with m show ?thesis
    by (intro bexI [of _ m] bexI [of _ p]) (auto simp: objectOperation_simps belongsTo_def)
qed

text \<open>The second run finds the default exports of the first.\<close>

lemma objectPackage_unlisted:
  assumes "filter (\<lambda>m. objectMetadata m \<noteq> None) (pkg_modules def) = []"
  shows "objectPackage def = def"
proof -
  have "objectModule m = m" "addedOperations ops m = []"
    if "m \<in> set (pkg_modules def)" for m and ops :: "'a operation list"
    using assms that
    by (cases "objectMetadata m"; auto simp: filter_empty_conv objectModule_def addedOperations_def)+
  then have "map objectModule (pkg_modules def) = pkg_modules def"
      "concat (map (addedOperations (pkg_operations def)) (pkg_modules def)) = []"
    by (simp_all add: map_idI)
  then show ?thesis by (simp add: objectPackage_def)
qed

lemma objectPackage_faults:
  "packageFaults (objectPackage def) =
     map (\<lambda>m. DuplicateDefault (mod_moduleSpecifier m))
       (filter (\<lambda>m. objectMetadata m \<noteq> None) (pkg_modules def))"
proof -
  have "concat (map (projectionFaults ops) (map objectModule ms)) =
      map (\<lambda>m. DuplicateDefault (mod_moduleSpecifier m)) (filter (\<lambda>m. objectMetadata m \<noteq> None) ms)"
    for ops :: "'a operation list" and ms
  proof (induction ms)
    case (Cons m ms)
    have "projectionFaults ops (objectModule m) =
        (if objectMetadata m = None then [] else [DuplicateDefault (mod_moduleSpecifier m)])"
      using objectModule_faults [of m ops] by (simp add: projectionFaults_def)
    with Cons show ?case by (simp del: objectModule_specifier)
  qed simp
  then show ?thesis by (simp add: packageFaults_def objectPackage_def)
qed

subsection \<open>References\<close>

lemma objectMember_refs:
  "projectable x \<Longrightarrow> set (memberRefs (objectMember e x)) \<subseteq> set (exportRefs x)"
  by (auto simp: projectable_def memberRefs_def objectMember_def exportRefs_def Let_def
      signatureRefs_def optionalTypeRefs_def)

lemma objectExport_refs: "set (exportRefs (objectExport n m)) \<subseteq> set (moduleRefs m)"
  using objectMember_refs
  by (fastforce simp: objectExport_def ref_simps moduleRefs_def)

lemma objectModule_visible:
  "set (declaredTypes m) \<subseteq> set (declaredTypes (objectModule m))"
  "importedTypes (objectModule m) = importedTypes m"
  by (auto simp: declaredTypes_def importedTypes_def objectModule_exports)

lemma objectModule_refs: "set (moduleRefs (objectModule m)) \<subseteq> set (moduleRefs m)"
  using objectExport_refs
  by (fastforce simp: objectModule_exports moduleRefs_def split: option.splits)

lemma objectModule_refsResolved: "refsResolved m \<Longrightarrow> refsResolved (objectModule m)"
  using objectModule_refs [of m] objectModule_visible [of m]
  by (auto simp: refsResolved_def list_all_iff)

lemma objectModules_importsResolved:
  "importsResolved ms \<Longrightarrow> importsResolved (map objectModule ms)"
  using objectModule_visible by (fastforce simp: importsResolved_def list_all_iff)

subsection \<open>The native side\<close>

lemma nativeShape_relabel:
  assumes "op_operationKind p' = op_operationKind p" and "forwards p' p"
  shows "nativeShape p' = nativeShape p"
  using assms
  by (cases "op_target p") (simp_all add: nativeShape_def forwards_def parameterCount_def)

lemma objectOperation_native:
  assumes "nativeOperation ts p" and "op_receiverType p = None"
    and "exp_kind x = ValueExport \<Longrightarrow> op_operationKind p = PropertyOperation"
  shows "nativeOperation ts (objectOperation e x p)"
  using assms nativeShape_relabel [of "objectOperation e x p" p] objectOperation_simps(1) [of e x p]
  by (simp add: nativeOperation_def receiverMapped_def objectOperation_kind forwards_def)

text \<open>
  A function or value export has no type definition, so none of its operations has a
  receiver.
\<close>

lemma export_receiver:
  assumes "typesExact ts xs" and "distinct (map exp_id xs)" and "x \<in> set xs" and "projectable x"
    and "nativeOperation ts p" and "belongsTo x p"
  shows "op_receiverType p = None"
proof (rule ccontr)
  assume "op_receiverType p \<noteq> None"
  then obtain r where "typeOf ts (exp_id x) = Some r"
    using assms(5,6) by (auto simp: nativeOperation_def receiverMapped_def belongsTo_def)
  then obtain t where "t \<in> set ts" "type_exportId t = exp_id x" by (blast dest: typeOf_SomeD)
  then obtain y where "y \<in> set xs" "typeExport y" "exp_id y = exp_id x"
    using typesExact_declared [OF assms(1)] by metis
  then have "typeExport x" using assms(2,3) by (metis distinct_map inj_onD)
  then show False using assms(4) by (auto simp: typeExport_def projectable_def)
qed

lemma operation_property:
  assumes "packageContract def" and "x \<in> set (packageExports (pkg_modules def))"
    and "p \<in> set (pkg_operations def)" and "belongsTo x p" and "exp_kind x = ValueExport"
  shows "op_operationKind p = PropertyOperation"
proof -
  have "projectable x" using assms(5) by (simp add: projectable_def)
  then have "operationPoint p \<in> set (exportPoints x)"
    using assms mset_eq_setD [OF export_operations_points [OF _ _ assms(2)]]
    by (fastforce simp: packageContract_def)
  then show ?thesis using assms(5) by (auto simp: exportPoints_def operationPoint_def)
qed

lemma objectPackage_native:
  assumes "packageContract def" and "typesExact ts (packageExports (pkg_modules def))"
    and "nativeOperations ts (pkg_operations def)"
  shows "nativeOperations ts (pkg_operations (objectPackage def))"
proof -
  have ids: "distinct (map exp_id (packageExports (pkg_modules def)))"
    using assms(1) by (simp add: packageContract_def)
  have "nativeOperation ts p'"
    if "m \<in> set (pkg_modules def)" and "p' \<in> set (addedOperations (pkg_operations def) m)" for m p'
    using that(2)
  proof (rule addedOperationsE)
    fix x p
    assume x: "x \<in> set (mod_exports m)" "projectable x" and p: "p \<in> set (pkg_operations def)" "belongsTo x p"
      and p': "p' = objectOperation (objectExportId m) x p"
    have in_package: "x \<in> set (packageExports (pkg_modules def))"
      using exports_subset [OF that(1)] x(1) by blast
    have native: "nativeOperation ts p"
      using assms(3) p(1) by (simp add: nativeOperations_def list_all_iff)
    show "nativeOperation ts p'"
      unfolding p'
      using native export_receiver [OF assms(2) ids in_package x(2) native p(2)]
        operation_property [OF assms(1) in_package p]
      by (rule objectOperation_native)
  qed
  then show ?thesis
    using assms(3) by (auto simp: objectPackage_def nativeOperations_def list_all_iff)
qed

text \<open>
  The object of a module that has a function or a value has static members only, so it needs
  no native type.
\<close>

definition objectsInhabited :: "providerModule list \<Rightarrow> bool" where
  "objectsInhabited ms \<longleftrightarrow>
     list_all (\<lambda>m. objectMetadata m = None \<or> list_ex projectable (mod_exports m)) ms"

lemma objectExport_static:
  assumes "list_ex projectable (mod_exports m)"
  shows "\<not> instanceExport (objectExport n m)"
proof -
  have "mem_static (objectMember e x)" for e x by (simp add: objectMember_def Let_def)
  moreover have "filter projectable (mod_exports m) \<noteq> []"
    using assms by (auto simp: list_ex_iff filter_empty_conv)
  ultimately show ?thesis by (simp add: objectExport_def ref_simps list_all_iff)
qed

lemma objectPackage_types:
  "objectsInhabited ms \<Longrightarrow>
   filter instanceExport (packageExports (map objectModule ms)) =
   filter instanceExport (packageExports ms)"
  by (induction ms)
    (auto simp: packageExports_def objectModule_exports objectExport_static objectsInhabited_def
      split: option.split)

lemma objectPackage_typesExact:
  "objectsInhabited (pkg_modules def) \<Longrightarrow> typesExact ts (packageExports (pkg_modules def)) \<Longrightarrow>
   typesExact ts (packageExports (pkg_modules (objectPackage def)))"
  by (simp add: typesExact_def objectPackage_def objectPackage_types)

section \<open>A sample package\<close>

text \<open>One module with one function, as an instance of the assumptions below.\<close>

definition sampleOperation :: "unit operation" where
  "sampleOperation = functionCall ''node:os::hostname'' ''node:os::hostname()'' ''os_info'' ''host_name''
     [] (OpaqueTarget ()) True"

definition samplePackage :: "unit packageDefinition" where
  "samplePackage =
     \<lparr>pkg_id = ''sample'', pkg_displayName = ''Sample'', pkg_version = ''0.0.1'',
      pkg_moduleAliases = [],
      pkg_modules = [moduleOf ''node:os'' ''sample.os'' None [fnExport ''node:os'' ''hostname'' [] stringType]],
      pkg_types = [], pkg_surfaceMembers = [], pkg_operations = [sampleOperation],
      pkg_binaryEpilogues = [], pkg_runtimePackages = []\<rparr>"

lemma sample_projectable: "packageContract samplePackage" "scopedPackage samplePackage"
  by (simp_all add: samplePackage_def sampleOperation_def packageContract_def scopedPackage_def
      packageExports_def implements_def point_simps id_simps mod_exports_moduleOf
      mod_moduleSpecifier_moduleOf moduleScoped_def defaultFree_def objectMetadata_def moduleObjects_def)

interpretation sample: projectable_package samplePackage
  by unfold_locales (rule sample_projectable)+

lemma sample_listed:
  "filter (\<lambda>m. objectMetadata m \<noteq> None) (pkg_modules samplePackage) =
     [moduleOf ''node:os'' ''sample.os'' None [fnExport ''node:os'' ''hostname'' [] stringType]]"
  by (simp add: samplePackage_def objectMetadata_def moduleObjects_def mod_moduleSpecifier_moduleOf)

lemma projectable_fnExport: "projectable (fnExport m n ps r)"
  by (simp add: projectable_def fnExport_def fnExportWith_def overloadedFunctionExport_def
      functionDeclaration_def Let_def)

lemma sample_typed:
  "typesExact (pkg_types samplePackage) (packageExports (pkg_modules samplePackage))"
  "nativeOperations (pkg_types samplePackage) (pkg_operations samplePackage)"
  "list_all refsResolved (pkg_modules samplePackage)"
  "importsResolved (pkg_modules samplePackage)"
  "distinct (exportsPoints (packageExports (pkg_modules samplePackage)))"
  "objectsInhabited (pkg_modules samplePackage)"
  by (simp_all add: samplePackage_def sampleOperation_def typesExact_def packageExports_def ref_simps
      mod_exports_moduleOf mod_imports_moduleOf native_simps refsResolved_def moduleRefs_def
      importsResolved_def importedTypes_def point_simps objectsInhabited_def projectable_fnExport)

section \<open>Properties\<close>

text \<open>
  C14: The pass returns exactly its closed form. If the package has a fault it throws the
  first one in the order of modules, declarations and operations, and otherwise it returns
  the package in which every listed module has its object export at the end and the
  operations are followed by the relabelled operations of the function and value exports.
\<close>

theorem module_objects_result:
  "withNodeModuleObjects def =
     (case packageFaults def of [] \<Rightarrow> Inr (objectPackage def) | e # _ \<Rightarrow> Inl e)"
  by (simp add: withNodeModuleObjects_eq firstFault_def)

text \<open>
  C15: The pass succeeds if and only if every module it projects has no default export yet
  and no operation for a signature its declaration lacks.
\<close>

theorem module_objects_succeeds_iff:
  "(\<exists>def'. withNodeModuleObjects def = Inr def') \<longleftrightarrow>
     list_all (\<lambda>m. objectMetadata m = None \<or> projectableModule (pkg_operations def) m) (pkg_modules def)"
  by (simp add: withNodeModuleObjects_eq firstFault_Inr_iff packageFaults_Nil_iff)

text \<open>
  C16: The pass is not run twice. On its own result \<open>def'\<close> it throws
  \<open>DuplicateDefault\<close> for the first listed module, because every listed module of
  \<open>def'\<close> has a default export; it returns only if no module is listed, and then
  \<open>def'\<close> again.
\<close>

theorem module_objects_twice:
  assumes "withNodeModuleObjects def = Inr def'"
  shows "withNodeModuleObjects def' =
     (case filter (\<lambda>m. objectMetadata m \<noteq> None) (pkg_modules def) of
        [] \<Rightarrow> Inr def'
      | m # _ \<Rightarrow> Inl (DuplicateDefault (mod_moduleSpecifier m)))"
proof -
  have result: "def' = objectPackage def"
    using assms by (simp add: withNodeModuleObjects_eq firstFault_Inr_iff)
  show ?thesis
    by (simp add: result withNodeModuleObjects_eq objectPackage_faults firstFault_def
        objectPackage_unlisted split: list.split)
qed

theorem module_objects_twice_witness:
  "\<exists>def'. withNodeModuleObjects samplePackage = Inr def' \<and>
    withNodeModuleObjects def' = Inl (DuplicateDefault ''node:os'')"
  using module_objects_twice [OF sample.pass_returns, unfolded sample_listed] sample.pass_returns
  by (simp add: mod_moduleSpecifier_moduleOf)

text \<open>
  C17: The pass keeps the contract. On a package whose operations implement its declarations,
  with unique identities below distinct specifiers and no default export in a listed module,
  it returns, and the operations of the result implement its declarations again, each point
  once if it was so before.
\<close>

theorem module_objects_contract:
  assumes "packageContract def" and "scopedPackage def"
    and "distinct (exportsPoints (packageExports (pkg_modules def)))"
  shows "\<exists>def'. withNodeModuleObjects def = Inr def' \<and> packageContract def' \<and>
    distinct (operationsPoints (pkg_operations def'))"
proof -
  note laws = projectable_package.intro [OF assms(1,2)]
  show ?thesis
    using projectable_package.pass_returns [OF laws] projectable_package.result_contract [OF laws]
      objectPackage_points [OF assms]
    by (auto simp: packageContract_def intro: implements_distinct)
qed

theorem module_objects_contract_witness:
  "\<exists>def'. withNodeModuleObjects samplePackage = Inr def' \<and> packageContract def' \<and>
    distinct (operationsPoints (pkg_operations def'))"
  by (rule module_objects_contract [OF sample_projectable sample_typed(5)])

text \<open>
  C18: The pass only adds. The result differs from the argument in its modules and operations;
  the modules keep their specifier, identity and imports and have at most one export more, the
  operations are followed by new ones, and each of those stands on the object of a listed
  module and forwards to the native entity, parameters, result and errors of an operation that
  was there.
\<close>

theorem module_objects_adds:
  assumes "withNodeModuleObjects def = Inr def'"
  shows "\<exists>added. pkg_operations def' = pkg_operations def @ added \<and>
    list_all (\<lambda>p'. list_ex (\<lambda>m. objectMetadata m \<noteq> None \<and> op_exportId p' = objectExportId m)
        (pkg_modules def) \<and> list_ex (forwards p') (pkg_operations def)) added \<and>
    list_all2 (\<lambda>m m'. mod_moduleSpecifier m' = mod_moduleSpecifier m \<and>
        mod_providerModuleId m' = mod_providerModuleId m \<and> mod_imports m' = mod_imports m \<and>
        mod_exports m = take (length (mod_exports m)) (mod_exports m') \<and>
        length (mod_exports m') = length (mod_exports m) + (if objectMetadata m = None then 0 else 1))
      (pkg_modules def) (pkg_modules def') \<and>
    def' = def\<lparr>pkg_modules := pkg_modules def', pkg_operations := pkg_operations def'\<rparr>"
proof -
  have result: "def' = objectPackage def"
    using assms by (simp add: withNodeModuleObjects_eq firstFault_Inr_iff)
  let ?added = "concat (map (addedOperations (pkg_operations def)) (pkg_modules def))"
  have "list_all (\<lambda>p'. list_ex (\<lambda>m. objectMetadata m \<noteq> None \<and> op_exportId p' = objectExportId m)
      (pkg_modules def) \<and> list_ex (forwards p') (pkg_operations def)) ?added"
    unfolding list_all_iff list_ex_iff using added_forwards by fast
  moreover have "list_all2 (\<lambda>m m'. mod_moduleSpecifier m' = mod_moduleSpecifier m \<and>
        mod_providerModuleId m' = mod_providerModuleId m \<and> mod_imports m' = mod_imports m \<and>
        mod_exports m = take (length (mod_exports m)) (mod_exports m') \<and>
        length (mod_exports m') = length (mod_exports m) + (if objectMetadata m = None then 0 else 1))
      ms (map objectModule ms)" for ms
    by (induction ms) (auto simp: objectModule_exports)
  ultimately show ?thesis
    unfolding result by (intro exI [of _ ?added]) (simp add: objectPackage_def)
qed

theorem module_objects_adds_witness:
  "\<exists>def' added. withNodeModuleObjects samplePackage = Inr def' \<and>
    pkg_operations def' = pkg_operations samplePackage @ added"
  using module_objects_adds [OF sample.pass_returns] sample.pass_returns by blast

text \<open>
  C19: The pass keeps the native side and the references of a package in order. Let the
  operations implement the declarations (\<open>packageContract\<close>), the listed modules have
  distinct specifiers and no default export (\<open>scopedPackage\<close>), and let every listed
  module have a function or a value, so that no object is empty (\<open>objectsInhabited\<close>; an
  empty object would need a type definition that the pass does not add). If the type
  definitions are exact, every operation has its native shape and receiver, and references and
  imports are resolved, then the pass returns a package of which the same holds.
\<close>

theorem module_objects_typed:
  assumes "packageContract def" and "scopedPackage def"
    and "typesExact (pkg_types def) (packageExports (pkg_modules def))"
    and "objectsInhabited (pkg_modules def)"
    and "nativeOperations (pkg_types def) (pkg_operations def)"
    and "list_all refsResolved (pkg_modules def)" and "importsResolved (pkg_modules def)"
  shows "\<exists>def'. withNodeModuleObjects def = Inr def' \<and>
    typesExact (pkg_types def') (packageExports (pkg_modules def')) \<and>
    nativeOperations (pkg_types def') (pkg_operations def') \<and>
    list_all refsResolved (pkg_modules def') \<and> importsResolved (pkg_modules def')"
proof -
  note laws = projectable_package.intro [OF assms(1,2)]
  have types: "pkg_types (objectPackage def) = pkg_types def"
    and modules: "pkg_modules (objectPackage def) = map objectModule (pkg_modules def)"
    by (simp_all add: objectPackage_def)
  have "list_all refsResolved (map objectModule (pkg_modules def))"
    using assms(6) by (auto simp: list_all_iff objectModule_refsResolved)
  then show ?thesis
    using projectable_package.pass_returns [OF laws] objectPackage_typesExact [OF assms(4,3)]
      objectPackage_native [OF assms(1,3,5)] objectModules_importsResolved [OF assms(7)]
    by (auto simp: types modules)
qed

theorem module_objects_typed_witness:
  "\<exists>def'. withNodeModuleObjects samplePackage = Inr def' \<and>
    typesExact (pkg_types def') (packageExports (pkg_modules def')) \<and>
    nativeOperations (pkg_types def') (pkg_operations def') \<and>
    list_all refsResolved (pkg_modules def') \<and> importsResolved (pkg_modules def')"
  by (rule module_objects_typed [OF sample_projectable sample_typed(1,6,2,3,4)])

end
