(* ===== verification/Node_Assert.thy ===== *)
theory Node_Assert
  imports Provider_References
begin

text \<open>
  \<^verbatim>\<open>nodejs/src/provider/modules/assert.ts\<close>: the assertion functions and the default
  export \<open>assert\<close>, which is why the module has no entry among the module objects.
\<close>

section \<open>Declarations and operations\<close>

definition assert_moduleSpecifier :: "string" where
  "assert_moduleSpecifier = ''node:assert''"

definition assert_defaultId :: "string" where
  "assert_defaultId = assert_moduleSpecifier @ ''::default''"

definition assert_okId :: "string" where
  "assert_okId = assert_moduleSpecifier @ ''::ok''"

definition assert_strictEqualId :: "string" where
  "assert_strictEqualId = assert_moduleSpecifier @ ''::strictEqual''"

definition assert_notStrictEqualId :: "string" where
  "assert_notStrictEqualId = assert_moduleSpecifier @ ''::notStrictEqual''"

definition assert_deepStrictEqualId :: "string" where
  "assert_deepStrictEqualId = assert_moduleSpecifier @ ''::deepStrictEqual''"

definition assert_deepEqualityAssertion :: "providerExport" where
  "assert_deepEqualityAssertion =
     (let valueType = UnknownT;
          parameters = [param ''actual'' valueType, param ''expected'' valueType]
      in functionDeclaration assert_deepStrictEqualId ''deepStrictEqual'' False
           [plainSignature (assert_deepStrictEqualId @ ''(actual,expected)'')
              ''deepStrictEqual'' parameters voidType,
            plainSignature (assert_deepStrictEqualId @ ''(actual,expected,message)'')
              ''deepStrictEqual'' (parameters @ [param ''message'' stringType]) voidType])"

definition assert_booleanAssertion ::
    "string \<Rightarrow> string \<Rightarrow> string option \<Rightarrow> providerExport" where
  "assert_booleanAssertion ident name exportKind =
     functionDeclaration ident name (exportKind \<noteq> None)
       [plainSignature (ident @ ''(value)'') name [param ''value'' booleanType] voidType,
        plainSignature (ident @ ''(value,message)'') name
          [param ''value'' booleanType, param ''message'' stringType] voidType]"

definition assert_equalityAssertion ::
    "string \<Rightarrow> string \<Rightarrow> providerExport" where
  "assert_equalityAssertion ident name =
     (let parameter = typeParameter ''T''
      in functionDeclaration ident name False
           [genericSignature (ident @ ''(actual,expected)'') name [''T'']
              [param ''actual'' parameter, param ''expected'' parameter] voidType,
            genericSignature (ident @ ''(actual,expected,message)'') name [''T'']
              [param ''actual'' parameter,
               param ''expected'' parameter,
               param ''message'' stringType] voidType])"

definition assertModule :: "providerModule" where
  "assertModule =
     moduleOf assert_moduleSpecifier ''tsonic.mojo.node.assert'' None
       [assert_booleanAssertion assert_defaultId ''assert'' (Some ''default''),
        assert_booleanAssertion assert_okId ''ok'' None,
        assert_equalityAssertion assert_strictEqualId ''strictEqual'',
        assert_equalityAssertion assert_notStrictEqualId ''notStrictEqual'',
        assert_deepEqualityAssertion,
        overloadedFunctionExport assert_moduleSpecifier ''fail''
          [overloadAs '''' [] NeverT,
           overloadAs ''message'' [param ''message'' stringType] NeverT,
           overloadAs ''error'' [param ''error'' (SourceGlobalT ''Error'' None)] NeverT]]"

definition assert_callOperation ::
    "'o mojoApi \<Rightarrow> string \<Rightarrow> string \<Rightarrow> string \<Rightarrow>
      'o targetType list \<Rightarrow> bool \<Rightarrow> 'o operation" where
  "assert_callOperation api exportId signatureId targetName parameterTypes generic =
     \<lparr>op_exportId = exportId, op_memberId = None, op_signatureId = Some signatureId,
      op_operationKind = CallOperation,
      op_target = FunctionCallTarget [''tsonic_node'', ''assertions''] targetName
        (if generic then
           [\<lparr>gen_kind = ''type'', gen_name = ''T'', gen_position = ''inferred'',
             gen_variadic = False, gen_constraints = []\<rparr>] else [])
        (map (\<lambda>_. (argumentOf ''imm'')) parameterTypes) None, op_receiverType = None,
      op_parameterTypes = Some parameterTypes, op_resultType = unitCarrier api,
      op_errorType = None, op_raises = True\<rparr>"

definition assert_booleanAssertionOperations ::
    "'o mojoApi \<Rightarrow> string \<Rightarrow> 'o operation list" where
  "assert_booleanAssertionOperations api ident =
     [assert_callOperation api ident (ident @ ''(value)'') ''ok'' [boolCarrier api] False,
      assert_callOperation api ident (ident @ ''(value,message)'') ''ok_with_message''
        [boolCarrier api, nativeString api] False]"

definition assert_equalityAssertionOperations ::
    "'o mojoApi \<Rightarrow> string \<Rightarrow> string \<Rightarrow> string \<Rightarrow>
      'o operation list" where
  "assert_equalityAssertionOperations api ident withoutMessage withMessage =
     (let parameter = targetTypeParameter ''T''
      in [assert_callOperation api ident (ident @ ''(actual,expected)'') withoutMessage
            [parameter, parameter] True,
          assert_callOperation api ident (ident @ ''(actual,expected,message)'') withMessage
            [parameter, parameter, nativeString api] True])"

definition assertOperations :: "'o mojoApi \<Rightarrow> 'o operation list" where
  "assertOperations api =
     (assert_booleanAssertionOperations api assert_defaultId) @
     (assert_booleanAssertionOperations api assert_okId) @
     (assert_equalityAssertionOperations api assert_strictEqualId ''strict_equal''
        ''strict_equal_with_message'') @
     (assert_equalityAssertionOperations api assert_notStrictEqualId ''not_strict_equal''
        ''not_strict_equal_with_message'') @
     [assert_callOperation api assert_deepStrictEqualId
        (assert_deepStrictEqualId @ ''(actual,expected)'') ''deep_strict_equal''
        [jsValueCarrier api, jsValueCarrier api] False,
      assert_callOperation api assert_deepStrictEqualId
        (assert_deepStrictEqualId @ ''(actual,expected,message)'')
        ''deep_strict_equal_with_message''
        [jsValueCarrier api, jsValueCarrier api, nativeString api] False] @
     (map
        (\<lambda>(signature, target, parameters).
           ((assert_callOperation api (assert_moduleSpecifier @ ''::fail'')
               (assert_moduleSpecifier @ ''::fail('' @ signature @ '')'') target parameters
               False)
              \<lparr>op_resultType := NeverTarget, op_errorType := Some (mojoSourceErrorType api)\<rparr>))
        [('''', ''fail'', []),
         (''message'', ''fail'', [nativeString api]),
         (''error'', ''fail_error'', [mojoSourceErrorType api])])"

section \<open>The contract\<close>

lemmas assert_defs = assert_moduleSpecifier_def assert_defaultId_def assert_okId_def
  assert_strictEqualId_def assert_notStrictEqualId_def assert_deepStrictEqualId_def
  assert_deepEqualityAssertion_def assert_booleanAssertion_def assert_equalityAssertion_def
  assertModule_def assert_callOperation_def assert_booleanAssertionOperations_def
  assert_equalityAssertionOperations_def assertOperations_def

lemma assert_implements: "implements (assertOperations api) (mod_exports assertModule)"
  by (rule permCheck_implements)
    (simp only: assert_defs point_eval cong: weak_congs, simp only: perm_eval cong: perm_congs)

lemma assert_ids:
  "distinct (map exp_id (mod_exports assertModule)) \<and> moduleScoped assertModule"
  by (simp only: assert_defs moduleScoped_def id_eval cong: weak_congs)

lemma assert_index: "memberIndexWrites (assertOperations api)"
  by (simp only: assert_defs point_eval cong: weak_congs)

text \<open>
  The native side of the operations has its shape and receivers, and the references of the
  declarations are resolved.
\<close>

lemma assert_native: "nativeOperations [] (assertOperations api)"
  by (simp only: assert_defs native_eval cong: weak_congs)

lemma assert_refs: "refsResolved assertModule"
  by (rule refsResolvedI, simp only: assert_defs visible_eval cong: weak_congs)
    (simp only: assert_defs resolve_eval cong: weak_congs)

text \<open>
  Type definitions exist for exactly the declared types with instances, and no point is declared
  twice.
\<close>

lemma assert_types: "typesExact [] (mod_exports assertModule)"
  by (rule permCheck_typesExact)
    (simp only: assert_defs type_eval cong: weak_congs,
      simp only: perm_eval cong: perm_congs)

lemma assert_points: "pointsDistinct (mod_exports assertModule)"
  by (simp only: assert_defs point_eval cong: weak_congs,
      simp only: distinct_eval cong: perm_congs)

interpretation assert_component:
  component "[assertModule]" "assertOperations api" for api
  by (rule componentI [OF assert_implements _ assert_index, where P = True]) (simp add: assert_ids)

end
