(* ===== verification/Node_Buffer.thy ===== *)
theory Node_Buffer
  imports Provider_References
begin

text \<open>
  \<^verbatim>\<open>nodejs/src/provider/modules/buffer\<close>: the class \<open>Buffer\<close> and the functions of
  \<open>node:buffer\<close>. The members that take prefixes of one parameter list, the numeric
  accessors and the value predicate are tables of their own.
\<close>

section \<open>The value predicate (buffer/predicates.ts)\<close>

definition bufferPredicate_bufferId :: "string" where
  "bufferPredicate_bufferId = ''node:buffer::Buffer''"

definition bufferPredicate_memberId :: "string" where
  "bufferPredicate_memberId = bufferPredicate_bufferId @ ''.isBuffer#static''"

definition bufferPredicate_functionId :: "string" where
  "bufferPredicate_functionId = ''node:buffer::isBuffer''"

definition bufferPredicate_signature :: "string \<Rightarrow> providerSignature" where
  "bufferPredicate_signature ident =
     genericSignature (ident @ ''(value)'') ''isBuffer'' [''T'']
       [param ''value'' (typeParameter ''T'')] booleanType"

definition bufferPredicateMember :: "providerMember" where
  "bufferPredicateMember =
     callableMember bufferPredicate_memberId ''isBuffer'' MethodMember True
       [bufferPredicate_signature bufferPredicate_memberId]"

definition bufferPredicateExport :: "providerExport" where
  "bufferPredicateExport =
     functionDeclaration bufferPredicate_functionId ''isBuffer'' False
       [bufferPredicate_signature bufferPredicate_functionId]"

definition bufferPredicateOperations :: "'o mojoApi \<Rightarrow> 'o operation list" where
  "bufferPredicateOperations api =
     map
       (\<lambda>staticMember.
          \<lparr>op_exportId = if staticMember then bufferPredicate_bufferId else
             bufferPredicate_functionId,
           op_memberId = if staticMember then Some bufferPredicate_memberId else None,
           op_signatureId = Some
             (sig_id
                (bufferPredicate_signature
                   (if staticMember then bufferPredicate_memberId else
                      bufferPredicate_functionId))), op_operationKind = CallOperation,
           op_target = ValuePredicateTarget (bufferCarrier api) [''tsonic_node'', ''buffer'']
             ''buffer_is_buffer''
             [\<lparr>gen_kind = ''type'', gen_name = ''T'', gen_position = ''inferred'',
               gen_variadic = False, gen_constraints = []\<rparr>]
             [argumentOf ''imm''], op_receiverType = None,
           op_parameterTypes = Some [targetTypeParameter ''T''],
           op_resultType = boolCarrier api, op_errorType = None, op_raises = False\<rparr>)
       [False, True]"

section \<open>Indexing (buffer/indexing.ts)\<close>

definition bufferIndex_exportId :: "string" where
  "bufferIndex_exportId = ''node:buffer::Buffer''"

definition bufferIndex_memberId :: "string" where
  "bufferIndex_memberId = bufferIndex_exportId @ ''.indexer''"

definition bufferIndex_signatureId :: "string" where
  "bufferIndex_signatureId = bufferIndex_memberId @ ''(index)''"

definition bufferIndex_byteType :: "providerType" where
  "bufferIndex_byteType = UnionT [numberType, undefinedType]"

definition bufferIndex_byteCarrier :: "'o mojoApi \<Rightarrow> 'o targetType" where
  "bufferIndex_byteCarrier api = mojoOptionalTargetType api (float64Carrier api)"

definition bufferIndexMember :: "providerMember" where
  "bufferIndexMember =
     callableMember bufferIndex_memberId ''indexer'' IndexerMember False
       [plainSignature bufferIndex_signatureId ''indexer'' [param ''index'' numberType]
          bufferIndex_byteType]"

definition bufferIndexOperations :: "'o mojoApi \<Rightarrow> 'o operation list" where
  "bufferIndexOperations api =
     [indexRead bufferIndex_exportId bufferIndex_memberId bufferIndex_signatureId ''get_index''
        (bufferCarrier api) (float64Carrier api) (bufferIndex_byteCarrier api) False,
      \<lparr>op_exportId = bufferIndex_exportId, op_memberId = Some bufferIndex_memberId,
       op_signatureId = Some bufferIndex_signatureId, op_operationKind = IndexSetOperation,
       op_target = IndexWriteTarget MethodAccess ''set_index'' ''mut'' (argumentOf ''imm'')
         (argumentOf ''imm''),
       op_receiverType = Some (bufferCarrier api),
       op_parameterTypes = Some [float64Carrier api, bufferIndex_byteCarrier api],
       op_resultType = unitCarrier api, op_errorType = None, op_raises = False\<rparr>]"

section \<open>Method tables (buffer/members.ts)\<close>

record 'o bufferValue =
  bv_source :: providerType
  bv_target :: "'o targetType"

record 'o bufferArgument =
  ba_name :: string
  ba_source :: providerType
  ba_target :: "'o targetType"

record 'o bufferSignature =
  bs_id :: string
  bs_targetName :: string
  bs_parameters :: "'o bufferArgument list"
  bs_raises :: bool

record 'o bufferMethod =
  bm_name :: string
  bm_static :: bool
  bm_result :: "'o bufferValue"
  bm_signatures :: "'o bufferSignature list"

definition bufferMember_bufferId :: "string" where
  "bufferMember_bufferId = ''node:buffer::Buffer''"

definition bufferMember_bufferType :: "providerType" where
  "bufferMember_bufferType = providerRef ''node:buffer'' ''Buffer''"

definition bufferMember_number :: "'o mojoApi \<Rightarrow> 'o bufferValue" where
  "bufferMember_number api = \<lparr>bv_source = numberType,
   bv_target = (float64Carrier api)\<rparr>"

definition bufferMember_string :: "'o mojoApi \<Rightarrow> 'o bufferValue" where
  "bufferMember_string api = \<lparr>bv_source = stringType, bv_target = (nativeString api)\<rparr>"

definition bufferMember_buffer :: "'o mojoApi \<Rightarrow> 'o bufferValue" where
  "bufferMember_buffer api =
     \<lparr>bv_source = bufferMember_bufferType, bv_target = (bufferCarrier api)\<rparr>"

definition bufferMember_boolean :: "'o mojoApi \<Rightarrow> 'o bufferValue" where
  "bufferMember_boolean api = \<lparr>bv_source = booleanType,
   bv_target = (boolCarrier api)\<rparr>"

definition bufferMember_argument :: "string \<Rightarrow> 'o bufferValue \<Rightarrow> 'o bufferArgument" where
  "bufferMember_argument name type = \<lparr>ba_name = name, ba_source = bv_source type,
   ba_target = bv_target type\<rparr>"

definition bufferMember_prefixes ::
    "string \<Rightarrow> 'o bufferArgument list \<Rightarrow> nat \<Rightarrow>
      bool \<Rightarrow> string \<Rightarrow> 'o bufferSignature list" where
  "bufferMember_prefixes targetName parameters minimum raises suffix =
     map
       (\<lambda>index.
          (let selected = take (minimum + index) parameters
           in \<lparr>bs_id = (suffix @
            (joinWith '','' (map (\<lambda>parameter. (ba_name parameter)) selected))),
            bs_targetName = targetName, bs_parameters = selected, bs_raises = raises\<rparr>))
       [0..<length parameters + 1 - minimum]"

definition bufferMember_searchMethods :: "'o mojoApi \<Rightarrow> 'o bufferMethod list" where
  "bufferMember_searchMethods api =
     map
       (\<lambda>(name, target, result). \<lparr>bm_name = name, bm_static = False,
        bm_result = result, bm_signatures = ((concat (map (\<lambda>(kind, type,
        raises). (bufferMember_prefixes (target @ ''_'' @
        kind) [bufferMember_argument ''value'' type,
        bufferMember_argument ''byteOffset'' (bufferMember_number api),
        bufferMember_argument ''encoding'' (bufferMember_string api)] 1 raises (kind @
        '':''))) [(''buffer'', (bufferMember_buffer api), False), (''string'',
        (bufferMember_string api), True), (''number'', (bufferMember_number api), False)])) @
        [\<lparr>bs_id = ''string:value,encoding'', bs_targetName = (target @ ''_encoded''),
        bs_parameters = [bufferMember_argument ''value'' (bufferMember_string api),
        bufferMember_argument ''encoding'' (bufferMember_string api)],
        bs_raises = True\<rparr>])\<rparr>)
       [(''indexOf'', ''find'', (bufferMember_number api)),
        (''lastIndexOf'', ''last'', (bufferMember_number api)),
        (''includes'', ''includes'', (bufferMember_boolean api))]"

definition bufferMember_methods :: "'o mojoApi \<Rightarrow> 'o bufferMethod list" where
  "bufferMember_methods api =
     (bufferMember_searchMethods api) @
     [\<lparr>bm_name = ''write'', bm_static = False, bm_result = (bufferMember_number api),
      bm_signatures = ((bufferMember_prefixes ''write'' [bufferMember_argument ''value'' (bufferMember_string api),
      bufferMember_argument ''offset'' (bufferMember_number api),
      bufferMember_argument ''length'' (bufferMember_number api),
      bufferMember_argument ''encoding'' (bufferMember_string api)] 1 True '''') @
      [\<lparr>bs_id = ''value,encoding'', bs_targetName = ''write_encoded'',
      bs_parameters = [bufferMember_argument ''value'' (bufferMember_string api),
      bufferMember_argument ''encoding'' (bufferMember_string api)], bs_raises = True\<rparr>,
      \<lparr>bs_id = ''value,offset,encoding'', bs_targetName = ''write_offset_encoded'',
      bs_parameters = [bufferMember_argument ''value'' (bufferMember_string api),
      bufferMember_argument ''offset'' (bufferMember_number api),
      bufferMember_argument ''encoding'' (bufferMember_string api)],
      bs_raises = True\<rparr>])\<rparr>,
      \<lparr>bm_name = ''fill'', bm_static = False, bm_result = (bufferMember_buffer api),
       bm_signatures = ((concat (map (\<lambda>(kind, type). (bufferMember_prefixes (''fill_'' @
       kind) ([bufferMember_argument ''value'' type,
       bufferMember_argument ''offset'' (bufferMember_number api),
       bufferMember_argument ''end'' (bufferMember_number api)] @
       (if (kind = ''string'') then [bufferMember_argument ''encoding'' (bufferMember_string api)] else [])) 1 True (kind @
       '':''))) [(''number'', (bufferMember_number api)), (''buffer'',
       (bufferMember_buffer api)), (''string'', (bufferMember_string api))])) @
       [\<lparr>bs_id = ''string:value,encoding'', bs_targetName = ''fill_encoded'',
       bs_parameters = [bufferMember_argument ''value'' (bufferMember_string api),
       bufferMember_argument ''encoding'' (bufferMember_string api)], bs_raises = True\<rparr>,
       \<lparr>bs_id = ''string:value,offset,encoding'', bs_targetName = ''fill_offset_encoded'',
       bs_parameters = [bufferMember_argument ''value'' (bufferMember_string api),
       bufferMember_argument ''offset'' (bufferMember_number api),
       bufferMember_argument ''encoding'' (bufferMember_string api)],
       bs_raises = True\<rparr>])\<rparr>,
      \<lparr>bm_name = ''alloc'', bm_static = True, bm_result = (bufferMember_buffer api),
       bm_signatures = ([\<lparr>bs_id = ''size'', bs_targetName = ''buffer_alloc'',
       bs_parameters = [bufferMember_argument ''size'' (bufferMember_number api)],
       bs_raises = True\<rparr>] @ (concat (map (\<lambda>(kind,
       type). (bufferMember_prefixes (''buffer_alloc_'' @
       kind) ([bufferMember_argument ''size'' (bufferMember_number api),
       bufferMember_argument ''fill'' type] @
       (if (kind = ''string'') then [bufferMember_argument ''encoding'' (bufferMember_string api)] else [])) 2 True (kind @
       '':''))) [(''number'', (bufferMember_number api)), (''buffer'',
       (bufferMember_buffer api)), (''string'', (bufferMember_string api))])))\<rparr>] @
     (map
        (\<lambda>(name, targetName). \<lparr>bm_name = name, bm_static = True,
         bm_result = (bufferMember_buffer api), bm_signatures = [\<lparr>bs_id = ''size'',
         bs_targetName = targetName,
         bs_parameters = [bufferMember_argument ''size'' (bufferMember_number api)],
         bs_raises = True\<rparr>]\<rparr>)
        [(''allocUnsafe'', ''buffer_alloc_unsafe''),
         (''allocUnsafeSlow'', ''buffer_alloc_unsafe_slow'')]) @
     [\<lparr>bm_name = ''compare'', bm_static = True, bm_result = (bufferMember_number api),
      bm_signatures = [\<lparr>bs_id = ''left,right'', bs_targetName = ''buffer_compare'',
      bs_parameters = [bufferMember_argument ''left'' (bufferMember_buffer api),
      bufferMember_argument ''right'' (bufferMember_buffer api)],
      bs_raises = False\<rparr>]\<rparr>,
      \<lparr>bm_name = ''isEncoding'', bm_static = True, bm_result = (bufferMember_boolean api),
       bm_signatures = [\<lparr>bs_id = ''encoding'', bs_targetName = ''buffer_is_encoding'',
       bs_parameters = [bufferMember_argument ''encoding'' (bufferMember_string api)],
       bs_raises = False\<rparr>]\<rparr>]"

definition bufferMember_methodIdentity :: "'o bufferMethod \<Rightarrow> string" where
  "bufferMember_methodIdentity method =
     bufferMember_bufferId @
     ''.'' @
     (bm_name method) @
     (if (bm_static method) then ''#static'' else '''')"

definition extraBufferMembers :: "'o mojoApi \<Rightarrow> providerMember list" where
  "extraBufferMembers api =
     (map
        (\<lambda>method.
           (let memberId = bufferMember_methodIdentity method
            in callableMember memberId (bm_name method) MethodMember (bm_static method)
                 (map
                    (\<lambda>signature.
                       plainSignature (memberId @ ''('' @ (bs_id signature) @ '')'')
                         (bm_name method)
                         (map
                            (\<lambda>parameter.
                               param (ba_name parameter) (ba_source parameter))
                            (bs_parameters signature)) (bv_source (bm_result method)))
                    (bm_signatures method)))) (bufferMember_methods api)) @
     [overloadedMethodMemberWith bufferMember_bufferId ''of''
        [overloadOf [restParam ''items'' numberArrayType] bufferMember_bufferType] True]"

definition extraBufferOperations :: "'o mojoApi \<Rightarrow> 'o operation list" where
  "extraBufferOperations api =
     (concat
        (map
           (\<lambda>method.
              (map
                 (\<lambda>signature.
                    (let memberId = bufferMember_methodIdentity method;
                         signatureId = memberId @ ''('' @ (bs_id signature) @ '')'';
                         parameterTypes =
                           map (\<lambda>parameter. (ba_target parameter)) (bs_parameters signature)
                     in if (bm_static method) then
                          (staticCall bufferMember_bufferId memberId signatureId ''buffer''
                             (bs_targetName signature) parameterTypes (bv_target (bm_result method))
                             (bs_raises signature)) else
                          (instanceCall bufferMember_bufferId memberId signatureId
                             (bs_targetName signature) (bufferCarrier api) parameterTypes
                             (bv_target (bm_result method)) (bs_raises signature) ''imm'')))
                 (bm_signatures method))) (bufferMember_methods api))) @
     [(variadicFunctionCall bufferMember_bufferId (bufferMember_bufferId @ ''.of(items)'')
         ''buffer'' ''buffer_from_numbers'' (float64Carrier api) (bufferCarrier api) False)
        \<lparr>op_memberId := Some (bufferMember_bufferId @ ''.of''), op_raises := True\<rparr>]"

section \<open>The module (buffer/index.ts)\<close>

definition buffer_moduleSpecifier :: "string" where
  "buffer_moduleSpecifier = ''node:buffer''"

definition buffer_bufferId :: "string" where
  "buffer_bufferId = buffer_moduleSpecifier @ ''::Buffer''"

definition buffer_bufferType :: "providerType" where
  "buffer_bufferType = providerRef buffer_moduleSpecifier ''Buffer''"

definition buffer_bufferListCarrier :: "'o mojoApi \<Rightarrow> 'o targetType" where
  "buffer_bufferListCarrier api = mojoListTargetType api (bufferCarrier api)"

record numericMember =
  nm_sourceName :: string
  nm_targetName :: string
  nm_write :: bool

definition buffer_numericMemberRows :: "(string \<times> string \<times> bool) list" where
  "buffer_numericMemberRows =
     [(''readUInt8'', ''read_uint8'', False),
      (''readInt8'', ''read_int8'', False),
      (''readUInt16LE'', ''read_uint16_le'', False),
      (''readUInt16BE'', ''read_uint16_be'', False),
      (''readInt16LE'', ''read_int16_le'', False),
      (''readInt16BE'', ''read_int16_be'', False),
      (''readUInt32LE'', ''read_uint32_le'', False),
      (''readUInt32BE'', ''read_uint32_be'', False),
      (''readInt32LE'', ''read_int32_le'', False),
      (''readInt32BE'', ''read_int32_be'', False),
      (''readFloatLE'', ''read_float_le'', False),
      (''readFloatBE'', ''read_float_be'', False),
      (''readDoubleLE'', ''read_double_le'', False),
      (''readDoubleBE'', ''read_double_be'', False),
      (''writeUInt8'', ''write_uint8'', True),
      (''writeInt8'', ''write_int8'', True),
      (''writeUInt16LE'', ''write_uint16_le'', True),
      (''writeUInt16BE'', ''write_uint16_be'', True),
      (''writeInt16LE'', ''write_int16_le'', True),
      (''writeInt16BE'', ''write_int16_be'', True),
      (''writeUInt32LE'', ''write_uint32_le'', True),
      (''writeUInt32BE'', ''write_uint32_be'', True),
      (''writeInt32LE'', ''write_int32_le'', True),
      (''writeInt32BE'', ''write_int32_be'', True),
      (''writeFloatLE'', ''write_float_le'', True),
      (''writeFloatBE'', ''write_float_be'', True),
      (''writeDoubleLE'', ''write_double_le'', True),
      (''writeDoubleBE'', ''write_double_be'', True)]"

definition buffer_numericMembers :: "numericMember list" where
  "buffer_numericMembers =
     map
       (\<lambda>(sourceName, targetName, write). \<lparr>nm_sourceName = sourceName,
        nm_targetName = targetName, nm_write = write\<rparr>) buffer_numericMemberRows"

definition buffer_numericMember :: "numericMember \<Rightarrow> providerMember" where
  "buffer_numericMember member =
     (let valueParameters = if (nm_write member) then [param ''value'' numberType] else []
      in overloadedMethodMember buffer_bufferId (nm_sourceName member)
           [overloadOf valueParameters numberType,
            overloadOf (valueParameters @ [param ''offset'' numberType]) numberType])"

definition bufferModule :: "'o mojoApi \<Rightarrow> providerModule" where
  "bufferModule api =
     moduleOf buffer_moduleSpecifier ''tsonic.mojo.node.buffer'' None
       [classDeclaration buffer_bufferId ''Buffer''
          ([bufferIndexMember,
            bufferPredicateMember,
            overloadedMethodMemberWith buffer_bufferId ''from''
              [overloadAs ''string'' [param ''value'' stringType] buffer_bufferType,
               overloadAs ''string,encoding''
                 [param ''value'' stringType, param ''encoding'' stringType] buffer_bufferType,
               overloadAs ''numberArray'' [param ''value'' numberArrayType] buffer_bufferType,
               overloadAs ''buffer'' [param ''value'' buffer_bufferType] buffer_bufferType] True] @
           (extraBufferMembers api) @
           [overloadedMethodMemberWith buffer_bufferId ''byteLength''
              [overloadAs ''string'' [param ''value'' stringType] numberType,
               overloadOf [param ''value'' stringType, param ''encoding'' stringType] numberType,
               overloadAs ''buffer'' [param ''value'' buffer_bufferType] numberType] True,
            overloadedMethodMemberWith buffer_bufferId ''concat''
              [overloadOf [param ''list'' (ArrayT buffer_bufferType)] buffer_bufferType,
               overloadOf
                 [param ''list'' (ArrayT buffer_bufferType), param ''totalLength'' numberType]
                 buffer_bufferType] True,
            overloadedMethodMember buffer_bufferId ''toString''
              [overloadOf [] stringType,
               overloadOf [param ''encoding'' stringType] stringType,
               overloadOf [param ''encoding'' stringType, param ''start'' numberType] stringType,
               overloadOf
                 [param ''encoding'' stringType,
                  param ''start'' numberType,
                  param ''end'' numberType] stringType],
            overloadedMethodMember buffer_bufferId ''copy''
              [overloadOf [param ''target'' buffer_bufferType] numberType,
               overloadOf [param ''target'' buffer_bufferType, param ''targetStart'' numberType]
                 numberType,
               overloadOf
                 [param ''target'' buffer_bufferType,
                  param ''targetStart'' numberType,
                  param ''sourceStart'' numberType] numberType,
               overloadOf
                 [param ''target'' buffer_bufferType,
                  param ''targetStart'' numberType,
                  param ''sourceStart'' numberType,
                  param ''sourceEnd'' numberType] numberType]] @
           (map
              (\<lambda>name.
                 (overloadedMethodMember buffer_bufferId name
                    [overloadOf [] buffer_bufferType,
                     overloadOf [param ''start'' numberType] buffer_bufferType,
                     overloadOf [param ''start'' numberType, param ''end'' numberType]
                       buffer_bufferType])) [''slice'', ''subarray'']) @
           (map (\<lambda>name. (methodMember buffer_bufferId name [] buffer_bufferType))
              [''swap16'', ''swap32'', ''swap64'']) @
           (map buffer_numericMember buffer_numericMembers) @
           [methodMember buffer_bufferId ''equals'' [param ''other'' buffer_bufferType]
              booleanType,
            methodMember buffer_bufferId ''compare'' [param ''other'' buffer_bufferType]
              numberType,
            propertyMember buffer_bufferId ''length'' numberType,
            propertyMemberWith buffer_bufferId ''poolSize'' numberType False True False]),
        bufferPredicateExport,
        fnExport buffer_moduleSpecifier ''isEncoding'' [param ''encoding'' stringType]
          booleanType,
        fnExport buffer_moduleSpecifier ''isAscii'' [param ''value'' buffer_bufferType]
          booleanType,
        fnExport buffer_moduleSpecifier ''isUtf8'' [param ''value'' buffer_bufferType]
          booleanType,
        fnExport buffer_moduleSpecifier ''transcode''
          [param ''value'' buffer_bufferType,
           param ''fromEncoding'' stringType,
           param ''toEncoding'' stringType] buffer_bufferType,
        fnExport buffer_moduleSpecifier ''btoa'' [param ''value'' stringType] stringType,
        fnExport buffer_moduleSpecifier ''atob'' [param ''value'' stringType] stringType]"

definition bufferTypes :: "'o mojoApi \<Rightarrow> 'o typeDefinition list" where
  "bufferTypes api =
     [(nodeProviderType api buffer_bufferId (bufferCarrier api) ImplicitlyCopyable)
        \<lparr>type_sourceValueFactory :=
           Some \<lparr>ref_modulePath = [''tsonic_node'', ''buffer''],
            ref_name = ''buffer_to_js_value''\<rparr>,
         type_sourceValueExtraction :=
           Some \<lparr>ref_modulePath = [''tsonic_node'', ''buffer''],
            ref_name = ''buffer_from_js_value''\<rparr>\<rparr>]"

definition buffer_staticOperation ::
    "string \<Rightarrow> string \<Rightarrow> string \<Rightarrow>
      'o targetType list \<Rightarrow> 'o targetType \<Rightarrow> bool \<Rightarrow> 'o operation" where
  "buffer_staticOperation member signature target parameters result raises =
     staticCall buffer_bufferId (buffer_bufferId @ ''.'' @ member)
       (buffer_bufferId @ ''.'' @ member @ ''('' @ signature @ '')'') ''buffer'' target
       parameters result raises"

definition buffer_instanceOperation ::
    "'o mojoApi \<Rightarrow> string \<Rightarrow> string \<Rightarrow> string \<Rightarrow>
      'o targetType list \<Rightarrow> 'o targetType \<Rightarrow> bool \<Rightarrow>
      string \<Rightarrow> 'o operation" where
  "buffer_instanceOperation api member signature target parameters result raises receiver =
     instanceCall buffer_bufferId (buffer_bufferId @ ''.'' @ member)
       (buffer_bufferId @ ''.'' @ member @ ''('' @ signature @ '')'') target (bufferCarrier api)
       parameters result raises receiver"

definition buffer_numericOperations ::
    "'o mojoApi \<Rightarrow> numericMember \<Rightarrow> 'o operation list" where
  "buffer_numericOperations api member =
     (let valueTypes = if (nm_write member) then [float64Carrier api] else []
      in [buffer_instanceOperation api (nm_sourceName member)
            (if (nm_write member) then ''value'' else '''') (nm_targetName member) valueTypes
            (float64Carrier api) True (if (nm_write member) then ''mut'' else ''imm''),
          buffer_instanceOperation api (nm_sourceName member)
            (if (nm_write member) then ''value,offset'' else ''offset'') (nm_targetName member)
            (valueTypes @ [float64Carrier api]) (float64Carrier api) True
            (if (nm_write member) then ''mut'' else ''imm'')])"

definition bufferOperations :: "'o mojoApi \<Rightarrow> 'o operation list" where
  "bufferOperations api =
     (let sliceOperations =
            concat
              (map
                 (\<lambda>member.
                    [buffer_instanceOperation api member '''' member [] (bufferCarrier api)
                       False ''imm'',
                     buffer_instanceOperation api member ''start'' member [float64Carrier api]
                       (bufferCarrier api) False ''imm'',
                     buffer_instanceOperation api member ''start,end'' member
                       [float64Carrier api, float64Carrier api] (bufferCarrier api) False
                       ''imm'']) [''slice'', ''subarray''])
      in (bufferIndexOperations api) @
         [buffer_staticOperation ''from'' ''string'' ''buffer_from_string'' [nativeString api]
            (bufferCarrier api) True,
          buffer_staticOperation ''from'' ''string,encoding'' ''buffer_from_string_encoded''
            [nativeString api, nativeString api] (bufferCarrier api) True,
          buffer_staticOperation ''from'' ''numberArray'' ''buffer_from_numbers''
            [numberListCarrier api] (bufferCarrier api) True,
          buffer_staticOperation ''from'' ''buffer'' ''buffer_from_buffer'' [bufferCarrier api]
            (bufferCarrier api) True] @
         (extraBufferOperations api) @
         [buffer_staticOperation ''byteLength'' ''string'' ''buffer_byte_length''
            [nativeString api] (float64Carrier api) True,
          buffer_staticOperation ''byteLength'' ''value,encoding'' ''buffer_byte_length''
            [nativeString api, nativeString api] (float64Carrier api) True,
          buffer_staticOperation ''byteLength'' ''buffer'' ''buffer_byte_length_buffer''
            [bufferCarrier api] (float64Carrier api) False,
          buffer_staticOperation ''concat'' ''list'' ''buffer_concat''
            [buffer_bufferListCarrier api] (bufferCarrier api) True,
          buffer_staticOperation ''concat'' ''list,totalLength'' ''buffer_concat''
            [buffer_bufferListCarrier api, float64Carrier api] (bufferCarrier api) True,
          buffer_instanceOperation api ''toString'' '''' ''to_string'' [] (nativeString api)
            True ''imm'',
          buffer_instanceOperation api ''toString'' ''encoding'' ''to_string''
            [nativeString api] (nativeString api) True ''imm'',
          buffer_instanceOperation api ''toString'' ''encoding,start'' ''to_string''
            [nativeString api, float64Carrier api] (nativeString api) True ''imm'',
          buffer_instanceOperation api ''toString'' ''encoding,start,end'' ''to_string''
            [nativeString api, float64Carrier api, float64Carrier api] (nativeString api) True
            ''imm'',
          buffer_instanceOperation api ''copy'' ''target'' ''copy'' [bufferCarrier api]
            (float64Carrier api) True ''imm'',
          buffer_instanceOperation api ''copy'' ''target,targetStart'' ''copy''
            [bufferCarrier api, float64Carrier api] (float64Carrier api) True ''imm'',
          buffer_instanceOperation api ''copy'' ''target,targetStart,sourceStart'' ''copy''
            [bufferCarrier api, float64Carrier api, float64Carrier api] (float64Carrier api)
            True ''imm'',
          buffer_instanceOperation api ''copy'' ''target,targetStart,sourceStart,sourceEnd''
            ''copy''
            [bufferCarrier api, float64Carrier api, float64Carrier api, float64Carrier api]
            (float64Carrier api) True ''imm''] @
         sliceOperations @
         (map
            (\<lambda>member.
               (buffer_instanceOperation api member '''' member [] (bufferCarrier api) True
                  ''mut'')) [''swap16'', ''swap32'', ''swap64'']) @
         (concat (map (buffer_numericOperations api) buffer_numericMembers)) @
         [buffer_instanceOperation api ''equals'' ''other'' ''equals'' [bufferCarrier api]
            (boolCarrier api) False ''imm'',
          buffer_instanceOperation api ''compare'' ''other'' ''compare'' [bufferCarrier api]
            (float64Carrier api) False ''imm'',
          propertyReadVia MethodAccess buffer_bufferId (buffer_bufferId @ ''.length'')
            ''js_length'' (bufferCarrier api) (float64Carrier api),
          staticPropertyRead buffer_bufferId (buffer_bufferId @ ''.poolSize'') ''buffer''
            ''buffer_pool_size'' (float64Carrier api) False,
          staticPropertyWrite api buffer_bufferId (buffer_bufferId @ ''.poolSize'') ''buffer''
            ''set_buffer_pool_size'' (float64Carrier api) False] @
         (bufferPredicateOperations api) @
         [functionCall (buffer_moduleSpecifier @ ''::isEncoding'')
            (buffer_moduleSpecifier @ ''::isEncoding(encoding)'') ''buffer''
            ''buffer_is_encoding'' [nativeString api] (boolCarrier api) False,
          functionCall (buffer_moduleSpecifier @ ''::isAscii'')
            (buffer_moduleSpecifier @ ''::isAscii(value)'') ''buffer'' ''buffer_is_ascii''
            [bufferCarrier api] (boolCarrier api) False,
          functionCall (buffer_moduleSpecifier @ ''::isUtf8'')
            (buffer_moduleSpecifier @ ''::isUtf8(value)'') ''buffer'' ''buffer_is_utf8''
            [bufferCarrier api] (boolCarrier api) False,
          functionCall (buffer_moduleSpecifier @ ''::transcode'')
            (buffer_moduleSpecifier @ ''::transcode(value,fromEncoding,toEncoding)'') ''buffer''
            ''buffer_transcode'' [bufferCarrier api, nativeString api, nativeString api]
            (bufferCarrier api) True,
          functionCall (buffer_moduleSpecifier @ ''::btoa'')
            (buffer_moduleSpecifier @ ''::btoa(value)'') ''buffer'' ''buffer_btoa''
            [nativeString api] (nativeString api) True,
          functionCall (buffer_moduleSpecifier @ ''::atob'')
            (buffer_moduleSpecifier @ ''::atob(value)'') ''buffer'' ''buffer_atob''
            [nativeString api] (nativeString api) True])"

section \<open>Every method table is implemented\<close>

text \<open>
  The declarations and the calls derived from a table of methods have the same points in
  the same order, whatever the table; likewise for a numeric accessor.
\<close>

lemma bufferMethod_points:
  "operationsPoints
     (concat (map (\<lambda>method. map (\<lambda>signature.
        (let memberId = bufferMember_methodIdentity method;
             signatureId = memberId @ ''('' @ bs_id signature @ '')'';
             parameterTypes = map (\<lambda>parameter. ba_target parameter) (bs_parameters signature)
         in if bm_static method
            then staticCall bufferMember_bufferId memberId signatureId ''buffer''
              (bs_targetName signature) parameterTypes (bv_target (bm_result method)) (bs_raises signature)
            else instanceCall bufferMember_bufferId memberId signatureId (bs_targetName signature)
              (bufferCarrier api) parameterTypes (bv_target (bm_result method)) (bs_raises signature)
              ''imm''))
        (bm_signatures method)) methods)) =
   membersPoints bufferMember_bufferId
     (map (\<lambda>method.
        (let memberId = bufferMember_methodIdentity method
         in callableMember memberId (bm_name method) MethodMember (bm_static method)
              (map (\<lambda>signature. plainSignature (memberId @ ''('' @ bs_id signature @ '')'')
                 (bm_name method)
                 (map (\<lambda>parameter. param (ba_name parameter) (ba_source parameter))
                    (bs_parameters signature)) (bv_source (bm_result method)))
                 (bm_signatures method)))) methods)"
  by (induction methods)
    (auto simp: point_simps Let_def operationsPoints_calls comp_def)

lemma extraBuffer_implemented:
  "implementsMembers (extraBufferOperations api) bufferMember_bufferId (extraBufferMembers api)"
  unfolding extraBufferOperations_def extraBufferMembers_def
  by (rule implementsMembers_append)
    (simp_all only: implementsMembers_def bufferMethod_points,
      simp add: point_simps bufferMember_bufferId_def param_def restParam_def)

lemma bufferNumeric_implemented:
  "implementsMembers (buffer_numericOperations api m) buffer_bufferId [buffer_numericMember m]"
  by (simp add: implementsMembers_def buffer_numericOperations_def buffer_numericMember_def
      buffer_instanceOperation_def point_simps Let_def param_def)

section \<open>The contract\<close>

lemmas buffer_defs = bufferPredicate_bufferId_def bufferPredicate_memberId_def
  bufferPredicate_functionId_def bufferPredicate_signature_def bufferPredicateMember_def
  bufferPredicateExport_def bufferPredicateOperations_def bufferIndex_exportId_def
  bufferIndex_memberId_def bufferIndex_signatureId_def bufferIndex_byteType_def
  bufferIndex_byteCarrier_def bufferIndexMember_def bufferIndexOperations_def
  bufferMember_bufferId_def bufferMember_bufferType_def bufferMember_number_def
  bufferMember_string_def bufferMember_buffer_def bufferMember_boolean_def
  bufferMember_argument_def bufferMember_prefixes_def bufferMember_searchMethods_def
  bufferMember_methods_def extraBufferMembers_def bufferMember_methodIdentity_def
  extraBufferOperations_def buffer_moduleSpecifier_def buffer_bufferId_def
  buffer_bufferType_def buffer_bufferListCarrier_def buffer_numericMemberRows_def
  buffer_numericMembers_def buffer_numericMember_def bufferModule_def
  buffer_staticOperation_def buffer_instanceOperation_def buffer_numericOperations_def
  bufferOperations_def
  upt_digits length_map bufferValue.select_convs bufferArgument.select_convs
  bufferSignature.select_convs bufferMethod.select_convs numericMember.select_convs
  take_Suc_Cons take_0 take.simps(1) diff_Suc_Suc minus_nat.diff_0 add_0_right numeral_2_eq_2
  option.distinct providerSignature.select_convs

lemma buffer_implements: "implements (bufferOperations api) (mod_exports (bufferModule api))"
  by (rule permCheck_implements)
    (simp only: buffer_defs point_eval cong: weak_congs, simp only: perm_eval cong: perm_congs)

lemma buffer_ids:
  "distinct (map exp_id (mod_exports (bufferModule api))) \<and> moduleScoped (bufferModule api) \<and>
   defaultFree (bufferModule api)"
  by (simp only: buffer_defs moduleScoped_def defaultFree_def id_eval cong: weak_congs)

lemma buffer_index: "memberIndexWrites (bufferOperations api)"
  by (simp only: buffer_defs point_eval operation.select_convs cong: weak_congs)

text \<open>
  The native side of the operations has its shape and receivers, and the references of the
  declarations are resolved.
\<close>

lemma buffer_native: "nativeOperations (bufferTypes api) (bufferOperations api)"
  by (simp only: buffer_defs bufferTypes_def native_eval cong: weak_congs)

lemma buffer_refs: "refsResolved (bufferModule api)"
  by (rule refsResolvedI, simp only: buffer_defs visible_eval cong: weak_congs)
    (simp only: buffer_defs resolve_eval cong: weak_congs)

text \<open>
  Type definitions exist for exactly the declared types with instances, and no point is declared
  twice.
\<close>

lemma buffer_types: "typesExact (bufferTypes api) (mod_exports (bufferModule api))"
  by (rule permCheck_typesExact)
    (simp only: buffer_defs bufferTypes_def type_eval cong: weak_congs,
      simp only: perm_eval cong: perm_congs)

lemma buffer_points: "pointsDistinct (mod_exports (bufferModule api))"
  by (simp only: buffer_defs point_eval cong: weak_congs,
      simp only: distinct_eval cong: perm_congs)

interpretation buffer_component:
  component "[bufferModule api]" "bufferOperations api" for api
  by (rule componentI [OF buffer_implements buffer_ids buffer_index])

end
