(* ===== verification/Node_Child_Process.thy ===== *)
theory Node_Child_Process
  imports Provider_References
begin

text \<open>
  \<^verbatim>\<open>nodejs/src/provider/modules/child-process.ts\<close>: \<open>spawnSync\<close> and its generic
  result record.
\<close>

section \<open>Declarations and operations\<close>

definition childProcess_moduleSpecifier :: "string" where
  "childProcess_moduleSpecifier = ''node:child_process''"

definition childProcess_resultId :: "string" where
  "childProcess_resultId = childProcess_moduleSpecifier @ ''::SpawnSyncReturns''"

definition childProcessModule :: "providerModule" where
  "childProcessModule =
     moduleOf childProcess_moduleSpecifier ''tsonic.mojo.node.child-process''
       (Some [importOf ''node:buffer'' [''Buffer'']])
       [(interfaceDeclaration childProcess_resultId ''SpawnSyncReturns''
           [propertyMember childProcess_resultId ''stdout'' (TypeParameterT ''Output''),
            propertyMember childProcess_resultId ''stderr'' (TypeParameterT ''Output''),
            propertyMember childProcess_resultId ''status''
              (UnionT [NumberT, LiteralT NullLiteral])])
          \<lparr>exp_typeParameters := Some [''Output'']\<rparr>,
        functionDeclaration (childProcess_moduleSpecifier @ ''::spawnSync'') ''spawnSync'' False
          [plainSignature (childProcess_moduleSpecifier @ ''::spawnSync(command,args)'')
             ''spawnSync'' [param ''command'' stringType, param ''args'' stringArrayType]
             (providerRefWith childProcess_moduleSpecifier ''SpawnSyncReturns''
                [providerRef ''node:buffer'' ''Buffer''])]]"

definition childProcessTypes :: "'o mojoApi \<Rightarrow> 'o typeDefinition list" where
  "childProcessTypes api =
     [nodeProviderTypeWith api childProcess_resultId (spawnSyncResultCarrier api) Copyable
        [\<lparr>sgp_targetName = ''Output'', sgp_targetKind = ''type'', sgp_variadic = False\<rparr>]
        False]"

definition childProcessOperations :: "'o mojoApi \<Rightarrow> 'o operation list" where
  "childProcessOperations api =
     [\<lparr>op_exportId = childProcess_moduleSpecifier @ ''::spawnSync'', op_memberId = None,
       op_signatureId = Some (childProcess_moduleSpecifier @ ''::spawnSync(command,args)''),
       op_operationKind = CallOperation,
       op_target = FunctionCallTarget [''tsonic_node'', ''child_process''] ''spawn_sync'' []
         [argumentOf ''imm'', argumentOf ''imm''] None, op_receiverType = None,
       op_parameterTypes = Some [nativeString api, stringListCarrier api],
       op_resultType = spawnSyncResultCarrier api, op_errorType = None, op_raises = True\<rparr>,
      propertyRead childProcess_resultId (childProcess_resultId @ ''.stdout'') ''stdout''
        (spawnSyncResultCarrier api) (bufferCarrier api),
      propertyRead childProcess_resultId (childProcess_resultId @ ''.stderr'') ''stderr''
        (spawnSyncResultCarrier api) (bufferCarrier api),
      propertyRead childProcess_resultId (childProcess_resultId @ ''.status'') ''status''
        (spawnSyncResultCarrier api) (optionalInt32Carrier api)]"

section \<open>The contract\<close>

lemmas childProcess_defs = childProcess_moduleSpecifier_def childProcess_resultId_def
  childProcessModule_def childProcessOperations_def

lemma childProcess_implements: "implements (childProcessOperations api) (mod_exports childProcessModule)"
  by (rule permCheck_implements)
    (simp only: childProcess_defs point_eval cong: weak_congs, simp only: perm_eval cong: perm_congs)

lemma childProcess_ids:
  "distinct (map exp_id (mod_exports childProcessModule)) \<and> moduleScoped childProcessModule \<and>
   defaultFree childProcessModule"
  by (simp only: childProcess_defs moduleScoped_def defaultFree_def id_eval cong: weak_congs)

lemma childProcess_index: "memberIndexWrites (childProcessOperations api)"
  by (simp only: childProcess_defs point_eval cong: weak_congs)

text \<open>
  The native side of the operations has its shape and receivers, and the references of the
  declarations are resolved.
\<close>

lemma childProcess_native: "nativeOperations (childProcessTypes api) (childProcessOperations api)"
  by (simp only: childProcess_defs childProcessTypes_def native_eval cong: weak_congs)

lemma childProcess_refs: "refsResolved childProcessModule"
  by (rule refsResolvedI, simp only: childProcess_defs visible_eval cong: weak_congs)
    (simp only: childProcess_defs resolve_eval cong: weak_congs)

text \<open>
  Type definitions exist for exactly the declared types with instances, and no point is declared
  twice.
\<close>

lemma childProcess_types: "typesExact (childProcessTypes api) (mod_exports childProcessModule)"
  by (rule permCheck_typesExact)
    (simp only: childProcess_defs childProcessTypes_def type_eval cong: weak_congs,
      simp only: perm_eval cong: perm_congs)

lemma childProcess_points: "pointsDistinct (mod_exports childProcessModule)"
  by (simp only: childProcess_defs point_eval cong: weak_congs,
      simp only: distinct_eval cong: perm_congs)

interpretation childProcess_component:
  component "[childProcessModule]" "childProcessOperations api" for api
  by (rule componentI [OF childProcess_implements childProcess_ids childProcess_index])

end
