(* ===== verification/Node_Crypto.thy ===== *)
theory Node_Crypto
  imports Provider_References
begin

text \<open>
  \<^verbatim>\<open>nodejs/src/provider/modules/crypto.ts\<close>: the digest interfaces \<open>Hash\<close> and
  \<open>Hmac\<close>, which share one member table, and the hashing, random and catalog functions.
\<close>

section \<open>Tables and surface\<close>

definition crypto_moduleSpecifier :: "string" where
  "crypto_moduleSpecifier = ''node:crypto''"

definition crypto_bufferType :: "providerType" where
  "crypto_bufferType = providerRef ''node:buffer'' ''Buffer''"

definition crypto_digestTypes :: "'o mojoApi \<Rightarrow> (string \<times> 'o targetType) list" where
  "crypto_digestTypes api =
     [(''Hash'', hashCarrier api),
      (''Hmac'', hmacCarrier api)]"

definition crypto_digestExport :: "string \<Rightarrow> providerExport" where
  "crypto_digestExport name =
     (let owner = (crypto_moduleSpecifier @ ''::'' @ name) in
        (interfaceDeclaration owner name
           ((if (name = ''Hash'') then
               [methodMember owner ''copy'' [] (providerRef crypto_moduleSpecifier ''Hash'')]
               else []) @
            [overloadedMethodMember owner ''update''
               [overloadAs ''buffer'' [param ''data'' crypto_bufferType]
                  (providerRef crypto_moduleSpecifier name),
                overloadAs ''string'' [param ''data'' stringType]
                  (providerRef crypto_moduleSpecifier name)],
             overloadedMethodMember owner ''digest''
               [overloadOf [] crypto_bufferType,
                overloadOf [param ''encoding'' stringType] stringType]])))"

definition cryptoModule :: "'o mojoApi \<Rightarrow> providerModule" where
  "cryptoModule api =
     moduleOf crypto_moduleSpecifier ''tsonic.mojo.node.crypto''
       (Some [importOf ''node:buffer'' [''Buffer'']])
       ((map (\<lambda>(name, _). crypto_digestExport name) (crypto_digestTypes api)) @
        [fnExport crypto_moduleSpecifier ''createHash'' [param ''algorithm'' stringType]
           (providerRef crypto_moduleSpecifier ''Hash''),
         overloadedFunctionExport crypto_moduleSpecifier ''createHmac''
           [overloadAs ''algorithm,string''
              [param ''algorithm'' stringType, param ''key'' stringType]
              (providerRef crypto_moduleSpecifier ''Hmac''),
            overloadAs ''algorithm,buffer''
              [param ''algorithm'' stringType, param ''key'' crypto_bufferType]
              (providerRef crypto_moduleSpecifier ''Hmac'')],
         fnExport crypto_moduleSpecifier ''randomUUID'' [] stringType] @
        (map (\<lambda>name. (fnExport crypto_moduleSpecifier name [] stringArrayType))
           [''getCiphers'', ''getHashes'', ''getCurves'']) @
        [fnExport crypto_moduleSpecifier ''randomBytes'' [param ''size'' numberType]
           crypto_bufferType,
         fnExport crypto_moduleSpecifier ''randomFillSync'' [param ''buffer'' crypto_bufferType]
           crypto_bufferType,
         fnExport crypto_moduleSpecifier ''timingSafeEqual''
           [param ''left'' crypto_bufferType, param ''right'' crypto_bufferType] booleanType,
         overloadedFunctionExport crypto_moduleSpecifier ''randomInt''
           [overloadOf [param ''maximum'' numberType] numberType,
            overloadOf [param ''minimum'' numberType, param ''maximum'' numberType] numberType]])"

definition cryptoTypes :: "'o mojoApi \<Rightarrow> 'o typeDefinition list" where
  "cryptoTypes api =
     map
       (\<lambda>(name, carrier).
          (nodeProviderType api (crypto_moduleSpecifier @ ''::'' @ name) carrier
             ImplicitlyCopyable)) (crypto_digestTypes api)"

definition cryptoOperations :: "'o mojoApi \<Rightarrow> 'o operation list" where
  "cryptoOperations api =
     [functionCall ''node:crypto::createHash'' ''node:crypto::createHash(algorithm)'' ''crypto''
        ''create_hash'' [nativeString api] (hashCarrier api) True,
      functionCall ''node:crypto::createHmac'' ''node:crypto::createHmac(algorithm,string)''
        ''crypto'' ''create_hmac'' [nativeString api, nativeString api] (hmacCarrier api) True,
      functionCall ''node:crypto::createHmac'' ''node:crypto::createHmac(algorithm,buffer)''
        ''crypto'' ''create_hmac'' [nativeString api, bufferCarrier api] (hmacCarrier api) True,
      functionCall ''node:crypto::randomUUID'' ''node:crypto::randomUUID()'' ''crypto''
        ''random_uuid'' [] (nativeString api) True] @
     (map
        (\<lambda>(source, target).
           (functionCall (''node:crypto::'' @ source) (''node:crypto::'' @ source @ ''()'')
              ''crypto_catalog'' target [] (stringListCarrier api) True))
        [(''getCiphers'', ''get_ciphers''),
         (''getHashes'', ''get_hashes''),
         (''getCurves'', ''get_curves'')]) @
     [functionCall ''node:crypto::randomBytes'' ''node:crypto::randomBytes(size)'' ''crypto''
        ''random_bytes'' [float64Carrier api] (bufferCarrier api) True,
      (functionCall ''node:crypto::randomFillSync'' ''node:crypto::randomFillSync(buffer)''
         ''crypto'' ''random_fill'' [bufferCarrier api] (bufferCarrier api) True)
        \<lparr>op_target :=
           (FunctionCallTarget [''tsonic_node'', ''crypto''] ''random_fill'' []
              [argumentOf ''mut''] None)\<rparr>,
      functionCall ''node:crypto::timingSafeEqual'' ''node:crypto::timingSafeEqual(left,right)''
        ''crypto'' ''timing_safe_equal'' [bufferCarrier api, bufferCarrier api]
        (boolCarrier api) True,
      functionCall ''node:crypto::randomInt'' ''node:crypto::randomInt(maximum)'' ''crypto''
        ''random_int'' [float64Carrier api] (float64Carrier api) True,
      functionCall ''node:crypto::randomInt'' ''node:crypto::randomInt(minimum,maximum)''
        ''crypto'' ''random_int'' [float64Carrier api, float64Carrier api] (float64Carrier api)
        True,
      instanceCall ''node:crypto::Hash'' ''node:crypto::Hash.copy'' ''node:crypto::Hash.copy()''
        ''copy_hash'' (hashCarrier api) [] (hashCarrier api) True ''imm''] @
     (concat
        (map
           (\<lambda>(name, carrier).
              (let owner = (crypto_moduleSpecifier @ ''::'' @ name) in
                 [instanceCall owner (owner @ ''.update'') (owner @ ''.update(buffer)'')
                    ''update_buffer'' carrier [bufferCarrier api] carrier True ''imm'',
                  instanceCall owner (owner @ ''.update'') (owner @ ''.update(string)'')
                    ''update_string'' carrier [nativeString api] carrier True ''imm'',
                  instanceCall owner (owner @ ''.digest'') (owner @ ''.digest()'') ''digest''
                    carrier [] (bufferCarrier api) True ''imm'',
                  instanceCall owner (owner @ ''.digest'') (owner @ ''.digest(encoding)'')
                    ''digest'' carrier [nativeString api] (nativeString api) True ''imm'']))
           (crypto_digestTypes api)))"

section \<open>The contract\<close>

lemmas crypto_defs = cryptoModule_def cryptoOperations_def crypto_moduleSpecifier_def
  crypto_digestTypes_def crypto_digestExport_def

lemma crypto_implements: "implements (cryptoOperations api) (mod_exports (cryptoModule api))"
  by (rule permCheck_implements)
    (simp only: crypto_defs point_eval cong: weak_congs, simp only: perm_eval cong: perm_congs)

lemma crypto_ids: "distinct (map exp_id (mod_exports (cryptoModule api))) \<and> moduleScoped (cryptoModule api) \<and>
   defaultFree (cryptoModule api)"
  by (simp only: crypto_defs moduleScoped_def defaultFree_def id_eval cong: weak_congs)

lemma crypto_index: "memberIndexWrites (cryptoOperations api)"
  by (simp only: crypto_defs point_eval cong: weak_congs)

text \<open>
  The native side of the operations has its shape and receivers, and the references of the
  declarations are resolved.
\<close>

lemma crypto_native: "nativeOperations (cryptoTypes api) (cryptoOperations api)"
  by (simp only: crypto_defs cryptoTypes_def native_eval cong: weak_congs)

lemma crypto_refs: "refsResolved (cryptoModule api)"
  by (rule refsResolvedI, simp only: crypto_defs crypto_bufferType_def visible_eval cong:
      weak_congs)
    (simp only: crypto_defs crypto_bufferType_def resolve_eval cong: weak_congs)

text \<open>
  Type definitions exist for exactly the declared types with instances, and no point is declared
  twice.
\<close>

lemma crypto_types: "typesExact (cryptoTypes api) (mod_exports (cryptoModule api))"
  by (rule permCheck_typesExact)
    (simp only: crypto_defs cryptoTypes_def type_eval cong: weak_congs,
      simp only: perm_eval cong: perm_congs)

lemma crypto_points: "pointsDistinct (mod_exports (cryptoModule api))"
  by (simp only: crypto_defs point_eval cong: weak_congs,
      simp only: distinct_eval cong: perm_congs)

interpretation crypto_component: component "[cryptoModule api]" "cryptoOperations api" for api
  by (rule componentI [OF crypto_implements crypto_ids crypto_index])

end
