(* ===== verification/Node_Dns.thy ===== *)
theory Node_Dns
  imports Provider_References
begin

text \<open>
  \<^verbatim>\<open>nodejs/src/provider/modules/dns.ts\<close> and \<^verbatim>\<open>dns/lookup-contract.ts\<close>: the modules
  \<open>node:dns\<close> and \<open>node:dns/promises\<close>, which share one table of operations. The
  overloads of \<open>lookup\<close> come from one table of shapes for both modules.
\<close>

section \<open>Lookup shapes (dns/lookup-contract.ts)\<close>

record lookupRecord =
  lrec_name :: "string"
  lrec_all :: "providerType"
  lrec_optional :: "bool"

record 'o lookupShape =
  shape_suffix :: "string"
  shape_parameters :: "providerParameter list"
  shape_result :: "providerType"
  shape_resultCarrier :: "'o targetType"
  shape_callbackCarrier :: "'o targetType"
  shape_callbackParameters :: "providerParameter list"
  shape_native :: "string"

definition dnsLookup_moduleSpecifier :: "string" where
  "dnsLookup_moduleSpecifier = ''node:dns''"

definition dnsLookup_optionsCarrier :: "'o mojoApi \<Rightarrow> 'o targetType" where
  "dnsLookup_optionsCarrier api =
     mojoNamedTargetType api ''tsonic.mojo.node.dns.LookupOptions'' [''tsonic_node'', ''dns'']
       ''LookupOptions''"

definition dnsLookup_addressType :: "providerType" where
  "dnsLookup_addressType = providerRef dnsLookup_moduleSpecifier ''LookupAddress''"

definition dnsLookup_addressesType :: "providerType" where
  "dnsLookup_addressesType = ArrayT dnsLookup_addressType"

definition dnsLookup_addressesCarrier :: "'o mojoApi \<Rightarrow> 'o targetType" where
  "dnsLookup_addressesCarrier api =
     mojoListTargetType api (dnsLookupAddressCarrier api)"

definition dnsLookup_familyType :: "providerType" where
  "dnsLookup_familyType = UnionT [numberType, stringType]"

definition dnsLookup_familyCarrier :: "'o mojoApi \<Rightarrow> 'o targetType" where
  "dnsLookup_familyCarrier api =
     mojoOptionalTargetType api (mojoUnionTargetType api [float64Carrier api, nativeString api])"

definition dnsLookup_union :: "providerType list \<Rightarrow> providerType" where
  "dnsLookup_union types = UnionT types"

definition dnsLookup_callback ::
    "'o mojoApi \<Rightarrow> 'o targetType list \<Rightarrow> 'o targetType" where
  "dnsLookup_callback api parameters =
     mojoCallableTargetType api (map (\<lambda>type. (immPlain type)) parameters)
       (unitCarrier api) True"

definition dnsLookup_allCallbackCarrier :: "'o mojoApi \<Rightarrow> 'o targetType" where
  "dnsLookup_allCallbackCarrier api =
     dnsLookup_callback api
       [jsValueCarrier api, mojoOptionalTargetType api (dnsLookup_addressesCarrier api)]"

definition dnsLookup_anyCallbackCarrier :: "'o mojoApi \<Rightarrow> 'o targetType" where
  "dnsLookup_anyCallbackCarrier api =
     dnsLookup_callback api
       [jsValueCarrier api,
        mojoOptionalTargetType api
          (mojoUnionTargetType api [nativeString api, dnsLookup_addressesCarrier api]),
        optionalFloat64Carrier api]"

definition dnsLookup_optionRecords :: "lookupRecord list" where
  "dnsLookup_optionRecords =
     [\<lparr>lrec_name = ''LookupAllOptions'', lrec_all = LiteralT (BoolLiteral True),
       lrec_optional = False\<rparr>,
      \<lparr>lrec_name = ''LookupOneOptions'', lrec_all = LiteralT (BoolLiteral False),
       lrec_optional = True\<rparr>,
      \<lparr>lrec_name = ''LookupOptions'', lrec_all = booleanType, lrec_optional = True\<rparr>]"

definition dnsLookup_optionFields ::
    "'o mojoApi \<Rightarrow> (string \<times> providerType \<times> 'o targetType) list" where
  "dnsLookup_optionFields api =
     [(''family'', dnsLookup_familyType, (dnsLookup_familyCarrier api)),
      (''hints'', numberType, (optionalFloat64Carrier api)),
      (''verbatim'', booleanType, (optionalBoolCarrier api)),
      (''order'', stringType, (optionalStringCarrier api))]"

definition lookupRecordExports :: "'o mojoApi \<Rightarrow> providerExport list" where
  "lookupRecordExports api =
     map
       (\<lambda>record.
          (let ident = dnsLookup_moduleSpecifier @ ''::'' @ (lrec_name record)
           in interfaceDeclaration ident (lrec_name record)
                ((map
                    (\<lambda>(name, type, _).
                       (propertyMemberWith ident name type False False True))
                    (dnsLookup_optionFields api)) @
                 [propertyMemberWith ident ''all'' (lrec_all record) False False
                    (lrec_optional record)]))) dnsLookup_optionRecords"

definition lookupOptionTypes :: "'o mojoApi \<Rightarrow> 'o typeDefinition list" where
  "lookupOptionTypes api =
     map
       (\<lambda>record.
          (nodeProviderRecordType api (dnsLookup_moduleSpecifier @ ''::'' @ (lrec_name record))
             (dnsLookup_optionsCarrier api) Copyable)) dnsLookup_optionRecords"

definition lookupOptionOperations :: "'o mojoApi \<Rightarrow> 'o operation list" where
  "lookupOptionOperations api =
     concat
       (map
          (\<lambda>record.
             (let ident = dnsLookup_moduleSpecifier @ ''::'' @ (lrec_name record)
              in concat
                   (map
                      (\<lambda>(name, _, target).
                         [propertyRead ident (ident @ ''.'' @ name) name
                            (dnsLookup_optionsCarrier api) target,
                          propertyWrite api ident (ident @ ''.'' @ name) name
                            (dnsLookup_optionsCarrier api) target])
                      ((dnsLookup_optionFields api) @
                       [(''all'', (lrec_all record), (optionalBoolCarrier api))]))))
          dnsLookup_optionRecords)"

definition dnsLookup_lookupShapes :: "'o mojoApi \<Rightarrow> 'o lookupShape list" where
  "dnsLookup_lookupShapes api =
     [\<lparr>shape_suffix = '''', shape_parameters = [], shape_result = dnsLookup_addressType,
       shape_resultCarrier = dnsLookupAddressCarrier api,
       shape_callbackCarrier = dnsLookupCallbackCarrier api,
       shape_callbackParameters =
         [param ''error'' AnyT,
          param ''address'' (dnsLookup_union [stringType, undefinedType]),
          param ''family'' (dnsLookup_union [numberType, undefinedType])],
       shape_native = ''lookup''\<rparr>,
      \<lparr>shape_suffix = '',family'', shape_parameters = [param ''family'' numberType],
       shape_result = dnsLookup_addressType, shape_resultCarrier = dnsLookupAddressCarrier api,
       shape_callbackCarrier = dnsLookupCallbackCarrier api,
       shape_callbackParameters =
         [param ''error'' AnyT,
          param ''address'' (dnsLookup_union [stringType, undefinedType]),
          param ''family'' (dnsLookup_union [numberType, undefinedType])],
       shape_native = ''lookup_family''\<rparr>,
      \<lparr>shape_suffix = '',allOptions'',
       shape_parameters =
         [param ''options'' (providerRef dnsLookup_moduleSpecifier ''LookupAllOptions'')],
       shape_result = dnsLookup_addressesType,
       shape_resultCarrier = dnsLookup_addressesCarrier api,
       shape_callbackCarrier = dnsLookup_allCallbackCarrier api,
       shape_callbackParameters =
         [param ''error'' AnyT,
          param ''addresses'' (dnsLookup_union [dnsLookup_addressesType, undefinedType])],
       shape_native = ''lookup_all''\<rparr>,
      \<lparr>shape_suffix = '',oneOptions'',
       shape_parameters =
         [param ''options'' (providerRef dnsLookup_moduleSpecifier ''LookupOneOptions'')],
       shape_result = dnsLookup_addressType, shape_resultCarrier = dnsLookupAddressCarrier api,
       shape_callbackCarrier = dnsLookupCallbackCarrier api,
       shape_callbackParameters =
         [param ''error'' AnyT,
          param ''address'' (dnsLookup_union [stringType, undefinedType]),
          param ''family'' (dnsLookup_union [numberType, undefinedType])],
       shape_native = ''lookup_one''\<rparr>,
      \<lparr>shape_suffix = '',options'',
       shape_parameters =
         [param ''options'' (providerRef dnsLookup_moduleSpecifier ''LookupOptions'')],
       shape_result = dnsLookup_union [dnsLookup_addressType, dnsLookup_addressesType],
       shape_resultCarrier = mojoUnionTargetType api
         [dnsLookupAddressCarrier api, dnsLookup_addressesCarrier api],
       shape_callbackCarrier = dnsLookup_anyCallbackCarrier api,
       shape_callbackParameters =
         [param ''error'' AnyT,
          param ''address''
            (dnsLookup_union [stringType, dnsLookup_addressesType, undefinedType]),
          Parameter ''family'' (dnsLookup_union [numberType, undefinedType]) False True],
       shape_native = ''lookup_any''\<rparr>]"

definition lookupExport :: "'o mojoApi \<Rightarrow> bool \<Rightarrow> providerExport" where
  "lookupExport api promises =
     (let moduleName =
            if promises then ''node:dns/promises'' else dnsLookup_moduleSpecifier
      in overloadedFunctionExport moduleName ''lookup''
           (map
              (\<lambda>shape.
                 (let suffix =
                        ''hostname'' @
                        (shape_suffix shape) @
                        (if promises then '''' else '',callback'')
                  in overloadAs suffix
                       ([param ''hostname'' stringType] @
                        (shape_parameters shape) @
                        (if promises then [] else
                           [param ''callback''
                              (providerCallbackType
                                 (moduleName @ ''::lookup('' @ suffix @ '')'') ''callback''
                                 (shape_callbackParameters shape))]))
                       (if promises then (sourcePromise (shape_result shape)) else voidType)))
              (dnsLookup_lookupShapes api)))"

definition lookupCallOperations :: "'o mojoApi \<Rightarrow> 'o operation list" where
  "lookupCallOperations api =
     concat
       (map
          (\<lambda>promises.
             (map
                (\<lambda>shape.
                   (let moduleName =
                          if promises then ''node:dns/promises'' else dnsLookup_moduleSpecifier
                    in functionCall (moduleName @ ''::lookup'')
                         (moduleName @
                          ''::lookup(hostname'' @
                          (shape_suffix shape) @
                          (if promises then '''' else '',callback'') @
                          '')'') ''dns''
                         ((shape_native shape) @
                          ''_'' @
                          (if promises then ''async'' else ''callback''))
                         ([nativeString api] @
                          (map
                             (\<lambda>parameter.
                                (if (par_type parameter = NumberT) then (float64Carrier api)
                                   else (dnsLookup_optionsCarrier api)))
                             (shape_parameters shape)) @
                          (if promises then [] else [shape_callbackCarrier shape]))
                         (if promises then
                            (FutureTarget ''native'' (shape_resultCarrier shape) True) else
                            (unitCarrier api)) True)) (dnsLookup_lookupShapes api)))
          [False, True])"

definition dnsLookup_constants :: "(string \<times> string) list" where
  "dnsLookup_constants =
     [(''ADDRCONFIG'', ''addrconfig''),
      (''V4MAPPED'', ''v4mapped''),
      (''ALL'', ''all_addresses'')]"

definition lookupConstantExports :: "providerExport list" where
  "lookupConstantExports =
     map (\<lambda>(name, _). (valueExport dnsLookup_moduleSpecifier name numberType))
       dnsLookup_constants"

definition lookupConstantOperations :: "'o mojoApi \<Rightarrow> 'o operation list" where
  "lookupConstantOperations api =
     map
       (\<lambda>(name, native).
          (functionValue (dnsLookup_moduleSpecifier @ ''::'' @ name) ''dns'' native
             (float64Carrier api) False)) dnsLookup_constants"

section \<open>The modules (dns.ts)\<close>

definition dns_moduleSpecifier :: "string" where
  "dns_moduleSpecifier = ''node:dns''"

definition dns_promisesSpecifier :: "string" where
  "dns_promisesSpecifier = ''node:dns/promises''"

definition dns_lookupAddressId :: "string" where
  "dns_lookupAddressId = dns_moduleSpecifier @ ''::LookupAddress''"

definition dns_anyType :: "providerType" where
  "dns_anyType = AnyT"

definition dns_optionalAddresses :: "providerType" where
  "dns_optionalAddresses = UnionT [stringArrayType, undefinedType]"

definition dnsModule :: "'o mojoApi \<Rightarrow> providerModule" where
  "dnsModule api =
     (let addressesCallback =
            \<lambda>signatureId.
              (providerCallbackType signatureId ''callback''
                 [param ''error'' dns_anyType, param ''addresses'' dns_optionalAddresses])
      in moduleOf dns_moduleSpecifier ''tsonic.mojo.node.dns'' None
           ((lookupRecordExports api) @
            lookupConstantExports @
            [interfaceDeclaration dns_lookupAddressId ''LookupAddress''
               [propertyMember dns_lookupAddressId ''address'' stringType,
                propertyMember dns_lookupAddressId ''family'' NumberT],
             lookupExport api False] @
            (map
               (\<lambda>name.
                  (let signatureId =
                         dns_moduleSpecifier @
                         ''::'' @
                         name @
                         ''('' @
                         (if (name = ''reverse'') then ''address'' else ''hostname'') @
                         '',callback)''
                   in functionDeclaration (dns_moduleSpecifier @ ''::'' @ name) name False
                        [plainSignature signatureId name
                           [param (if (name = ''reverse'') then ''address'' else ''hostname'')
                              stringType,
                            param ''callback'' (addressesCallback signatureId)] voidType]))
               [''resolve4'', ''resolve6'', ''reverse''])))"

definition dnsPromisesModule :: "'o mojoApi \<Rightarrow> providerModule" where
  "dnsPromisesModule api =
     moduleOf dns_promisesSpecifier ''tsonic.mojo.node.dns-promises''
       (Some
          [importOf dns_moduleSpecifier
             (map (\<lambda>exportedName. exportedName)
                [''LookupAddress'',
                 ''LookupOptions'',
                 ''LookupAllOptions'',
                 ''LookupOneOptions''])])
       ([lookupExport api True] @
        (map
           (\<lambda>name.
              (functionDeclaration (dns_promisesSpecifier @ ''::'' @ name) name False
                 [plainSignature
                    (dns_promisesSpecifier @
                     ''::'' @
                     name @
                     ''('' @
                     (if (name = ''reverse'') then ''address'' else ''hostname'') @
                     '')'') name
                    [param (if (name = ''reverse'') then ''address'' else ''hostname'')
                       stringType] (sourcePromise stringArrayType)]))
           [''resolve4'', ''resolve6'', ''reverse'']))"

definition dnsTypes :: "'o mojoApi \<Rightarrow> 'o typeDefinition list" where
  "dnsTypes api =
     [nodeProviderType api dns_lookupAddressId (dnsLookupAddressCarrier api) Copyable] @
     (lookupOptionTypes api)"

definition dnsOperations :: "'o mojoApi \<Rightarrow> 'o operation list" where
  "dnsOperations api =
     (let stringListFuture = FutureTarget ''native'' (stringListCarrier api) True
      in (lookupCallOperations api) @
         (lookupOptionOperations api) @
         (lookupConstantOperations api) @
         [functionCall (dns_moduleSpecifier @ ''::resolve4'')
            (dns_moduleSpecifier @ ''::resolve4(hostname,callback)'') ''dns''
            ''resolve4_callback'' [nativeString api, dnsAddressArrayCallbackCarrier api]
            (unitCarrier api) True,
          functionCall (dns_moduleSpecifier @ ''::resolve6'')
            (dns_moduleSpecifier @ ''::resolve6(hostname,callback)'') ''dns''
            ''resolve6_callback'' [nativeString api, dnsAddressArrayCallbackCarrier api]
            (unitCarrier api) True,
          functionCall (dns_moduleSpecifier @ ''::reverse'')
            (dns_moduleSpecifier @ ''::reverse(address,callback)'') ''dns'' ''reverse_callback''
            [nativeString api, dnsAddressArrayCallbackCarrier api] (unitCarrier api) True,
          propertyReadVia MethodAccess dns_lookupAddressId (dns_lookupAddressId @ ''.address'')
            ''address_value'' (dnsLookupAddressCarrier api) (nativeString api),
          propertyReadVia MethodAccess dns_lookupAddressId (dns_lookupAddressId @ ''.family'')
            ''family_value'' (dnsLookupAddressCarrier api) (float64Carrier api),
          functionCall (dns_promisesSpecifier @ ''::resolve4'')
            (dns_promisesSpecifier @ ''::resolve4(hostname)'') ''dns'' ''resolve4_async''
            [nativeString api] stringListFuture True,
          functionCall (dns_promisesSpecifier @ ''::resolve6'')
            (dns_promisesSpecifier @ ''::resolve6(hostname)'') ''dns'' ''resolve6_async''
            [nativeString api] stringListFuture True,
          functionCall (dns_promisesSpecifier @ ''::reverse'')
            (dns_promisesSpecifier @ ''::reverse(address)'') ''dns'' ''reverse_async''
            [nativeString api] stringListFuture True])"

section \<open>The contract\<close>

lemmas dns_defs = dnsLookup_moduleSpecifier_def dnsLookup_optionsCarrier_def
  dnsLookup_addressType_def dnsLookup_addressesType_def dnsLookup_addressesCarrier_def
  dnsLookup_familyType_def dnsLookup_familyCarrier_def dnsLookup_union_def
  dnsLookup_callback_def dnsLookup_allCallbackCarrier_def dnsLookup_anyCallbackCarrier_def
  dnsLookup_optionRecords_def dnsLookup_optionFields_def lookupRecordExports_def
  lookupOptionOperations_def dnsLookup_lookupShapes_def lookupExport_def
  lookupCallOperations_def dnsLookup_constants_def lookupConstantExports_def
  lookupConstantOperations_def dns_moduleSpecifier_def dns_promisesSpecifier_def
  dns_lookupAddressId_def dns_anyType_def dns_optionalAddresses_def dnsModule_def
  dnsPromisesModule_def dnsOperations_def
  lookupRecord.select_convs lookupShape.select_convs packageExports_def

lemma dns_implements:
  "implements (dnsOperations api) (packageExports [dnsModule api, dnsPromisesModule api])"
  by (rule permCheck_implements)
    (simp only: dns_defs point_eval cong: weak_congs, simp only: perm_eval cong: perm_congs)

lemma dns_ids:
  "distinct (map exp_id (mod_exports (dnsModule api))) \<and> moduleScoped (dnsModule api) \<and>
   defaultFree (dnsModule api)"
  by (simp only: dns_defs moduleScoped_def defaultFree_def id_eval cong: weak_congs)

lemma dnsPromises_ids:
  "distinct (map exp_id (mod_exports (dnsPromisesModule api))) \<and> moduleScoped (dnsPromisesModule api) \<and>
   defaultFree (dnsPromisesModule api)"
  by (simp only: dns_defs moduleScoped_def defaultFree_def id_eval cong: weak_congs)

lemma dns_index: "memberIndexWrites (dnsOperations api)"
  by (simp only: dns_defs point_eval cong: weak_congs)

text \<open>
  The native side of the operations has its shape and receivers, and the references of the
  declarations are resolved.
\<close>

lemma dns_native: "nativeOperations (dnsTypes api) (dnsOperations api)"
  by (simp only: dns_defs dnsTypes_def lookupOptionTypes_def native_eval cong: weak_congs)

lemma dns_refs: "refsResolved (dnsModule api)"
  by (rule refsResolvedI, simp only: dns_defs visible_eval cong: weak_congs)
    (simp only: dns_defs resolve_eval cong: weak_congs)

lemma dnsPromises_refs: "refsResolved (dnsPromisesModule api)"
  by (rule refsResolvedI, simp only: dns_defs visible_eval cong: weak_congs)
    (simp only: dns_defs resolve_eval cong: weak_congs)

text \<open>
  Type definitions exist for exactly the declared types with instances, and no point is declared
  twice.
\<close>

lemma dns_types: "typesExact (dnsTypes api) (packageExports [dnsModule api, dnsPromisesModule api])"
  by (rule permCheck_typesExact)
    (simp only: dns_defs dnsTypes_def lookupOptionTypes_def type_eval cong: weak_congs,
      simp only: perm_eval cong: perm_congs)

lemma dns_points: "pointsDistinct (packageExports [dnsModule api, dnsPromisesModule api])"
  by (simp only: dns_defs point_eval cong: weak_congs,
      simp only: distinct_eval cong: perm_congs)

interpretation dns_component:
  component "[dnsModule api, dnsPromisesModule api]" "dnsOperations api" for api
  by unfold_locales (simp_all add: dns_implements dns_ids dnsPromises_ids dns_index)

end
