(* ===== verification/Node_Events.thy ===== *)
theory Node_Events
  imports Provider_References
begin

text \<open>
  \<^verbatim>\<open>nodejs/src/provider/modules/events.ts\<close>: the class \<open>EventEmitter\<close>. Its listener
  methods and \<open>emit\<close> have one signature per number of values, from none to three.
\<close>

section \<open>Declarations and operations\<close>

definition events_moduleSpecifier :: "string" where
  "events_moduleSpecifier = ''node:events''"

definition events_emitterId :: "string" where
  "events_emitterId = events_moduleSpecifier @ ''::EventEmitter''"

definition events_anyType :: "providerType" where
  "events_anyType = AnyT"

definition events_symbolType :: "providerType" where
  "events_symbolType = SourceGlobalT ''Symbol'' None"

definition events_eventNameType :: "providerType" where
  "events_eventNameType = UnionT [StringT, events_symbolType]"

definition events_eventNameArrayType :: "providerType" where
  "events_eventNameArrayType = ArrayT events_eventNameType"

definition events_eventNameListCarrier :: "'o mojoApi \<Rightarrow> 'o targetType" where
  "events_eventNameListCarrier api = mojoListTargetType api (jsValueCarrier api)"

definition events_listenerMember :: "string \<Rightarrow> providerMember" where
  "events_listenerMember name =
     callableMember (events_emitterId @ ''.'' @ name) name MethodMember False
       (map
          (\<lambda>arity.
             (plainSignature
                (events_emitterId @ ''.'' @ name @ ''('' @ (natString arity) @ '')'') name
                [param ''eventName'' events_eventNameType,
                 param ''listener''
                   (FunctionT
                      (events_emitterId @ ''.'' @ name @ ''.Listener'' @ (natString arity))
                      (map
                         (\<lambda>index.
                            (param (''value'' @ (natString index)) events_anyType)) [0..<arity])
                      voidType)] (providerRef events_moduleSpecifier ''EventEmitter''))) [0..<4])"

definition events_emitMember :: "providerMember" where
  "events_emitMember =
     callableMember (events_emitterId @ ''.emit'') ''emit'' MethodMember False
       (map
          (\<lambda>arity.
             (plainSignature (events_emitterId @ ''.emit('' @ (natString arity) @ '')'')
                ''emit''
                ([param ''eventName'' events_eventNameType] @
                 (map (\<lambda>index. (param (''value'' @ (natString index)) events_anyType))
                    [0..<arity])) booleanType)) [0..<4])"

definition eventsModule :: "providerModule" where
  "eventsModule =
     moduleOf events_moduleSpecifier ''tsonic.mojo.node.events'' None
       [classDeclaration events_emitterId ''EventEmitter''
          ([constructorMember events_emitterId []] @
           (map events_listenerMember
              [''addListener'',
               ''on'',
               ''once'',
               ''off'',
               ''prependListener'',
               ''prependOnceListener'',
               ''removeListener'']) @
           [events_emitMember,
            methodMember events_emitterId ''eventNames'' [] events_eventNameArrayType,
            methodMember events_emitterId ''getMaxListeners'' [] numberType,
            methodMember events_emitterId ''listenerCount''
              [param ''eventName'' events_eventNameType] numberType,
            callableMember (events_emitterId @ ''.removeAllListeners'') ''removeAllListeners''
              MethodMember False
              [plainSignature (events_emitterId @ ''.removeAllListeners()'')
                 ''removeAllListeners'' [] (providerRef events_moduleSpecifier ''EventEmitter''),
               plainSignature (events_emitterId @ ''.removeAllListeners(eventName)'')
                 ''removeAllListeners'' [param ''eventName'' events_eventNameType]
                 (providerRef events_moduleSpecifier ''EventEmitter'')],
            methodMember events_emitterId ''setMaxListeners'' [param ''count'' numberType]
              (providerRef events_moduleSpecifier ''EventEmitter'')]),
        fnExport events_moduleSpecifier ''listenerCount''
          [param ''emitter'' (providerRef events_moduleSpecifier ''EventEmitter''),
           param ''eventName'' events_eventNameType] numberType]"

definition eventsTypes :: "'o mojoApi \<Rightarrow> 'o typeDefinition list" where
  "eventsTypes api =
     [nodeProviderType api events_emitterId (eventEmitterCarrier api) ImplicitlyCopyable]"

definition events_instance ::
    "'o mojoApi \<Rightarrow> string \<Rightarrow> string \<Rightarrow>
      string option \<Rightarrow> 'o targetType list \<Rightarrow> 'o targetType \<Rightarrow>
      bool \<Rightarrow> bool \<Rightarrow> 'o operation" where
  "events_instance api member name signatureId parameterTypes resultType mutating raises =
     \<lparr>op_exportId = events_emitterId, op_memberId = Some (events_emitterId @ ''.'' @ member),
      op_signatureId = signatureId, op_operationKind = CallOperation,
      op_target = InstanceCallTarget name (if mutating then ''mut'' else ''imm'')
        (map (\<lambda>_. (argumentOf ''imm'')) parameterTypes),
      op_receiverType = Some (eventEmitterCarrier api), op_parameterTypes = Some parameterTypes,
      op_resultType = resultType, op_errorType = None, op_raises = raises\<rparr>"

definition eventsOperations :: "'o mojoApi \<Rightarrow> 'o operation list" where
  "eventsOperations api =
     (let callbackCarriers =
            [emptyCallbackCarrier api,
             oneValueCallbackCarrier api,
             twoValueCallbackCarrier api,
             threeValueCallbackCarrier api]
      in [\<lparr>op_exportId = events_emitterId,
           op_memberId = Some (events_emitterId @ ''.constructor''),
           op_signatureId = Some (events_emitterId @ ''.constructor()''),
           op_operationKind = ConstructorOperation,
           op_target = FunctionCallTarget [''tsonic_node'', ''events''] ''event_emitter_new'' []
             [] None, op_receiverType = None, op_parameterTypes = Some [],
           op_resultType = eventEmitterCarrier api, op_errorType = None, op_raises = False\<rparr>] @
         (concat
            (map
               (\<lambda>member.
                  (let target =
                         if (member = ''once'') then ''once'' else
                           (if (member = ''prependListener'') then ''prepend'' else
                              (if (member = ''prependOnceListener'') then ''prepend_once'' else
                                 (if ((member = ''off'') \<or> (member = ''removeListener''))
                                    then ''off'' else ''on'')))
                   in map
                        (\<lambda>arity.
                           (events_instance api member
                              (target @ ''_callable'' @ (if arity = 0 then '''' else natString arity))
                              (Some
                                 (events_emitterId @ ''.'' @ member @ ''('' @
                                  (natString arity) @ '')''))
                              [jsValueCarrier api, callbackCarriers ! arity]
                              (eventEmitterCarrier api) True True))
                        [0..< (length callbackCarriers)]))
               [''addListener'',
                ''on'',
                ''once'',
                ''off'',
                ''prependListener'',
                ''prependOnceListener'',
                ''removeListener''])) @
         (map
            (\<lambda>arity.
               (events_instance api ''emit''
                  (''emit_callable'' @ (if arity = 0 then '''' else natString arity))
                  (Some (events_emitterId @ ''.emit('' @ (natString arity) @ '')''))
                  ([jsValueCarrier api] @ (replicate arity (jsValueCarrier api)))
                  (boolCarrier api) True True)) [0..< (length callbackCarriers)]) @
         [events_instance api ''listenerCount'' ''listener_count''
            (Some (events_emitterId @ ''.listenerCount(eventName)'')) [jsValueCarrier api]
            (float64Carrier api) False True,
          events_instance api ''removeAllListeners'' ''remove_all_listeners''
            (Some (events_emitterId @ ''.removeAllListeners()'')) [] (eventEmitterCarrier api)
            True False,
          events_instance api ''removeAllListeners'' ''remove_all_listeners_for''
            (Some (events_emitterId @ ''.removeAllListeners(eventName)'')) [jsValueCarrier api]
            (eventEmitterCarrier api) True True,
          events_instance api ''eventNames'' ''event_names''
            (Some (events_emitterId @ ''.eventNames()'')) [] (events_eventNameListCarrier api)
            False True,
          events_instance api ''getMaxListeners'' ''get_max_listeners''
            (Some (events_emitterId @ ''.getMaxListeners()'')) [] (float64Carrier api) False
            False,
          events_instance api ''setMaxListeners'' ''set_max_listeners''
            (Some (events_emitterId @ ''.setMaxListeners(count)'')) [float64Carrier api]
            (eventEmitterCarrier api) True True,
          \<lparr>op_exportId = events_moduleSpecifier @ ''::listenerCount'', op_memberId = None,
           op_signatureId = Some
             (events_moduleSpecifier @ ''::listenerCount(emitter,eventName)''),
           op_operationKind = CallOperation,
           op_target = FunctionCallTarget [''tsonic_node'', ''events''] ''listener_count'' []
             [argumentOf ''imm'', argumentOf ''imm''] None, op_receiverType = None,
           op_parameterTypes = Some [eventEmitterCarrier api, jsValueCarrier api],
           op_resultType = float64Carrier api, op_errorType = None, op_raises = True\<rparr>])"

section \<open>The contract\<close>

lemmas events_defs = events_moduleSpecifier_def events_emitterId_def events_anyType_def
  events_symbolType_def events_eventNameType_def events_eventNameArrayType_def
  events_eventNameListCarrier_def events_listenerMember_def events_emitMember_def
  eventsModule_def events_instance_def eventsOperations_def
  upt_digits natString_digits nth_Cons_0 nth_Cons_Suc length_replicate length_map length_upt

lemma events_implements: "implements (eventsOperations api) (mod_exports eventsModule)"
  by (rule permCheck_implements)
    (simp only: events_defs point_eval cong: weak_congs, simp only: perm_eval cong: perm_congs)

lemma events_ids:
  "distinct (map exp_id (mod_exports eventsModule)) \<and> moduleScoped eventsModule \<and>
   defaultFree eventsModule"
  by (simp only: events_defs moduleScoped_def defaultFree_def id_eval cong: weak_congs)

lemma events_index: "memberIndexWrites (eventsOperations api)"
  by (simp only: events_defs point_eval cong: weak_congs)

text \<open>
  The native side of the operations has its shape and receivers, and the references of the
  declarations are resolved.
\<close>

lemma events_native: "nativeOperations (eventsTypes api) (eventsOperations api)"
  by (simp only: events_defs eventsTypes_def native_eval cong: weak_congs)

lemma events_refs: "refsResolved eventsModule"
  by (rule refsResolvedI, simp only: events_defs visible_eval cong: weak_congs)
    (simp only: events_defs resolve_eval cong: weak_congs)

text \<open>
  Type definitions exist for exactly the declared types with instances, and no point is declared
  twice.
\<close>

lemma events_types: "typesExact (eventsTypes api) (mod_exports eventsModule)"
  by (rule permCheck_typesExact)
    (simp only: events_defs eventsTypes_def type_eval cong: weak_congs,
      simp only: perm_eval cong: perm_congs)

lemma events_points: "pointsDistinct (mod_exports eventsModule)"
  by (simp only: events_defs point_eval cong: weak_congs,
      simp only: distinct_eval cong: perm_congs)

interpretation events_component:
  component "[eventsModule]" "eventsOperations api" for api
  by (rule componentI [OF events_implements events_ids events_index])

end
