(* ===== verification/Node_Fs_Calls.thy ===== *)
theory Node_Fs_Calls
  imports Provider_References
begin

text \<open>
  \<^verbatim>\<open>nodejs/src/provider/modules/filesystem/call-records.ts\<close>,
  \<^verbatim>\<open>contents.ts\<close> and \<^verbatim>\<open>copy.ts\<close>: the tables of file system calls from which
  \<open>node:fs\<close> and \<open>node:fs/promises\<close> both derive their functions. A row gives one
  overload per prefix of its parameter list; rows of one name are collected in a
  \<open>Map\<close>.
\<close>

section \<open>Calls with optional parameters (filesystem/call-records.ts)\<close>

record 'o callRecord =
  cr_name :: string
  cr_native :: string
  cr_minimum :: nat
  cr_parameters :: "(string \<times> providerType \<times> 'o targetType) list"
  cr_result :: "providerType \<times> 'o targetType"
  cr_promise :: "string option"

definition fsCall_path :: "'o mojoApi \<Rightarrow> (string \<times> providerType \<times> 'o targetType)" where
  "fsCall_path api = (''path'', stringType, nativeString api)"

definition fsCall_mode :: "'o mojoApi \<Rightarrow> (string \<times> providerType \<times> 'o targetType)" where
  "fsCall_mode api = (''mode'', numberType, float64Carrier api)"

definition fsCall_descriptor :: "'o mojoApi \<Rightarrow> (string \<times> providerType \<times> 'o targetType)" where
  "fsCall_descriptor api = (''fd'', numberType, float64Carrier api)"

definition fsCall_buffer :: "'o mojoApi \<Rightarrow> (string \<times> providerType \<times> 'o targetType)" where
  "fsCall_buffer api =
     (''buffer'', providerRef ''node:buffer'' ''Buffer'', bufferCarrier api)"

definition fsCall_offset :: "'o mojoApi \<Rightarrow> (string \<times> providerType \<times> 'o targetType)" where
  "fsCall_offset api = (''offset'', numberType, float64Carrier api)"

definition fsCall_length :: "'o mojoApi \<Rightarrow> (string \<times> providerType \<times> 'o targetType)" where
  "fsCall_length api = (''length'', numberType, float64Carrier api)"

definition fsCall_position :: "'o mojoApi \<Rightarrow> (string \<times> providerType \<times> 'o targetType)" where
  "fsCall_position api =
     (''position'', UnionT [numberType, LiteralT NullLiteral], optionalFloat64Carrier api)"

definition fsCall_emptyResult :: "'o mojoApi \<Rightarrow> providerType \<times> 'o targetType" where
  "fsCall_emptyResult api = (voidType, unitCarrier api)"

definition fsCall_numberResult :: "'o mojoApi \<Rightarrow> providerType \<times> 'o targetType" where
  "fsCall_numberResult api = (numberType, float64Carrier api)"

definition fsCall_stringResult :: "'o mojoApi \<Rightarrow> providerType \<times> 'o targetType" where
  "fsCall_stringResult api = (stringType, nativeString api)"

definition fsCall_records :: "'o mojoApi \<Rightarrow> 'o callRecord list" where
  "fsCall_records api =
     [\<lparr>cr_name = ''accessSync'', cr_native = ''access'', cr_minimum = 1,
      cr_parameters = [fsCall_path api, fsCall_mode api], cr_result = (fsCall_emptyResult api),
      cr_promise = Some ''access''\<rparr>,
      \<lparr>cr_name = ''chmodSync'', cr_native = ''chmod'', cr_minimum = 2,
       cr_parameters = [fsCall_path api, fsCall_mode api], cr_result = (fsCall_emptyResult api),
       cr_promise = Some ''chmod''\<rparr>,
      \<lparr>cr_name = ''openSync'', cr_native = ''open_file'', cr_minimum = 2,
       cr_parameters = [fsCall_path api, (''flags'', stringType, (nativeString api)),
       fsCall_mode api], cr_result = (fsCall_numberResult api), cr_promise = None\<rparr>,
      \<lparr>cr_name = ''closeSync'', cr_native = ''close_file'', cr_minimum = 1,
       cr_parameters = [fsCall_descriptor api], cr_result = (fsCall_emptyResult api),
       cr_promise = None\<rparr>,
      \<lparr>cr_name = ''fstatSync'', cr_native = ''fstat'', cr_minimum = 1,
       cr_parameters = [fsCall_descriptor api], cr_result = (providerRef ''node:fs'' ''Stats'',
       statsCarrier api), cr_promise = None\<rparr>,
      \<lparr>cr_name = ''readSync'', cr_native = ''read_into'', cr_minimum = 4,
       cr_parameters = [fsCall_descriptor api, fsCall_buffer api, fsCall_offset api,
       fsCall_length api, fsCall_position api], cr_result = (fsCall_numberResult api),
       cr_promise = None\<rparr>,
      \<lparr>cr_name = ''writeSync'', cr_native = ''write_from'', cr_minimum = 2,
       cr_parameters = [fsCall_descriptor api, fsCall_buffer api, fsCall_offset api, (''length'',
       numberType, (optionalFloat64Carrier api)), fsCall_position api],
       cr_result = (fsCall_numberResult api), cr_promise = None\<rparr>,
      \<lparr>cr_name = ''writeSync'', cr_native = ''write_string'', cr_minimum = 2,
       cr_parameters = [fsCall_descriptor api, (''value'', stringType, (nativeString api)),
       fsCall_position api, (''encoding'', stringType, (nativeString api))],
       cr_result = (fsCall_numberResult api), cr_promise = None\<rparr>,
      \<lparr>cr_name = ''readlinkSync'', cr_native = ''read_link'', cr_minimum = 1,
       cr_parameters = [fsCall_path api], cr_result = (fsCall_stringResult api),
       cr_promise = Some ''readlink''\<rparr>,
      \<lparr>cr_name = ''rmdirSync'', cr_native = ''remove_directory'', cr_minimum = 1,
       cr_parameters = [fsCall_path api], cr_result = (fsCall_emptyResult api),
       cr_promise = Some ''rmdir''\<rparr>,
      \<lparr>cr_name = ''truncateSync'', cr_native = ''truncate_file'', cr_minimum = 1,
       cr_parameters = [fsCall_path api, fsCall_length api],
       cr_result = (fsCall_emptyResult api), cr_promise = Some ''truncate''\<rparr>]"

definition fsCall_selectedRecords :: "'o mojoApi \<Rightarrow> bool \<Rightarrow> 'o callRecord list" where
  "fsCall_selectedRecords api asynchronous =
     (if asynchronous then
        (filter (\<lambda>record. (cr_promise record \<noteq> None)) (fsCall_records api)) else
        (fsCall_records api))"

text \<open>
  The loop \<open>for (let count = record.minimum; count <= record.parameters.length; ...)\<close>
  pushes one overload per \<open>count\<close> to the group of the record's name.
\<close>

definition filesystemCallExports ::
    "'o mojoApi \<Rightarrow> bool \<Rightarrow> providerExport list" where
  "filesystemCallExports api asynchronous =
     (let moduleSpecifier = if asynchronous then ''node:fs/promises'' else ''node:fs'';
          groups =
            groupRows
              (\<lambda>record. if asynchronous then the (cr_promise record) else cr_name record)
              (\<lambda>record.
                 map
                   (\<lambda>count.
                      overloadOf
                        (map (\<lambda>(name, type, _). param name type)
                           (take count (cr_parameters record)))
                        (if asynchronous then sourcePromise (fst (cr_result record)) else
                           fst (cr_result record)))
                   [cr_minimum record..<length (cr_parameters record) + 1])
              (fsCall_selectedRecords api asynchronous)
      in map (\<lambda>(name, overloads). overloadedFunctionExport moduleSpecifier name overloads)
           groups)"

definition filesystemCallOperations ::
    "'o mojoApi \<Rightarrow> bool \<Rightarrow> 'o operation list" where
  "filesystemCallOperations api asynchronous =
     (let moduleSpecifier = if asynchronous then ''node:fs/promises'' else ''node:fs''
      in concat
           (map
              (\<lambda>record.
                 (let name = if asynchronous then the (cr_promise record) else cr_name record
                  in map
                       (\<lambda>index.
                          (let parameters =
                                 take (cr_minimum record + index) (cr_parameters record)
                           in functionCallPath (moduleSpecifier @ ''::'' @ name)
                                (moduleSpecifier @
                                 ''::'' @
                                 name @
                                 ''('' @
                                 (joinWith '','' (map (\<lambda>(name, _, _). name) parameters)) @
                                 '')'')
                                (if asynchronous then [''filesystem'', ''promises''] else
                                   [''filesystem'']) (cr_native record)
                                (map (\<lambda>(_, _, target). target) parameters)
                                (if asynchronous then
                                   (mojoFutureTargetType api (snd (cr_result record)) ''native''
                                      True) else (snd (cr_result record))) True))
                       [0..<length (cr_parameters record) + 1 - cr_minimum record]))
              (fsCall_selectedRecords api asynchronous)))"

section \<open>File contents (filesystem/contents.ts)\<close>

record 'o contentsCall =
  cc_name :: string
  cc_signature :: string
  cc_native :: string
  cc_asynchronousNative :: "string option"
  cc_parameters :: "(string \<times> providerType \<times> 'o targetType) list"
  cc_result :: "providerType \<times> 'o targetType"

definition fsContents_path :: "'o mojoApi \<Rightarrow> (string \<times> providerType \<times> 'o targetType)" where
  "fsContents_path api = (''path'', stringType, nativeString api)"

definition fsContents_encoding :: "'o mojoApi \<Rightarrow> (string \<times> providerType \<times> 'o targetType)" where
  "fsContents_encoding api = (''encoding'', stringType, nativeString api)"

definition fsContents_text :: "'o mojoApi \<Rightarrow> (string \<times> providerType \<times> 'o targetType)" where
  "fsContents_text api = (''data'', stringType, nativeString api)"

definition fsContents_bytes :: "'o mojoApi \<Rightarrow> (string \<times> providerType \<times> 'o targetType)" where
  "fsContents_bytes api =
     (''data'', providerRef ''node:buffer'' ''Buffer'', bufferCarrier api)"

definition fsContents_calls :: "'o mojoApi \<Rightarrow> 'o contentsCall list" where
  "fsContents_calls api =
     [\<lparr>cc_name = ''readFile'', cc_signature = ''path'', cc_native = ''read_file'',
      cc_asynchronousNative = None, cc_parameters = [fsContents_path api],
      cc_result = (fst (snd (fsContents_bytes api)), bufferCarrier api)\<rparr>,
      \<lparr>cc_name = ''readFile'', cc_signature = ''path,encoding'',
       cc_native = ''read_text_file_encoded'', cc_asynchronousNative = Some ''read_text_file'',
       cc_parameters = [fsContents_path api, fsContents_encoding api], cc_result = (stringType,
       nativeString api)\<rparr>] @
     (concat
        (map
           (\<lambda>action.
              [\<lparr>cc_name = (action @ ''File''), cc_signature = ''path,buffer'',
               cc_native = (action @ ''_file''), cc_asynchronousNative = None,
               cc_parameters = [fsContents_path api, fsContents_bytes api],
               cc_result = (voidType, unitCarrier api)\<rparr>,
               \<lparr>cc_name = (action @ ''File''), cc_signature = ''path,string'',
                cc_native = (action @ ''_text_file''), cc_asynchronousNative = None,
                cc_parameters = [fsContents_path api, fsContents_text api],
                cc_result = (voidType, unitCarrier api)\<rparr>,
               \<lparr>cc_name = (action @ ''File''), cc_signature = ''path,string,encoding'',
                cc_native = (action @ ''_text_file''), cc_asynchronousNative = None,
                cc_parameters = [fsContents_path api, fsContents_text api,
                fsContents_encoding api], cc_result = (voidType,
                unitCarrier api)\<rparr>]) [''write'', ''append'']))"

definition filesystemContentsExports ::
    "'o mojoApi \<Rightarrow> bool \<Rightarrow> providerExport list" where
  "filesystemContentsExports api asynchronous =
     (let specifier = if asynchronous then ''node:fs/promises'' else ''node:fs'';
          groups =
            groupRows
              (\<lambda>call. if asynchronous then cc_name call else cc_name call @ ''Sync'')
              (\<lambda>call.
                 [overloadAs (cc_signature call)
                    (map (\<lambda>(name, type, _). param name type) (cc_parameters call))
                    (if asynchronous then sourcePromise (fst (cc_result call)) else
                       fst (cc_result call))])
              (fsContents_calls api)
      in map (\<lambda>(name, overloads). overloadedFunctionExport specifier name overloads)
           groups)"

definition filesystemContentsOperations ::
    "'o mojoApi \<Rightarrow> bool \<Rightarrow> 'o operation list" where
  "filesystemContentsOperations api asynchronous =
     (let specifier = if asynchronous then ''node:fs/promises'' else ''node:fs''
      in map
           (\<lambda>call.
              (let name =
                     if asynchronous then (cc_name call) else ((cc_name call) @ ''Sync'')
               in functionCallPath (specifier @ ''::'' @ name)
                    (specifier @ ''::'' @ name @ ''('' @ (cc_signature call) @ '')'')
                    (if asynchronous then [''filesystem'', ''promises''] else [''filesystem''])
                    (if asynchronous then
                       (case (cc_asynchronousNative call) of None \<Rightarrow> (cc_native call) |
                          Some value \<Rightarrow> value) else (cc_native call))
                    (map (\<lambda>(_, _, target). target) (cc_parameters call))
                    (if asynchronous then
                       (mojoFutureTargetType api (snd (cc_result call)) ''native'' True) else
                       (snd (cc_result call))) True)) (fsContents_calls api))"

section \<open>Copying (filesystem/copy.ts)\<close>

record 'o copyField =
  cf_name :: string
  cf_target :: string
  cf_type :: providerType
  cf_carrier :: "'o targetType"

record 'o copyRecord =
  cpr_name :: string
  cpr_id :: string
  cpr_carrier :: "'o targetType"
  cpr_fields :: "'o copyField list"

definition fsCopy_parameters :: "providerParameter list" where
  "fsCopy_parameters =
     [param ''source'' stringType, param ''destination'' stringType]"

definition fsCopy_controls :: "'o mojoApi \<Rightarrow> 'o copyField list" where
  "fsCopy_controls api =
     [\<lparr>cf_name = ''dereference'', cf_target = ''dereference'', cf_type = booleanType,
      cf_carrier = (boolCarrier api)\<rparr>,
      \<lparr>cf_name = ''errorOnExist'', cf_target = ''error_on_exist'', cf_type = booleanType,
       cf_carrier = (boolCarrier api)\<rparr>,
      \<lparr>cf_name = ''force'', cf_target = ''force'', cf_type = booleanType,
       cf_carrier = (boolCarrier api)\<rparr>,
      \<lparr>cf_name = ''mode'', cf_target = ''mode'', cf_type = numberType,
       cf_carrier = (float64Carrier api)\<rparr>,
      \<lparr>cf_name = ''preserveTimestamps'', cf_target = ''preserve_timestamps'',
       cf_type = booleanType, cf_carrier = (boolCarrier api)\<rparr>,
      \<lparr>cf_name = ''recursive'', cf_target = ''recursive'', cf_type = booleanType,
       cf_carrier = (boolCarrier api)\<rparr>,
      \<lparr>cf_name = ''verbatimSymlinks'', cf_target = ''verbatim_symlinks'',
       cf_type = booleanType, cf_carrier = (boolCarrier api)\<rparr>]"

definition fsCopy_records :: "'o mojoApi \<Rightarrow> 'o copyRecord list" where
  "fsCopy_records api =
     map
       (\<lambda>asynchronous.
          (let name =
                 if asynchronous then ''CopyOptions'' else ''CopySyncOptions'';
               ident = ''node:fs::'' @ name;
               nativeName =
                 if asynchronous then ''AsyncCopyOptions'' else ''CopyOptions'';
               result =
                 if asynchronous then
                   (mojoUnionTargetType api
                      [boolCarrier api,
                       CaptureOriginsTarget (mojoFutureTargetType api (boolCarrier api) ''native'' True)
                         ''empty'']) else (boolCarrier api);
               filter =
                 FunctionT (ident @ ''.filter'') fsCopy_parameters
                   (if asynchronous then (UnionT [booleanType, sourcePromise booleanType]) else
                      booleanType);
               carrier =
                 mojoNamedTargetType api (''tsonic.mojo.node.fs.'' @ nativeName)
                   [''tsonic_node'', ''filesystem''] nativeName;
               fields =
                 (fsCopy_controls api) @
                 [\<lparr>cf_name = ''filter'', cf_target = ''filter'', cf_type = filter,
                  cf_carrier =
                       (mojoCallableTargetType api
                         (map (\<lambda>_. (immPlain (nativeString api))) fsCopy_parameters) result True)\<rparr>]
           in \<lparr>cpr_name = name, cpr_id = ident, cpr_carrier = carrier,
            cpr_fields = fields\<rparr>)) [False, True]"

definition filesystemCopyExports ::
    "'o mojoApi \<Rightarrow> bool \<Rightarrow> providerExport list" where
  "filesystemCopyExports api asynchronous =
     (let moduleSpecifier = if asynchronous then ''node:fs/promises'' else ''node:fs'';
          record = (fsCopy_records api) ! (if asynchronous then 1 else 0)
      in (if asynchronous then [] else
            (map
               (\<lambda>value.
                  (interfaceDeclaration (cpr_id value) (cpr_name value)
                     (map
                        (\<lambda>field.
                           (propertyMemberWith (cpr_id value) (cf_name field) (cf_type field) False False
                              True)) (cpr_fields value)))) (fsCopy_records api))) @
         [overloadedFunctionExport moduleSpecifier (if asynchronous then ''cp'' else ''cpSync'')
            [overloadAs ''source,destination'' fsCopy_parameters
               (if asynchronous then (sourcePromise voidType) else voidType),
             overloadAs ''source,destination,options''
               (fsCopy_parameters @ [param ''options'' (providerRef ''node:fs'' (cpr_name record))])
               (if asynchronous then (sourcePromise voidType) else voidType)]])"

definition filesystemCopyTypes :: "'o mojoApi \<Rightarrow> 'o typeDefinition list" where
  "filesystemCopyTypes api =
     map (\<lambda>record. (nodeProviderRecordType api (cpr_id record) (cpr_carrier record) Copyable))
       (fsCopy_records api)"

definition filesystemCopyOperations ::
    "'o mojoApi \<Rightarrow> bool \<Rightarrow> 'o operation list" where
  "filesystemCopyOperations api asynchronous =
     (let moduleSpecifier = if asynchronous then ''node:fs/promises'' else ''node:fs'';
          name = if asynchronous then ''cp'' else ''cpSync'';
          owner = moduleSpecifier @ ''::'' @ name;
          record = (fsCopy_records api) ! (if asynchronous then 1 else 0);
          result =
            if asynchronous then (mojoFutureTargetType api (unitCarrier api) ''native'' True)
              else (unitCarrier api)
      in (map
            (\<lambda>options.
               (functionCallPath owner
                  (owner @ ''(source,destination'' @ (if options then '',options'' else '''') @
                   '')'')
                  (if asynchronous then [''filesystem'', ''promises''] else [''filesystem''])
                  ''copy_tree''
                  ([nativeString api, nativeString api] @
                   (if options then [cpr_carrier record] else [])) result True)) [False, True]) @
         (if asynchronous then [] else
            (concat
               (map
                  (\<lambda>value.
                     (concat
                        (map
                           (\<lambda>field.
                              [propertyRead (cpr_id value) ((cpr_id value) @ ''.'' @
                               (cf_name field))
                                 (cf_target field) (cpr_carrier value)
                                 (mojoOptionalTargetType api (cf_carrier field)),
                               propertyWrite api (cpr_id value) ((cpr_id value) @ ''.'' @
                                (cf_name field))
                                 (cf_target field) (cpr_carrier value)
                                 (mojoOptionalTargetType api (cf_carrier field))]) (cpr_fields value))))
                  (fsCopy_records api)))))"

section \<open>The tables are implemented\<close>

lemma map_upt_shift: "map f [m..<n] = map (\<lambda>i. f (m + i)) [0..<n - m]"
  by (rule nth_equalityI) simp_all

text \<open>
  In both modes every prefix of a row's parameter list that the row declares has one
  operation with the same identity and arity.
\<close>

lemma filesystemCalls_implemented:
  "implements (filesystemCallOperations api asynchronous) (filesystemCallExports api asynchronous)"
  unfolding filesystemCallOperations_def filesystemCallExports_def Let_def
  by (rule implements_groups)
    (simp add: map_upt_shift [where m = "cr_minimum r" for r] operationsPoints_calls point_simps
      comp_def split_def param_def del: upt_Suc)

lemma filesystemContents_implemented:
  "implements (filesystemContentsOperations api asynchronous)
     (filesystemContentsExports api asynchronous)"
  unfolding filesystemContentsOperations_def filesystemContentsExports_def Let_def
  by (subst concat_map_singleton [symmetric], rule implements_groups) (simp add: point_simps)

lemmas fs_call_eval = fsCall_path_def fsCall_mode_def fsCall_descriptor_def
  fsCall_buffer_def fsCall_offset_def fsCall_length_def fsCall_position_def
  fsCall_emptyResult_def fsCall_numberResult_def fsCall_stringResult_def fsCall_records_def
  fsCall_selectedRecords_def filesystemCallExports_def filesystemCallOperations_def
  fsContents_path_def fsContents_encoding_def fsContents_text_def fsContents_bytes_def
  fsContents_calls_def filesystemContentsExports_def filesystemContentsOperations_def
  callRecord.select_convs contentsCall.select_convs groupRows_def fold_simps pushGroup.simps
  filter.simps option.distinct option.sel fst_conv snd_conv take_Suc_Cons take_0 take.simps(1)
  upt_digits diff_Suc_Suc minus_nat.diff_0 add_0_right numeral_nat

lemmas fs_copy_eval = fsCopy_parameters_def fsCopy_controls_def fsCopy_records_def
  filesystemCopyExports_def filesystemCopyOperations_def
  copyField.select_convs copyRecord.select_convs nth_Cons_0 nth_Cons_Suc

lemma filesystemCopy_implemented:
  "implements (filesystemCopyOperations api asynchronous) (filesystemCopyExports api asynchronous)"
  by (cases asynchronous; rule permCheck_implements)
    (simp only: fs_copy_eval point_eval cong: weak_congs, simp only: perm_eval cong: perm_congs)+

end
