(* ===== verification/Node_Stream_Parts.thy ===== *)
theory Node_Stream_Parts
  imports Provider_References
begin

text \<open>
  \<^verbatim>\<open>nodejs/src/provider/modules/stream\<close>: the member and operation groups that the
  stream classes of several modules share. Each group is a function of its owner, and its
  operations implement its members for every owner.
\<close>

section \<open>Duplex streams (stream/duplex.ts)\<close>

record 'o duplexInput =
  dinp_suffix :: "string"
  dinp_source :: "providerType"
  dinp_carrier :: "'o targetType"

definition duplex_owner :: "string" where
  "duplex_owner = ''node:stream::Duplex''"

definition duplex_source :: "providerType" where
  "duplex_source = providerRef ''node:stream'' ''Duplex''"

definition duplex_buffer :: "providerType" where
  "duplex_buffer = providerRef ''node:buffer'' ''Buffer''"

definition duplexCarrier :: "'o mojoApi \<Rightarrow> 'o targetType" where
  "duplexCarrier api =
     mojoNamedTargetType api ''tsonic.mojo.node.stream.Duplex'' [''tsonic_node'', ''stream'']
       ''Duplex''"

definition duplex_inputs :: "'o mojoApi \<Rightarrow> 'o duplexInput list" where
  "duplex_inputs api =
     [\<lparr>dinp_suffix = ''buffer'', dinp_source = duplex_buffer, dinp_carrier = bufferCarrier api\<rparr>,
      \<lparr>dinp_suffix = ''string'', dinp_source = stringType, dinp_carrier = nativeString api\<rparr>]"

definition duplexExport :: "'o mojoApi \<Rightarrow> providerExport" where
  "duplexExport api =
     interfaceDeclaration duplex_owner ''Duplex''
       [overloadedMethodMember duplex_owner ''write''
          (map
             (\<lambda>input.
                (overloadAs (dinp_suffix input) [param ''chunk'' (dinp_source input)]
                   booleanType)) (duplex_inputs api)),
        overloadedMethodMember duplex_owner ''end''
          ([overloadAs '''' [] duplex_source] @
           (map
              (\<lambda>input.
                 (overloadAs (dinp_suffix input) [param ''chunk'' (dinp_source input)]
                    duplex_source)) (duplex_inputs api))),
        overloadedMethodMember duplex_owner ''read''
          [overloadAs '''' [] (UnionT [duplex_buffer, nullType, undefinedType])]]"

definition duplexType :: "'o mojoApi \<Rightarrow> 'o typeDefinition" where
  "duplexType api =
     nodeProviderType api duplex_owner (duplexCarrier api) ImplicitlyCopyable"

definition duplexOperations :: "'o mojoApi \<Rightarrow> 'o operation list" where
  "duplexOperations api =
     (map
        (\<lambda>input.
           (instanceCall duplex_owner (duplex_owner @ ''.write'')
              (duplex_owner @ ''.write('' @ (dinp_suffix input) @ '')'')
              (''write_'' @ (dinp_suffix input)) (duplexCarrier api) [dinp_carrier input]
              (boolCarrier api) True ''imm'')) (duplex_inputs api)) @
     [instanceCall duplex_owner (duplex_owner @ ''.read'') (duplex_owner @ ''.read()'') ''read''
        (duplexCarrier api) [] (mojoOptionalTargetType api (bufferCarrier api)) True ''imm'',
      instanceCall duplex_owner (duplex_owner @ ''.end'') (duplex_owner @ ''.end()'') ''end''
        (duplexCarrier api) [] (duplexCarrier api) True ''imm''] @
     (map
        (\<lambda>input.
           (instanceCall duplex_owner (duplex_owner @ ''.end'')
              (duplex_owner @ ''.end('' @ (dinp_suffix input) @ '')'')
              (''end_'' @ (dinp_suffix input)) (duplexCarrier api) [dinp_carrier input]
              (duplexCarrier api) True ''imm'')) (duplex_inputs api))"

definition withDuplexView ::
    "'o mojoApi \<Rightarrow> 'o typeDefinition \<Rightarrow> string \<Rightarrow>
      'o typeDefinition" where
  "withDuplexView api type module =
     type\<lparr>type_nativeViews := Some
       [(duplexCarrier api,
         \<lparr>ref_modulePath = [''tsonic_node'', module, ''duplex''], ref_name = ''as_duplex''\<rparr>)]\<rparr>"

section \<open>Reading (stream/readable-calls.ts)\<close>

definition readableCall_result :: "providerType" where
  "readableCall_result =
     UnionT [providerRef ''node:buffer'' ''Buffer'', stringType, nullType]"

definition readableCall_chunk :: "'o mojoApi \<Rightarrow> 'o targetType" where
  "readableCall_chunk api =
     mojoUnionTargetType api [nativeString api, bufferCarrier api]"

definition readableCall_size :: "providerType" where
  "readableCall_size = UnionT [numberType, undefinedType]"

definition readableReadMember :: "string \<Rightarrow> providerMember" where
  "readableReadMember owner =
     overloadedMethodMember owner ''read''
       [overloadAs '''' [] readableCall_result,
        overloadAs ''size'' [param ''size'' readableCall_size] readableCall_result]"

definition readableReadOperations ::
    "'o mojoApi \<Rightarrow> string \<Rightarrow> 'o targetType \<Rightarrow> 'o operation list" where
  "readableReadOperations api owner receiver =
     [instanceCall owner (owner @ ''.read'') (owner @ ''.read()'') ''read'' receiver []
        (mojoOptionalTargetType api (readableCall_chunk api)) True ''mut'',
      instanceCall owner (owner @ ''.read'') (owner @ ''.read(size)'') ''read_sized'' receiver
        [optionalFloat64Carrier api] (mojoOptionalTargetType api (readableCall_chunk api)) True
        ''mut'']"

section \<open>Readable events (stream/readable-events.ts)\<close>

definition readableEvent_events :: "'o mojoApi \<Rightarrow> 'o nodeEvent list" where
  "readableEvent_events api =
     [\<lparr>ev_suffix = ''data'', ev_names = [''data''],
       ev_parameters =
         [\<lparr>evp_name = ''chunk'',
           evp_source = UnionT [providerRef ''node:buffer'' ''Buffer'', stringType],
           evp_target = mojoUnionTargetType api [nativeString api, bufferCarrier api]\<rparr>]\<rparr>,
      \<lparr>ev_suffix = ''error'', ev_names = [''error''],
       ev_parameters =
         [\<lparr>evp_name = ''error'', evp_source = SourceGlobalT ''Error'' None,
           evp_target = mojoSourceErrorType api\<rparr>]\<rparr>,
      \<lparr>ev_suffix = ''empty'',
       ev_names = [''end'', ''close'', ''readable'', ''pause'', ''resume''], ev_parameters = []\<rparr>]"

definition readableEventMembers ::
    "'o mojoApi \<Rightarrow> string \<Rightarrow> string \<Rightarrow> providerMember list" where
  "readableEventMembers api module name =
     nodeEventMembers module name (readableEvent_events api)"

definition readableEventOperations ::
    "'o mojoApi \<Rightarrow> string \<Rightarrow> string \<Rightarrow>
      'o targetType \<Rightarrow> 'o operation list" where
  "readableEventOperations api module name receiver =
     nodeEventOperations api module name receiver (readableEvent_events api)"

section \<open>Writing (stream/writable-calls.ts)\<close>

record 'o callArgument =
  carg_name :: "string"
  carg_source :: "providerType"
  carg_target :: "'o targetType"

record 'o writableInput =
  winp_suffix :: "string"
  winp_source :: "providerType"
  winp_target :: "'o targetType"

record 'o writableRow =
  wrow_method :: "string"
  wrow_suffix :: "string"
  wrow_target :: "string"
  wrow_arguments :: "'o callArgument list"

definition writableCall_bufferType :: "providerType" where
  "writableCall_bufferType = providerRef ''node:buffer'' ''Buffer''"

definition writableCall_chunkType :: "providerType" where
  "writableCall_chunkType = UnionT [writableCall_bufferType, stringType]"

definition writableCall_chunkCarrier :: "'o mojoApi \<Rightarrow> 'o targetType" where
  "writableCall_chunkCarrier api =
     mojoUnionTargetType api [nativeString api, bufferCarrier api]"

definition writableCall_completionError :: "providerType" where
  "writableCall_completionError =
     UnionT [SourceGlobalT ''Error'' None, undefinedType]"

definition writableCall_completionCarrier :: "'o mojoApi \<Rightarrow> 'o targetType" where
  "writableCall_completionCarrier api =
     mojoCallableTargetType api
       [immPlain (mojoOptionalTargetType api (mojoSourceErrorType api))] (unitCarrier api) True"

definition writableCall_encoding :: "'o mojoApi \<Rightarrow> 'o callArgument" where
  "writableCall_encoding api =
     \<lparr>carg_name = ''encoding'', carg_source = UnionT [stringType, undefinedType],
      carg_target = optionalStringCarrier api\<rparr>"

definition writableCall_completion ::
    "'o mojoApi \<Rightarrow> string \<Rightarrow> string \<Rightarrow> string \<Rightarrow>
      'o callArgument" where
  "writableCall_completion api owner method suffix =
     \<lparr>carg_name = ''callback'',
      carg_source = UnionT
        [providerCallbackType (owner @ ''.'' @ method @ ''('' @ suffix @ '')'') ''callback''
           [param ''error'' writableCall_completionError],
         undefinedType],
      carg_target = mojoOptionalTargetType api (writableCall_completionCarrier api)\<rparr>"

definition writableCall_callRows ::
    "'o mojoApi \<Rightarrow> string \<Rightarrow> 'o writableRow list" where
  "writableCall_callRows api owner =
     [\<lparr>wrow_method = ''end'', wrow_suffix = '''', wrow_target = ''end'', wrow_arguments = []\<rparr>,
      \<lparr>wrow_method = ''end'', wrow_suffix = ''callback'', wrow_target = ''end_callback'',
       wrow_arguments = [writableCall_completion api owner ''end'' ''callback'']\<rparr>] @
     (concat
        (map
           (\<lambda>method.
              (let inputs =
                     [\<lparr>winp_suffix = ''buffer'', winp_source = writableCall_bufferType,
                       winp_target = bufferCarrier api\<rparr>,
                      \<lparr>winp_suffix = ''string'', winp_source = stringType,
                       winp_target = nativeString api\<rparr>] @
                     (if (method = ''end'') then
                        [\<lparr>winp_suffix = ''empty'', winp_source = undefinedType,
                          winp_target = unitCarrier api\<rparr>] else []) @
                     [\<lparr>winp_suffix = ''value'',
                       winp_source = if (method = ''end'') then
                         (UnionT [writableCall_chunkType, undefinedType]) else
                         writableCall_chunkType,
                       winp_target = if (method = ''end'') then
                         (mojoOptionalTargetType api (writableCall_chunkCarrier api)) else
                         (writableCall_chunkCarrier api)\<rparr>]
               in concat
                    (map
                       (\<lambda>input.
                          (let chunk =
                                 \<lparr>carg_name = ''chunk'', carg_source = winp_source input,
                                  carg_target = winp_target input\<rparr>;
                               callbackSuffix = (winp_suffix input) @ '',callback'';
                               encodedSuffix = (winp_suffix input) @ '',encoding'';
                               completeSuffix = encodedSuffix @ '',callback''
                           in [\<lparr>wrow_method = method, wrow_suffix = winp_suffix input,
                                wrow_target = method @ ''_'' @ (winp_suffix input),
                                wrow_arguments = [chunk]\<rparr>,
                               \<lparr>wrow_method = method, wrow_suffix = callbackSuffix,
                                wrow_target = method @ ''_'' @ (winp_suffix input) @
                                ''_callback'',
                                wrow_arguments =
                                  [chunk,
                                   writableCall_completion api owner method callbackSuffix]\<rparr>,
                               \<lparr>wrow_method = method, wrow_suffix = encodedSuffix,
                                wrow_target = method @ ''_'' @ (winp_suffix input) @
                                ''_encoded'',
                                wrow_arguments = [chunk, writableCall_encoding api]\<rparr>,
                               \<lparr>wrow_method = method, wrow_suffix = completeSuffix,
                                wrow_target = method @ ''_'' @ (winp_suffix input) @
                                ''_encoded'',
                                wrow_arguments =
                                  [chunk,
                                   writableCall_encoding api,
                                   writableCall_completion api owner method completeSuffix]\<rparr>]))
                       inputs))) [''write'', ''end'']))"

definition writableCallMembers ::
    "'o mojoApi \<Rightarrow> string \<Rightarrow> providerType \<Rightarrow> providerMember list" where
  "writableCallMembers api owner result =
     (let rows = writableCall_callRows api owner
      in map
           (\<lambda>method.
              (overloadedMethodMember owner method
                 (map
                    (\<lambda>row.
                       (overloadAs (wrow_suffix row)
                          (map
                             (\<lambda>argument.
                                (param (carg_name argument) (carg_source argument)))
                             (wrow_arguments row))
                          (if (method = ''write'') then booleanType else result)))
                    (filter (\<lambda>row. ((wrow_method row) = method)) rows))))
           [''write'', ''end''])"

definition writableCallOperations ::
    "'o mojoApi \<Rightarrow> string \<Rightarrow> 'o targetType \<Rightarrow> 'o operation list" where
  "writableCallOperations api owner receiver =
     map
       (\<lambda>row.
          (instanceCall owner (owner @ ''.'' @ (wrow_method row))
             (owner @ ''.'' @ (wrow_method row) @ ''('' @ (wrow_suffix row) @ '')'')
             (wrow_target row) receiver
             (map (\<lambda>argument. (carg_target argument)) (wrow_arguments row))
             (if ((wrow_method row) = ''write'') then (boolCarrier api) else receiver) True
             ''mut'')) (writableCall_callRows api owner)"

section \<open>Writable events (stream/writable-events.ts)\<close>

definition writableEvent_events :: "'o mojoApi \<Rightarrow> 'o nodeEvent list" where
  "writableEvent_events api =
     [\<lparr>ev_suffix = ''error'', ev_names = [''error''],
       ev_parameters =
         [\<lparr>evp_name = ''error'', evp_source = SourceGlobalT ''Error'' None,
           evp_target = mojoSourceErrorType api\<rparr>]\<rparr>,
      \<lparr>ev_suffix = ''empty'', ev_names = [''drain'', ''finish'', ''close''], ev_parameters = []\<rparr>]"

definition writableEventMembers ::
    "'o mojoApi \<Rightarrow> string \<Rightarrow> string \<Rightarrow> providerMember list" where
  "writableEventMembers api module name =
     nodeEventMembers module name (writableEvent_events api)"

definition writableEventOperations ::
    "'o mojoApi \<Rightarrow> string \<Rightarrow> string \<Rightarrow>
      'o targetType \<Rightarrow> 'o operation list" where
  "writableEventOperations api module name receiver =
     nodeEventOperations api module name receiver (writableEvent_events api)"

section \<open>Writable lifecycle (stream/writable-lifecycle.ts)\<close>

definition writableLifecycle_errorType :: "providerType" where
  "writableLifecycle_errorType = SourceGlobalT ''Error'' None"

definition writableLifecycle_nullableError :: "providerType" where
  "writableLifecycle_nullableError = UnionT [writableLifecycle_errorType, nullType]"

definition writableLifecycle_optionalError :: "providerType" where
  "writableLifecycle_optionalError =
     UnionT [writableLifecycle_errorType, nullType, undefinedType]"

definition writableLifecycle_states ::
    "'o mojoApi \<Rightarrow>
      (string \<times> string \<times> providerType \<times> 'o targetType) list" where
  "writableLifecycle_states api =
     [(''writable'', ''writable'', booleanType, (boolCarrier api)),
      (''writableEnded'', ''writable_ended'', booleanType, (boolCarrier api)),
      (''writableFinished'', ''writable_finished'', booleanType, (boolCarrier api)),
      (''writableAborted'', ''writable_aborted'', booleanType, (boolCarrier api)),
      (''writableNeedDrain'', ''writable_need_drain'', booleanType, (boolCarrier api)),
      (''writableObjectMode'', ''writable_object_mode'', booleanType, (boolCarrier api)),
      (''destroyed'', ''destroyed'', booleanType, (boolCarrier api)),
      (''closed'', ''closed'', booleanType, (boolCarrier api)),
      (''writableCorked'', ''writable_corked'', numberType, (float64Carrier api)),
      (''writableHighWaterMark'',
       ''writable_high_water_mark'',
       numberType,
       (float64Carrier api)),
      (''writableLength'', ''writable_length'', numberType, (float64Carrier api)),
      (''errored'',
       ''errored'',
       writableLifecycle_nullableError,
       (mojoOptionalTargetType api (mojoSourceErrorType api)))]"

definition writableLifecycleMembers ::
    "'o mojoApi \<Rightarrow> string \<Rightarrow> providerType \<Rightarrow> providerMember list" where
  "writableLifecycleMembers api owner result =
     (map (\<lambda>name. (methodMember owner name [] voidType)) [''cork'', ''uncork'']) @
     [methodMember owner ''setDefaultEncoding'' [param ''encoding'' stringType] result,
      overloadedMethodMember owner ''destroy''
        [overloadAs '''' [] result,
         overloadAs ''error'' [param ''error'' writableLifecycle_optionalError] result]] @
     (map (\<lambda>(name, _, type, _). (propertyMember owner name type))
        (writableLifecycle_states api))"

definition writableLifecycleOperations ::
    "'o mojoApi \<Rightarrow> string \<Rightarrow> 'o targetType \<Rightarrow> 'o operation list" where
  "writableLifecycleOperations api owner receiver =
     (map
        (\<lambda>name.
           (instanceCall owner (owner @ ''.'' @ name) (owner @ ''.'' @ name @ ''()'') name
              receiver [] (unitCarrier api) (name = ''uncork'') ''mut'')) [''cork'', ''uncork'']) @
     [instanceCall owner (owner @ ''.setDefaultEncoding'')
        (owner @ ''.setDefaultEncoding(encoding)'') ''set_default_encoding'' receiver
        [nativeString api] receiver True ''mut'',
      instanceCall owner (owner @ ''.destroy'') (owner @ ''.destroy()'') ''destroy'' receiver []
        receiver True ''mut'',
      instanceCall owner (owner @ ''.destroy'') (owner @ ''.destroy(error)'') ''destroy''
        receiver [mojoOptionalTargetType api (mojoSourceErrorType api)] receiver True ''mut''] @
     (map
        (\<lambda>(name, target, _, type).
           (propertyReadVia MethodAccess owner (owner @ ''.'' @ name) target receiver type))
        (writableLifecycle_states api))"

section \<open>The parts are implemented for every owner\<close>

text \<open>The overload that a row gives to the member of its method.\<close>

definition writableCall_overload :: "providerType \<Rightarrow> 'o writableRow \<Rightarrow> overload" where
  "writableCall_overload result row =
     overloadAs (wrow_suffix row)
       (map (\<lambda>argument. param (carg_name argument) (carg_source argument)) (wrow_arguments row))
       (if wrow_method row = ''write'' then booleanType else result)"

definition writableCall_operation ::
    "'o mojoApi \<Rightarrow> string \<Rightarrow> 'o targetType \<Rightarrow> 'o writableRow \<Rightarrow> 'o operation" where
  "writableCall_operation api owner receiver row =
     instanceCall owner (owner @ ''.'' @ wrow_method row)
       (owner @ ''.'' @ wrow_method row @ ''('' @ wrow_suffix row @ '')'') (wrow_target row) receiver
       (map carg_target (wrow_arguments row))
       (if wrow_method row = ''write'' then boolCarrier api else receiver) True ''mut''"

interpretation writable_rows: method_rows owner wrow_method "writableCall_overload result"
    "writableCall_operation api owner receiver" for owner result api receiver
  by unfold_locales (simp add: writableCall_operation_def writableCall_overload_def point_simps)

lemma writableCallMembers_rows:
  "writableCallMembers api owner result =
     map (\<lambda>n. overloadedMethodMember owner n (map (writableCall_overload result)
       (filter (\<lambda>row. wrow_method row = n) (writableCall_callRows api owner)))) [''write'', ''end'']"
  by (auto simp: writableCallMembers_def writableCall_overload_def Let_def
      intro!: arg_cong [where f = "overloadedMethodMember owner _"])

lemma writableCallOperations_rows:
  "writableCallOperations api owner receiver =
     map (writableCall_operation api owner receiver) (writableCall_callRows api owner)"
  by (simp add: writableCallOperations_def writableCall_operation_def)

lemma writableCall_methods:
  "set (map wrow_method (writableCall_callRows api owner)) \<subseteq> set [''write'', ''end'']"
  by (auto simp: writableCall_callRows_def Let_def)

lemma writableCalls_implemented:
  "implementsMembers (writableCallOperations api owner receiver) owner
     (writableCallMembers api owner result)"
  unfolding writableCallMembers_rows writableCallOperations_rows
  by (rule writable_rows.rows_implement [OF _ writableCall_methods]) simp

lemma writableLifecycle_implemented:
  "implementsMembers (writableLifecycleOperations api owner receiver) owner
     (writableLifecycleMembers api owner result)"
  by (rule permCheck_implementsMembers)
    (simp add: writableLifecycleMembers_def writableLifecycleOperations_def
      writableLifecycle_states_def point_simps param_def)

lemma readableRead_implemented:
  "implementsMembers (readableReadOperations api owner receiver) owner [readableReadMember owner]"
  by (simp add: implementsMembers_def readableReadOperations_def readableReadMember_def point_simps)

lemmas writable_eval = writableCallMembers_def writableCallOperations_def writableCall_callRows_def
  writableCall_completion_def writableCall_encoding_def writableRow.select_convs
  writableInput.select_convs callArgument.select_convs writableEventMembers_def
  writableEventOperations_def writableEvent_events_def writableLifecycleMembers_def
  writableLifecycleOperations_def writableLifecycle_states_def filter.simps event_eval

lemmas readable_eval = readableReadMember_def readableReadOperations_def readableEventMembers_def
  readableEventOperations_def readableEvent_events_def event_eval

lemmas duplex_eval = duplexExport_def duplexOperations_def duplex_owner_def duplex_inputs_def
  duplexInput.select_convs

end
