(* ===== verification/Node_Fs_Streams.thy ===== *)
theory Node_Fs_Streams
  imports Node_Stream_Parts
begin

text \<open>
  \<^verbatim>\<open>nodejs/src/provider/modules/filesystem/streams.ts\<close> and \<^verbatim>\<open>watch.ts\<close>: file
  streams and watchers.
\<close>

section \<open>Streams (filesystem/streams.ts)\<close>

definition fsStream_moduleSpecifier :: "string" where
  "fsStream_moduleSpecifier = ''node:fs''"

definition fsStream_readId :: "string" where
  "fsStream_readId = fsStream_moduleSpecifier @ ''::ReadStream''"

definition fsStream_writeId :: "string" where
  "fsStream_writeId = fsStream_moduleSpecifier @ ''::WriteStream''"

definition fsStream_readOptionsId :: "string" where
  "fsStream_readOptionsId = fsStream_moduleSpecifier @ ''::ReadStreamOptions''"

definition fsStream_writeOptionsId :: "string" where
  "fsStream_writeOptionsId = fsStream_moduleSpecifier @ ''::WriteStreamOptions''"

definition fsStream_readType :: "providerType" where
  "fsStream_readType = providerRef fsStream_moduleSpecifier ''ReadStream''"

definition fsStream_writeType :: "providerType" where
  "fsStream_writeType = providerRef fsStream_moduleSpecifier ''WriteStream''"

definition fsStream_responseType :: "providerType" where
  "fsStream_responseType = providerRef ''node:http'' ''ServerResponse''"

definition fsStream_readOptions :: "'o mojoApi \<Rightarrow> 'o targetType" where
  "fsStream_readOptions api =
     mojoNamedTargetType api ''tsonic.mojo.node.ReadStreamOptions''
       [''tsonic_node'', ''filesystem''] ''ReadStreamOptions''"

definition fsStream_writeOptions :: "'o mojoApi \<Rightarrow> 'o targetType" where
  "fsStream_writeOptions api =
     mojoNamedTargetType api ''tsonic.mojo.node.WriteStreamOptions''
       [''tsonic_node'', ''filesystem''] ''WriteStreamOptions''"

definition fsStream_optionFields ::
    "'o mojoApi \<Rightarrow>
      (string \<times> string \<times> providerType \<times> 'o targetType) list" where
  "fsStream_optionFields api =
     [(''flags'', ''flags'', stringType, (optionalStringCarrier api)),
      (''mode'', ''mode'', numberType, (optionalFloat64Carrier api)),
      (''start'', ''start'', numberType, (optionalFloat64Carrier api)),
      (''highWaterMark'', ''high_water_mark'', numberType, (optionalFloat64Carrier api))]"

definition filesystemStreamExports :: "'o mojoApi \<Rightarrow> providerExport list" where
  "filesystemStreamExports api =
     (map
        (\<lambda>(ident, name).
           (interfaceDeclaration ident name
              ((map
                  (\<lambda>(field, _, type, _).
                     (propertyMemberWith ident field type False False True))
                  (fsStream_optionFields api)) @
               [propertyMemberWith ident ''encoding'' stringType False False True,
                propertyMemberWith ident
                  (if (ident = fsStream_readOptionsId) then ''end'' else ''flush'')
                  (if (ident = fsStream_readOptionsId) then numberType else booleanType) False
                  False True])))
        [(fsStream_readOptionsId, ''ReadStreamOptions''),
         (fsStream_writeOptionsId, ''WriteStreamOptions'')]) @
     [(classDeclaration fsStream_readId ''ReadStream''
         ([readableReadMember fsStream_readId] @
          (readableEventMembers api fsStream_moduleSpecifier ''ReadStream'') @
          [methodMember fsStream_readId ''setEncoding'' [param ''encoding'' stringType]
             fsStream_readType,
           overloadedMethodMember fsStream_readId ''pipe''
             [overloadAs ''writeStream'' [param ''destination'' fsStream_writeType]
                fsStream_writeType,
              overloadAs ''writable''
                [param ''destination'' (providerRef ''node:stream'' ''Writable'')]
                (providerRef ''node:stream'' ''Writable''),
              overloadAs ''serverResponse'' [param ''destination'' fsStream_responseType]
                fsStream_responseType],
           methodMember fsStream_readId ''close'' [] voidType,
           methodMember fsStream_readId ''pause'' [] fsStream_readType,
           methodMember fsStream_readId ''resume'' [] fsStream_readType,
           methodMember fsStream_readId ''isPaused'' [] booleanType,
           propertyMember fsStream_readId ''path'' stringType,
           propertyMember fsStream_readId ''bytesRead'' numberType]))
        \<lparr>exp_heritage := Some [providerRef ''node:stream'' ''Readable'']\<rparr>,
      (classDeclaration fsStream_writeId ''WriteStream''
         ((writableCallMembers api fsStream_writeId fsStream_writeType) @
          (writableEventMembers api fsStream_moduleSpecifier ''WriteStream'') @
          [methodMember fsStream_writeId ''close'' [] voidType] @
          (writableLifecycleMembers api fsStream_writeId fsStream_writeType) @
          [propertyMember fsStream_writeId ''path'' stringType,
           propertyMember fsStream_writeId ''bytesWritten'' numberType]))
        \<lparr>exp_heritage := Some [providerRef ''node:stream'' ''Writable'']\<rparr>] @
     (map
        (\<lambda>(name, options, result).
           (overloadedFunctionExport fsStream_moduleSpecifier name
              [overloadOf [param ''path'' stringType] result,
               overloadOf
                 [param ''path'' stringType,
                  param ''options'' (providerRef fsStream_moduleSpecifier options)] result]))
        [(''createReadStream'', ''ReadStreamOptions'', fsStream_readType),
         (''createWriteStream'', ''WriteStreamOptions'', fsStream_writeType)])"

definition filesystemStreamTypes :: "'o mojoApi \<Rightarrow> 'o typeDefinition list" where
  "filesystemStreamTypes api =
     [nodeProviderType api fsStream_readId (readableCarrier api) ImplicitlyCopyable,
      nodeProviderType api fsStream_writeId (writableCarrier api) ImplicitlyCopyable,
      nodeProviderRecordType api fsStream_readOptionsId (fsStream_readOptions api) Copyable,
      nodeProviderRecordType api fsStream_writeOptionsId (fsStream_writeOptions api) Copyable]"

definition filesystemStreamOperations :: "'o mojoApi \<Rightarrow> 'o operation list" where
  "filesystemStreamOperations api =
     (concat
        (map
           (\<lambda>(name, target, result, options).
              [functionCall (fsStream_moduleSpecifier @ ''::'' @ name)
                 (fsStream_moduleSpecifier @ ''::'' @ name @ ''(path)'') ''filesystem'' target
                 [nativeString api] result True,
               functionCall (fsStream_moduleSpecifier @ ''::'' @ name)
                 (fsStream_moduleSpecifier @ ''::'' @ name @ ''(path,options)'') ''filesystem''
                 target [nativeString api, options] result True])
           [(''createReadStream'',
             ''create_read_stream'',
             (readableCarrier api),
             (fsStream_readOptions api)),
            (''createWriteStream'',
             ''create_write_stream'',
             (writableCarrier api),
             (fsStream_writeOptions api))])) @
     (concat
        (map
           (\<lambda>(ident, carrier).
              (let fields =
                     (fsStream_optionFields api) @
                     [(''encoding'', ''encoding'', stringType, (optionalStringCarrier api)),
                      if (ident = fsStream_readOptionsId) then
                        (''end'', ''end'', numberType, optionalFloat64Carrier api) else
                        (''flush'', ''flush'', booleanType, optionalBoolCarrier api)]
               in concat
                    (map
                       (\<lambda>(name, target, _, fieldType).
                          [propertyRead ident (ident @ ''.'' @ name) target carrier fieldType,
                           propertyWrite api ident (ident @ ''.'' @ name) target carrier
                             fieldType]) fields)))
           [(fsStream_readOptionsId, (fsStream_readOptions api)),
            (fsStream_writeOptionsId, (fsStream_writeOptions api))])) @
     (concat
        (map
           (\<lambda>(ident, carrier, counter, targetCounter, receiver).
              [instanceCall ident (ident @ ''.close'') (ident @ ''.close()'') ''close'' carrier
                 [] (unitCarrier api) True receiver,
               propertyReadVia MethodAccess ident (ident @ ''.path'') ''path'' carrier
                 (nativeString api),
               propertyReadVia MethodAccess ident (ident @ ''.'' @ counter) targetCounter
                 carrier (float64Carrier api)])
           [(fsStream_readId, (readableCarrier api), ''bytesRead'', ''bytes_read'', ''imm''),
            (fsStream_writeId,
             (writableCarrier api),
             ''bytesWritten'',
             ''bytes_written'',
             ''mut'')])) @
     (readableReadOperations api fsStream_readId (readableCarrier api)) @
     (readableEventOperations api fsStream_moduleSpecifier ''ReadStream'' (readableCarrier api)) @
     [instanceCall fsStream_readId (fsStream_readId @ ''.setEncoding'')
        (fsStream_readId @ ''.setEncoding(encoding)'') ''set_encoding'' (readableCarrier api)
        [nativeString api] (readableCarrier api) True ''mut''] @
     (map
        (\<lambda>(suffix, destination, target).
           (instanceCall fsStream_readId (fsStream_readId @ ''.pipe'')
              (fsStream_readId @ ''.pipe('' @ suffix @ '')'') target (readableCarrier api)
              [destination] destination True ''mut''))
        [(''writeStream'', (writableCarrier api), ''pipe_to''),
         (''writable'', (writableCarrier api), ''pipe_to''),
         (''serverResponse'', (httpServerResponseCarrier api), ''pipe_to_response'')]) @
     (map
        (\<lambda>name.
           (instanceCall fsStream_readId (fsStream_readId @ ''.'' @ name)
              (fsStream_readId @ ''.'' @ name @ ''()'') name (readableCarrier api) []
              (readableCarrier api) True ''mut'')) [''pause'', ''resume'']) @
     [instanceCall fsStream_readId (fsStream_readId @ ''.isPaused'')
        (fsStream_readId @ ''.isPaused()'') ''is_paused'' (readableCarrier api) []
        (boolCarrier api) False ''imm''] @
     (writableCallOperations api fsStream_writeId (writableCarrier api)) @
     (writableEventOperations api fsStream_moduleSpecifier ''WriteStream'' (writableCarrier api)) @
     (writableLifecycleOperations api fsStream_writeId (writableCarrier api))"

section \<open>Watchers (filesystem/watch.ts)\<close>

definition fsWatch_moduleSpecifier :: "string" where
  "fsWatch_moduleSpecifier = ''node:fs''"

definition fsWatch_watcherId :: "string" where
  "fsWatch_watcherId = fsWatch_moduleSpecifier @ ''::FSWatcher''"

definition fsWatch_statWatcherId :: "string" where
  "fsWatch_statWatcherId = fsWatch_moduleSpecifier @ ''::StatWatcher''"

definition fsWatch_optionsId :: "string" where
  "fsWatch_optionsId = fsWatch_moduleSpecifier @ ''::WatchOptions''"

definition fsWatch_statOptionsId :: "string" where
  "fsWatch_statOptionsId = fsWatch_moduleSpecifier @ ''::WatchFileOptions''"

definition fsWatch_watcherType :: "providerType" where
  "fsWatch_watcherType = providerRef fsWatch_moduleSpecifier ''FSWatcher''"

definition fsWatch_statWatcherType :: "providerType" where
  "fsWatch_statWatcherType = providerRef fsWatch_moduleSpecifier ''StatWatcher''"

definition fsWatch_watcherCarrier :: "'o mojoApi \<Rightarrow> 'o targetType" where
  "fsWatch_watcherCarrier api =
     mojoNamedTargetType api ''tsonic.mojo.node.FSWatcher'' [''tsonic_node'', ''filesystem'']
       ''FSWatcher''"

definition fsWatch_optionsCarrier :: "'o mojoApi \<Rightarrow> 'o targetType" where
  "fsWatch_optionsCarrier api =
     mojoNamedTargetType api ''tsonic.mojo.node.WatchOptions'' [''tsonic_node'', ''filesystem'']
       ''WatchOptions''"

definition fsWatch_filenameType :: "providerType" where
  "fsWatch_filenameType = UnionT [stringType, LiteralT NullLiteral]"

definition fsWatch_changeType :: "string \<Rightarrow> providerType" where
  "fsWatch_changeType signature =
     providerCallbackType signature ''listener''
       [param ''eventType'' stringType, param ''filename'' fsWatch_filenameType]"

definition fsWatch_statType :: "string \<Rightarrow> providerType" where
  "fsWatch_statType signature =
     providerCallbackType signature ''listener''
       [param ''current'' (providerRef fsWatch_moduleSpecifier ''Stats''),
        param ''previous'' (providerRef fsWatch_moduleSpecifier ''Stats'')]"

definition fsWatch_callback :: "'o mojoApi \<Rightarrow> 'o targetType list \<Rightarrow> 'o targetType" where
  "fsWatch_callback api types =
     mojoCallableTargetType api (map (\<lambda>type. (immPlain type)) types) (unitCarrier api)
       True"

definition fsWatch_changeCarrier :: "'o mojoApi \<Rightarrow> 'o targetType" where
  "fsWatch_changeCarrier api =
     fsWatch_callback api [nativeString api, optionalStringCarrier api]"

definition fsWatch_statCarrier :: "'o mojoApi \<Rightarrow> 'o targetType" where
  "fsWatch_statCarrier api =
     fsWatch_callback api [statsCarrier api, statsCarrier api]"

definition fsWatch_pathParameter :: "providerParameter" where
  "fsWatch_pathParameter = param ''path'' stringType"

definition filesystemWatchExports :: "providerExport list" where
  "filesystemWatchExports =
     (map
        (\<lambda>(ident, name, type).
           (classDeclaration ident name
              [methodMember ident ''close'' [] voidType,
               methodMember ident ''ref'' [] type,
               methodMember ident ''unref'' [] type,
               methodMember ident ''hasRef'' [] booleanType]))
        [(fsWatch_watcherId, ''FSWatcher'', fsWatch_watcherType),
         (fsWatch_statWatcherId, ''StatWatcher'', fsWatch_statWatcherType)]) @
     [interfaceDeclaration fsWatch_optionsId ''WatchOptions''
        [propertyMemberWith fsWatch_optionsId ''persistent'' booleanType False False True,
         propertyMemberWith fsWatch_optionsId ''recursive'' booleanType False False True],
      interfaceDeclaration fsWatch_statOptionsId ''WatchFileOptions''
        [propertyMemberWith fsWatch_statOptionsId ''persistent'' booleanType False False True,
         propertyMemberWith fsWatch_statOptionsId ''interval'' numberType False False True],
      overloadedFunctionExport fsWatch_moduleSpecifier ''watch''
        [overloadOf [fsWatch_pathParameter] fsWatch_watcherType,
         overloadOf
           [fsWatch_pathParameter,
            param ''listener'' (fsWatch_changeType ''node:fs::watch(path,listener)'')]
           fsWatch_watcherType,
         overloadOf
           [fsWatch_pathParameter,
            param ''options'' (providerRef fsWatch_moduleSpecifier ''WatchOptions''),
            param ''listener'' (fsWatch_changeType ''node:fs::watch(path,options,listener)'')]
           fsWatch_watcherType],
      overloadedFunctionExport fsWatch_moduleSpecifier ''watchFile''
        [overloadOf
           [fsWatch_pathParameter,
            param ''listener'' (fsWatch_statType ''node:fs::watchFile(path,listener)'')]
           fsWatch_statWatcherType,
         overloadOf
           [fsWatch_pathParameter,
            param ''options'' (providerRef fsWatch_moduleSpecifier ''WatchFileOptions''),
            param ''listener'' (fsWatch_statType ''node:fs::watchFile(path,options,listener)'')]
           fsWatch_statWatcherType],
      overloadedFunctionExport fsWatch_moduleSpecifier ''unwatchFile''
        [overloadOf [fsWatch_pathParameter] voidType,
         overloadOf
           [fsWatch_pathParameter,
            param ''listener'' (fsWatch_statType ''node:fs::unwatchFile(path,listener)'')]
           voidType]]"

definition filesystemWatchTypes :: "'o mojoApi \<Rightarrow> 'o typeDefinition list" where
  "filesystemWatchTypes api =
     [nodeProviderType api fsWatch_watcherId (fsWatch_watcherCarrier api) ImplicitlyCopyable,
      nodeProviderType api fsWatch_statWatcherId (fsWatch_watcherCarrier api) ImplicitlyCopyable] @
     (map
        (\<lambda>ident.
           (nodeProviderRecordType api ident (fsWatch_optionsCarrier api) Copyable))
        [fsWatch_optionsId, fsWatch_statOptionsId])"

definition filesystemWatchOperations :: "'o mojoApi \<Rightarrow> 'o operation list" where
  "filesystemWatchOperations api =
     [functionCall (fsWatch_moduleSpecifier @ ''::watch'')
        (fsWatch_moduleSpecifier @ ''::watch(path)'') ''filesystem'' ''watch''
        [nativeString api] (fsWatch_watcherCarrier api) True,
      functionCall (fsWatch_moduleSpecifier @ ''::watch'')
        (fsWatch_moduleSpecifier @ ''::watch(path,listener)'') ''filesystem'' ''watch''
        [nativeString api, fsWatch_changeCarrier api] (fsWatch_watcherCarrier api) True,
      functionCall (fsWatch_moduleSpecifier @ ''::watch'')
        (fsWatch_moduleSpecifier @ ''::watch(path,options,listener)'') ''filesystem'' ''watch''
        [nativeString api, fsWatch_optionsCarrier api, fsWatch_changeCarrier api]
        (fsWatch_watcherCarrier api) True,
      functionCall (fsWatch_moduleSpecifier @ ''::watchFile'')
        (fsWatch_moduleSpecifier @ ''::watchFile(path,listener)'') ''filesystem'' ''watch_file''
        [nativeString api, fsWatch_statCarrier api] (fsWatch_watcherCarrier api) True,
      functionCall (fsWatch_moduleSpecifier @ ''::watchFile'')
        (fsWatch_moduleSpecifier @ ''::watchFile(path,options,listener)'') ''filesystem''
        ''watch_file'' [nativeString api, fsWatch_optionsCarrier api, fsWatch_statCarrier api]
        (fsWatch_watcherCarrier api) True,
      functionCall (fsWatch_moduleSpecifier @ ''::unwatchFile'')
        (fsWatch_moduleSpecifier @ ''::unwatchFile(path)'') ''filesystem'' ''unwatch_file''
        [nativeString api] (unitCarrier api) False,
      functionCall (fsWatch_moduleSpecifier @ ''::unwatchFile'')
        (fsWatch_moduleSpecifier @ ''::unwatchFile(path,listener)'') ''filesystem''
        ''unwatch_file''
        [nativeString api, mojoOptionalTargetType api (fsWatch_statCarrier api)]
        (unitCarrier api) False,
      instanceCall fsWatch_watcherId (fsWatch_watcherId @ ''.close'')
        (fsWatch_watcherId @ ''.close()'') ''close'' (fsWatch_watcherCarrier api) []
        (unitCarrier api) False ''imm'',
      instanceCall fsWatch_watcherId (fsWatch_watcherId @ ''.ref'')
        (fsWatch_watcherId @ ''.ref()'') ''ref'' (fsWatch_watcherCarrier api) []
        (fsWatch_watcherCarrier api) False ''imm'',
      instanceCall fsWatch_watcherId (fsWatch_watcherId @ ''.unref'')
        (fsWatch_watcherId @ ''.unref()'') ''unref'' (fsWatch_watcherCarrier api) []
        (fsWatch_watcherCarrier api) False ''imm'',
      instanceCall fsWatch_watcherId (fsWatch_watcherId @ ''.hasRef'')
        (fsWatch_watcherId @ ''.hasRef()'') ''has_ref'' (fsWatch_watcherCarrier api) []
        (boolCarrier api) False ''imm''] @
     (map
        (\<lambda>(name, target, result).
           (instanceCall fsWatch_statWatcherId (fsWatch_statWatcherId @ ''.'' @ name)
              (fsWatch_statWatcherId @ ''.'' @ name @ ''()'') target
              (fsWatch_watcherCarrier api) [] result False ''imm''))
        [(''close'', ''close'', (unitCarrier api)),
         (''ref'', ''ref'', (fsWatch_watcherCarrier api)),
         (''unref'', ''unref'', (fsWatch_watcherCarrier api)),
         (''hasRef'', ''has_ref'', (boolCarrier api))]) @
     (concat
        (map
           (\<lambda>(ident, names).
              (concat
                 (map
                    (\<lambda>name.
                       (let carrier =
                              if (name = ''interval'') then (optionalFloat64Carrier api) else
                                (optionalBoolCarrier api)
                        in [propertyRead ident (ident @ ''.'' @ name) name
                              (fsWatch_optionsCarrier api) carrier,
                            propertyWrite api ident (ident @ ''.'' @ name) name
                              (fsWatch_optionsCarrier api) carrier])) names)))
           [(fsWatch_optionsId, [''persistent'', ''recursive'']),
            (fsWatch_statOptionsId, [''persistent'', ''interval''])]))"

section \<open>The tables are implemented\<close>

lemmas fs_stream_eval = fsStream_moduleSpecifier_def fsStream_readId_def
  fsStream_writeId_def fsStream_readOptionsId_def fsStream_writeOptionsId_def
  fsStream_readType_def fsStream_writeType_def fsStream_responseType_def
  fsStream_readOptions_def fsStream_writeOptions_def fsStream_optionFields_def
  filesystemStreamExports_def filesystemStreamOperations_def
  writable_eval readable_eval event_eval

lemma filesystemStreams_implemented: "implements (filesystemStreamOperations api) (filesystemStreamExports api)"
  by (rule permCheck_implements)
    (simp only: fs_stream_eval point_eval cong: weak_congs, simp only: perm_eval cong: perm_congs)

lemmas fs_watch_eval = fsWatch_moduleSpecifier_def fsWatch_watcherId_def
  fsWatch_statWatcherId_def fsWatch_optionsId_def fsWatch_statOptionsId_def
  fsWatch_watcherType_def fsWatch_statWatcherType_def fsWatch_watcherCarrier_def
  fsWatch_optionsCarrier_def fsWatch_filenameType_def fsWatch_changeType_def
  fsWatch_statType_def fsWatch_callback_def fsWatch_changeCarrier_def
  fsWatch_statCarrier_def fsWatch_pathParameter_def filesystemWatchExports_def
  filesystemWatchOperations_def

lemma filesystemWatch_implemented: "implements (filesystemWatchOperations api) (filesystemWatchExports)"
  by (rule permCheck_implements)
    (simp only: fs_watch_eval point_eval cong: weak_congs, simp only: perm_eval cong: perm_congs)

end
