(* ===== verification/Node_Fs.thy ===== *)
theory Node_Fs
  imports Node_Fs_Calls Node_Fs_Streams
begin

text \<open>
  \<^verbatim>\<open>nodejs/src/provider/modules/filesystem/index.ts\<close> and \<^verbatim>\<open>promises.ts\<close>: the
  modules \<open>node:fs\<close> and \<open>node:fs/promises\<close>, and the members of \<open>Stats\<close> that
  exist only on the JavaScript surface.
\<close>

section \<open>node:fs (filesystem/index.ts)\<close>

definition fs_moduleSpecifier :: "string" where
  "fs_moduleSpecifier = ''node:fs''"

definition fs_statsId :: "string" where
  "fs_statsId = fs_moduleSpecifier @ ''::Stats''"

definition fs_direntId :: "string" where
  "fs_direntId = fs_moduleSpecifier @ ''::Dirent''"

definition fs_mkdirOptionsId :: "string" where
  "fs_mkdirOptionsId = fs_moduleSpecifier @ ''::MakeDirectoryOptions''"

definition fs_rmOptionsId :: "string" where
  "fs_rmOptionsId = fs_moduleSpecifier @ ''::RmOptions''"

definition fs_readdirOptionsId :: "string" where
  "fs_readdirOptionsId = fs_moduleSpecifier @ ''::ReaddirOptions''"

definition fs_classExport ::
    "string \<Rightarrow> string \<Rightarrow> providerMember list \<Rightarrow> providerExport" where
  "fs_classExport ident name members = classDeclaration ident name members"

definition fs_interfaceExport ::
    "string \<Rightarrow> string \<Rightarrow> providerMember list \<Rightarrow> providerExport" where
  "fs_interfaceExport ident name members = interfaceDeclaration ident name members"

definition fs_method :: "string \<Rightarrow> string \<Rightarrow> providerMember" where
  "fs_method ownerId name =
     callableMember (ownerId @ ''.'' @ name) name MethodMember False
       [plainSignature (ownerId @ ''.'' @ name @ ''()'') name [] booleanType]"

definition filesystemModule :: "'o mojoApi \<Rightarrow> providerModule" where
  "filesystemModule api =
     moduleOf fs_moduleSpecifier ''tsonic.mojo.node.filesystem''
       (Some
          [importOf ''node:buffer'' [''Buffer''],
           importOf ''node:stream'' [''Readable'', ''Writable''],
           importOf ''node:http'' [''ServerResponse'']])
       ((filesystemCallExports api False) @
        (filesystemContentsExports api False) @
        (filesystemCopyExports api False) @
        filesystemWatchExports @
        (filesystemStreamExports api) @
        [fs_classExport fs_statsId ''Stats''
           ([fs_method fs_statsId ''isFile'',
             fs_method fs_statsId ''isDirectory'',
             fs_method fs_statsId ''isSymbolicLink'',
             propertyMember fs_statsId ''size'' numberType,
             propertyMember fs_statsId ''mtimeMs'' numberType] @
            (map (\<lambda>name. (propertyMember fs_statsId name numberType))
               [''atimeMs'', ''ctimeMs'', ''birthtimeMs''])),
         fs_classExport fs_direntId ''Dirent''
           [propertyMember fs_direntId ''name'' stringType,
            fs_method fs_direntId ''isFile'',
            fs_method fs_direntId ''isDirectory'',
            fs_method fs_direntId ''isSymbolicLink''],
         fs_interfaceExport fs_mkdirOptionsId ''MakeDirectoryOptions''
           [propertyMemberWith fs_mkdirOptionsId ''recursive'' booleanType False False True,
            propertyMemberWith fs_mkdirOptionsId ''mode'' numberType False False True],
         fs_interfaceExport fs_rmOptionsId ''RmOptions''
           [propertyMemberWith fs_rmOptionsId ''recursive'' booleanType False False True,
            propertyMemberWith fs_rmOptionsId ''force'' booleanType False False True,
            propertyMemberWith fs_rmOptionsId ''maxRetries'' numberType False False True,
            propertyMemberWith fs_rmOptionsId ''retryDelay'' numberType False False True],
         fs_interfaceExport fs_readdirOptionsId ''ReaddirOptions''
           [propertyMemberWith fs_readdirOptionsId ''withFileTypes''
              (LiteralT (BoolLiteral True)) False False False],
         fnExport fs_moduleSpecifier ''existsSync'' [param ''path'' stringType] booleanType,
         fnExport fs_moduleSpecifier ''statSync'' [param ''path'' stringType]
           (providerRef fs_moduleSpecifier ''Stats''),
         fnExport fs_moduleSpecifier ''lstatSync'' [param ''path'' stringType]
           (providerRef fs_moduleSpecifier ''Stats''),
         overloadedFunctionExport fs_moduleSpecifier ''readdirSync''
           [overloadAs ''path'' [param ''path'' stringType] stringArrayType,
            overloadAs ''path,options''
              [param ''path'' stringType,
               param ''options'' (providerRef fs_moduleSpecifier ''ReaddirOptions'')]
              (ArrayT (providerRef fs_moduleSpecifier ''Dirent''))],
         overloadedFunctionExport fs_moduleSpecifier ''mkdirSync''
           [overloadAs ''path'' [param ''path'' stringType] voidType,
            overloadAs ''path,options''
              [param ''path'' stringType,
               param ''options'' (providerRef fs_moduleSpecifier ''MakeDirectoryOptions'')]
              voidType],
         overloadedFunctionExport fs_moduleSpecifier ''rmSync''
           [overloadAs ''path'' [param ''path'' stringType] voidType,
            overloadAs ''path,options''
              [param ''path'' stringType,
               param ''options'' (providerRef fs_moduleSpecifier ''RmOptions'')] voidType],
         fnExport fs_moduleSpecifier ''mkdtempSync'' [param ''prefix'' stringType] stringType,
         fnExport fs_moduleSpecifier ''copyFileSync''
           [param ''source'' stringType, param ''destination'' stringType] voidType,
         fnExport fs_moduleSpecifier ''renameSync''
           [param ''oldPath'' stringType, param ''newPath'' stringType] voidType,
         fnExport fs_moduleSpecifier ''symlinkSync''
           [param ''target'' stringType, param ''path'' stringType] voidType,
         fnExport fs_moduleSpecifier ''realpathSync'' [param ''path'' stringType] stringType,
         fnExport fs_moduleSpecifier ''unlinkSync'' [param ''path'' stringType] voidType])"

definition filesystemTypes :: "'o mojoApi \<Rightarrow> 'o typeDefinition list" where
  "filesystemTypes api =
     (filesystemWatchTypes api) @
     (filesystemStreamTypes api) @
     (filesystemCopyTypes api) @
     [nodeProviderType api fs_statsId (statsCarrier api) Copyable,
      nodeProviderType api fs_direntId (direntCarrier api) Copyable,
      nodeProviderRecordType api fs_mkdirOptionsId (mkdirOptionsCarrier api) Copyable,
      nodeProviderRecordType api fs_rmOptionsId (rmOptionsCarrier api) Copyable,
      nodeProviderRecordType api fs_readdirOptionsId (readdirOptionsCarrier api) Copyable]"

definition fs_methodOperations ::
    "'o mojoApi \<Rightarrow> string \<Rightarrow> 'o targetType \<Rightarrow> 'o operation list" where
  "fs_methodOperations api exportId receiverType =
     [instanceCall exportId (exportId @ ''.isFile'') (exportId @ ''.isFile()'') ''is_file''
        receiverType [] (boolCarrier api) False ''imm'',
      instanceCall exportId (exportId @ ''.isDirectory'') (exportId @ ''.isDirectory()'')
        ''is_directory'' receiverType [] (boolCarrier api) False ''imm'',
      instanceCall exportId (exportId @ ''.isSymbolicLink'') (exportId @ ''.isSymbolicLink()'')
        ''is_symbolic_link'' receiverType [] (boolCarrier api) False ''imm'']"

definition fs_optionFieldOperations ::
    "'o mojoApi \<Rightarrow> string \<Rightarrow> 'o targetType \<Rightarrow>
      (string \<times> string \<times> 'o targetType) list \<Rightarrow>
      'o operation list" where
  "fs_optionFieldOperations api exportId receiverType fieldRows =
     concat
       (map
          (\<lambda>(sourceName, targetName, storageType).
             [propertyRead exportId (exportId @ ''.'' @ sourceName) targetName receiverType
                storageType,
              propertyWrite api exportId (exportId @ ''.'' @ sourceName) targetName receiverType
                storageType]) fieldRows)"

definition filesystemOperations :: "'o mojoApi \<Rightarrow> 'o operation list" where
  "filesystemOperations api =
     (let operation =
            \<lambda>sourceName signature targetName parameters result raises.
              (functionCall (fs_moduleSpecifier @ ''::'' @ sourceName)
                 (fs_moduleSpecifier @ ''::'' @ sourceName @ ''('' @ signature @ '')'')
                 ''filesystem'' targetName parameters result raises)
      in (filesystemCallOperations api False) @
         (filesystemContentsOperations api False) @
         (filesystemCopyOperations api False) @
         (filesystemWatchOperations api) @
         (filesystemStreamOperations api) @
         [operation ''existsSync'' ''path'' ''exists'' [nativeString api] (boolCarrier api)
            False,
          operation ''statSync'' ''path'' ''stat'' [nativeString api] (statsCarrier api) True,
          operation ''lstatSync'' ''path'' ''lstat'' [nativeString api] (statsCarrier api) True,
          operation ''readdirSync'' ''path'' ''read_directory_names'' [nativeString api]
            (stringListCarrier api) True,
          operation ''readdirSync'' ''path,options'' ''read_directory''
            [nativeString api, readdirOptionsCarrier api] (direntListCarrier api) True,
          operation ''mkdirSync'' ''path'' ''make_directory_default'' [nativeString api]
            (unitCarrier api) True,
          operation ''mkdirSync'' ''path,options'' ''make_directory''
            [nativeString api, mkdirOptionsCarrier api] (unitCarrier api) True,
          operation ''rmSync'' ''path'' ''remove_path_default'' [nativeString api]
            (unitCarrier api) True,
          operation ''rmSync'' ''path,options'' ''remove_path''
            [nativeString api, rmOptionsCarrier api] (unitCarrier api) True,
          operation ''mkdtempSync'' ''prefix'' ''make_temp_directory'' [nativeString api]
            (nativeString api) True,
          operation ''copyFileSync'' ''source,destination'' ''copy_file''
            [nativeString api, nativeString api] (unitCarrier api) True,
          operation ''renameSync'' ''oldPath,newPath'' ''rename_path''
            [nativeString api, nativeString api] (unitCarrier api) True,
          operation ''symlinkSync'' ''target,path'' ''symbolic_link''
            [nativeString api, nativeString api] (unitCarrier api) True,
          operation ''realpathSync'' ''path'' ''real_path'' [nativeString api]
            (nativeString api) True,
          operation ''unlinkSync'' ''path'' ''unlink'' [nativeString api] (unitCarrier api) True] @
         (fs_methodOperations api fs_statsId (statsCarrier api)) @
         (fs_methodOperations api fs_direntId (direntCarrier api)) @
         [propertyRead fs_statsId (fs_statsId @ ''.size'') ''size'' (statsCarrier api)
            (nativeIntCarrier api),
          propertyRead fs_statsId (fs_statsId @ ''.mtimeMs'') ''mtime_ms'' (statsCarrier api)
            (float64Carrier api)] @
         (map
            (\<lambda>(source, target).
               (propertyRead fs_statsId (fs_statsId @ ''.'' @ source) target (statsCarrier api)
                  (float64Carrier api)))
            [(''atimeMs'', ''atime_ms''),
             (''ctimeMs'', ''ctime_ms''),
             (''birthtimeMs'', ''birthtime_ms'')]) @
         [propertyRead fs_direntId (fs_direntId @ ''.name'') ''name'' (direntCarrier api)
            (nativeString api)] @
         (fs_optionFieldOperations api fs_mkdirOptionsId (mkdirOptionsCarrier api)
            [(''recursive'', ''recursive'', (optionalBoolCarrier api)),
             (''mode'', ''mode'', (optionalFloat64Carrier api))]) @
         (fs_optionFieldOperations api fs_rmOptionsId (rmOptionsCarrier api)
            [(''recursive'', ''recursive'', (optionalBoolCarrier api)),
             (''force'', ''force'', (optionalBoolCarrier api)),
             (''maxRetries'', ''max_retries'', (optionalFloat64Carrier api)),
             (''retryDelay'', ''retry_delay'', (optionalFloat64Carrier api))]) @
         (fs_optionFieldOperations api fs_readdirOptionsId (readdirOptionsCarrier api)
            [(''withFileTypes'', ''with_file_types'', (boolCarrier api))]))"

definition filesystemSurfaceMembers :: "'o mojoApi \<Rightarrow> 'o surfaceMembers" where
  "filesystemSurfaceMembers api =
     (let names = [''atime'', ''mtime'', ''ctime'', ''birthtime'']
      in \<lparr>sur_id = ''filesystem-js-date-members'', sur_requiredSurfaces = [''js''],
          sur_declarations =
            [(fs_statsId,
              (map
                  (\<lambda>name. (propertyMember fs_statsId name (SourceGlobalT ''Date'' None)))
                  names))],
          sur_operations =
            (map
              (\<lambda>name.
                 (propertyReadVia MethodAccess fs_statsId (fs_statsId @ ''.'' @ name) name
                    (statsCarrier api)
                    (mojoNamedTargetType api ''tsonic.mojo.js.JsDate'' [''tsonic_js'']
                       ''JsDate''))) names)\<rparr>)"

section \<open>node:fs/promises (filesystem/promises.ts)\<close>

definition fsPromises_moduleSpecifier :: "string" where
  "fsPromises_moduleSpecifier = ''node:fs/promises''"

definition filesystemPromisesModule :: "'o mojoApi \<Rightarrow> providerModule" where
  "filesystemPromisesModule api =
     moduleOf fsPromises_moduleSpecifier ''tsonic.mojo.node.filesystem-promises''
       (Some
          [importOf ''node:buffer'' [''Buffer''],
           importOf ''node:fs''
             [''MakeDirectoryOptions'', ''RmOptions'', ''Stats'', ''CopyOptions'']])
       ((filesystemCallExports api True) @
        (filesystemContentsExports api True) @
        (filesystemCopyExports api True) @
        [fnExport fsPromises_moduleSpecifier ''readdir'' [param ''path'' stringType]
           (sourcePromise stringArrayType),
         fnExport fsPromises_moduleSpecifier ''stat'' [param ''path'' stringType]
           (sourcePromise (providerRef ''node:fs'' ''Stats'')),
         overloadedFunctionExport fsPromises_moduleSpecifier ''mkdir''
           [overloadAs ''path'' [param ''path'' stringType] (sourcePromise voidType),
            overloadAs ''path,options''
              [param ''path'' stringType,
               param ''options'' (providerRef ''node:fs'' ''MakeDirectoryOptions'')]
              (sourcePromise voidType)],
         overloadedFunctionExport fsPromises_moduleSpecifier ''rm''
           [overloadAs ''path'' [param ''path'' stringType] (sourcePromise voidType),
            overloadAs ''path,options''
              [param ''path'' stringType,
               param ''options'' (providerRef ''node:fs'' ''RmOptions'')]
              (sourcePromise voidType)],
         fnExport fsPromises_moduleSpecifier ''unlink'' [param ''path'' stringType]
           (sourcePromise voidType),
         fnExport fsPromises_moduleSpecifier ''realpath'' [param ''path'' stringType]
           (sourcePromise stringType),
         fnExport fsPromises_moduleSpecifier ''mkdtemp'' [param ''prefix'' stringType]
           (sourcePromise stringType),
         fnExport fsPromises_moduleSpecifier ''symlink''
           [param ''target'' stringType, param ''path'' stringType] (sourcePromise voidType),
         fnExport fsPromises_moduleSpecifier ''copyFile''
           [param ''source'' stringType, param ''destination'' stringType]
           (sourcePromise voidType),
         fnExport fsPromises_moduleSpecifier ''rename''
           [param ''oldPath'' stringType, param ''newPath'' stringType] (sourcePromise voidType)])"

definition filesystemPromisesOperations :: "'o mojoApi \<Rightarrow> 'o operation list" where
  "filesystemPromisesOperations api =
     (let operation =
            \<lambda>sourceName signature targetName parameters result.
              (functionCallPath (fsPromises_moduleSpecifier @ ''::'' @ sourceName)
                 (fsPromises_moduleSpecifier @ ''::'' @ sourceName @ ''('' @ signature @ '')'')
                 [''filesystem'', ''promises''] targetName parameters result True)
      in (filesystemCallOperations api True) @
         (filesystemContentsOperations api True) @
         (filesystemCopyOperations api True) @
         [operation ''readdir'' ''path'' ''read_directory'' [nativeString api]
            (stringListFutureCarrier api),
          operation ''stat'' ''path'' ''stat'' [nativeString api]
            (FutureTarget ''native'' (statsCarrier api) True),
          operation ''mkdir'' ''path'' ''make_directory_default'' [nativeString api]
            (unitFutureCarrier api),
          operation ''mkdir'' ''path,options'' ''make_directory''
            [nativeString api, mkdirOptionsCarrier api] (unitFutureCarrier api),
          operation ''rm'' ''path'' ''remove_path_default'' [nativeString api]
            (unitFutureCarrier api),
          operation ''rm'' ''path,options'' ''remove_path''
            [nativeString api, rmOptionsCarrier api] (unitFutureCarrier api),
          operation ''unlink'' ''path'' ''unlink'' [nativeString api] (unitFutureCarrier api),
          operation ''realpath'' ''path'' ''real_path'' [nativeString api]
            (nativeStringFutureCarrier api),
          operation ''mkdtemp'' ''prefix'' ''make_temp_directory'' [nativeString api]
            (nativeStringFutureCarrier api),
          operation ''symlink'' ''target,path'' ''symbolic_link''
            [nativeString api, nativeString api] (unitFutureCarrier api),
          operation ''copyFile'' ''source,destination'' ''copy_file''
            [nativeString api, nativeString api] (unitFutureCarrier api),
          operation ''rename'' ''oldPath,newPath'' ''rename_path''
            [nativeString api, nativeString api] (unitFutureCarrier api)])"

section \<open>The contract\<close>

lemmas fs_defs = fs_moduleSpecifier_def fs_statsId_def fs_direntId_def fs_mkdirOptionsId_def
  fs_rmOptionsId_def fs_readdirOptionsId_def fs_classExport_def fs_interfaceExport_def
  fs_method_def filesystemModule_def fs_methodOperations_def fs_optionFieldOperations_def
  filesystemOperations_def

lemmas fsPromises_defs = fsPromises_moduleSpecifier_def filesystemPromisesModule_def
  filesystemPromisesOperations_def

text \<open>
  Both modules are put together from tables that are implemented on their own; what their
  index files add is evaluated.
\<close>

lemma fs_implements: "implements (filesystemOperations api) (mod_exports (filesystemModule api))"
  unfolding filesystemOperations_def filesystemModule_def mod_exports_moduleOf Let_def
  by (intro implements_append filesystemCalls_implemented filesystemContents_implemented
      filesystemCopy_implemented filesystemWatch_implemented filesystemStreams_implemented,
      rule permCheck_implements)
    (simp only: fs_defs point_eval cong: weak_congs, simp only: perm_eval cong: perm_congs)

lemma fsPromises_implements:
  "implements (filesystemPromisesOperations api) (mod_exports (filesystemPromisesModule api))"
  unfolding filesystemPromisesOperations_def filesystemPromisesModule_def mod_exports_moduleOf Let_def
  by (intro implements_append filesystemCalls_implemented filesystemContents_implemented
      filesystemCopy_implemented, rule permCheck_implements)
    (simp only: fsPromises_defs point_eval cong: weak_congs, simp only: perm_eval cong: perm_congs)

lemma fs_ids:
  "distinct (map exp_id (mod_exports (filesystemModule api))) \<and> moduleScoped (filesystemModule api) \<and>
   defaultFree (filesystemModule api)"
  by (simp only: fs_defs fs_call_eval fs_copy_eval fs_stream_eval fs_watch_eval moduleScoped_def defaultFree_def
      id_eval cong: weak_congs)

lemma fsPromises_ids:
  "distinct (map exp_id (mod_exports (filesystemPromisesModule api))) \<and>
   moduleScoped (filesystemPromisesModule api) \<and>
   defaultFree (filesystemPromisesModule api)"
  by (simp only: fsPromises_defs fs_call_eval fs_copy_eval moduleScoped_def defaultFree_def id_eval cong: weak_congs)

lemma fs_index: "memberIndexWrites (filesystemOperations api)"
  by (simp only: fs_defs fs_call_eval fs_copy_eval fs_stream_eval fs_watch_eval point_eval
      cong: weak_congs)

lemma fsPromises_index: "memberIndexWrites (filesystemPromisesOperations api)"
  by (simp only: fsPromises_defs fs_call_eval fs_copy_eval point_eval cong: weak_congs)

text \<open>
  The native side of the operations has its shape and receivers, and the references of the
  declarations are resolved.
\<close>

lemma fs_native: "nativeOperations (filesystemTypes api) (filesystemOperations api)"
  by (simp only: fs_defs fs_call_eval fs_copy_eval fs_stream_eval fs_watch_eval
      filesystemTypes_def filesystemWatchTypes_def filesystemStreamTypes_def
      filesystemCopyTypes_def native_eval cong: weak_congs)

lemma fs_refs: "refsResolved (filesystemModule api)"
  by (rule refsResolvedI, simp only: fs_defs fs_call_eval fs_copy_eval fs_stream_eval
      fs_watch_eval duplex_source_def duplex_buffer_def readableCall_result_def
      readableCall_size_def writableCall_bufferType_def writableCall_chunkType_def
      writableCall_completionError_def writableLifecycle_errorType_def
      writableLifecycle_nullableError_def writableLifecycle_optionalError_def visible_eval cong:
      weak_congs)
    (simp only: fs_defs fs_call_eval fs_copy_eval fs_stream_eval fs_watch_eval duplex_source_def
      duplex_buffer_def readableCall_result_def readableCall_size_def writableCall_bufferType_def
      writableCall_chunkType_def writableCall_completionError_def writableLifecycle_errorType_def
      writableLifecycle_nullableError_def writableLifecycle_optionalError_def upt_rec Suc_less_eq
      zero_less_Suc not_less0 resolve_eval cong: weak_congs)

lemma fsPromises_native: "nativeOperations [] (filesystemPromisesOperations api)"
  by (simp only: fsPromises_defs fs_call_eval fs_copy_eval native_eval cong: weak_congs)

lemma fsPromises_refs: "refsResolved (filesystemPromisesModule api)"
  by (rule refsResolvedI, simp only: fsPromises_defs fs_call_eval fs_copy_eval duplex_source_def
      duplex_buffer_def readableCall_result_def readableCall_size_def writableCall_bufferType_def
      writableCall_chunkType_def writableCall_completionError_def writableLifecycle_errorType_def
      writableLifecycle_nullableError_def writableLifecycle_optionalError_def visible_eval cong:
      weak_congs)
    (simp only: fsPromises_defs fs_call_eval fs_copy_eval duplex_source_def duplex_buffer_def
      readableCall_result_def readableCall_size_def writableCall_bufferType_def
      writableCall_chunkType_def writableCall_completionError_def writableLifecycle_errorType_def
      writableLifecycle_nullableError_def writableLifecycle_optionalError_def upt_rec Suc_less_eq
      zero_less_Suc not_less0 resolve_eval cong: weak_congs)

text \<open>
  Type definitions exist for exactly the declared types with instances, and no point is declared
  twice.
\<close>

lemma fs_types: "typesExact (filesystemTypes api) (mod_exports (filesystemModule api))"
  by (rule permCheck_typesExact)
    (simp only: fs_defs fs_call_eval fs_copy_eval fs_stream_eval fs_watch_eval filesystemTypes_def
      filesystemWatchTypes_def filesystemStreamTypes_def filesystemCopyTypes_def upt_rec
      Suc_less_eq zero_less_Suc not_less0 type_eval cong: weak_congs,
      simp only: perm_eval cong: perm_congs)

lemma fs_points: "pointsDistinct (mod_exports (filesystemModule api))"
  by (simp only: fs_defs fs_call_eval fs_copy_eval fs_stream_eval fs_watch_eval upt_rec
      Suc_less_eq zero_less_Suc not_less0 point_eval cong: weak_congs,
      simp only: distinct_eval cong: perm_congs)

lemma fsPromises_types: "typesExact [] (mod_exports (filesystemPromisesModule api))"
  by (rule permCheck_typesExact)
    (simp only: fsPromises_defs fs_call_eval fs_copy_eval upt_rec Suc_less_eq zero_less_Suc
      not_less0 type_eval cong: weak_congs,
      simp only: perm_eval cong: perm_congs)

lemma fsPromises_points: "pointsDistinct (mod_exports (filesystemPromisesModule api))"
  by (simp only: fsPromises_defs fs_call_eval fs_copy_eval upt_rec Suc_less_eq zero_less_Suc
      not_less0 point_eval cong: weak_congs,
      simp only: distinct_eval cong: perm_congs)

interpretation fs_component: component "[filesystemModule api]" "filesystemOperations api" for api
  by (rule componentI [OF fs_implements fs_ids fs_index])

interpretation fsPromises_component:
  component "[filesystemPromisesModule api]" "filesystemPromisesOperations api" for api
  by (rule componentI [OF fsPromises_implements fsPromises_ids fsPromises_index])

section \<open>Members of the JavaScript surface\<close>

text \<open>
  The four dates of \<open>Stats\<close>, declared only on the surface \<open>js\<close>, are
  read-only and implemented.
\<close>

definition surfaceImplemented :: "'o surfaceMembers \<Rightarrow> bool" where
  "surfaceImplemented s \<longleftrightarrow>
     mset (operationsPoints (sur_operations s)) =
     mset (concat (map (\<lambda>(e, ms). membersPoints e ms) (sur_declarations s)))"

lemma filesystemSurface_implemented: "surfaceImplemented (filesystemSurfaceMembers api)"
  by (simp add: surfaceImplemented_def filesystemSurfaceMembers_def point_simps fs_statsId_def Let_def)

text \<open>No module declares their points.\<close>

definition surfacePoints :: "point list" where
  "surfacePoints =
     map (\<lambda>n. (''node:fs::Stats'', Some (''node:fs::Stats.'' @ n), None, PropertyOperation, None))
       [''atime'', ''mtime'', ''ctime'', ''birthtime'']"

lemma filesystemSurface_points:
  "operationsPoints (sur_operations (filesystemSurfaceMembers api)) = surfacePoints"
  by (simp add: filesystemSurfaceMembers_def surfacePoints_def point_simps fs_statsId_def
      fs_moduleSpecifier_def Let_def)

lemma fs_surface_new: "list_all (\<lambda>q. absent q surfacePoints) (exportsPoints (mod_exports (filesystemModule api)))"
  by (simp only: surfacePoints_def fs_defs fs_call_eval fs_copy_eval fs_stream_eval fs_watch_eval upt_rec
      Suc_less_eq zero_less_Suc not_less0 point_eval cong: weak_congs,
      simp only: list_all_append list.pred_inject distinct_eval cong: perm_congs)

end
