(* ===== verification/Node_Tls_Options.thy ===== *)
theory Node_Tls_Options
  imports Provider_References
begin

text \<open>
  \<^verbatim>\<open>nodejs/src/provider/modules/tls/secure-context.ts\<close> and
  \<^verbatim>\<open>tls/options.ts\<close>: the tables of TLS option fields,
  which \<open>node:tls\<close>, \<open>node:http\<close> and \<open>node:https\<close>
  share, and the declarations and accessors derived from such a table.
\<close>

section \<open>Secure contexts (tls/secure-context.ts)\<close>

record 'o tlsField =
  tf_source :: "string"
  tf_target :: "string"
  tf_sourceType :: "providerType"
  tf_carrier :: "'o targetType"

definition secureContextCarrier :: "'o mojoApi \<Rightarrow> 'o targetType" where
  "secureContextCarrier api =
     mojoNamedTargetType api ''tsonic.mojo.node.tls.SecureContext'' [''tsonic_node'', ''tls'']
       ''SecureContext''"

definition secureContextOptionsCarrier :: "'o mojoApi \<Rightarrow> 'o targetType" where
  "secureContextOptionsCarrier api =
     mojoNamedTargetType api ''tsonic.mojo.node.tls.SecureContextOptions''
       [''tsonic_node'', ''tls''] ''SecureContextOptions''"

definition secureContextFields :: "'o mojoApi \<Rightarrow> 'o tlsField list" where
  "secureContextFields api =
     [\<lparr>tf_source = ''key'', tf_target = ''key'', tf_sourceType = stringType,
       tf_carrier = nativeString api\<rparr>,
      \<lparr>tf_source = ''cert'', tf_target = ''cert'', tf_sourceType = stringType,
       tf_carrier = nativeString api\<rparr>,
      \<lparr>tf_source = ''ca'', tf_target = ''ca'', tf_sourceType = stringArrayType,
       tf_carrier = stringListCarrier api\<rparr>,
      \<lparr>tf_source = ''pfx'', tf_target = ''pfx'',
       tf_sourceType = providerRef ''node:buffer'' ''Buffer'', tf_carrier = bufferCarrier api\<rparr>,
      \<lparr>tf_source = ''passphrase'', tf_target = ''passphrase'', tf_sourceType = stringType,
       tf_carrier = nativeString api\<rparr>,
      \<lparr>tf_source = ''minVersion'', tf_target = ''min_version'', tf_sourceType = stringType,
       tf_carrier = nativeString api\<rparr>,
      \<lparr>tf_source = ''maxVersion'', tf_target = ''max_version'', tf_sourceType = stringType,
       tf_carrier = nativeString api\<rparr>]"

section \<open>Options (tls/options.ts)\<close>

definition tlsOption_common :: "'o mojoApi \<Rightarrow> 'o tlsField list" where
  "tlsOption_common api =
     (secureContextFields api) @
     [\<lparr>tf_source = ''ALPNProtocols'', tf_target = ''alpn_protocols'',
       tf_sourceType = stringArrayType, tf_carrier = stringListCarrier api\<rparr>,
      \<lparr>tf_source = ''rejectUnauthorized'', tf_target = ''reject_unauthorized'',
       tf_sourceType = booleanType, tf_carrier = boolCarrier api\<rparr>,
      \<lparr>tf_source = ''allowHalfOpen'', tf_target = ''allow_half_open'',
       tf_sourceType = booleanType, tf_carrier = boolCarrier api\<rparr>]"

definition tlsConnectionFields :: "'o mojoApi \<Rightarrow> 'o tlsField list" where
  "tlsConnectionFields api =
     [\<lparr>tf_source = ''host'', tf_target = ''host'', tf_sourceType = stringType,
       tf_carrier = nativeString api\<rparr>,
      \<lparr>tf_source = ''servername'', tf_target = ''servername'', tf_sourceType = stringType,
       tf_carrier = nativeString api\<rparr>,
      \<lparr>tf_source = ''port'', tf_target = ''port'', tf_sourceType = numberType,
       tf_carrier = float64Carrier api\<rparr>] @
     (tlsOption_common api) @
     [\<lparr>tf_source = ''secureContext'', tf_target = ''secure_context'',
       tf_sourceType = providerRef ''node:tls'' ''SecureContext'',
       tf_carrier = secureContextCarrier api\<rparr>,
      \<lparr>tf_source = ''timeout'', tf_target = ''timeout'', tf_sourceType = numberType,
       tf_carrier = float64Carrier api\<rparr>]"

definition tlsServerFields :: "'o mojoApi \<Rightarrow> 'o tlsField list" where
  "tlsServerFields api =
     (tlsOption_common api) @
     [\<lparr>tf_source = ''requestCert'', tf_target = ''request_cert'', tf_sourceType = booleanType,
       tf_carrier = boolCarrier api\<rparr>,
      \<lparr>tf_source = ''handshakeTimeout'', tf_target = ''handshake_timeout'',
       tf_sourceType = numberType, tf_carrier = float64Carrier api\<rparr>]"

definition tlsOptionMembers ::
    "string \<Rightarrow> 'o tlsField list \<Rightarrow> providerMember list" where
  "tlsOptionMembers ident fieldRows =
     map
       (\<lambda>field.
          (propertyMemberWith ident (tf_source field) (tf_sourceType field) False False True))
       fieldRows"

definition tlsOptionDeclaration ::
    "string \<Rightarrow> string \<Rightarrow> 'o tlsField list \<Rightarrow> providerExport" where
  "tlsOptionDeclaration ident name fieldRows =
     interfaceDeclaration ident name (tlsOptionMembers ident fieldRows)"

definition tlsOptionOperations ::
    "'o mojoApi \<Rightarrow> string \<Rightarrow> 'o targetType \<Rightarrow>
      'o tlsField list \<Rightarrow> 'o operation list" where
  "tlsOptionOperations api ident receiver fieldRows =
     concat
       (map
          (\<lambda>field.
             (let type = mojoOptionalTargetType api (tf_carrier field)
              in [propertyRead ident (ident @ ''.'' @ (tf_source field)) (tf_target field)
                    receiver type,
                  propertyWrite api ident (ident @ ''.'' @ (tf_source field)) (tf_target field)
                    receiver type])) fieldRows)"

section \<open>Every option table is implemented\<close>

text \<open>
  The properties derived from a table of option fields and the accessors derived from the
  same table have the same points in the same order, whatever the fields.
\<close>

lemma tlsOption_points:
  "operationsPoints (tlsOptionOperations api i receiver fieldRows) =
     membersPoints i (tlsOptionMembers i fieldRows)"
  by (induction fieldRows)
    (simp_all add: tlsOptionOperations_def tlsOptionMembers_def point_simps Let_def)

lemma tlsOptions_implemented:
  "implements (tlsOptionOperations api i receiver fieldRows) [tlsOptionDeclaration i n fieldRows]"
  by (simp add: implements_def tlsOption_points tlsOptionDeclaration_def point_simps)

lemmas tls_option_eval = tlsField.select_convs secureContextFields_def tlsOption_common_def
  tlsConnectionFields_def tlsServerFields_def tlsOptionMembers_def tlsOptionDeclaration_def
  tlsOptionOperations_def

end
