(* ===== verification/Node_Net_Parts.thy ===== *)
theory Node_Net_Parts
  imports Provider_References
begin

text \<open>
  \<^verbatim>\<open>nodejs/src/provider/modules/net\<close> without its index: the record types, the event
  tables and the listen table, which the modules \<open>http\<close>, \<open>https\<close> and
  \<open>tls\<close> use too.
\<close>

section \<open>Records (net/records.ts)\<close>

record 'o netField =
  nf_name :: "string"
  nf_target :: "string"
  nf_source :: "providerType"
  nf_carrier :: "'o targetType"
  nf_optional :: "bool"

record 'o netRecord =
  nr_name :: "string"
  nr_immutable :: "bool"
  nr_fields :: "'o netField list"

definition netRecord_records :: "'o mojoApi \<Rightarrow> 'o netRecord list" where
  "netRecord_records api =
     [\<lparr>nr_name = ''AddressInfo'', nr_immutable = True,
       nr_fields =
         [\<lparr>nf_name = ''address'', nf_target = ''address'', nf_source = stringType,
           nf_carrier = nativeString api, nf_optional = False\<rparr>,
          \<lparr>nf_name = ''family'', nf_target = ''family'', nf_source = stringType,
           nf_carrier = nativeString api, nf_optional = False\<rparr>,
          \<lparr>nf_name = ''port'', nf_target = ''port'', nf_source = numberType,
           nf_carrier = float64Carrier api, nf_optional = False\<rparr>]\<rparr>,
      \<lparr>nr_name = ''ServerOpts'', nr_immutable = False,
       nr_fields =
         [\<lparr>nf_name = ''allowHalfOpen'', nf_target = ''allow_half_open'',
           nf_source = booleanType, nf_carrier = boolCarrier api, nf_optional = True\<rparr>,
          \<lparr>nf_name = ''pauseOnConnect'', nf_target = ''pause_on_connect'',
           nf_source = booleanType, nf_carrier = boolCarrier api, nf_optional = True\<rparr>]\<rparr>,
      \<lparr>nr_name = ''NetConnectOpts'', nr_immutable = False,
       nr_fields =
         [\<lparr>nf_name = ''port'', nf_target = ''port'', nf_source = numberType,
           nf_carrier = float64Carrier api, nf_optional = False\<rparr>,
          \<lparr>nf_name = ''host'', nf_target = ''host'', nf_source = stringType,
           nf_carrier = nativeString api, nf_optional = True\<rparr>,
          \<lparr>nf_name = ''allowHalfOpen'', nf_target = ''allow_half_open'',
           nf_source = booleanType, nf_carrier = boolCarrier api, nf_optional = True\<rparr>,
          \<lparr>nf_name = ''noDelay'', nf_target = ''no_delay'', nf_source = booleanType,
           nf_carrier = boolCarrier api, nf_optional = True\<rparr>,
          \<lparr>nf_name = ''timeout'', nf_target = ''timeout'', nf_source = numberType,
           nf_carrier = float64Carrier api, nf_optional = True\<rparr>]\<rparr>,
      \<lparr>nr_name = ''ListenOptions'', nr_immutable = False,
       nr_fields =
         [\<lparr>nf_name = ''port'', nf_target = ''port'', nf_source = numberType,
           nf_carrier = float64Carrier api, nf_optional = True\<rparr>,
          \<lparr>nf_name = ''host'', nf_target = ''host'', nf_source = stringType,
           nf_carrier = nativeString api, nf_optional = True\<rparr>,
          \<lparr>nf_name = ''backlog'', nf_target = ''backlog'', nf_source = numberType,
           nf_carrier = float64Carrier api, nf_optional = True\<rparr>]\<rparr>]"

definition netRecord_targetNames :: "(string \<times> string) list" where
  "netRecord_targetNames =
     [(''AddressInfo'', ''AddressInfo''),
      (''ServerOpts'', ''ServerOptions''),
      (''NetConnectOpts'', ''ConnectionOptions''),
      (''ListenOptions'', ''ListenOptions'')]"

definition netRecord_carriers ::
    "'o mojoApi \<Rightarrow> (string \<times> 'o targetType) list" where
  "netRecord_carriers api =
     map
       (\<lambda>record.
          (let targetName = the (map_of netRecord_targetNames (nr_name record))
           in (nr_name record,
               mojoNamedTargetType api (''tsonic.mojo.node.net.'' @ targetName)
                 [''tsonic_node'', ''net''] targetName)))
       (netRecord_records api)"

definition addressCarrier :: "'o mojoApi \<Rightarrow> 'o targetType" where
  "addressCarrier api = the (map_of (netRecord_carriers api) ''AddressInfo'')"

definition connectionOptionsCarrier :: "'o mojoApi \<Rightarrow> 'o targetType" where
  "connectionOptionsCarrier api = the (map_of (netRecord_carriers api) ''NetConnectOpts'')"

definition serverOptionsCarrier :: "'o mojoApi \<Rightarrow> 'o targetType" where
  "serverOptionsCarrier api = the (map_of (netRecord_carriers api) ''ServerOpts'')"

definition listenOptionsCarrier :: "'o mojoApi \<Rightarrow> 'o targetType" where
  "listenOptionsCarrier api = the (map_of (netRecord_carriers api) ''ListenOptions'')"

definition addressType :: "providerType" where
  "addressType = providerRef ''node:net'' ''AddressInfo''"

definition connectionOptionsType :: "providerType" where
  "connectionOptionsType = providerRef ''node:net'' ''NetConnectOpts''"

definition serverOptionsType :: "providerType" where
  "serverOptionsType = providerRef ''node:net'' ''ServerOpts''"

definition listenOptionsType :: "providerType" where
  "listenOptionsType = providerRef ''node:net'' ''ListenOptions''"

definition networkRecordExports :: "'o mojoApi \<Rightarrow> providerExport list" where
  "networkRecordExports api =
     map
       (\<lambda>record.
          (interfaceDeclaration (''node:net::'' @ (nr_name record)) (nr_name record)
             (map
                (\<lambda>field.
                   (propertyMemberWith (''node:net::'' @ (nr_name record)) (nf_name field)
                      (nf_source field) (nr_immutable record) False (nf_optional field)))
                (nr_fields record)))) (netRecord_records api)"

definition networkRecordTypes :: "'o mojoApi \<Rightarrow> 'o typeDefinition list" where
  "networkRecordTypes api =
     map
       (\<lambda>record.
          (nodeProviderTypeWith api (''node:net::'' @ (nr_name record))
             (the (map_of (netRecord_carriers api) (nr_name record)))
             (if (nr_immutable record) then ImplicitlyCopyable else Copyable) []
             (\<not> (nr_immutable record)))) (netRecord_records api)"

definition networkRecordOperations :: "'o mojoApi \<Rightarrow> 'o operation list" where
  "networkRecordOperations api =
     concat
       (map
          (\<lambda>record.
             (concat
                (map
                   (\<lambda>field.
                      (let owner = ''node:net::'' @ (nr_name record);
                           carrier =
                             if (nf_optional field) then
                               (mojoOptionalTargetType api (nf_carrier field)) else
                               (nf_carrier field)
                       in [propertyRead owner (owner @ ''.'' @ (nf_name field))
                             (nf_target field) (the (map_of (netRecord_carriers api) (nr_name record)))
                             carrier] @
                          (if (nr_immutable record) then [] else
                             [propertyWrite api owner (owner @ ''.'' @ (nf_name field))
                                (nf_target field) (the (map_of (netRecord_carriers api) (nr_name record)))
                                carrier]))) (nr_fields record)))) (netRecord_records api))"

section \<open>Events (net/events.ts)\<close>

definition netEvent_errors :: "'o mojoApi \<Rightarrow> 'o nodeEvent" where
  "netEvent_errors api =
     \<lparr>ev_suffix = ''error'', ev_names = [''error''],
      ev_parameters =
        [\<lparr>evp_name = ''error'', evp_source = SourceGlobalT ''Error'' None,
          evp_target = mojoSourceErrorType api\<rparr>]\<rparr>"

definition netEvent_events ::
    "'o mojoApi \<Rightarrow> string \<Rightarrow> 'o nodeEvent list" where
  "netEvent_events api owner =
     (if (owner = ''Socket'') then
        [\<lparr>ev_suffix = ''data'', ev_names = [''data''],
          ev_parameters =
            [\<lparr>evp_name = ''chunk'', evp_source = providerRef ''node:buffer'' ''Buffer'',
              evp_target = bufferCarrier api\<rparr>]\<rparr>,
         netEvent_errors api,
         \<lparr>ev_suffix = ''close'', ev_names = [''close''],
          ev_parameters =
            [\<lparr>evp_name = ''hadError'', evp_source = booleanType, evp_target = boolCarrier api\<rparr>]\<rparr>,
         \<lparr>ev_suffix = ''empty'',
          ev_names = [''connect'', ''drain'', ''end'', ''finish'', ''readable'', ''timeout''],
          ev_parameters = []\<rparr>] else
        [\<lparr>ev_suffix = ''connection'', ev_names = [''connection''],
          ev_parameters =
            [\<lparr>evp_name = ''socket'', evp_source = providerRef ''node:net'' ''Socket'',
              evp_target = netSocketCarrier api\<rparr>]\<rparr>,
         netEvent_errors api,
         \<lparr>ev_suffix = ''empty'', ev_names = [''listening'', ''close''], ev_parameters = []\<rparr>])"

definition networkEventMembers ::
    "'o mojoApi \<Rightarrow> string \<Rightarrow> providerMember list" where
  "networkEventMembers api name =
     nodeEventMembers ''node:net'' name (netEvent_events api name)"

definition networkEventOperations ::
    "'o mojoApi \<Rightarrow> string \<Rightarrow> 'o targetType \<Rightarrow> 'o operation list" where
  "networkEventOperations api name receiver =
     nodeEventOperations api ''node:net'' name receiver (netEvent_events api name)"

section \<open>Lifecycle (net/lifecycle.ts)\<close>

record 'o netParameter =
  np_name :: "string"
  np_type :: "providerType"
  np_carrier :: "'o targetType"

record 'o netRow =
  nrow_suffix :: "string"
  nrow_target :: "string"
  nrow_parameters :: "'o netParameter list"

definition netLifecycle_port :: "'o mojoApi \<Rightarrow> 'o netParameter" where
  "netLifecycle_port api =
     \<lparr>np_name = ''port'', np_type = numberType, np_carrier = float64Carrier api\<rparr>"

definition netLifecycle_host :: "'o mojoApi \<Rightarrow> 'o netParameter" where
  "netLifecycle_host api =
     \<lparr>np_name = ''host'', np_type = stringType, np_carrier = nativeString api\<rparr>"

definition netLifecycle_backlog :: "'o mojoApi \<Rightarrow> 'o netParameter" where
  "netLifecycle_backlog api =
     \<lparr>np_name = ''backlog'', np_type = numberType, np_carrier = float64Carrier api\<rparr>"

definition netLifecycle_connectRows :: "'o mojoApi \<Rightarrow> 'o netRow list" where
  "netLifecycle_connectRows api =
     [\<lparr>nrow_suffix = ''port'', nrow_target = ''connect_port'',
       nrow_parameters = [netLifecycle_port api]\<rparr>,
      \<lparr>nrow_suffix = ''port,host'', nrow_target = ''connect_port_host'',
       nrow_parameters = [netLifecycle_port api, netLifecycle_host api]\<rparr>,
      \<lparr>nrow_suffix = ''options'', nrow_target = ''connect_options'',
       nrow_parameters =
         [\<lparr>np_name = ''options'', np_type = connectionOptionsType,
           np_carrier = connectionOptionsCarrier api\<rparr>]\<rparr>]"

definition netLifecycle_listenRows :: "'o mojoApi \<Rightarrow> 'o netRow list" where
  "netLifecycle_listenRows api =
     [\<lparr>nrow_suffix = ''options'', nrow_target = ''listen_options'',
       nrow_parameters =
         [\<lparr>np_name = ''options'', np_type = listenOptionsType,
           np_carrier = listenOptionsCarrier api\<rparr>]\<rparr>,
      \<lparr>nrow_suffix = ''port,backlog'', nrow_target = ''listen_port_backlog'',
       nrow_parameters = [netLifecycle_port api, netLifecycle_backlog api]\<rparr>,
      \<lparr>nrow_suffix = ''port,host,backlog'', nrow_target = ''listen_port_host_backlog'',
       nrow_parameters =
         [netLifecycle_port api, netLifecycle_host api, netLifecycle_backlog api]\<rparr>]"

definition netLifecycle_overloads ::
    "'o mojoApi \<Rightarrow> string \<Rightarrow> string \<Rightarrow>
      'o netRow list \<Rightarrow> 'o netRow list" where
  "netLifecycle_overloads api owner method rows =
     concat
       (map
          (\<lambda>row.
             [row,
              row
                \<lparr>nrow_suffix := (nrow_suffix row) @ '',callback'',
                 nrow_target := (nrow_target row) @ ''_callback'',
                 nrow_parameters := (nrow_parameters row) @
                 [\<lparr>np_name = ''callback'',
                   np_type = providerCallbackType
                     (owner @ ''.'' @ method @ ''('' @ (nrow_suffix row) @ '',callback)'')
                     ''callback'' [], np_carrier = emptyCallbackCarrier api\<rparr>]\<rparr>])
          rows)"

definition socketConstructor :: "providerMember" where
  "socketConstructor = constructorMember ''node:net::Socket'' []"

definition socketConnectMember :: "'o mojoApi \<Rightarrow> providerMember" where
  "socketConnectMember api =
     overloadedMethodMember ''node:net::Socket'' ''connect''
       (map
          (\<lambda>row.
             (overloadAs (nrow_suffix row)
                (map (\<lambda>parameter. param (np_name parameter) (np_type parameter))
                (nrow_parameters row))
                (providerRef ''node:net'' ''Socket'')))
          (netLifecycle_overloads api ''node:net::Socket'' ''connect''
             (netLifecycle_connectRows api)))"

definition additionalListenSignatures :: "'o mojoApi \<Rightarrow> overload list" where
  "additionalListenSignatures api =
     map
       (\<lambda>row.
          (overloadAs (nrow_suffix row)
             (map (\<lambda>parameter. param (np_name parameter) (np_type parameter))
                (nrow_parameters row))
             (providerRef ''node:net'' ''Server'')))
       (netLifecycle_overloads api ''node:net::Server'' ''listen'' (netLifecycle_listenRows api))"

definition networkLifecycleOperations :: "'o mojoApi \<Rightarrow> 'o operation list" where
  "networkLifecycleOperations api =
     [(functionCall ''node:net::Socket'' ''node:net::Socket.constructor()'' ''net''
         ''socket_new'' [] (netSocketCarrier api) False)
        \<lparr>op_memberId := Some ''node:net::Socket.constructor'',
         op_operationKind := ConstructorOperation\<rparr>] @
     (map
        (\<lambda>row.
           (instanceCall ''node:net::Socket'' ''node:net::Socket.connect''
              (''node:net::Socket.connect('' @ (nrow_suffix row) @ '')'') (nrow_target row)
              (netSocketCarrier api)
              (map np_carrier (nrow_parameters row))
              (netSocketCarrier api) True ''mut''))
        (netLifecycle_overloads api ''node:net::Socket'' ''connect''
           (netLifecycle_connectRows api))) @
     (map
        (\<lambda>row.
           (instanceCall ''node:net::Server'' ''node:net::Server.listen''
              (''node:net::Server.listen('' @ (nrow_suffix row) @ '')'') (nrow_target row)
              (netServerCarrier api)
              (map np_carrier (nrow_parameters row))
              (netServerCarrier api) True ''mut''))
        (netLifecycle_overloads api ''node:net::Server'' ''listen''
           (netLifecycle_listenRows api)))"

section \<open>Listening (net/listen-contract.ts)\<close>

definition netListen_port :: "'o mojoApi \<Rightarrow> 'o netParameter" where
  "netListen_port api =
     \<lparr>np_name = ''port'', np_type = numberType, np_carrier = float64Carrier api\<rparr>"

definition netListen_host :: "'o mojoApi \<Rightarrow> 'o netParameter" where
  "netListen_host api =
     \<lparr>np_name = ''host'', np_type = stringType, np_carrier = nativeString api\<rparr>"

definition netListen_backlog :: "'o mojoApi \<Rightarrow> 'o netParameter" where
  "netListen_backlog api =
     \<lparr>np_name = ''backlog'', np_type = numberType, np_carrier = float64Carrier api\<rparr>"

definition netListen_rows :: "'o mojoApi \<Rightarrow> 'o netRow list" where
  "netListen_rows api =
     [\<lparr>nrow_suffix = ''port'', nrow_target = ''listen_default_host'',
       nrow_parameters = [netListen_port api]\<rparr>,
      \<lparr>nrow_suffix = ''port,host'', nrow_target = ''listen'',
       nrow_parameters = [netListen_port api, netListen_host api]\<rparr>,
      \<lparr>nrow_suffix = ''options'', nrow_target = ''listen_options'',
       nrow_parameters =
         [\<lparr>np_name = ''options'', np_type = listenOptionsType,
           np_carrier = listenOptionsCarrier api\<rparr>]\<rparr>,
      \<lparr>nrow_suffix = ''port,backlog'', nrow_target = ''listen_backlog'',
       nrow_parameters = [netListen_port api, netListen_backlog api]\<rparr>,
      \<lparr>nrow_suffix = ''port,host,backlog'', nrow_target = ''listen_host_backlog'',
       nrow_parameters = [netListen_port api, netListen_host api, netListen_backlog api]\<rparr>]"

definition netListen_signatures ::
    "'o mojoApi \<Rightarrow> string \<Rightarrow> 'o netRow list" where
  "netListen_signatures api moduleSpecifier =
     (let owner = moduleSpecifier @ ''::Server''
      in concat
           (map
              (\<lambda>row.
                 [row\<lparr>nrow_parameters := nrow_parameters row\<rparr>,
                  row
                    \<lparr>nrow_suffix := (nrow_suffix row) @ '',callback'',
                     nrow_parameters := (nrow_parameters row) @
                     [\<lparr>np_name = ''callback'',
                       np_type = providerCallbackType
                         (owner @ ''.listen('' @ (nrow_suffix row) @ '',callback)'')
                         ''callback'' [], np_carrier = emptyCallbackCarrier api\<rparr>]\<rparr>])
              (netListen_rows api)))"

definition listenOptionsImport :: "providerImport" where
  "listenOptionsImport = importOf ''node:net'' [''ListenOptions'']"

definition serverListenMember ::
    "'o mojoApi \<Rightarrow> string \<Rightarrow> providerMember" where
  "serverListenMember api moduleSpecifier =
     overloadedMethodMember (moduleSpecifier @ ''::Server'') ''listen''
       (map
          (\<lambda>row.
             (overloadAs (nrow_suffix row)
                (map (\<lambda>parameter. param (np_name parameter) (np_type parameter))
                (nrow_parameters row))
                (providerRef moduleSpecifier ''Server'')))
          (netListen_signatures api moduleSpecifier))"

definition serverListenOperations ::
    "'o mojoApi \<Rightarrow> string \<Rightarrow> 'o targetType \<Rightarrow> 'o operation list" where
  "serverListenOperations api moduleSpecifier carrier =
     (let owner = moduleSpecifier @ ''::Server''
      in map
           (\<lambda>row.
              (instanceCall owner (owner @ ''.listen'')
                 (owner @ ''.listen('' @ (nrow_suffix row) @ '')'') (nrow_target row) carrier
                 (map np_carrier (nrow_parameters row))
                 carrier True ''mut'')) (netListen_signatures api moduleSpecifier))"

section \<open>The tables are implemented\<close>

definition netListen_overload :: "string \<Rightarrow> 'o netRow \<Rightarrow> overload" where
  "netListen_overload moduleSpecifier row =
     overloadAs (nrow_suffix row)
       (map (\<lambda>parameter. param (np_name parameter) (np_type parameter)) (nrow_parameters row))
       (providerRef moduleSpecifier ''Server'')"

definition netListen_operation ::
    "string \<Rightarrow> 'o targetType \<Rightarrow> 'o netRow \<Rightarrow> 'o operation" where
  "netListen_operation owner carrier row =
     instanceCall owner (owner @ ''.listen'') (owner @ ''.listen('' @ nrow_suffix row @ '')'')
       (nrow_target row) carrier (map np_carrier (nrow_parameters row)) carrier True ''mut''"

interpretation listen_rows: method_rows "moduleSpecifier @ ''::Server''" "\<lambda>_. ''listen''"
    "netListen_overload moduleSpecifier"
    "netListen_operation (moduleSpecifier @ ''::Server'') carrier" for moduleSpecifier carrier
  by unfold_locales (simp add: netListen_operation_def netListen_overload_def point_simps)

lemma serverListen_rows:
  "serverListenOperations api moduleSpecifier carrier =
     map (netListen_operation (moduleSpecifier @ ''::Server'') carrier)
       (netListen_signatures api moduleSpecifier)"
  "[serverListenMember api moduleSpecifier] =
     map (\<lambda>n. overloadedMethodMember (moduleSpecifier @ ''::Server'') n
       (map (netListen_overload moduleSpecifier)
         (filter (\<lambda>_. ''listen'' = n) (netListen_signatures api moduleSpecifier)))) [''listen'']"
  by (simp_all add: serverListenOperations_def serverListenMember_def netListen_operation_def
      netListen_overload_def [abs_def] Let_def)

text \<open>
  The listen overloads that the servers of several modules share are implemented, whatever
  the module and its server carrier.
\<close>

lemma serverListen_implemented:
  "implementsMembers (serverListenOperations api moduleSpecifier carrier)
     (moduleSpecifier @ ''::Server'') [serverListenMember api moduleSpecifier]"
  unfolding serverListen_rows by (rule listen_rows.rows_implement) auto

lemma networkRecords_implemented: "implements (networkRecordOperations api) (networkRecordExports api)"
  by (rule permCheck_implements)
    (simp only: networkRecordOperations_def networkRecordExports_def netRecord_records_def
      netRecord.select_convs netField.select_convs point_eval cong: weak_congs,
      simp only: perm_eval cong: perm_congs)

lemmas net_eval = networkRecordOperations_def networkRecordExports_def netRecord_records_def
  netRecord.select_convs netField.select_convs netParameter.select_convs netRow.simps
  networkEventMembers_def networkEventOperations_def netEvent_events_def netEvent_errors_def
  netListen_port_def netListen_host_def netListen_backlog_def netListen_rows_def
  netListen_signatures_def serverListenMember_def serverListenOperations_def event_eval

end
