(* ===== verification/Node_Http.thy ===== *)
theory Node_Http
  imports Node_Tls_Options Node_Net_Parts
begin

text \<open>
  \<^verbatim>\<open>nodejs/src/provider/modules/http/client.ts\<close> and
  \<^verbatim>\<open>http/index.ts\<close>: the client
  declarations, which \<open>node:https\<close> shares, and the module \<open>node:http\<close>.
\<close>

section \<open>Client (http/client.ts)\<close>

definition httpClient_clientCarrier :: "'o mojoApi \<Rightarrow> 'o targetType" where
  "httpClient_clientCarrier api =
     mojoNamedTargetType api ''tsonic.mojo.node.http.ClientRequest'' [''tsonic_node'', ''http'']
       ''ClientRequest''"

definition httpClient_optionsCarrier :: "'o mojoApi \<Rightarrow> 'o targetType" where
  "httpClient_optionsCarrier api =
     mojoNamedTargetType api ''tsonic.mojo.node.http.RequestOptions''
       [''tsonic_node'', ''http''] ''RequestOptions''"

definition httpClient_certificateType :: "providerType" where
  "httpClient_certificateType =
     UnionT [stringType, providerRef ''node:buffer'' ''Buffer'']"

definition httpClient_authoritiesType :: "providerType" where
  "httpClient_authoritiesType =
     UnionT [stringType, providerRef ''node:buffer'' ''Buffer'', stringArrayType]"

definition httpClient_commonFields ::
    "'o mojoApi \<Rightarrow>
      (string \<times> string \<times> providerType \<times> 'o targetType) list" where
  "httpClient_commonFields api =
     [(''hostname'', ''hostname'', stringType, (optionalStringCarrier api)),
      (''path'', ''path'', stringType, (optionalStringCarrier api)),
      (''method'', ''method'', stringType, (optionalStringCarrier api)),
      (''protocol'', ''protocol'', stringType, (optionalStringCarrier api)),
      (''port'', ''port'', numberType, (optionalFloat64Carrier api)),
      (''timeout'', ''timeout'', numberType, (optionalFloat64Carrier api))]"

definition httpClient_tlsFields ::
    "'o mojoApi \<Rightarrow>
      (string \<times> string \<times> providerType \<times> 'o targetType) list" where
  "httpClient_tlsFields api =
     [(''secureContext'',
       ''secure_context'',
       (providerRef ''node:tls'' ''SecureContext''),
       (mojoOptionalTargetType api (secureContextCarrier api))),
      (''ca'',
       ''ca'',
       httpClient_authoritiesType,
       (mojoOptionalTargetType api
          (mojoUnionTargetType api [nativeString api, bufferCarrier api, stringListCarrier api]))),
      (''cert'',
       ''cert'',
       httpClient_certificateType,
       (mojoOptionalTargetType api
          (mojoUnionTargetType api [nativeString api, bufferCarrier api]))),
      (''key'',
       ''key'',
       httpClient_certificateType,
       (mojoOptionalTargetType api
          (mojoUnionTargetType api [nativeString api, bufferCarrier api]))),
      (''pfx'',
       ''pfx'',
       (providerRef ''node:buffer'' ''Buffer''),
       (mojoOptionalTargetType api (bufferCarrier api))),
      (''passphrase'', ''passphrase'', stringType, (optionalStringCarrier api)),
      (''minVersion'', ''min_version'', stringType, (optionalStringCarrier api)),
      (''maxVersion'', ''max_version'', stringType, (optionalStringCarrier api)),
      (''rejectUnauthorized'', ''reject_unauthorized'', booleanType, (optionalBoolCarrier api))]"

definition httpClient_fields ::
    "'o mojoApi \<Rightarrow> string \<Rightarrow>
      (string \<times> string \<times> providerType \<times> 'o targetType) list" where
  "httpClient_fields api module =
     (if (module = ''node:http'') then (httpClient_commonFields api) else
        ((httpClient_commonFields api) @ (httpClient_tlsFields api)))"

definition httpClientExports ::
    "'o mojoApi \<Rightarrow> string \<Rightarrow> providerExport list" where
  "httpClientExports api module =
     (let clientId = module @ ''::ClientRequest'';
          optionsId = module @ ''::RequestOptions'';
          clientType = providerRef module ''ClientRequest''
      in [interfaceDeclaration optionsId ''RequestOptions''
            (map
               (\<lambda>(name, _, type, _).
                  (propertyMemberWith optionsId name type False False True))
               (httpClient_fields api module)),
          classDeclaration clientId ''ClientRequest''
            ([overloadedMethodMember clientId ''write''
                [overloadAs ''string'' [param ''chunk'' stringType] booleanType,
                 overloadAs ''buffer''
                   [param ''chunk'' (providerRef ''node:buffer'' ''Buffer'')] booleanType],
              overloadedMethodMember clientId ''end''
                [overloadOf [] clientType,
                 overloadAs ''string'' [param ''chunk'' stringType] clientType,
                 overloadAs ''buffer''
                   [param ''chunk'' (providerRef ''node:buffer'' ''Buffer'')] clientType],
              methodMember clientId ''setHeader''
                [param ''name'' stringType, param ''value'' stringType] voidType,
              methodMember clientId ''removeHeader'' [param ''name'' stringType] voidType,
              methodMember clientId ''destroy'' [] clientType] @
             (map (\<lambda>name. (propertyMember clientId name stringType))
                [''path'', ''method'', ''host'', ''protocol'']))] @
         (map
            (\<lambda>name.
               (overloadedFunctionExport module name
                  (concat
                     (map
                        (\<lambda>kind.
                           (let parameter =
                                  param kind
                                    (if (kind = ''url'') then stringType else
                                       (providerRef module ''RequestOptions''))
                            in [overloadOf [parameter] clientType,
                                overloadOf
                                  [parameter,
                                   param ''callback''
                                     (providerCallbackType
                                        (module @ ''::'' @ name @ ''('' @ kind @ '',callback)'')
                                        ''callback''
                                        [param ''response''
                                           (providerRef ''node:http'' ''IncomingMessage'')])]
                                  clientType])) [''url'', ''options'']))))
            [''request'', ''get'']))"

definition httpClientTypes ::
    "'o mojoApi \<Rightarrow> string \<Rightarrow> 'o typeDefinition list" where
  "httpClientTypes api module =
     [nodeProviderType api (module @ ''::ClientRequest'') (httpClient_clientCarrier api)
        ImplicitlyCopyable,
      nodeProviderRecordType api (module @ ''::RequestOptions'') (httpClient_optionsCarrier api)
        Copyable]"

definition httpClientOperations ::
    "'o mojoApi \<Rightarrow> string \<Rightarrow> 'o operation list" where
  "httpClientOperations api module =
     (let clientId = module @ ''::ClientRequest'';
          optionsId = module @ ''::RequestOptions'';
          nativeModule = if (module = ''node:http'') then ''http'' else ''https''
      in (map
            (\<lambda>(name, target, result, parameters, suffix).
               (instanceCall clientId (clientId @ ''.'' @ name)
                  (clientId @ ''.'' @ name @ ''('' @ suffix @ '')'') target
                  (httpClient_clientCarrier api) parameters result (name \<noteq> ''destroy'')
                  ''imm''))
            [(''write'', ''write_string'', (boolCarrier api), [nativeString api], ''string''),
             (''write'', ''write_buffer'', (boolCarrier api), [bufferCarrier api], ''buffer''),
             (''end'', ''end'', (httpClient_clientCarrier api), [], ''''),
             (''end'',
              ''end_string'',
              (httpClient_clientCarrier api),
              [nativeString api],
              ''string''),
             (''end'',
              ''end_buffer'',
              (httpClient_clientCarrier api),
              [bufferCarrier api],
              ''buffer''),
             (''setHeader'',
              ''set_header'',
              (unitCarrier api),
              [nativeString api, nativeString api],
              ''name,value''),
             (''removeHeader'',
              ''remove_header'',
              (unitCarrier api),
              [nativeString api],
              ''name''),
             (''destroy'', ''destroy'', (httpClient_clientCarrier api), [], '''')]) @
         (map
            (\<lambda>name.
               ((propertyReadVia MethodAccess clientId (clientId @ ''.'' @ name) name
                   (httpClient_clientCarrier api) (nativeString api))
                  \<lparr>op_raises := name \<noteq> ''method''\<rparr>))
            [''path'', ''method'', ''host'', ''protocol'']) @
         (concat
            (map
               (\<lambda>(source, target, _, carrier).
                  [propertyRead optionsId (optionsId @ ''.'' @ source) target
                     (httpClient_optionsCarrier api) carrier,
                   propertyWrite api optionsId (optionsId @ ''.'' @ source) target
                     (httpClient_optionsCarrier api) carrier]) (httpClient_fields api module))) @
         (concat
            (map
               (\<lambda>name.
                  (concat
                     (map
                        (\<lambda>(kind, carrier).
                           ([functionCall (module @ ''::'' @ name)
                               (module @ ''::'' @ name @ ''('' @ kind @ '')'') nativeModule name
                               [carrier] (httpClient_clientCarrier api) True] @
                            [functionCall (module @ ''::'' @ name)
                               (module @ ''::'' @ name @ ''('' @ kind @ '',callback)'')
                               nativeModule name
                               [carrier,
                                mojoOptionalTargetType api (httpResponseCallbackCarrier api)]
                               (httpClient_clientCarrier api) True]))
                        [(''url'', (nativeString api)),
                         (''options'', (httpClient_optionsCarrier api))])))
               [''request'', ''get''])))"

section \<open>The module (http/index.ts)\<close>

definition http_moduleSpecifier :: "string" where
  "http_moduleSpecifier = ''node:http''"

definition http_incomingId :: "string" where
  "http_incomingId = http_moduleSpecifier @ ''::IncomingMessage''"

definition http_responseId :: "string" where
  "http_responseId = http_moduleSpecifier @ ''::ServerResponse''"

definition http_serverId :: "string" where
  "http_serverId = http_moduleSpecifier @ ''::Server''"

definition httpModule :: "'o mojoApi \<Rightarrow> providerModule" where
  "httpModule api =
     (let requestCallback =
            providerCallbackType (http_moduleSpecifier @ ''::createServer(handler)'')
              ''handler''
              [param ''request'' (providerRef http_moduleSpecifier ''IncomingMessage''),
               param ''response'' (providerRef http_moduleSpecifier ''ServerResponse'')]
      in moduleOf http_moduleSpecifier ''tsonic.mojo.node.http''
           (Some [listenOptionsImport, importOf ''node:buffer'' [''Buffer'']])
           ((httpClientExports api ''node:http'') @
            [classDeclaration http_incomingId ''IncomingMessage''
               [propertyMember http_incomingId ''method'' stringType,
                propertyMember http_incomingId ''url'' stringType,
                propertyMember http_incomingId ''statusCode'' (UnionT [int32Type, UndefinedT]),
                methodMember http_incomingId ''read'' []
                  (UnionT [providerRef ''node:buffer'' ''Buffer'', UndefinedT]),
                methodMember http_incomingId ''readAll'' [] stringType,
                methodMember http_incomingId ''readAllBuffer'' []
                  (providerRef ''node:buffer'' ''Buffer'')],
             classDeclaration http_responseId ''ServerResponse''
               [propertyMemberWith http_responseId ''statusCode'' int32Type False False False,
                methodMember http_responseId ''setHeader''
                  [param ''name'' stringType, param ''value'' stringType] voidType,
                methodMember http_responseId ''writeHead''
                  [param ''statusCode'' int32Type, param ''statusMessage'' stringType] voidType,
                methodMember http_responseId ''write''
                  [param ''chunk'' (providerRef ''node:buffer'' ''Buffer'')] booleanType,
                overloadedMethodMember http_responseId ''end''
                  [overloadAs '''' [] voidType,
                   overloadAs ''string'' [param ''chunk'' stringType] voidType,
                   overloadAs ''buffer''
                     [param ''chunk'' (providerRef ''node:buffer'' ''Buffer'')] voidType]],
             classDeclaration http_serverId ''Server''
               [serverListenMember api http_moduleSpecifier,
                methodMember http_serverId ''close'' [] voidType,
                methodMember http_serverId ''ref'' []
                  (providerRef http_moduleSpecifier ''Server''),
                methodMember http_serverId ''unref'' []
                  (providerRef http_moduleSpecifier ''Server'')],
             functionDeclaration (http_moduleSpecifier @ ''::createServer'') ''createServer''
               False
               [plainSignature (http_moduleSpecifier @ ''::createServer(handler)'')
                  ''createServer'' [param ''handler'' requestCallback]
                  (providerRef http_moduleSpecifier ''Server'')]]))"

definition httpTypes :: "'o mojoApi \<Rightarrow> 'o typeDefinition list" where
  "httpTypes api =
     (httpClientTypes api ''node:http'') @
     [nodeProviderType api http_incomingId (httpIncomingMessageCarrier api) ImplicitlyCopyable,
      nodeProviderType api http_responseId (httpServerResponseCarrier api) ImplicitlyCopyable,
      nodeProviderType api http_serverId (httpServerCarrier api) ImplicitlyCopyable]"

definition httpOperations :: "'o mojoApi \<Rightarrow> 'o operation list" where
  "httpOperations api =
     (httpClientOperations api ''node:http'') @
     [\<lparr>op_exportId = http_moduleSpecifier @ ''::createServer'', op_memberId = None,
       op_signatureId = Some (http_moduleSpecifier @ ''::createServer(handler)''),
       op_operationKind = CallOperation,
       op_target = FunctionCallTarget [''tsonic_node'', ''http''] ''create_server'' []
         [argumentOf ''imm''] None, op_receiverType = None,
       op_parameterTypes = Some [httpRequestCallbackCarrier api],
       op_resultType = httpServerCarrier api, op_errorType = None, op_raises = False\<rparr>,
      propertyRead http_incomingId (http_incomingId @ ''.method'') ''method''
        (httpIncomingMessageCarrier api) (nativeString api),
      propertyRead http_incomingId (http_incomingId @ ''.url'') ''url''
        (httpIncomingMessageCarrier api) (nativeString api),
      propertyRead http_incomingId (http_incomingId @ ''.statusCode'') ''status_code''
        (httpIncomingMessageCarrier api) (mojoOptionalTargetType api (int32Carrier api)),
      instanceCall http_incomingId (http_incomingId @ ''.read'') (http_incomingId @ ''.read()'')
        ''read'' (httpIncomingMessageCarrier api) []
        (mojoOptionalTargetType api (bufferCarrier api)) False ''imm'',
      instanceCall http_incomingId (http_incomingId @ ''.readAll'')
        (http_incomingId @ ''.readAll()'') ''read_all'' (httpIncomingMessageCarrier api) []
        (nativeString api) True ''imm'',
      instanceCall http_incomingId (http_incomingId @ ''.readAllBuffer'')
        (http_incomingId @ ''.readAllBuffer()'') ''read_all_buffer''
        (httpIncomingMessageCarrier api) [] (bufferCarrier api) False ''imm'',
      propertyReadVia MethodAccess http_responseId (http_responseId @ ''.statusCode'')
        ''status_code'' (httpServerResponseCarrier api) (int32Carrier api),
      propertyWriteVia MethodAccess api http_responseId (http_responseId @ ''.statusCode'')
        ''set_status_code'' (httpServerResponseCarrier api) (int32Carrier api),
      instanceCall http_responseId (http_responseId @ ''.setHeader'')
        (http_responseId @ ''.setHeader(name,value)'') ''set_header''
        (httpServerResponseCarrier api) [nativeString api, nativeString api] (unitCarrier api)
        True ''imm'',
      instanceCall http_responseId (http_responseId @ ''.writeHead'')
        (http_responseId @ ''.writeHead(statusCode,statusMessage)'') ''write_head''
        (httpServerResponseCarrier api) [int32Carrier api, nativeString api] (unitCarrier api)
        True ''imm'',
      instanceCall http_responseId (http_responseId @ ''.write'')
        (http_responseId @ ''.write(chunk)'') ''write_buffer'' (httpServerResponseCarrier api)
        [bufferCarrier api] (boolCarrier api) True ''imm'',
      instanceCall http_responseId (http_responseId @ ''.end'') (http_responseId @ ''.end()'')
        ''end_empty'' (httpServerResponseCarrier api) [] (unitCarrier api) True ''imm'',
      instanceCall http_responseId (http_responseId @ ''.end'')
        (http_responseId @ ''.end(string)'') ''end_string'' (httpServerResponseCarrier api)
        [nativeString api] (unitCarrier api) True ''imm'',
      instanceCall http_responseId (http_responseId @ ''.end'')
        (http_responseId @ ''.end(buffer)'') ''end_buffer'' (httpServerResponseCarrier api)
        [bufferCarrier api] (unitCarrier api) True ''imm''] @
     (serverListenOperations api http_moduleSpecifier (httpServerCarrier api)) @
     [instanceCall http_serverId (http_serverId @ ''.close'') (http_serverId @ ''.close()'')
        ''close'' (httpServerCarrier api) [] (unitCarrier api) False ''imm'',
      instanceCall http_serverId (http_serverId @ ''.ref'') (http_serverId @ ''.ref()'') ''ref''
        (httpServerCarrier api) [] (httpServerCarrier api) False ''imm'',
      instanceCall http_serverId (http_serverId @ ''.unref'') (http_serverId @ ''.unref()'')
        ''unref'' (httpServerCarrier api) [] (httpServerCarrier api) False ''imm'']"

section \<open>Evaluation of the client tables\<close>

lemmas http_client_eval = httpClient_clientCarrier_def httpClient_optionsCarrier_def
  httpClient_certificateType_def httpClient_authoritiesType_def httpClient_commonFields_def
  httpClient_tlsFields_def httpClient_fields_def httpClientExports_def
  httpClientOperations_def

section \<open>The contract\<close>

lemmas http_defs = http_moduleSpecifier_def http_incomingId_def http_responseId_def
  http_serverId_def httpModule_def httpOperations_def
  http_client_eval tls_option_eval net_eval

lemma http_implements: "implements (httpOperations api) (mod_exports (httpModule api))"
  by (rule permCheck_implements)
    (simp only: http_defs point_eval cong: weak_congs, simp only: perm_eval cong: perm_congs)

lemma http_ids:
  "distinct (map exp_id (mod_exports (httpModule api))) \<and> moduleScoped (httpModule api) \<and>
   defaultFree (httpModule api)"
  by (simp only: http_defs moduleScoped_def defaultFree_def id_eval cong: weak_congs)

lemma http_index: "memberIndexWrites (httpOperations api)"
  by (simp only: http_defs point_eval cong: weak_congs)

text \<open>
  The native side of the operations has its shape and receivers, and the references of the
  declarations are resolved.
\<close>

lemma http_native: "nativeOperations (httpTypes api) (httpOperations api)"
  by (simp only: http_defs httpTypes_def httpClientTypes_def native_eval cong: weak_congs)

lemma http_refs: "refsResolved (httpModule api)"
  by (rule refsResolvedI, simp only: http_defs addressType_def connectionOptionsType_def
      serverOptionsType_def listenOptionsType_def listenOptionsImport_def visible_eval cong:
      weak_congs)
    (simp only: http_defs addressType_def connectionOptionsType_def serverOptionsType_def
      listenOptionsType_def listenOptionsImport_def resolve_eval cong: weak_congs)

text \<open>
  Type definitions exist for exactly the declared types with instances, and no point is declared
  twice.
\<close>

lemma http_types: "typesExact (httpTypes api) (mod_exports (httpModule api))"
  by (rule permCheck_typesExact)
    (simp only: http_defs httpTypes_def httpClientTypes_def type_eval cong: weak_congs,
      simp only: perm_eval cong: perm_congs)

lemma http_points: "pointsDistinct (mod_exports (httpModule api))"
  by (simp only: http_defs point_eval cong: weak_congs,
      simp only: distinct_eval cong: perm_congs)

interpretation http_component:
  component "[httpModule api]" "httpOperations api" for api
  by (rule componentI [OF http_implements http_ids http_index])

end
