(* ===== verification/Node_Https.thy ===== *)
theory Node_Https
  imports Node_Http
begin

text \<open>
  \<^verbatim>\<open>nodejs/src/provider/modules/https.ts\<close>: the HTTPS client and server.
\<close>

section \<open>Declarations and operations\<close>

definition https_moduleSpecifier :: "string" where
  "https_moduleSpecifier = ''node:https''"

definition https_optionsId :: "string" where
  "https_optionsId = https_moduleSpecifier @ ''::ServerOptions''"

definition https_serverId :: "string" where
  "https_serverId = https_moduleSpecifier @ ''::Server''"

definition httpsModule :: "'o mojoApi \<Rightarrow> providerModule" where
  "httpsModule api =
     (let requestHandler =
            providerCallbackType (https_moduleSpecifier @ ''::createServer(options,handler)'')
              ''handler''
              [param ''request'' (providerRef ''node:http'' ''IncomingMessage''),
               param ''response'' (providerRef ''node:http'' ''ServerResponse'')]
      in moduleOf https_moduleSpecifier ''tsonic.mojo.node.https''
           (Some
              [importOf ''node:tls'' [''SecureContext''],
               listenOptionsImport,
               importOf ''node:buffer'' [''Buffer''],
               importOf ''node:http'' [''IncomingMessage'', ''ServerResponse'']])
           ((httpClientExports api ''node:https'') @
            [interfaceDeclaration https_optionsId ''ServerOptions''
               (tlsOptionMembers https_optionsId (tlsServerFields api)),
             classDeclaration https_serverId ''Server''
               ([serverListenMember api https_moduleSpecifier] @
                (map
                   (\<lambda>name.
                      (callableMember (https_serverId @ ''.'' @ name) name MethodMember False
                         [plainSignature (https_serverId @ ''.'' @ name @ ''()'') name []
                            (if (name = ''close'') then voidType else
                               (providerRef https_moduleSpecifier ''Server''))]))
                   [''close'', ''ref'', ''unref'']) @
                [propertyMember https_serverId ''listening'' booleanType]),
             functionDeclaration (https_moduleSpecifier @ ''::createServer'') ''createServer''
               False
               [plainSignature (https_moduleSpecifier @ ''::createServer(options,handler)'')
                  ''createServer''
                  [param ''options'' (providerRef https_moduleSpecifier ''ServerOptions''),
                   param ''handler'' requestHandler]
                  (providerRef https_moduleSpecifier ''Server'')]]))"

definition httpsTypes :: "'o mojoApi \<Rightarrow> 'o typeDefinition list" where
  "httpsTypes api =
     [nodeProviderRecordType api https_optionsId (tlsServerOptionsCarrier api) Copyable,
      nodeProviderType api https_serverId (httpsServerCarrier api) ImplicitlyCopyable] @
     (httpClientTypes api ''node:https'')"

definition httpsOperations :: "'o mojoApi \<Rightarrow> 'o operation list" where
  "httpsOperations api =
     (tlsOptionOperations api https_optionsId (tlsServerOptionsCarrier api)
        (tlsServerFields api)) @
     (httpClientOperations api ''node:https'') @
     [functionCall (https_moduleSpecifier @ ''::createServer'')
        (https_moduleSpecifier @ ''::createServer(options,handler)'') ''https''
        ''create_server'' [tlsServerOptionsCarrier api, httpRequestCallbackCarrier api]
        (httpsServerCarrier api) True] @
     (serverListenOperations api https_moduleSpecifier (httpsServerCarrier api)) @
     [instanceCall https_serverId (https_serverId @ ''.close'') (https_serverId @ ''.close()'')
        ''close'' (httpsServerCarrier api) [] (unitCarrier api) True ''mut'',
      instanceCall https_serverId (https_serverId @ ''.ref'') (https_serverId @ ''.ref()'')
        ''ref'' (httpsServerCarrier api) [] (httpsServerCarrier api) False ''mut'',
      instanceCall https_serverId (https_serverId @ ''.unref'') (https_serverId @ ''.unref()'')
        ''unref'' (httpsServerCarrier api) [] (httpsServerCarrier api) False ''mut'',
      propertyReadVia MethodAccess https_serverId (https_serverId @ ''.listening'')
        ''listening'' (httpsServerCarrier api) (boolCarrier api)]"

section \<open>The contract\<close>

lemmas https_defs = https_moduleSpecifier_def https_optionsId_def https_serverId_def
  httpsModule_def httpsOperations_def
  http_client_eval tls_option_eval net_eval

lemma https_implements: "implements (httpsOperations api) (mod_exports (httpsModule api))"
  by (rule permCheck_implements)
    (simp only: https_defs point_eval cong: weak_congs, simp only: perm_eval cong: perm_congs)

lemma https_ids:
  "distinct (map exp_id (mod_exports (httpsModule api))) \<and> moduleScoped (httpsModule api) \<and>
   defaultFree (httpsModule api)"
  by (simp only: https_defs moduleScoped_def defaultFree_def id_eval cong: weak_congs)

lemma https_index: "memberIndexWrites (httpsOperations api)"
  by (simp only: https_defs point_eval cong: weak_congs)

text \<open>
  The native side of the operations has its shape and receivers, and the references of the
  declarations are resolved.
\<close>

lemma https_native: "nativeOperations (httpsTypes api) (httpsOperations api)"
  by (simp only: https_defs httpsTypes_def httpClientTypes_def native_eval cong: weak_congs)

lemma https_refs: "refsResolved (httpsModule api)"
  by (rule refsResolvedI, simp only: https_defs addressType_def connectionOptionsType_def
      serverOptionsType_def listenOptionsType_def listenOptionsImport_def visible_eval cong:
      weak_congs)
    (simp only: https_defs addressType_def connectionOptionsType_def serverOptionsType_def
      listenOptionsType_def listenOptionsImport_def resolve_eval cong: weak_congs)

text \<open>
  Type definitions exist for exactly the declared types with instances, and no point is declared
  twice.
\<close>

lemma https_types: "typesExact (httpsTypes api) (mod_exports (httpsModule api))"
  by (rule permCheck_typesExact)
    (simp only: https_defs httpsTypes_def httpClientTypes_def type_eval cong: weak_congs,
      simp only: perm_eval cong: perm_congs)

lemma https_points: "pointsDistinct (mod_exports (httpsModule api))"
  by (simp only: https_defs point_eval cong: weak_congs,
      simp only: distinct_eval cong: perm_congs)

interpretation https_component:
  component "[httpsModule api]" "httpsOperations api" for api
  by (rule componentI [OF https_implements https_ids https_index])

end
