(* ===== verification/Node_Net.thy ===== *)
theory Node_Net
  imports Node_Net_Parts Node_Stream_Parts
begin

text \<open>
  \<^verbatim>\<open>nodejs/src/provider/modules/net/index.ts\<close>: sockets, servers and connections.
\<close>

section \<open>Declarations and operations\<close>

definition net_moduleSpecifier :: "string" where
  "net_moduleSpecifier = ''node:net''"

definition net_socketId :: "string" where
  "net_socketId = net_moduleSpecifier @ ''::Socket''"

definition net_serverId :: "string" where
  "net_serverId = net_moduleSpecifier @ ''::Server''"

definition net_bufferType :: "providerType" where
  "net_bufferType = providerRef ''node:buffer'' ''Buffer''"

definition net_nullableBufferType :: "providerType" where
  "net_nullableBufferType = UnionT [net_bufferType, nullType]"

definition net_nullableAddressType :: "providerType" where
  "net_nullableAddressType = UnionT [addressType, nullType]"

definition netModule :: "'o mojoApi \<Rightarrow> providerModule" where
  "netModule api =
     (let emptyCallback = \<lambda>ident. (providerCallbackType ident ''callback'' [])
      in moduleOf net_moduleSpecifier ''tsonic.mojo.node.net''
           (Some [importOf ''node:buffer'' [''Buffer'']])
           ((networkRecordExports api) @
            [classDeclaration net_socketId ''Socket''
               ([socketConstructor, socketConnectMember api] @
                (networkEventMembers api ''Socket'') @
                [methodMember net_socketId ''address'' [] net_nullableAddressType,
                 methodMember net_socketId ''isPaused'' [] booleanType,
                 overloadedMethodMember net_socketId ''write''
                   [overloadAs ''buffer'' [param ''data'' net_bufferType] booleanType,
                    overloadAs ''string'' [param ''data'' stringType] booleanType],
                 methodMember net_socketId ''read'' [] net_nullableBufferType,
                 overloadedMethodMember net_socketId ''end''
                   [overloadAs '''' [] (providerRef net_moduleSpecifier ''Socket''),
                    overloadAs ''buffer'' [param ''data'' net_bufferType]
                      (providerRef net_moduleSpecifier ''Socket''),
                    overloadAs ''string'' [param ''data'' stringType]
                      (providerRef net_moduleSpecifier ''Socket'')]] @
                (map
                   (\<lambda>name.
                      (methodMember net_socketId name []
                         (providerRef net_moduleSpecifier ''Socket'')))
                   [''destroy'', ''ref'', ''unref'', ''pause'', ''resume'']) @
                [overloadedMethodMember net_socketId ''setNoDelay''
                   [overloadAs '''' [] (providerRef net_moduleSpecifier ''Socket''),
                    overloadAs ''value'' [param ''value'' booleanType]
                      (providerRef net_moduleSpecifier ''Socket'')],
                 overloadedMethodMember net_socketId ''setTimeout''
                   [overloadAs ''timeout'' [param ''timeout'' numberType]
                      (providerRef net_moduleSpecifier ''Socket''),
                    overloadAs ''timeout,callback''
                      [param ''timeout'' numberType,
                       param ''callback''
                         (emptyCallback (net_socketId @ ''.setTimeout(timeout,callback)''))]
                      (providerRef net_moduleSpecifier ''Socket'')],
                 propertyMember net_socketId ''bytesRead'' numberType,
                 propertyMember net_socketId ''bytesWritten'' numberType,
                 propertyMember net_socketId ''destroyed'' booleanType,
                 propertyMember net_socketId ''pending'' booleanType,
                 propertyMember net_socketId ''connecting'' booleanType,
                 propertyMemberWith net_socketId ''remoteAddress'' stringType True False True,
                 propertyMemberWith net_socketId ''remotePort'' numberType True False True]),
             classDeclaration net_serverId ''Server''
               ((networkEventMembers api ''Server'') @
                [methodMember net_serverId ''address'' [] net_nullableAddressType,
                 overloadedMethodMember net_serverId ''listen''
                   ((additionalListenSignatures api) @
                    [overloadAs ''port'' [param ''port'' numberType]
                       (providerRef net_moduleSpecifier ''Server''),
                     overloadAs ''port,host''
                       [param ''port'' numberType, param ''host'' stringType]
                       (providerRef net_moduleSpecifier ''Server''),
                     overloadAs ''port,callback''
                       [param ''port'' numberType,
                        param ''callback''
                          (emptyCallback (net_serverId @ ''.listen(port,callback)''))]
                       (providerRef net_moduleSpecifier ''Server''),
                     overloadAs ''port,host,callback''
                       [param ''port'' numberType,
                        param ''host'' stringType,
                        param ''callback''
                          (emptyCallback (net_serverId @ ''.listen(port,host,callback)''))]
                       (providerRef net_moduleSpecifier ''Server'')]),
                 methodMember net_serverId ''close'' []
                   (providerRef net_moduleSpecifier ''Server''),
                 methodMember net_serverId ''ref'' []
                   (providerRef net_moduleSpecifier ''Server''),
                 methodMember net_serverId ''unref'' []
                   (providerRef net_moduleSpecifier ''Server''),
                 propertyMember net_serverId ''listening'' booleanType]),
             overloadedFunctionExport net_moduleSpecifier ''createConnection''
               [overloadAs ''options'' [param ''options'' connectionOptionsType]
                  (providerRef net_moduleSpecifier ''Socket''),
                overloadAs ''options,callback''
                  [param ''options'' connectionOptionsType,
                   param ''callback''
                     (emptyCallback
                        (net_moduleSpecifier @ ''::createConnection(options,callback)''))]
                  (providerRef net_moduleSpecifier ''Socket''),
                overloadAs ''port'' [param ''port'' numberType]
                  (providerRef net_moduleSpecifier ''Socket''),
                overloadAs ''port,host'' [param ''port'' numberType, param ''host'' stringType]
                  (providerRef net_moduleSpecifier ''Socket''),
                overloadAs ''port,callback''
                  [param ''port'' numberType,
                   param ''callback''
                     (emptyCallback
                        (net_moduleSpecifier @ ''::createConnection(port,callback)''))]
                  (providerRef net_moduleSpecifier ''Socket''),
                overloadAs ''port,host,callback''
                  [param ''port'' numberType,
                   param ''host'' stringType,
                   param ''callback''
                     (emptyCallback
                        (net_moduleSpecifier @ ''::createConnection(port,host,callback)''))]
                  (providerRef net_moduleSpecifier ''Socket'')],
             overloadedFunctionExport net_moduleSpecifier ''createServer''
               [overloadAs ''options'' [param ''options'' serverOptionsType]
                  (providerRef net_moduleSpecifier ''Server''),
                overloadAs ''options,callback''
                  [param ''options'' serverOptionsType,
                   param ''callback''
                     (providerCallbackType
                        (net_moduleSpecifier @ ''::createServer(options,callback)'')
                        ''callback''
                        [param ''socket'' (providerRef net_moduleSpecifier ''Socket'')])]
                  (providerRef net_moduleSpecifier ''Server''),
                overloadAs '''' [] (providerRef net_moduleSpecifier ''Server''),
                overloadAs ''callback''
                  [param ''callback''
                     (providerCallbackType (net_moduleSpecifier @ ''::createServer(callback)'')
                        ''callback''
                        [param ''socket'' (providerRef net_moduleSpecifier ''Socket'')])]
                  (providerRef net_moduleSpecifier ''Server'')]] @
            (map
               (\<lambda>name.
                  (functionDeclaration (net_moduleSpecifier @ ''::'' @ name) name False
                     [plainSignature (net_moduleSpecifier @ ''::'' @ name @ ''(input)'') name
                        [param ''input'' stringType]
                        (if (name = ''isIP'') then numberType else booleanType)]))
               [''isIP'', ''isIPv4'', ''isIPv6''])))"

definition netTypes :: "'o mojoApi \<Rightarrow> 'o typeDefinition list" where
  "netTypes api =
     (networkRecordTypes api) @
     [withDuplexView api
        (nodeProviderType api net_socketId (netSocketCarrier api) ImplicitlyCopyable) ''net'',
      nodeProviderType api net_serverId (netServerCarrier api) ImplicitlyCopyable]"

definition net_connectionOperations :: "'o mojoApi \<Rightarrow> 'o operation list" where
  "net_connectionOperations api =
     map
       (\<lambda>(signature, target, parameters).
          (functionCall (net_moduleSpecifier @ ''::createConnection'')
             (net_moduleSpecifier @ ''::createConnection('' @ signature @ '')'') ''net'' target
             parameters (netSocketCarrier api) True))
       [(''options'', ''create_connection_options'', [connectionOptionsCarrier api]),
        (''options,callback'',
         ''create_connection_options_callback'',
         [connectionOptionsCarrier api, emptyCallbackCarrier api]),
        (''port'', ''create_connection'', [float64Carrier api]),
        (''port,host'', ''create_connection_host'', [float64Carrier api, nativeString api]),
        (''port,callback'',
         ''create_connection_callback'',
         [float64Carrier api, emptyCallbackCarrier api]),
        (''port,host,callback'',
         ''create_connection_host_callback'',
         [float64Carrier api, nativeString api, emptyCallbackCarrier api])]"

definition netOperations :: "'o mojoApi \<Rightarrow> 'o operation list" where
  "netOperations api =
     ((networkLifecycleOperations api) @
      (networkRecordOperations api) @
      (networkEventOperations api ''Socket'' (netSocketCarrier api)) @
      (networkEventOperations api ''Server'' (netServerCarrier api)) @
      [instanceCall net_socketId (net_socketId @ ''.address'') (net_socketId @ ''.address()'')
         ''address'' (netSocketCarrier api) [] (mojoOptionalTargetType api (addressCarrier api))
         True ''imm'',
       instanceCall net_serverId (net_serverId @ ''.address'') (net_serverId @ ''.address()'')
         ''address'' (netServerCarrier api) [] (mojoOptionalTargetType api (addressCarrier api))
         True ''imm'',
       instanceCall net_socketId (net_socketId @ ''.isPaused'') (net_socketId @ ''.isPaused()'')
         ''is_paused'' (netSocketCarrier api) [] (boolCarrier api) False ''imm'',
       instanceCall net_socketId (net_socketId @ ''.setTimeout'')
         (net_socketId @ ''.setTimeout(timeout,callback)'') ''set_timeout_callback''
         (netSocketCarrier api) [float64Carrier api, emptyCallbackCarrier api]
         (netSocketCarrier api) True ''mut''] @
      (net_connectionOperations api) @
      [functionCall (net_moduleSpecifier @ ''::createServer'')
         (net_moduleSpecifier @ ''::createServer()'') ''net'' ''create_server'' []
         (netServerCarrier api) False,
       functionCall (net_moduleSpecifier @ ''::createServer'')
         (net_moduleSpecifier @ ''::createServer(callback)'') ''net'' ''create_server_callback''
         [netConnectionCallbackCarrier api] (netServerCarrier api) True,
       functionCall (net_moduleSpecifier @ ''::createServer'')
         (net_moduleSpecifier @ ''::createServer(options)'') ''net'' ''create_server_options''
         [serverOptionsCarrier api] (netServerCarrier api) False,
       functionCall (net_moduleSpecifier @ ''::createServer'')
         (net_moduleSpecifier @ ''::createServer(options,callback)'') ''net''
         ''create_server_options_callback''
         [serverOptionsCarrier api, netConnectionCallbackCarrier api] (netServerCarrier api)
         True,
       functionCall (net_moduleSpecifier @ ''::isIP'') (net_moduleSpecifier @ ''::isIP(input)'')
         ''net'' ''is_ip'' [nativeString api] (float64Carrier api) False,
       functionCall (net_moduleSpecifier @ ''::isIPv4'')
         (net_moduleSpecifier @ ''::isIPv4(input)'') ''net'' ''is_ipv4'' [nativeString api]
         (boolCarrier api) False,
       functionCall (net_moduleSpecifier @ ''::isIPv6'')
         (net_moduleSpecifier @ ''::isIPv6(input)'') ''net'' ''is_ipv6'' [nativeString api]
         (boolCarrier api) False,
       instanceCall net_socketId (net_socketId @ ''.write'') (net_socketId @ ''.write(buffer)'')
         ''write_buffer'' (netSocketCarrier api) [bufferCarrier api] (boolCarrier api) True
         ''mut'',
       instanceCall net_socketId (net_socketId @ ''.write'') (net_socketId @ ''.write(string)'')
         ''write_string'' (netSocketCarrier api) [nativeString api] (boolCarrier api) True
         ''mut'',
       instanceCall net_socketId (net_socketId @ ''.read'') (net_socketId @ ''.read()'')
         ''read'' (netSocketCarrier api) [] (mojoOptionalTargetType api (bufferCarrier api))
         False ''mut'',
       instanceCall net_socketId (net_socketId @ ''.end'') (net_socketId @ ''.end()'') ''end''
         (netSocketCarrier api) [] (netSocketCarrier api) True ''mut'',
       instanceCall net_socketId (net_socketId @ ''.end'') (net_socketId @ ''.end(buffer)'')
         ''end_buffer'' (netSocketCarrier api) [bufferCarrier api] (netSocketCarrier api) True
         ''mut'',
       instanceCall net_socketId (net_socketId @ ''.end'') (net_socketId @ ''.end(string)'')
         ''end_string'' (netSocketCarrier api) [nativeString api] (netSocketCarrier api) True
         ''mut'',
       instanceCall net_socketId (net_socketId @ ''.destroy'') (net_socketId @ ''.destroy()'')
         ''destroy'' (netSocketCarrier api) [] (netSocketCarrier api) True ''mut''] @
      (map
         (\<lambda>name.
            (instanceCall net_socketId (net_socketId @ ''.'' @ name)
               (net_socketId @ ''.'' @ name @ ''()'') name (netSocketCarrier api) []
               (netSocketCarrier api) False ''mut''))
         [''ref'', ''unref'', ''pause'', ''resume'']) @
      [instanceCall net_socketId (net_socketId @ ''.setNoDelay'')
         (net_socketId @ ''.setNoDelay(value)'') ''set_no_delay'' (netSocketCarrier api)
         [boolCarrier api] (netSocketCarrier api) True ''mut'',
       instanceCall net_socketId (net_socketId @ ''.setNoDelay'')
         (net_socketId @ ''.setNoDelay()'') ''set_no_delay'' (netSocketCarrier api) []
         (netSocketCarrier api) True ''mut'',
       instanceCall net_socketId (net_socketId @ ''.setTimeout'')
         (net_socketId @ ''.setTimeout(timeout)'') ''set_timeout'' (netSocketCarrier api)
         [float64Carrier api] (netSocketCarrier api) True ''mut'',
       propertyReadVia MethodAccess net_socketId (net_socketId @ ''.bytesRead'') ''bytes_read''
         (netSocketCarrier api) (float64Carrier api),
       propertyReadVia MethodAccess net_socketId (net_socketId @ ''.bytesWritten'')
         ''bytes_written'' (netSocketCarrier api) (float64Carrier api),
       propertyReadVia MethodAccess net_socketId (net_socketId @ ''.destroyed'') ''destroyed''
         (netSocketCarrier api) (boolCarrier api),
       propertyReadVia MethodAccess net_socketId (net_socketId @ ''.pending'') ''pending''
         (netSocketCarrier api) (boolCarrier api),
       propertyReadVia MethodAccess net_socketId (net_socketId @ ''.connecting'') ''connecting''
         (netSocketCarrier api) (boolCarrier api),
       (propertyReadVia MethodAccess net_socketId (net_socketId @ ''.remoteAddress'')
          ''remote_address'' (netSocketCarrier api)
          (mojoOptionalTargetType api (nativeString api)))\<lparr>op_raises := True\<rparr>,
       (propertyReadVia MethodAccess net_socketId (net_socketId @ ''.remotePort'')
          ''remote_port'' (netSocketCarrier api)
          (mojoOptionalTargetType api (float64Carrier api)))\<lparr>op_raises := True\<rparr>,
       instanceCall net_serverId (net_serverId @ ''.close'') (net_serverId @ ''.close()'')
         ''close'' (netServerCarrier api) [] (netServerCarrier api) True ''mut'',
       instanceCall net_serverId (net_serverId @ ''.ref'') (net_serverId @ ''.ref()'') ''ref''
         (netServerCarrier api) [] (netServerCarrier api) False ''mut'',
       instanceCall net_serverId (net_serverId @ ''.unref'') (net_serverId @ ''.unref()'')
         ''unref'' (netServerCarrier api) [] (netServerCarrier api) False ''mut'',
       propertyReadVia MethodAccess net_serverId (net_serverId @ ''.listening'') ''listening''
         (netServerCarrier api) (boolCarrier api)]) @
     (map
        (\<lambda>(signature, target, parameters).
           (instanceCall net_serverId (net_serverId @ ''.listen'')
              (net_serverId @ ''.listen('' @ signature @ '')'') target (netServerCarrier api)
              parameters (netServerCarrier api) True ''mut''))
        [(''port'', ''listen_port'', [float64Carrier api]),
         (''port,host'', ''listen_port_host'', [float64Carrier api, nativeString api]),
         (''port,callback'',
          ''listen_port_callback'',
          [float64Carrier api, emptyCallbackCarrier api]),
         (''port,host,callback'',
          ''listen_port_host_callback'',
          [float64Carrier api, nativeString api, emptyCallbackCarrier api])])"

section \<open>The contract\<close>

lemmas net_defs = net_moduleSpecifier_def net_socketId_def net_serverId_def
  net_bufferType_def net_nullableBufferType_def net_nullableAddressType_def netModule_def
  net_connectionOperations_def netOperations_def
  netLifecycle_port_def netLifecycle_host_def netLifecycle_backlog_def netLifecycle_connectRows_def
  netLifecycle_listenRows_def netLifecycle_overloads_def socketConstructor_def socketConnectMember_def
  additionalListenSignatures_def networkLifecycleOperations_def net_eval

lemma net_implements: "implements (netOperations api) (mod_exports (netModule api))"
  by (rule permCheck_implements)
    (simp only: net_defs point_eval cong: weak_congs, simp only: perm_eval cong: perm_congs)

lemma net_ids:
  "distinct (map exp_id (mod_exports (netModule api))) \<and> moduleScoped (netModule api) \<and>
   defaultFree (netModule api)"
  by (simp only: net_defs moduleScoped_def defaultFree_def id_eval cong: weak_congs)

lemma net_index: "memberIndexWrites (netOperations api)"
  by (simp only: net_defs point_eval cong: weak_congs)

text \<open>
  The native side of the operations has its shape and receivers, and the references of the
  declarations are resolved.
\<close>

lemma net_native: "nativeOperations (netTypes api) (netOperations api)"
  by (simp only: net_defs netTypes_def networkRecordTypes_def withDuplexView_def native_eval cong:
      weak_congs)

lemma net_refs: "refsResolved (netModule api)"
  by (rule refsResolvedI, simp only: net_defs addressType_def connectionOptionsType_def
      serverOptionsType_def listenOptionsType_def listenOptionsImport_def duplex_source_def
      duplex_buffer_def readableCall_result_def readableCall_size_def writableCall_bufferType_def
      writableCall_chunkType_def writableCall_completionError_def writableLifecycle_errorType_def
      writableLifecycle_nullableError_def writableLifecycle_optionalError_def visible_eval cong:
      weak_congs)
    (simp only: net_defs addressType_def connectionOptionsType_def serverOptionsType_def
      listenOptionsType_def listenOptionsImport_def duplex_source_def duplex_buffer_def
      readableCall_result_def readableCall_size_def writableCall_bufferType_def
      writableCall_chunkType_def writableCall_completionError_def writableLifecycle_errorType_def
      writableLifecycle_nullableError_def writableLifecycle_optionalError_def resolve_eval cong:
      weak_congs)

text \<open>
  Type definitions exist for exactly the declared types with instances, and no point is declared
  twice.
\<close>

lemma net_types: "typesExact (netTypes api) (mod_exports (netModule api))"
  by (rule permCheck_typesExact)
    (simp only: net_defs netTypes_def networkRecordTypes_def withDuplexView_def type_eval cong:
      weak_congs,
      simp only: perm_eval cong: perm_congs)

lemma net_points: "pointsDistinct (mod_exports (netModule api))"
  by (simp only: net_defs point_eval cong: weak_congs,
      simp only: distinct_eval cong: perm_congs)

interpretation net_component:
  component "[netModule api]" "netOperations api" for api
  by (rule componentI [OF net_implements net_ids net_index])

end
