(* ===== verification/Node_Os.thy ===== *)
theory Node_Os
  imports Provider_References
begin

text \<open>
  \<^verbatim>\<open>nodejs/src/provider/modules/os.ts\<close>: two tables of host queries and the values
  \<open>EOL\<close> and \<open>devNull\<close>.
\<close>

section \<open>Tables and surface\<close>

definition os_moduleSpecifier :: "string" where
  "os_moduleSpecifier = ''node:os''"

definition os_functions :: "(string \<times> string \<times> bool) list" where
  "os_functions =
     [(''platform'', ''platform'', False),
      (''arch'', ''arch'', False),
      (''eol'', ''end_of_line'', False),
      (''hostname'', ''host_name'', True),
      (''tmpdir'', ''temp_directory'', True),
      (''homedir'', ''home_directory'', True),
      (''endianness'', ''endianness'', False),
      (''machine'', ''machine'', True),
      (''release'', ''release'', True),
      (''type'', ''system_type'', True),
      (''version'', ''version'', True)]"

definition os_numericFunctions :: "(string \<times> string \<times> bool) list" where
  "os_numericFunctions =
     [(''availableParallelism'', ''available_parallelism'', False),
      (''freemem'', ''free_memory'', False),
      (''totalmem'', ''total_memory'', False),
      (''uptime'', ''uptime'', True)]"

definition osModule :: "providerModule" where
  "osModule =
     moduleOf os_moduleSpecifier ''tsonic.mojo.node.os'' None
       ((map (\<lambda>(name, _, _). (fnExport os_moduleSpecifier name [] stringType))
           os_functions) @
        (map (\<lambda>(name, _, _). (fnExport os_moduleSpecifier name [] numberType))
           os_numericFunctions) @
        [fnExport os_moduleSpecifier ''loadavg'' [] numberArrayType,
         valueExport os_moduleSpecifier ''EOL'' stringType,
         valueExport os_moduleSpecifier ''devNull'' stringType])"

definition osOperations :: "'o mojoApi \<Rightarrow> 'o operation list" where
  "osOperations api =
     (map
        (\<lambda>(name, targetName, raises).
           (functionCall (os_moduleSpecifier @ ''::'' @ name)
              (os_moduleSpecifier @ ''::'' @ name @ ''()'') ''os_info'' targetName []
              (nativeString api) raises)) os_functions) @
     (map
        (\<lambda>(name, targetName, raises).
           (functionCall (os_moduleSpecifier @ ''::'' @ name)
              (os_moduleSpecifier @ ''::'' @ name @ ''()'') ''os_info'' targetName []
              (float64Carrier api) raises)) os_numericFunctions) @
     [functionCall (os_moduleSpecifier @ ''::loadavg'') (os_moduleSpecifier @ ''::loadavg()'')
        ''os_info'' ''load_average'' [] (numberListCarrier api) False,
      functionValue (os_moduleSpecifier @ ''::EOL'') ''os_info'' ''end_of_line''
        (nativeString api) False,
      functionValue (os_moduleSpecifier @ ''::devNull'') ''os_info'' ''dev_null''
        (nativeString api) False]"

section \<open>The contract\<close>

lemmas os_defs = osModule_def osOperations_def os_moduleSpecifier_def os_functions_def
  os_numericFunctions_def

lemma os_implements: "implements (osOperations api) (mod_exports osModule)"
  by (rule permCheck_implements)
    (simp only: os_defs point_eval cong: weak_congs, simp only: perm_eval cong: perm_congs)

lemma os_ids: "distinct (map exp_id (mod_exports osModule)) \<and> moduleScoped osModule \<and>
   defaultFree osModule"
  by (simp only: os_defs moduleScoped_def defaultFree_def id_eval cong: weak_congs)

lemma os_index: "memberIndexWrites (osOperations api)"
  by (simp only: os_defs point_eval cong: weak_congs)

text \<open>
  The native side of the operations has its shape and receivers, and the references of the
  declarations are resolved.
\<close>

lemma os_native: "nativeOperations [] (osOperations api)"
  by (simp only: os_defs native_eval cong: weak_congs)

lemma os_refs: "refsResolved osModule"
  by (rule refsResolvedI, simp only: os_defs visible_eval cong: weak_congs)
    (simp only: os_defs resolve_eval cong: weak_congs)

text \<open>
  Type definitions exist for exactly the declared types with instances, and no point is declared
  twice.
\<close>

lemma os_types: "typesExact [] (mod_exports osModule)"
  by (rule permCheck_typesExact)
    (simp only: os_defs type_eval cong: weak_congs,
      simp only: perm_eval cong: perm_congs)

lemma os_points: "pointsDistinct (mod_exports osModule)"
  by (simp only: os_defs point_eval cong: weak_congs,
      simp only: distinct_eval cong: perm_congs)

interpretation os_component: component "[osModule]" "osOperations api" for api
  by (rule componentI [OF os_implements os_ids os_index])

end
