(* ===== verification/Node_Path.thy ===== *)
theory Node_Path
  imports Provider_References
begin

text \<open>
  \<^verbatim>\<open>nodejs/src/provider/modules/path\<close>: the record types \<open>ParsedPath\<close> and
  \<open>FormatInputPathObject\<close>, and one table of path operations from which the function
  exports, the members of \<open>PlatformPath\<close> and both groups of operations are derived.
  The operation producer may throw (\<open>NativeCallTargetRequired\<close>); it is shown never to.
\<close>

section \<open>Records (path/records.ts)\<close>

definition parsedId :: "string" where
  "parsedId = ''node:path::ParsedPath''"

definition inputId :: "string" where
  "inputId = ''node:path::FormatInputPathObject''"

definition dialectId :: "string" where
  "dialectId = ''node:path::PlatformPath''"

definition parsedCarrier :: "'o mojoApi \<Rightarrow> 'o targetType" where
  "parsedCarrier api =
     mojoNamedTargetType api ''tsonic.mojo.node.path.PathParts'' [''tsonic_node'', ''path'']
       ''PathParts''"

definition inputCarrier :: "'o mojoApi \<Rightarrow> 'o targetType" where
  "inputCarrier api =
     mojoNamedTargetType api ''tsonic.mojo.node.path.PathInput'' [''tsonic_node'', ''path'']
       ''PathInput''"

definition dialectCarrier :: "'o mojoApi \<Rightarrow> 'o targetType" where
  "dialectCarrier api =
     mojoNamedTargetType api ''tsonic.mojo.node.path.PathDialect'' [''tsonic_node'', ''path'']
       ''PathDialect''"

definition path_fields :: "(string \<times> string) list" where
  "path_fields =
     [(''root'', ''root''),
      (''dir'', ''directory''),
      (''base'', ''base''),
      (''name'', ''name''),
      (''ext'', ''extension'')]"

definition pathRecordDeclarations :: "providerExport list" where
  "pathRecordDeclarations =
     map
       (\<lambda>id.
          (interfaceDeclaration id
             (if (id = parsedId) then ''ParsedPath'' else ''FormatInputPathObject'')
             (map
                (\<lambda>(name, _).
                   (propertyMemberWith id name stringType False False (id = inputId)))
                path_fields))) [parsedId, inputId]"

definition pathRecordTypes :: "'o mojoApi \<Rightarrow> 'o typeDefinition list" where
  "pathRecordTypes api =
     [nodeProviderRecordType api parsedId (parsedCarrier api) Copyable,
      nodeProviderRecordType api inputId (inputCarrier api) Copyable,
      nodeProviderType api dialectId (dialectCarrier api) ImplicitlyCopyable]"

definition pathRecordOperations :: "'o mojoApi \<Rightarrow> 'o operation list" where
  "pathRecordOperations api =
     concat
       (map
          (\<lambda>id.
             (concat
                (map
                   (\<lambda>(name, targetName).
                      (let receiver =
                         (if (id = parsedId) then (parsedCarrier api) else (inputCarrier api))
                         in let value =
                         (if (id = parsedId) then (nativeString api) else
                            (optionalStringCarrier api)) in
                         [propertyRead id (id @ ''.'' @ name) targetName receiver value,
                          propertyWrite api id (id @ ''.'' @ name) targetName receiver value]))
                   path_fields))) [parsedId, inputId])"


section \<open>The operation table (path/operations.ts)\<close>

record 'o pathParameter =
  pp_name :: "string"
  pp_source :: "providerType"
  pp_carrier :: "'o targetType"
  pp_rest :: "bool"

record 'o pathRow =
  pr_name :: "string"
  pr_target :: "string"
  pr_suffix :: "string option"
  pr_parameters :: "'o pathParameter list"
  pr_sourceResult :: "providerType"
  pr_result :: "'o targetType"
  pr_raises :: "bool"

definition path_path :: "'o mojoApi \<Rightarrow> 'o pathParameter" where
  "path_path api =
     \<lparr>pp_name = ''path'', pp_source = stringType, pp_carrier = nativeString api,
      pp_rest = False\<rparr>"

definition path_paths :: "'o mojoApi \<Rightarrow> 'o pathParameter" where
  "path_paths api =
     \<lparr>pp_name = ''paths'', pp_source = stringArrayType, pp_carrier = nativeString api,
      pp_rest = True\<rparr>"

definition path_operations :: "'o mojoApi \<Rightarrow> 'o pathRow list" where
  "path_operations api =
     [\<lparr>pr_name = ''parse'', pr_target = ''parse'', pr_suffix = None,
       pr_parameters = [path_path api],
       pr_sourceResult = providerRef ''node:path'' ''ParsedPath'',
       pr_result = parsedCarrier api, pr_raises = False\<rparr>,
      \<lparr>pr_name = ''format'', pr_target = ''format_path'', pr_suffix = Some ''parsed'',
       pr_parameters =
         [\<lparr>pp_name = ''pathObject'', pp_source = providerRef ''node:path'' ''ParsedPath'',
           pp_carrier = parsedCarrier api, pp_rest = False\<rparr>],
       pr_sourceResult = stringType, pr_result = nativeString api, pr_raises = False\<rparr>,
      \<lparr>pr_name = ''format'', pr_target = ''format_path'', pr_suffix = Some ''input'',
       pr_parameters =
         [\<lparr>pp_name = ''pathObject'',
           pp_source = providerRef ''node:path'' ''FormatInputPathObject'',
           pp_carrier = inputCarrier api, pp_rest = False\<rparr>],
       pr_sourceResult = stringType, pr_result = nativeString api, pr_raises = False\<rparr>,
      \<lparr>pr_name = ''join'', pr_target = ''join'', pr_suffix = None,
       pr_parameters = [path_paths api], pr_sourceResult = stringType,
       pr_result = nativeString api, pr_raises = False\<rparr>,
      \<lparr>pr_name = ''resolve'', pr_target = ''resolve'', pr_suffix = None,
       pr_parameters = [path_paths api], pr_sourceResult = stringType,
       pr_result = nativeString api, pr_raises = True\<rparr>,
      \<lparr>pr_name = ''normalize'', pr_target = ''normalize'', pr_suffix = None,
       pr_parameters = [path_path api], pr_sourceResult = stringType,
       pr_result = nativeString api, pr_raises = False\<rparr>,
      \<lparr>pr_name = ''isAbsolute'', pr_target = ''is_absolute'', pr_suffix = None,
       pr_parameters = [path_path api], pr_sourceResult = booleanType,
       pr_result = boolCarrier api, pr_raises = False\<rparr>,
      \<lparr>pr_name = ''matchesGlob'', pr_target = ''matches_glob'', pr_suffix = None,
       pr_parameters = [path_path api, (path_path api)\<lparr>pp_name := ''pattern''\<rparr>],
       pr_sourceResult = booleanType, pr_result = boolCarrier api, pr_raises = True\<rparr>,
      \<lparr>pr_name = ''dirname'', pr_target = ''dirname'', pr_suffix = None,
       pr_parameters = [path_path api], pr_sourceResult = stringType,
       pr_result = nativeString api, pr_raises = False\<rparr>,
      \<lparr>pr_name = ''extname'', pr_target = ''extname'', pr_suffix = None,
       pr_parameters = [path_path api], pr_sourceResult = stringType,
       pr_result = nativeString api, pr_raises = False\<rparr>,
      \<lparr>pr_name = ''basename'', pr_target = ''basename'', pr_suffix = None,
       pr_parameters = [path_path api], pr_sourceResult = stringType,
       pr_result = nativeString api, pr_raises = False\<rparr>,
      \<lparr>pr_name = ''basename'', pr_target = ''basename'', pr_suffix = None,
       pr_parameters = [path_path api, (path_path api)\<lparr>pp_name := ''suffix''\<rparr>],
       pr_sourceResult = stringType, pr_result = nativeString api, pr_raises = False\<rparr>,
      \<lparr>pr_name = ''relative'', pr_target = ''relative'', pr_suffix = None,
       pr_parameters =
         [(path_path api)\<lparr>pp_name := ''from''\<rparr>,
          (path_path api)\<lparr>pp_name := ''to''\<rparr>], pr_sourceResult = stringType,
       pr_result = nativeString api, pr_raises = True\<rparr>,
      \<lparr>pr_name = ''toNamespacedPath'', pr_target = ''to_namespaced_path'', pr_suffix = None,
       pr_parameters = [path_path api], pr_sourceResult = stringType,
       pr_result = nativeString api, pr_raises = True\<rparr>]"

definition path_overload :: "'o pathRow \<Rightarrow> overload" where
  "path_overload operation =
     overloadAs
       (case pr_suffix operation of
          None \<Rightarrow> joinComma (map pp_name (pr_parameters operation))
        | Some suffix \<Rightarrow> suffix)
       (map
          (\<lambda>parameter.
             (if pp_rest parameter then restParam (pp_name parameter) (pp_source parameter)
              else param (pp_name parameter) (pp_source parameter)))
          (pr_parameters operation))
       (pr_sourceResult operation)"

definition pathFunctionDeclarations :: "'o mojoApi \<Rightarrow> providerExport list" where
  "pathFunctionDeclarations api =
     map
       (\<lambda>name.
          (overloadedFunctionExport ''node:path'' name
             (map path_overload
                (filter (\<lambda>operation. pr_name operation = name) (path_operations api)))))
       (unique (map pr_name (path_operations api)))"

definition pathDialectMembers :: "'o mojoApi \<Rightarrow> providerMember list" where
  "pathDialectMembers api =
     map
       (\<lambda>name.
          (overloadedMethodMember dialectId name
             (map path_overload
                (filter (\<lambda>operation. pr_name operation = name) (path_operations api)))))
       (unique (map pr_name (path_operations api)))"

text \<open>The arguments of the native call, with \<open>operation.parameters[index]?.rest\<close>.\<close>

definition path_restArguments :: "'o pathRow \<Rightarrow> nativeArgument list \<Rightarrow> nativeArgument list" where
  "path_restArguments operation arguments =
     map (\<lambda>(index, argument).
       (if index < length (pr_parameters operation) \<and> pp_rest (pr_parameters operation ! index)
        then argument\<lparr>arg_variadic := True, arg_restPacking := Some ''list''\<rparr>
        else argument))
     (enumerate 0 arguments)"

definition path_selected :: "'o mojoApi \<Rightarrow> bool \<Rightarrow> 'o pathRow \<Rightarrow> 'o operation" where
  "path_selected api dialect operation =
     (let identity = path_overload operation;
          i = (if dialect then dialectId @ ''.'' @ pr_name operation
               else ''node:path::'' @ pr_name operation);
          suffix = the (ov_signatureSuffix identity);
          parameters = map pp_carrier (pr_parameters operation)
      in if dialect
         then instanceCall dialectId i (i @ ''('' @ suffix @ '')'') (pr_target operation)
           (dialectCarrier api) parameters (pr_result operation) (pr_raises operation) ''imm''
         else functionCall i (i @ ''('' @ suffix @ '')'') ''path'' (pr_target operation)
           parameters (pr_result operation) (pr_raises operation))"

definition path_callOperation ::
    "'o mojoApi \<Rightarrow> bool \<Rightarrow> 'o pathRow \<Rightarrow> providerError + 'o operation" where
  "path_callOperation api dialect operation =
     (let selected = path_selected api dialect operation in
      case op_target selected of
        FunctionCallTarget modulePath name generics arguments sourceModule \<Rightarrow>
          Inr (selected\<lparr>op_target := FunctionCallTarget modulePath name generics
            (path_restArguments operation arguments) sourceModule\<rparr>)
      | InstanceCallTarget name receiver arguments \<Rightarrow>
          Inr (selected\<lparr>op_target := InstanceCallTarget name receiver
            (path_restArguments operation arguments)\<rparr>)
      | _ \<Rightarrow> Inl NativeCallTargetRequired)"

definition pathCallOperations :: "'o mojoApi \<Rightarrow> bool \<Rightarrow> providerError + 'o operation list" where
  "pathCallOperations api dialect =
     sequenceResults (map (path_callOperation api dialect) (path_operations api))"

section \<open>The module (path/index.ts)\<close>

definition path_moduleSpecifier :: "string" where
  "path_moduleSpecifier = ''node:path''"

definition path_dialectType :: "providerType" where
  "path_dialectType = providerRef path_moduleSpecifier ''PlatformPath''"

definition pathModule :: "'o mojoApi \<Rightarrow> providerModule" where
  "pathModule api =
     moduleOf path_moduleSpecifier ''tsonic.mojo.node.path'' None
       (pathRecordDeclarations @
        [interfaceDeclaration dialectId ''PlatformPath''
           ((pathDialectMembers api) @
            [propertyMember dialectId ''sep'' stringType,
             propertyMember dialectId ''delimiter'' stringType,
             propertyMember dialectId ''posix'' path_dialectType,
             propertyMember dialectId ''win32'' path_dialectType])] @
        (pathFunctionDeclarations api) @
        [valueExport path_moduleSpecifier ''sep'' stringType,
         valueExport path_moduleSpecifier ''delimiter'' stringType,
         valueExport path_moduleSpecifier ''posix'' path_dialectType,
         valueExport path_moduleSpecifier ''win32'' path_dialectType])"

definition pathTypes :: "'o mojoApi \<Rightarrow> 'o typeDefinition list" where
  "pathTypes api = pathRecordTypes api"

definition pathOperations :: "'o mojoApi \<Rightarrow> providerError + 'o operation list" where
  "pathOperations api =
     (case pathCallOperations api False of
        Inl e \<Rightarrow> Inl e
      | Inr functionCalls \<Rightarrow>
          (case pathCallOperations api True of
             Inl e \<Rightarrow> Inl e
           | Inr dialectCalls \<Rightarrow> Inr (pathRecordOperations api @ functionCalls @ dialectCalls @
               [constantValue (path_moduleSpecifier @ ''::sep'') ''path'' ''separator'' (nativeString api),
                constantValue (path_moduleSpecifier @ ''::delimiter'') ''path'' ''delimiter''
                  (nativeString api),
                functionValue (path_moduleSpecifier @ ''::posix'') ''path'' ''posix_value''
                  (dialectCarrier api) False,
                functionValue (path_moduleSpecifier @ ''::win32'') ''path'' ''win32_value''
                  (dialectCarrier api) False,
                propertyReadVia MethodAccess dialectId (dialectId @ ''.sep'') ''separator''
                  (dialectCarrier api) (nativeString api),
                propertyReadVia MethodAccess dialectId (dialectId @ ''.delimiter'') ''delimiter''
                  (dialectCarrier api) (nativeString api),
                propertyReadVia MethodAccess dialectId (dialectId @ ''.posix'') ''posix''
                  (dialectCarrier api) (dialectCarrier api),
                propertyReadVia MethodAccess dialectId (dialectId @ ''.win32'') ''win32''
                  (dialectCarrier api) (dialectCarrier api)])))"

section \<open>The table is implemented\<close>

text \<open>The operation that \<open>path_callOperation\<close> returns.\<close>

definition path_call :: "'o mojoApi \<Rightarrow> bool \<Rightarrow> 'o pathRow \<Rightarrow> 'o operation" where
  "path_call api dialect operation =
     (let selected = path_selected api dialect operation in
      selected\<lparr>op_target := (case op_target selected of
        FunctionCallTarget modulePath name generics arguments sourceModule \<Rightarrow>
          FunctionCallTarget modulePath name generics
            (path_restArguments operation arguments) sourceModule
      | InstanceCallTarget name receiver arguments \<Rightarrow>
          InstanceCallTarget name receiver (path_restArguments operation arguments)
      | t \<Rightarrow> t)\<rparr>)"

lemma path_callOperation_returns: "path_callOperation api dialect row = Inr (path_call api dialect row)"
  by (simp add: path_callOperation_def path_call_def path_selected_def Let_def functionCall_def
      functionCallPath_def instanceCall_def)

lemma pathCallOperations_returns:
  "pathCallOperations api dialect = Inr (map (path_call api dialect) (path_operations api))"
  unfolding pathCallOperations_def by (rule sequenceResults_map) (rule path_callOperation_returns)

interpretation path_function: function_rows "''node:path''" pr_name path_overload "path_call api False" for api
  by unfold_locales
    (simp add: path_call_def path_selected_def Let_def point_simps path_overload_def
      overloadPoint_def overloadAs_def suffixOf_def)

interpretation path_dialect: method_rows dialectId pr_name path_overload "path_call api True" for api
  by unfold_locales
    (simp add: path_call_def path_selected_def Let_def point_simps path_overload_def
      overloadPoint_def overloadAs_def suffixOf_def)

lemma pathFunctionDeclarations_implemented:
  "implements (map (path_call api False) (path_operations api)) (pathFunctionDeclarations api)"
  unfolding pathFunctionDeclarations_def by (rule path_function.rows_implement) simp_all

lemma pathDialectMembers_implemented:
  "implementsMembers (map (path_call api True) (path_operations api)) dialectId (pathDialectMembers api)"
  unfolding pathDialectMembers_def by (rule path_dialect.rows_implement) simp_all

lemma pathRecords_implemented: "implements (pathRecordOperations api) pathRecordDeclarations"
  by (rule permCheck_implements)
    (simp only: pathRecordOperations_def pathRecordDeclarations_def path_fields_def parsedId_def
      inputId_def point_eval cong: weak_congs, simp only: perm_eval cong: perm_congs)

text \<open>The operations that stand beside the table.\<close>

definition path_valueOperations :: "'o mojoApi \<Rightarrow> 'o operation list" where
  "path_valueOperations api =
     [constantValue (path_moduleSpecifier @ ''::sep'') ''path'' ''separator'' (nativeString api),
      constantValue (path_moduleSpecifier @ ''::delimiter'') ''path'' ''delimiter''
        (nativeString api),
      functionValue (path_moduleSpecifier @ ''::posix'') ''path'' ''posix_value''
        (dialectCarrier api) False,
      functionValue (path_moduleSpecifier @ ''::win32'') ''path'' ''win32_value''
        (dialectCarrier api) False,
      propertyReadVia MethodAccess dialectId (dialectId @ ''.sep'') ''separator''
        (dialectCarrier api) (nativeString api),
      propertyReadVia MethodAccess dialectId (dialectId @ ''.delimiter'') ''delimiter''
        (dialectCarrier api) (nativeString api),
      propertyReadVia MethodAccess dialectId (dialectId @ ''.posix'') ''posix''
        (dialectCarrier api) (dialectCarrier api),
      propertyReadVia MethodAccess dialectId (dialectId @ ''.win32'') ''win32''
        (dialectCarrier api) (dialectCarrier api)]"

definition pathOperationList :: "'o mojoApi \<Rightarrow> 'o operation list" where
  "pathOperationList api = pathRecordOperations api @
     map (path_call api False) (path_operations api) @
     map (path_call api True) (path_operations api) @ path_valueOperations api"

lemma pathOperations_returns: "pathOperations api = Inr (pathOperationList api)"
  by (simp add: pathOperations_def pathCallOperations_returns path_valueOperations_def
      pathOperationList_def)

lemma pathModule_implemented: "implements (pathOperationList api) (mod_exports (pathModule api))"
  using pathRecords_implemented [of api] pathFunctionDeclarations_implemented [of api]
    pathDialectMembers_implemented [of api]
  by (simp add: pathOperationList_def pathModule_def mod_exports_moduleOf implements_def
      implementsMembers_def path_valueOperations_def point_simps ac_simps)

lemma path_call_kind: "op_operationKind (path_call api dialect row) = CallOperation"
  using path_function.row_call path_dialect.row_call by (cases dialect) simp_all

lemma path_index: "memberIndexWrites (pathOperationList api)"
  by (auto simp: pathOperationList_def memberIndexWrites_def list_all_iff pathRecordOperations_def
      path_valueOperations_def Let_def point_simps path_call_kind split: if_splits)

lemmas path_defs = path_moduleSpecifier_def pathModule_def pathRecordDeclarations_def parsedId_def
  inputId_def dialectId_def pathFunctionDeclarations_def path_operations_def pathRow.select_convs
  unique_def uniqueFrom.simps list.set insert_iff empty_iff

lemma path_ids:
  "distinct (map exp_id (mod_exports (pathModule api))) \<and> moduleScoped (pathModule api) \<and>
   defaultFree (pathModule api)"
  by (simp only: path_defs moduleScoped_def defaultFree_def id_eval cong: weak_congs)

lemma path_call_native:
  "nativeOperation ts (path_call api False row)"
  "nativeOperation ts (path_call api True row) \<longleftrightarrow> typeOf ts dialectId = Some (dialectCarrier api)"
  by (simp_all add: native_defs path_call_def path_selected_def Let_def functionCall_def
      functionCallPath_def instanceCall_def path_restArguments_def)

lemma path_calls_native:
  "nativeOperations ts (map (path_call api False) rows)"
  "typeOf ts dialectId = Some (dialectCarrier api) \<Longrightarrow> nativeOperations ts (map (path_call api True) rows)"
  by (simp_all add: nativeOperations_def list_all_iff path_call_native)

lemma path_native: "nativeOperations (pathTypes api) (pathOperationList api)"
  by (simp only: pathOperationList_def pathTypes_def pathRecordTypes_def pathRecordOperations_def
      path_fields_def path_valueOperations_def parsedId_def inputId_def path_calls_native
      dialectId_def native_eval cong: weak_congs)

lemma path_refs: "refsResolved (pathModule api)"
  by (rule refsResolvedI, simp only: path_defs visible_eval cong: weak_congs)
    (simp only: path_defs path_fields_def pathDialectMembers_def path_overload_def path_path_def
      path_paths_def path_dialectType_def pathParameter.simps pathRow.simps filter.simps
      resolve_eval cong: weak_congs)

text \<open>
  Type definitions exist for exactly the declared types with instances, and no point is declared
  twice.
\<close>

lemma path_types: "typesExact (pathTypes api) (mod_exports (pathModule api))"
  by (rule permCheck_typesExact)
    (simp only: path_defs pathTypes_def pathRecordTypes_def pathDialectMembers_def path_fields_def
      type_eval cong: weak_congs,
      simp only: perm_eval cong: perm_congs)

lemma path_points: "pointsDistinct (mod_exports (pathModule api))"
  by (simp only: path_defs pathDialectMembers_def path_fields_def path_overload_def path_path_def
      path_paths_def pathParameter.simps pathRow.simps filter.simps point_eval cong: weak_congs,
      simp only: distinct_eval cong: perm_congs)

interpretation path_component: component "[pathModule api]" "pathOperationList api" for api
  by (rule componentI [OF pathModule_implemented path_ids path_index])

end
