(* ===== verification/Node_Process.thy ===== *)
theory Node_Process
  imports Node_Stream_Parts
begin

text \<open>
  \<^verbatim>\<open>nodejs/src/provider/modules/process.ts\<close> and \<^verbatim>\<open>process-signals.ts\<close>: the process
  functions and values, the environment and the standard streams, once as module exports and
  once as static members of the module's own default export.
\<close>

section \<open>Signals (process-signals.ts)\<close>

record signalSignature =
  sgn_parameters :: "providerParameter list"
  sgn_returnType :: "providerType"
  sgn_signatureSuffix :: "string"
  sgn_targetName :: "string"

definition processSignalSignatures :: "signalSignature list" where
  "processSignalSignatures =
     [\<lparr>sgn_parameters = [param ''pid'' numberType], sgn_returnType = booleanType,
       sgn_signatureSuffix = ''pid'', sgn_targetName = ''kill_default''\<rparr>,
      \<lparr>sgn_parameters = [param ''pid'' numberType, param ''signal'' stringType],
       sgn_returnType = booleanType, sgn_signatureSuffix = ''pid,name'',
       sgn_targetName = ''kill_named''\<rparr>,
      \<lparr>sgn_parameters = [param ''pid'' numberType, param ''signal'' numberType],
       sgn_returnType = booleanType, sgn_signatureSuffix = ''pid,number'',
       sgn_targetName = ''kill_number''\<rparr>]"

text \<open>A signal row read as an overload; its extra field \<open>targetName\<close> is ignored there.\<close>

definition process_signalOverload :: "signalSignature \<Rightarrow> overload" where
  "process_signalOverload signature =
     overloadAs (sgn_signatureSuffix signature) (sgn_parameters signature)
       (sgn_returnType signature)"

section \<open>Declarations and operations\<close>

definition process_moduleSpecifier :: "string" where
  "process_moduleSpecifier = ''node:process''"

definition process_defaultId :: "string" where
  "process_defaultId = ''node:process.default''"

definition process_envId :: "string" where
  "process_envId = process_moduleSpecifier @ ''::ProcessEnv''"

definition process_memoryUsageId :: "string" where
  "process_memoryUsageId = process_moduleSpecifier @ ''::MemoryUsage''"

definition process_writeStreamId :: "string" where
  "process_writeStreamId = process_moduleSpecifier @ ''::ProcessWriteStream''"

definition process_nullableNumberType :: "providerType" where
  "process_nullableNumberType = UnionT [numberType, LiteralT NullLiteral]"

definition process_defaultProcessExport :: "providerExport" where
  "process_defaultProcessExport =
     (classDeclaration process_defaultId ''NodeProcessModule''
        [methodMemberWith process_defaultId ''cwd'' [] stringType True None,
         overloadedMethodMemberWith process_defaultId ''kill''
           (map process_signalOverload processSignalSignatures) True,
         methodMemberWith process_defaultId ''chdir'' [param ''directory'' stringType] voidType
           True None,
         overloadedMethodMemberWith process_defaultId ''hrtime''
           [overloadAs '''' [] numberArrayType,
            overloadAs ''previous'' [param ''previous'' numberArrayType] numberArrayType] True,
         methodMemberWith process_defaultId ''memoryUsage'' []
           (providerRef process_moduleSpecifier ''MemoryUsage'') True None,
         methodMemberWith process_defaultId ''uptime'' [] numberType True None,
         methodMemberWith process_defaultId ''availableMemory'' [] numberType True None,
         methodMemberWith process_defaultId ''constrainedMemory'' [] numberType True None,
         overloadedMethodMemberWith process_defaultId ''exit''
           [overloadAs '''' [] voidType,
            overloadAs ''code'' [param ''code'' numberType] voidType] True,
         propertyMemberWith process_defaultId ''env''
           (providerRef process_moduleSpecifier ''ProcessEnv'') True True False,
         propertyMemberWith process_defaultId ''stdin''
           (providerRef ''node:stream'' ''Readable'') True True False,
         propertyMemberWith process_defaultId ''version'' stringType True True False,
         propertyMemberWith process_defaultId ''stdout''
           (providerRef process_moduleSpecifier ''ProcessWriteStream'') True True False,
         propertyMemberWith process_defaultId ''stderr''
           (providerRef process_moduleSpecifier ''ProcessWriteStream'') True True False,
         propertyMemberWith process_defaultId ''platform'' stringType True True False,
         propertyMemberWith process_defaultId ''arch'' stringType True True False,
         propertyMemberWith process_defaultId ''argv'' stringArrayType True True False,
         propertyMemberWith process_defaultId ''argv0'' stringType True True False,
         propertyMemberWith process_defaultId ''pid'' numberType True True False,
         propertyMemberWith process_defaultId ''ppid'' numberType True True False,
         propertyMemberWith process_defaultId ''execPath'' stringType True True False,
         propertyMemberWith process_defaultId ''exitCode'' process_nullableNumberType False True
           False])\<lparr>exp_isDefault := True\<rparr>"

definition process_classExport ::
    "string \<Rightarrow> string \<Rightarrow> providerMember list \<Rightarrow> providerExport" where
  "process_classExport ident name members = classDeclaration ident name members"

definition processModule :: "'o mojoApi \<Rightarrow> providerModule" where
  "processModule api =
     moduleOf process_moduleSpecifier ''tsonic.mojo.node.process''
       (Some
          [importOf ''node:buffer'' [''Buffer''],
           importOf ''node:stream'' [''Readable'', ''Writable'']])
       [fnExport process_moduleSpecifier ''cwd'' [] stringType,
        overloadedFunctionExport process_moduleSpecifier ''kill''
           (map process_signalOverload processSignalSignatures),
        fnExport process_moduleSpecifier ''availableMemory'' [] numberType,
        fnExport process_moduleSpecifier ''constrainedMemory'' [] numberType,
        fnExport process_moduleSpecifier ''chdir'' [param ''directory'' stringType] voidType,
        overloadedFunctionExport process_moduleSpecifier ''exit''
          [overloadAs '''' [] voidType,
           overloadAs ''code'' [param ''code'' numberType] voidType],
        overloadedFunctionExport process_moduleSpecifier ''hrtime''
          [overloadAs '''' [] numberArrayType,
           overloadAs ''previous'' [param ''previous'' numberArrayType] numberArrayType],
        fnExport process_moduleSpecifier ''memoryUsage'' []
          (providerRef process_moduleSpecifier ''MemoryUsage''),
        fnExport process_moduleSpecifier ''uptime'' [] numberType,
        process_classExport process_envId ''ProcessEnv''
          [callableMember (process_envId @ ''.indexer'') ''indexer'' IndexerMember False
             [plainSignature (process_envId @ ''.indexer(name)'') ''indexer''
                [param ''name'' stringType] (UnionT [stringType, UndefinedT])]],
        process_classExport process_memoryUsageId ''MemoryUsage''
          [propertyMember process_memoryUsageId ''rss'' numberType,
           propertyMember process_memoryUsageId ''heapTotal'' numberType,
           propertyMember process_memoryUsageId ''heapUsed'' numberType,
           propertyMember process_memoryUsageId ''external'' numberType,
           propertyMember process_memoryUsageId ''arrayBuffers'' numberType],
        process_classExport process_writeStreamId ''ProcessWriteStream''
          ((writableCallMembers api process_writeStreamId
              (providerRef process_moduleSpecifier ''ProcessWriteStream'')) @
           (writableEventMembers api process_moduleSpecifier ''ProcessWriteStream'') @
           (writableLifecycleMembers api process_writeStreamId
              (providerRef process_moduleSpecifier ''ProcessWriteStream'')) @
           [propertyMember process_writeStreamId ''isTTY'' booleanType,
            propertyMember process_writeStreamId ''fd'' numberType]),
        valueExport process_moduleSpecifier ''env''
          (providerRef process_moduleSpecifier ''ProcessEnv''),
        valueExport process_moduleSpecifier ''stdin'' (providerRef ''node:stream'' ''Readable''),
        valueExport process_moduleSpecifier ''version'' stringType,
        valueExport process_moduleSpecifier ''stdout''
          (providerRef process_moduleSpecifier ''ProcessWriteStream''),
        valueExport process_moduleSpecifier ''stderr''
          (providerRef process_moduleSpecifier ''ProcessWriteStream''),
        valueExport process_moduleSpecifier ''platform'' stringType,
        valueExport process_moduleSpecifier ''arch'' stringType,
        valueExport process_moduleSpecifier ''argv'' stringArrayType,
        valueExport process_moduleSpecifier ''argv0'' stringType,
        valueExport process_moduleSpecifier ''pid'' numberType,
        valueExport process_moduleSpecifier ''ppid'' numberType,
        valueExport process_moduleSpecifier ''execPath'' stringType,
        valueExport process_moduleSpecifier ''exitCode'' process_nullableNumberType,
        process_defaultProcessExport]"

definition processTypes :: "'o mojoApi \<Rightarrow> 'o typeDefinition list" where
  "processTypes api =
     [nodeProviderType api process_envId (processEnvCarrier api) Copyable,
      nodeProviderType api process_memoryUsageId (processMemoryUsageCarrier api) Copyable,
      nodeProviderType api process_writeStreamId (processWriteStreamCarrier api)
        ImplicitlyCopyable]"

definition process_defaultProcessOperations :: "'o mojoApi \<Rightarrow> 'o operation list" where
  "process_defaultProcessOperations api =
     (map
        (\<lambda>signature.
           (staticCall process_defaultId (process_defaultId @ ''.kill'')
              (process_defaultId @ ''.kill('' @ (sgn_signatureSuffix signature) @ '')'')
              ''signals'' (sgn_targetName signature)
              (map
                 (\<lambda>parameter.
                    (if (par_type parameter = StringT) then (nativeString api) else
                       (float64Carrier api))) (sgn_parameters signature)) (boolCarrier api) True))
        processSignalSignatures) @
     [staticCall process_defaultId (process_defaultId @ ''.availableMemory'')
        (process_defaultId @ ''.availableMemory()'') ''process'' ''available_memory'' []
        (float64Carrier api) False,
      staticCall process_defaultId (process_defaultId @ ''.constrainedMemory'')
        (process_defaultId @ ''.constrainedMemory()'') ''process'' ''constrained_memory'' []
        (float64Carrier api) False,
      staticCall process_defaultId (process_defaultId @ ''.cwd'')
        (process_defaultId @ ''.cwd()'') ''process'' ''current_directory'' [] (nativeString api)
        True,
      staticCall process_defaultId (process_defaultId @ ''.chdir'')
        (process_defaultId @ ''.chdir(directory)'') ''process'' ''change_directory''
        [nativeString api] (unitCarrier api) True,
      staticCall process_defaultId (process_defaultId @ ''.hrtime'')
        (process_defaultId @ ''.hrtime()'') ''process'' ''hrtime'' [] (numberListCarrier api)
        False,
      staticCall process_defaultId (process_defaultId @ ''.hrtime'')
        (process_defaultId @ ''.hrtime(previous)'') ''process'' ''hrtime_since''
        [numberListCarrier api] (numberListCarrier api) True,
      staticCall process_defaultId (process_defaultId @ ''.memoryUsage'')
        (process_defaultId @ ''.memoryUsage()'') ''process'' ''memory_usage'' []
        (processMemoryUsageCarrier api) False,
      staticCall process_defaultId (process_defaultId @ ''.uptime'')
        (process_defaultId @ ''.uptime()'') ''process'' ''uptime'' [] (float64Carrier api) False,
      staticCall process_defaultId (process_defaultId @ ''.exit'')
        (process_defaultId @ ''.exit()'') ''process'' ''exit_default'' [] (unitCarrier api)
        False,
      staticCall process_defaultId (process_defaultId @ ''.exit'')
        (process_defaultId @ ''.exit(code)'') ''process'' ''exit'' [nativeIntCarrier api]
        (unitCarrier api) False,
      staticPropertyRead process_defaultId (process_defaultId @ ''.env'') ''process''
        ''environment_object'' (processEnvCarrier api) False,
      staticPropertyRead process_defaultId (process_defaultId @ ''.stdin'') ''stream'' ''stdin''
        (readableCarrier api) False,
      staticPropertyRead process_defaultId (process_defaultId @ ''.version'') ''process''
        ''version'' (nativeString api) False,
      staticPropertyRead process_defaultId (process_defaultId @ ''.stdout'') ''process''
        ''stdout'' (processWriteStreamCarrier api) False,
      staticPropertyRead process_defaultId (process_defaultId @ ''.stderr'') ''process''
        ''stderr'' (processWriteStreamCarrier api) False,
      staticPropertyRead process_defaultId (process_defaultId @ ''.platform'') ''process''
        ''platform'' (nativeString api) False,
      staticPropertyRead process_defaultId (process_defaultId @ ''.arch'') ''process'' ''arch''
        (nativeString api) False,
      staticPropertyRead process_defaultId (process_defaultId @ ''.argv'') ''process''
        ''arguments'' (stringListCarrier api) True,
      staticPropertyRead process_defaultId (process_defaultId @ ''.argv0'') ''process''
        ''argument_zero'' (nativeString api) False,
      staticPropertyRead process_defaultId (process_defaultId @ ''.pid'') ''process''
        ''process_id'' (nativeIntCarrier api) False,
      staticPropertyRead process_defaultId (process_defaultId @ ''.ppid'') ''process''
        ''parent_process_id'' (nativeIntCarrier api) False,
      staticPropertyRead process_defaultId (process_defaultId @ ''.execPath'') ''process''
        ''executable_path'' (nativeString api) True,
      staticPropertyRead process_defaultId (process_defaultId @ ''.exitCode'') ''process''
        ''exit_code'' (optionalInt32Carrier api) False,
      staticPropertyWrite api process_defaultId (process_defaultId @ ''.exitCode'') ''process''
        ''set_exit_code'' (optionalInt32Carrier api) False]"

definition process_memoryUsageProperties :: "'o mojoApi \<Rightarrow> 'o operation list" where
  "process_memoryUsageProperties api =
     [propertyRead process_memoryUsageId (process_memoryUsageId @ ''.rss'') ''rss''
        (processMemoryUsageCarrier api) (float64Carrier api),
      propertyRead process_memoryUsageId (process_memoryUsageId @ ''.heapTotal'') ''heap_total''
        (processMemoryUsageCarrier api) (float64Carrier api),
      propertyRead process_memoryUsageId (process_memoryUsageId @ ''.heapUsed'') ''heap_used''
        (processMemoryUsageCarrier api) (float64Carrier api),
      propertyRead process_memoryUsageId (process_memoryUsageId @ ''.external'') ''external''
        (processMemoryUsageCarrier api) (float64Carrier api),
      propertyRead process_memoryUsageId (process_memoryUsageId @ ''.arrayBuffers'')
        ''array_buffers'' (processMemoryUsageCarrier api) (float64Carrier api)]"

definition processOperations :: "'o mojoApi \<Rightarrow> 'o operation list" where
  "processOperations api =
     (let operations =
            (map
               (\<lambda>signature.
                  (functionCall (process_moduleSpecifier @ ''::kill'')
                     (process_moduleSpecifier @ ''::kill('' @ (sgn_signatureSuffix signature) @
                      '')'') ''signals'' (sgn_targetName signature)
                     (map
                        (\<lambda>parameter.
                           (if (par_type parameter = StringT) then (nativeString api) else
                              (float64Carrier api))) (sgn_parameters signature))
                     (boolCarrier api) True)) processSignalSignatures) @
            [functionCall (process_moduleSpecifier @ ''::cwd'')
               (process_moduleSpecifier @ ''::cwd()'') ''process'' ''current_directory'' []
               (nativeString api) True,
             functionCall (process_moduleSpecifier @ ''::chdir'')
               (process_moduleSpecifier @ ''::chdir(directory)'') ''process''
               ''change_directory'' [nativeString api] (unitCarrier api) True,
             functionCall (process_moduleSpecifier @ ''::exit'')
               (process_moduleSpecifier @ ''::exit()'') ''process'' ''exit_default'' []
               (unitCarrier api) False,
             functionCall (process_moduleSpecifier @ ''::exit'')
               (process_moduleSpecifier @ ''::exit(code)'') ''process'' ''exit''
               [nativeIntCarrier api] (unitCarrier api) False,
             functionCall (process_moduleSpecifier @ ''::hrtime'')
               (process_moduleSpecifier @ ''::hrtime()'') ''process'' ''hrtime'' []
               (numberListCarrier api) False,
             functionCall (process_moduleSpecifier @ ''::hrtime'')
               (process_moduleSpecifier @ ''::hrtime(previous)'') ''process'' ''hrtime_since''
               [numberListCarrier api] (numberListCarrier api) True,
             functionCall (process_moduleSpecifier @ ''::memoryUsage'')
               (process_moduleSpecifier @ ''::memoryUsage()'') ''process'' ''memory_usage'' []
               (processMemoryUsageCarrier api) False,
             functionCall (process_moduleSpecifier @ ''::uptime'')
               (process_moduleSpecifier @ ''::uptime()'') ''process'' ''uptime'' []
               (float64Carrier api) False,
             functionCall (process_moduleSpecifier @ ''::availableMemory'')
               (process_moduleSpecifier @ ''::availableMemory()'') ''process''
               ''available_memory'' [] (float64Carrier api) False,
             functionCall (process_moduleSpecifier @ ''::constrainedMemory'')
               (process_moduleSpecifier @ ''::constrainedMemory()'') ''process''
               ''constrained_memory'' [] (float64Carrier api) False,
             functionValue (process_moduleSpecifier @ ''::env'') ''process''
               ''environment_object'' (processEnvCarrier api) False,
             functionValue (process_moduleSpecifier @ ''::stdin'') ''stream'' ''stdin''
               (readableCarrier api) False,
             functionValue (process_moduleSpecifier @ ''::version'') ''process'' ''version''
               (nativeString api) False,
             functionValue (process_moduleSpecifier @ ''::stdout'') ''process'' ''stdout''
               (processWriteStreamCarrier api) False,
             functionValue (process_moduleSpecifier @ ''::stderr'') ''process'' ''stderr''
               (processWriteStreamCarrier api) False,
             functionValue (process_moduleSpecifier @ ''::platform'') ''process'' ''platform''
               (nativeString api) False,
             functionValue (process_moduleSpecifier @ ''::arch'') ''process'' ''arch''
               (nativeString api) False,
             functionValue (process_moduleSpecifier @ ''::argv'') ''process'' ''arguments''
               (stringListCarrier api) True,
             functionValue (process_moduleSpecifier @ ''::argv0'') ''process'' ''argument_zero''
               (nativeString api) False,
             functionValue (process_moduleSpecifier @ ''::pid'') ''process'' ''process_id''
               (nativeIntCarrier api) False,
             functionValue (process_moduleSpecifier @ ''::ppid'') ''process''
               ''parent_process_id'' (nativeIntCarrier api) False,
             functionValue (process_moduleSpecifier @ ''::execPath'') ''process''
               ''executable_path'' (nativeString api) True,
             functionValue (process_moduleSpecifier @ ''::exitCode'') ''process'' ''exit_code''
               (optionalInt32Carrier api) False,
             indexRead process_envId (process_envId @ ''.indexer'')
               (process_envId @ ''.indexer(name)'') ''get'' (processEnvCarrier api)
               (nativeString api) (optionalStringCarrier api) False] @
            (process_memoryUsageProperties api) @
            (writableCallOperations api process_writeStreamId (processWriteStreamCarrier api)) @
            (writableEventOperations api process_moduleSpecifier ''ProcessWriteStream''
               (processWriteStreamCarrier api)) @
            (writableLifecycleOperations api process_writeStreamId
               (processWriteStreamCarrier api)) @
            [propertyReadVia MethodAccess process_writeStreamId
               (process_writeStreamId @ ''.isTTY'') ''is_tty'' (processWriteStreamCarrier api)
               (boolCarrier api),
             propertyReadVia MethodAccess process_writeStreamId
               (process_writeStreamId @ ''.fd'') ''fd'' (processWriteStreamCarrier api)
               (nativeIntCarrier api)] @
            (process_defaultProcessOperations api)
      in operations)"

section \<open>The contract\<close>

lemmas process_defs = process_moduleSpecifier_def process_defaultId_def process_envId_def
  process_memoryUsageId_def process_writeStreamId_def process_nullableNumberType_def
  process_defaultProcessExport_def process_classExport_def processModule_def
  process_defaultProcessOperations_def process_memoryUsageProperties_def
  processOperations_def process_signalOverload_def processSignalSignatures_def
  signalSignature.select_convs writable_eval

lemma process_implements: "implements (processOperations api) (mod_exports (processModule api))"
  by (rule permCheck_implements)
    (simp only: process_defs point_eval cong: weak_congs, simp only: perm_eval cong: perm_congs)

lemma process_ids:
  "distinct (map exp_id (mod_exports (processModule api))) \<and> moduleScoped (processModule api)"
  by (simp only: process_defs moduleScoped_def id_eval cong: weak_congs)

lemma process_index: "memberIndexWrites (processOperations api)"
  by (simp only: process_defs point_eval cong: weak_congs)

text \<open>
  The native side of the operations has its shape and receivers, and the references of the
  declarations are resolved.
\<close>

lemma process_native: "nativeOperations (processTypes api) (processOperations api)"
  by (simp only: process_defs processTypes_def native_eval cong: weak_congs)

lemma process_refs: "refsResolved (processModule api)"
  by (rule refsResolvedI, simp only: process_defs duplex_source_def duplex_buffer_def
      readableCall_result_def readableCall_size_def writableCall_bufferType_def
      writableCall_chunkType_def writableCall_completionError_def writableLifecycle_errorType_def
      writableLifecycle_nullableError_def writableLifecycle_optionalError_def visible_eval cong:
      weak_congs)
    (simp only: process_defs duplex_source_def duplex_buffer_def readableCall_result_def
      readableCall_size_def writableCall_bufferType_def writableCall_chunkType_def
      writableCall_completionError_def writableLifecycle_errorType_def
      writableLifecycle_nullableError_def writableLifecycle_optionalError_def resolve_eval cong:
      weak_congs)

text \<open>
  Type definitions exist for exactly the declared types with instances, and no point is declared
  twice.
\<close>

lemma process_types: "typesExact (processTypes api) (mod_exports (processModule api))"
  by (rule permCheck_typesExact)
    (simp only: process_defs processTypes_def type_eval cong: weak_congs,
      simp only: perm_eval cong: perm_congs)

lemma process_points: "pointsDistinct (mod_exports (processModule api))"
  by (simp only: process_defs point_eval cong: weak_congs,
      simp only: distinct_eval cong: perm_congs)

interpretation process_component:
  component "[processModule api]" "processOperations api" for api
  by (rule componentI [OF process_implements _ process_index, where P = True]) (simp add: process_ids)

end
