(* ===== verification/Node_Readline.thy ===== *)
theory Node_Readline
  imports Provider_References
begin

text \<open>
  \<^verbatim>\<open>nodejs/src/provider/modules/readline.ts\<close>: the line reader, its options record and
  its events. The producer of its method calls throws on a member it does not know; it is
  shown never to for the calls the module makes.
\<close>

section \<open>Declarations and operations\<close>

definition readline_moduleSpecifier :: "string" where
  "readline_moduleSpecifier = ''node:readline''"

definition readline_optionsId :: "string" where
  "readline_optionsId = readline_moduleSpecifier @ ''::ReadLineOptions''"

definition readline_interfaceId :: "string" where
  "readline_interfaceId = readline_moduleSpecifier @ ''::Interface''"

definition readline_events :: "'o mojoApi \<Rightarrow> 'o nodeEvent list" where
  "readline_events api =
     [\<lparr>ev_suffix = ''line'', ev_names = [''line''],
       ev_parameters =
         [\<lparr>evp_name = ''line'', evp_source = stringType, evp_target = nativeString api\<rparr>]\<rparr>,
      \<lparr>ev_suffix = ''error'', ev_names = [''error''],
       ev_parameters =
         [\<lparr>evp_name = ''error'', evp_source = SourceGlobalT ''Error'' None,
           evp_target = mojoSourceErrorType api\<rparr>]\<rparr>,
      \<lparr>ev_suffix = ''empty'', ev_names = [''pause'', ''resume'', ''close''], ev_parameters = []\<rparr>]"

definition readlineModule :: "'o mojoApi \<Rightarrow> providerModule" where
  "readlineModule api =
     (let callback =
            providerCallbackType (readline_interfaceId @ ''.question(query,callback)'')
              ''callback'' [param ''answer'' stringType]
      in moduleOf readline_moduleSpecifier ''tsonic.mojo.node.readline''
           (Some [importOf ''node:stream'' [''Readable'', ''Writable'']])
           [interfaceDeclaration readline_optionsId ''ReadLineOptions''
              [propertyMemberWith readline_optionsId ''input''
                 (providerRef ''node:stream'' ''Readable'') False False False,
               propertyMemberWith readline_optionsId ''output''
                 (providerRef ''node:stream'' ''Writable'') False False True,
               propertyMemberWith readline_optionsId ''terminal'' booleanType False False True,
               propertyMemberWith readline_optionsId ''prompt'' stringType False False True,
               propertyMemberWith readline_optionsId ''historySize'' numberType False False True,
               propertyMemberWith readline_optionsId ''removeHistoryDuplicates'' booleanType
                 False False True],
            classDeclaration readline_interfaceId ''Interface''
              ((nodeEventMembers readline_moduleSpecifier ''Interface'' (readline_events api)) @
               [methodMember readline_interfaceId ''question''
                  [param ''query'' stringType, param ''callback'' callback] voidType,
                methodMember readline_interfaceId ''write'' [param ''text'' stringType] voidType,
                methodMember readline_interfaceId ''pause'' []
                  (providerRef readline_moduleSpecifier ''Interface''),
                methodMember readline_interfaceId ''resume'' []
                  (providerRef readline_moduleSpecifier ''Interface''),
                methodMember readline_interfaceId ''isPaused'' [] booleanType,
                methodMember readline_interfaceId ''close'' [] voidType,
                methodMember readline_interfaceId ''setPrompt'' [param ''prompt'' stringType]
                  voidType,
                methodMember readline_interfaceId ''getPrompt'' [] stringType,
                methodMember readline_interfaceId ''prompt'' [] voidType,
                propertyMember readline_interfaceId ''line'' stringType,
                propertyMember readline_interfaceId ''cursor'' NumberT,
                propertyMember readline_interfaceId ''terminal'' booleanType]),
            functionDeclaration (readline_moduleSpecifier @ ''::createInterface'')
              ''createInterface'' False
              [plainSignature (readline_moduleSpecifier @ ''::createInterface(options)'')
                 ''createInterface''
                 [param ''options'' (providerRef readline_moduleSpecifier ''ReadLineOptions'')]
                 (providerRef readline_moduleSpecifier ''Interface'')]])"

definition readlineTypes :: "'o mojoApi \<Rightarrow> 'o typeDefinition list" where
  "readlineTypes api =
     [nodeProviderRecordType api readline_optionsId (readlineOptionsCarrier api) Copyable,
      nodeProviderType api readline_interfaceId (readlineInterfaceCarrier api)
        ImplicitlyCopyable]"

definition readline_option ::
    "'o mojoApi \<Rightarrow> string \<Rightarrow> 'o targetType \<Rightarrow> 'o operation list" where
  "readline_option api name type =
     [\<lparr>op_exportId = readline_optionsId, op_memberId = Some (readline_optionsId @ ''.'' @ name),
       op_signatureId = None, op_operationKind = PropertyOperation,
       op_target = PropertyReadTarget MemberAccess name ''imm'',
       op_receiverType = Some (readlineOptionsCarrier api), op_parameterTypes = None,
       op_resultType = type, op_errorType = None, op_raises = False\<rparr>,
      \<lparr>op_exportId = readline_optionsId, op_memberId = Some (readline_optionsId @ ''.'' @ name),
       op_signatureId = None, op_operationKind = PropertySetOperation,
       op_target = PropertyWriteTarget MemberAccess name ''mut'' (argumentOf ''imm''),
       op_receiverType = Some (readlineOptionsCarrier api), op_parameterTypes = Some [type],
       op_resultType = unitCarrier api, op_errorType = None, op_raises = False\<rparr>]"

text \<open>The only member names the switch accepts; any other one throws.\<close>

definition readline_sourceParameterNames :: "string \<Rightarrow> providerError + string" where
  "readline_sourceParameterNames member =
     (if member = ''question'' then Inr ''query,callback''
      else if member = ''write'' then Inr ''text''
      else if member = ''setPrompt'' then Inr ''prompt''
      else if member \<in> set [''pause'', ''resume'', ''isPaused'', ''close'', ''getPrompt'', ''prompt'']
        then Inr ''''
      else Inl (UnknownReadlineMember member))"

definition readline_call ::
    "'o mojoApi \<Rightarrow> string \<Rightarrow> string \<Rightarrow> 'o targetType list \<Rightarrow> 'o targetType \<Rightarrow> bool
      \<Rightarrow> providerError + 'o operation" where
  "readline_call api member name parameters result raises =
     (case readline_sourceParameterNames member of
        Inl e \<Rightarrow> Inl e
      | Inr parameterNames \<Rightarrow> Inr
          \<lparr>op_exportId = readline_interfaceId,
           op_memberId = Some (readline_interfaceId @ ''.'' @ member),
           op_signatureId = Some
             (readline_interfaceId @ ''.'' @ member @ ''('' @ parameterNames @ '')''),
           op_operationKind = CallOperation,
           op_target = InstanceCallTarget name ''mut'' (map (\<lambda>_. argumentOf ''imm'') parameters),
           op_receiverType = Some (readlineInterfaceCarrier api),
           op_parameterTypes = Some parameters, op_resultType = result, op_errorType = None,
           op_raises = raises\<rparr>)"

text \<open>The calls of \<open>readlineOperations\<close>, in the order in which they are made.\<close>

definition readline_calls :: "'o mojoApi \<Rightarrow> (providerError + 'o operation) list" where
  "readline_calls api =
     [readline_call api ''question'' ''question''
        [nativeString api, readlineQuestionCallbackCarrier api] (unitCarrier api) True,
      readline_call api ''write'' ''write'' [nativeString api] (unitCarrier api) True,
      readline_call api ''pause'' ''pause'' [] (readlineInterfaceCarrier api) True,
      readline_call api ''resume'' ''resume'' [] (readlineInterfaceCarrier api) True,
      readline_call api ''isPaused'' ''is_paused'' [] (boolCarrier api) False,
      readline_call api ''close'' ''close'' [] (unitCarrier api) True,
      readline_call api ''setPrompt'' ''set_prompt'' [nativeString api] (unitCarrier api) False,
      readline_call api ''getPrompt'' ''get_prompt'' [] (nativeString api) False,
      readline_call api ''prompt'' ''prompt'' [] (unitCarrier api) True]"

definition readlineOperations :: "'o mojoApi \<Rightarrow> providerError + 'o operation list" where
  "readlineOperations api =
     (let optionalWritable = OptionalTarget (writableCarrier api);
          optionalBool = OptionalTarget (boolCarrier api);
          optionalString = OptionalTarget (nativeString api)
      in case sequenceResults (readline_calls api) of
           Inl e \<Rightarrow> Inl e
         | Inr calls \<Rightarrow> Inr
             (nodeEventOperations api readline_moduleSpecifier ''Interface''
                (readlineInterfaceCarrier api) (readline_events api) @
              readline_option api ''input'' (readableCarrier api) @
              readline_option api ''output'' optionalWritable @
              readline_option api ''terminal'' optionalBool @
              readline_option api ''prompt'' optionalString @
              readline_option api ''historySize'' (OptionalTarget (float64Carrier api)) @
              readline_option api ''removeHistoryDuplicates'' optionalBool @
              [functionCall (readline_moduleSpecifier @ ''::createInterface'')
                 (readline_moduleSpecifier @ ''::createInterface(options)'') ''readline''
                 ''create_interface'' [readlineOptionsCarrier api] (readlineInterfaceCarrier api)
                 True] @
              calls @
              [propertyReadVia MethodAccess readline_interfaceId (readline_interfaceId @ ''.line'')
                 ''line'' (readlineInterfaceCarrier api) (nativeString api),
               propertyReadVia MethodAccess readline_interfaceId
                 (readline_interfaceId @ ''.cursor'') ''cursor'' (readlineInterfaceCarrier api)
                 (float64Carrier api),
               propertyReadVia MethodAccess readline_interfaceId
                 (readline_interfaceId @ ''.terminal'') ''terminal''
                 (readlineInterfaceCarrier api) (boolCarrier api)]))"

section \<open>The contract\<close>

text \<open>The operations that \<open>readlineOperations\<close> returns.\<close>

definition readlineOperationList :: "'o mojoApi \<Rightarrow> 'o operation list" where
  "readlineOperationList api =
     (case readlineOperations api of Inl e \<Rightarrow> [] | Inr operations \<Rightarrow> operations)"

lemmas readline_call_eval = readline_calls_def readline_call_def readline_sourceParameterNames_def
  list.set insert_iff empty_iff list.inject list.distinct char.inject simp_thms if_True if_False
  sum.case sequenceResults.simps Let_def

lemma readlineOperations_returns: "readlineOperations api = Inr (readlineOperationList api)"
  by (simp only: readlineOperationList_def readlineOperations_def readline_call_eval
      cong: if_weak_cong)

lemmas readline_defs = readline_moduleSpecifier_def readline_optionsId_def readline_interfaceId_def
  readline_events_def readlineModule_def readline_option_def readlineOperationList_def
  readlineOperations_def readline_call_eval

lemma readline_implements:
  "implements (readlineOperationList api) (mod_exports (readlineModule api))"
  by (rule permCheck_implements)
    (simp only: readline_defs event_eval point_eval cong: weak_congs,
      simp only: perm_eval cong: perm_congs)

lemma readline_ids:
  "distinct (map exp_id (mod_exports (readlineModule api))) \<and> moduleScoped (readlineModule api) \<and>
   defaultFree (readlineModule api)"
  by (simp only: readline_defs moduleScoped_def defaultFree_def id_eval cong: weak_congs)

lemma readline_index: "memberIndexWrites (readlineOperationList api)"
  by (simp only: readline_defs point_eval cong: weak_congs)

text \<open>
  The native side of the operations has its shape and receivers, and the references of the
  declarations are resolved.
\<close>

lemma readline_native: "nativeOperations (readlineTypes api) (readlineOperationList api)"
  by (simp only: readline_defs event_eval readlineTypes_def native_eval cong: weak_congs)

lemma readline_refs: "refsResolved (readlineModule api)"
  by (rule refsResolvedI, simp only: readline_defs event_eval visible_eval cong: weak_congs)
    (simp only: readline_defs event_eval resolve_eval cong: weak_congs)

text \<open>
  Type definitions exist for exactly the declared types with instances, and no point is declared
  twice.
\<close>

lemma readline_types: "typesExact (readlineTypes api) (mod_exports (readlineModule api))"
  by (rule permCheck_typesExact)
    (simp only: readline_defs event_eval readlineTypes_def type_eval cong: weak_congs,
      simp only: perm_eval cong: perm_congs)

lemma readline_points: "pointsDistinct (mod_exports (readlineModule api))"
  by (simp only: readline_defs event_eval point_eval cong: weak_congs,
      simp only: distinct_eval cong: perm_congs)

interpretation readline_component:
  component "[readlineModule api]" "readlineOperationList api" for api
  by (rule componentI [OF readline_implements readline_ids readline_index])

end
