(* ===== verification/Node_Stream.thy ===== *)
theory Node_Stream
  imports Node_Stream_Parts
begin

text \<open>
  \<^verbatim>\<open>nodejs/src/provider/modules/stream.ts\<close>: the module \<open>node:stream\<close> with
  \<open>Duplex\<close>, \<open>Readable\<close> and \<open>Writable\<close>.
\<close>

section \<open>Declarations and operations\<close>

definition stream_moduleSpecifier :: "string" where
  "stream_moduleSpecifier = ''node:stream''"

definition stream_readableId :: "string" where
  "stream_readableId = stream_moduleSpecifier @ ''::Readable''"

definition stream_writableId :: "string" where
  "stream_writableId = stream_moduleSpecifier @ ''::Writable''"

definition streamModule :: "'o mojoApi \<Rightarrow> providerModule" where
  "streamModule api =
     moduleOf stream_moduleSpecifier ''tsonic.mojo.node.stream''
       (Some
          [importOf ''node:buffer'' [''Buffer''], importOf ''node:http'' [''ServerResponse'']])
       [duplexExport api,
        classDeclaration stream_readableId ''Readable''
          ([readableReadMember stream_readableId] @
           (readableEventMembers api stream_moduleSpecifier ''Readable'') @
           [methodMember stream_readableId ''setEncoding'' [param ''encoding'' stringType]
              (providerRef stream_moduleSpecifier ''Readable''),
            callableMember (stream_readableId @ ''.pipe'') ''pipe'' MethodMember False
              [plainSignature (stream_readableId @ ''.pipe(writable)'') ''pipe''
                 [param ''destination'' (providerRef stream_moduleSpecifier ''Writable'')]
                 (providerRef stream_moduleSpecifier ''Writable''),
               plainSignature (stream_readableId @ ''.pipe(serverResponse)'') ''pipe''
                 [param ''destination'' (providerRef ''node:http'' ''ServerResponse'')]
                 (providerRef ''node:http'' ''ServerResponse'')],
            methodMember stream_readableId ''pause'' []
              (providerRef stream_moduleSpecifier ''Readable''),
            methodMember stream_readableId ''resume'' []
              (providerRef stream_moduleSpecifier ''Readable''),
            methodMember stream_readableId ''isPaused'' [] booleanType,
            propertyMember stream_readableId ''readable'' booleanType,
            propertyMember stream_readableId ''readableEnded'' booleanType]),
        classDeclaration stream_writableId ''Writable''
          ((writableCallMembers api stream_writableId
              (providerRef stream_moduleSpecifier ''Writable'')) @
           (writableEventMembers api stream_moduleSpecifier ''Writable'') @
           (writableLifecycleMembers api stream_writableId
              (providerRef stream_moduleSpecifier ''Writable'')))]"

definition streamTypes :: "'o mojoApi \<Rightarrow> 'o typeDefinition list" where
  "streamTypes api =
     [nodeProviderType api stream_readableId (readableCarrier api) ImplicitlyCopyable,
      duplexType api,
      nodeProviderType api stream_writableId (writableCarrier api) ImplicitlyCopyable]"

definition streamOperations :: "'o mojoApi \<Rightarrow> 'o operation list" where
  "streamOperations api =
     (readableReadOperations api stream_readableId (readableCarrier api)) @
     (duplexOperations api) @
     (readableEventOperations api stream_moduleSpecifier ''Readable'' (readableCarrier api)) @
     [instanceCall stream_readableId (stream_readableId @ ''.setEncoding'')
        (stream_readableId @ ''.setEncoding(encoding)'') ''set_encoding'' (readableCarrier api)
        [nativeString api] (readableCarrier api) True ''mut'',
      instanceCall stream_readableId (stream_readableId @ ''.pipe'')
        (stream_readableId @ ''.pipe(writable)'') ''pipe_to'' (readableCarrier api)
        [writableCarrier api] (writableCarrier api) True ''mut'',
      instanceCall stream_readableId (stream_readableId @ ''.pipe'')
        (stream_readableId @ ''.pipe(serverResponse)'') ''pipe_to_response''
        (readableCarrier api) [httpServerResponseCarrier api] (httpServerResponseCarrier api)
        True ''mut'',
      instanceCall stream_readableId (stream_readableId @ ''.pause'')
        (stream_readableId @ ''.pause()'') ''pause'' (readableCarrier api) []
        (readableCarrier api) True ''mut'',
      instanceCall stream_readableId (stream_readableId @ ''.resume'')
        (stream_readableId @ ''.resume()'') ''resume'' (readableCarrier api) []
        (readableCarrier api) True ''mut'',
      instanceCall stream_readableId (stream_readableId @ ''.isPaused'')
        (stream_readableId @ ''.isPaused()'') ''is_paused'' (readableCarrier api) []
        (boolCarrier api) False ''imm''] @
     (writableCallOperations api stream_writableId (writableCarrier api)) @
     (writableEventOperations api stream_moduleSpecifier ''Writable'' (writableCarrier api)) @
     (writableLifecycleOperations api stream_writableId (writableCarrier api)) @
     (map
        (\<lambda>(ident, carrier, name, target).
           (propertyReadVia MethodAccess ident (ident @ ''.'' @ name) target carrier
              (boolCarrier api)))
        [(stream_readableId, (readableCarrier api), ''readable'', ''readable''),
         (stream_readableId, (readableCarrier api), ''readableEnded'', ''readable_ended'')])"

section \<open>The contract\<close>

lemmas stream_defs = stream_moduleSpecifier_def stream_readableId_def stream_writableId_def
  streamModule_def streamOperations_def
  writable_eval readable_eval duplex_eval

lemma stream_implements: "implements (streamOperations api) (mod_exports (streamModule api))"
  by (rule permCheck_implements)
    (simp only: stream_defs point_eval cong: weak_congs, simp only: perm_eval cong: perm_congs)

lemma stream_ids:
  "distinct (map exp_id (mod_exports (streamModule api))) \<and> moduleScoped (streamModule api) \<and>
   defaultFree (streamModule api)"
  by (simp only: stream_defs moduleScoped_def defaultFree_def id_eval cong: weak_congs)

lemma stream_index: "memberIndexWrites (streamOperations api)"
  by (simp only: stream_defs point_eval cong: weak_congs)

text \<open>
  The native side of the operations has its shape and receivers, and the references of the
  declarations are resolved.
\<close>

lemma stream_native: "nativeOperations (streamTypes api) (streamOperations api)"
  by (simp only: stream_defs streamTypes_def duplexType_def native_eval cong: weak_congs)

lemma stream_refs: "refsResolved (streamModule api)"
  by (rule refsResolvedI, simp only: stream_defs duplex_source_def duplex_buffer_def
      readableCall_result_def readableCall_size_def writableCall_bufferType_def
      writableCall_chunkType_def writableCall_completionError_def writableLifecycle_errorType_def
      writableLifecycle_nullableError_def writableLifecycle_optionalError_def visible_eval cong:
      weak_congs)
    (simp only: stream_defs duplex_source_def duplex_buffer_def readableCall_result_def
      readableCall_size_def writableCall_bufferType_def writableCall_chunkType_def
      writableCall_completionError_def writableLifecycle_errorType_def
      writableLifecycle_nullableError_def writableLifecycle_optionalError_def resolve_eval cong:
      weak_congs)

text \<open>
  Type definitions exist for exactly the declared types with instances, and no point is declared
  twice.
\<close>

lemma stream_types: "typesExact (streamTypes api) (mod_exports (streamModule api))"
  by (rule permCheck_typesExact)
    (simp only: stream_defs streamTypes_def duplexType_def type_eval cong: weak_congs,
      simp only: perm_eval cong: perm_congs)

lemma stream_points: "pointsDistinct (mod_exports (streamModule api))"
  by (simp only: stream_defs point_eval cong: weak_congs,
      simp only: distinct_eval cong: perm_congs)

interpretation stream_component:
  component "[streamModule api]" "streamOperations api" for api
  by (rule componentI [OF stream_implements stream_ids stream_index])

end
