(* ===== verification/Node_Timers.thy ===== *)
theory Node_Timers
  imports Provider_References
begin

text \<open>
  \<^verbatim>\<open>nodejs/src/provider/modules/timers.ts\<close>: the class \<open>Timeout\<close> and the functions
  that make and clear timers.
\<close>

section \<open>Declarations and operations\<close>

definition timers_moduleSpecifier :: "string" where
  "timers_moduleSpecifier = ''node:timers''"

definition timers_timeoutId :: "string" where
  "timers_timeoutId = timers_moduleSpecifier @ ''::Timeout''"

definition timersModule :: "providerModule" where
  "timersModule =
     (let timeoutCallback =
            providerCallbackType (timers_moduleSpecifier @ ''::setTimeout(callback,delay)'')
              ''callback'' [];
          intervalCallback =
            providerCallbackType (timers_moduleSpecifier @ ''::setInterval(callback,delay)'')
              ''callback'' []
      in moduleOf timers_moduleSpecifier ''tsonic.mojo.node.timers'' None
           [classDeclaration timers_timeoutId ''Timeout''
              [methodMember timers_timeoutId ''hasRef'' [] BooleanT,
               methodMember timers_timeoutId ''ref'' []
                 (providerRef timers_moduleSpecifier ''Timeout''),
               methodMember timers_timeoutId ''unref'' []
                 (providerRef timers_moduleSpecifier ''Timeout''),
               methodMember timers_timeoutId ''refresh'' []
                 (providerRef timers_moduleSpecifier ''Timeout''),
               methodMember timers_timeoutId ''close'' []
                 (providerRef timers_moduleSpecifier ''Timeout'')],
            fnExport timers_moduleSpecifier ''setTimeout''
              [param ''callback'' timeoutCallback, param ''delay'' int32Type]
              (providerRef timers_moduleSpecifier ''Timeout''),
            fnExport timers_moduleSpecifier ''setInterval''
              [param ''callback'' intervalCallback, param ''delay'' int32Type]
              (providerRef timers_moduleSpecifier ''Timeout''),
            fnExport timers_moduleSpecifier ''clearTimeout''
              [param ''timeout'' (providerRef timers_moduleSpecifier ''Timeout'')] voidType,
            fnExport timers_moduleSpecifier ''clearInterval''
              [param ''timeout'' (providerRef timers_moduleSpecifier ''Timeout'')] voidType])"

definition timersTypes :: "'o mojoApi \<Rightarrow> 'o typeDefinition list" where
  "timersTypes api =
     [nodeProviderType api timers_timeoutId (timeoutCarrier api) ImplicitlyCopyable]"

definition timersOperations :: "'o mojoApi \<Rightarrow> 'o operation list" where
  "timersOperations api =
     (let functionOperation =
            \<lambda>name targetName.
              \<lparr>op_exportId = timers_moduleSpecifier @ ''::'' @ name, op_memberId = None,
               op_signatureId = Some
                 (timers_moduleSpecifier @ ''::'' @ name @ ''(callback,delay)''),
               op_operationKind = CallOperation,
               op_target = FunctionCallTarget [''tsonic_node'', ''timers''] targetName []
                 [argumentOf ''imm'', argumentOf ''imm''] None, op_receiverType = None,
               op_parameterTypes = Some [emptyCallbackCarrier api, int32Carrier api],
               op_resultType = timeoutCarrier api, op_errorType = None, op_raises = True\<rparr>;
          clearOperation =
            \<lambda>name targetName.
              \<lparr>op_exportId = timers_moduleSpecifier @ ''::'' @ name, op_memberId = None,
               op_signatureId = Some (timers_moduleSpecifier @ ''::'' @ name @ ''(timeout)''),
               op_operationKind = CallOperation,
               op_target = FunctionCallTarget [''tsonic_node'', ''timers''] targetName []
                 [argumentOf ''imm''] None, op_receiverType = None,
               op_parameterTypes = Some [timeoutCarrier api], op_resultType = unitCarrier api,
               op_errorType = None, op_raises = False\<rparr>
      in [functionOperation ''setTimeout'' ''set_timeout'',
          functionOperation ''setInterval'' ''set_interval'',
          clearOperation ''clearTimeout'' ''clear_timeout'',
          clearOperation ''clearInterval'' ''clear_interval'',
          instanceCall timers_timeoutId (timers_timeoutId @ ''.hasRef'')
            (timers_timeoutId @ ''.hasRef()'') ''has_ref'' (timeoutCarrier api) []
            (boolCarrier api) False ''imm'',
          instanceCall timers_timeoutId (timers_timeoutId @ ''.ref'')
            (timers_timeoutId @ ''.ref()'') ''ref'' (timeoutCarrier api) [] (timeoutCarrier api)
            False ''imm'',
          instanceCall timers_timeoutId (timers_timeoutId @ ''.unref'')
            (timers_timeoutId @ ''.unref()'') ''unref'' (timeoutCarrier api) []
            (timeoutCarrier api) False ''imm'',
          instanceCall timers_timeoutId (timers_timeoutId @ ''.refresh'')
            (timers_timeoutId @ ''.refresh()'') ''refresh'' (timeoutCarrier api) []
            (timeoutCarrier api) False ''imm'',
          instanceCall timers_timeoutId (timers_timeoutId @ ''.close'')
            (timers_timeoutId @ ''.close()'') ''close'' (timeoutCarrier api) []
            (timeoutCarrier api) False ''imm''])"

section \<open>The contract\<close>

lemmas timers_defs = timers_moduleSpecifier_def timers_timeoutId_def timersModule_def
  timersOperations_def

lemma timers_implements: "implements (timersOperations api) (mod_exports timersModule)"
  by (rule permCheck_implements)
    (simp only: timers_defs point_eval cong: weak_congs, simp only: perm_eval cong: perm_congs)

lemma timers_ids:
  "distinct (map exp_id (mod_exports timersModule)) \<and> moduleScoped timersModule \<and>
   defaultFree timersModule"
  by (simp only: timers_defs moduleScoped_def defaultFree_def id_eval cong: weak_congs)

lemma timers_index: "memberIndexWrites (timersOperations api)"
  by (simp only: timers_defs point_eval cong: weak_congs)

text \<open>
  The native side of the operations has its shape and receivers, and the references of the
  declarations are resolved.
\<close>

lemma timers_native: "nativeOperations (timersTypes api) (timersOperations api)"
  by (simp only: timers_defs timersTypes_def native_eval cong: weak_congs)

lemma timers_refs: "refsResolved timersModule"
  by (rule refsResolvedI, simp only: timers_defs visible_eval cong: weak_congs)
    (simp only: timers_defs resolve_eval cong: weak_congs)

text \<open>
  Type definitions exist for exactly the declared types with instances, and no point is declared
  twice.
\<close>

lemma timers_types: "typesExact (timersTypes api) (mod_exports timersModule)"
  by (rule permCheck_typesExact)
    (simp only: timers_defs timersTypes_def type_eval cong: weak_congs,
      simp only: perm_eval cong: perm_congs)

lemma timers_points: "pointsDistinct (mod_exports timersModule)"
  by (simp only: timers_defs point_eval cong: weak_congs,
      simp only: distinct_eval cong: perm_congs)

interpretation timers_component:
  component "[timersModule]" "timersOperations api" for api
  by (rule componentI [OF timers_implements timers_ids timers_index])

end
