(* ===== verification/Node_Tls.thy ===== *)
theory Node_Tls
  imports Node_Tls_Options Node_Net_Parts Node_Stream_Parts
begin

text \<open>
  \<^verbatim>\<open>nodejs/src/provider/modules/tls/events.ts\<close> and
  \<^verbatim>\<open>tls/index.ts\<close>: secure sockets
  and servers.
\<close>

section \<open>Events (tls/events.ts)\<close>

definition tlsEvent_error :: "'o mojoApi \<Rightarrow> 'o eventParameter" where
  "tlsEvent_error api =
     \<lparr>evp_name = ''error'', evp_source = SourceGlobalT ''Error'' None,
      evp_target = mojoSourceErrorType api\<rparr>"

definition tlsEvent_socket :: "'o mojoApi \<Rightarrow> 'o eventParameter" where
  "tlsEvent_socket api =
     \<lparr>evp_name = ''socket'', evp_source = providerRef ''node:tls'' ''TLSSocket'',
      evp_target = tlsSocketCarrier api\<rparr>"

definition tlsEvent_errorEvent :: "'o mojoApi \<Rightarrow> 'o nodeEvent" where
  "tlsEvent_errorEvent api =
     \<lparr>ev_suffix = ''error'', ev_names = [''error''], ev_parameters = [tlsEvent_error api]\<rparr>"

definition tlsEvent_socketEvents :: "'o mojoApi \<Rightarrow> 'o nodeEvent list" where
  "tlsEvent_socketEvents api =
     [\<lparr>ev_suffix = ''data'', ev_names = [''data''],
       ev_parameters =
         [\<lparr>evp_name = ''chunk'', evp_source = providerRef ''node:buffer'' ''Buffer'',
           evp_target = bufferCarrier api\<rparr>]\<rparr>,
      tlsEvent_errorEvent api,
      \<lparr>ev_suffix = ''close'', ev_names = [''close''],
       ev_parameters =
         [\<lparr>evp_name = ''hadError'', evp_source = booleanType, evp_target = boolCarrier api\<rparr>]\<rparr>,
      \<lparr>ev_suffix = ''empty'',
       ev_names = [''secureConnect'', ''drain'', ''end'', ''finish'', ''readable'', ''timeout''],
       ev_parameters = []\<rparr>]"

definition tlsEvent_serverEvents :: "'o mojoApi \<Rightarrow> 'o nodeEvent list" where
  "tlsEvent_serverEvents api =
     [\<lparr>ev_suffix = ''tls_client_error'', ev_names = [''tlsClientError''],
       ev_parameters = [tlsEvent_error api, tlsEvent_socket api]\<rparr>,
      \<lparr>ev_suffix = ''connection'', ev_names = [''secureConnection''],
       ev_parameters = [tlsEvent_socket api]\<rparr>,
      tlsEvent_errorEvent api,
      \<lparr>ev_suffix = ''empty'', ev_names = [''listening'', ''close''], ev_parameters = []\<rparr>]"

definition tlsEventMembers ::
    "'o mojoApi \<Rightarrow> string \<Rightarrow> providerMember list" where
  "tlsEventMembers api name =
     nodeEventMembers ''node:tls'' name
       (if (name = ''TLSSocket'') then (tlsEvent_socketEvents api) else
          (tlsEvent_serverEvents api))"

definition tlsEventOperations ::
    "'o mojoApi \<Rightarrow> string \<Rightarrow> 'o targetType \<Rightarrow> 'o operation list" where
  "tlsEventOperations api name receiver =
     nodeEventOperations api ''node:tls'' name receiver
       (if (name = ''TLSSocket'') then (tlsEvent_socketEvents api) else
          (tlsEvent_serverEvents api))"

section \<open>The module (tls/index.ts)\<close>

definition tls_moduleSpecifier :: "string" where
  "tls_moduleSpecifier = ''node:tls''"

definition tls_connectOptionsId :: "string" where
  "tls_connectOptionsId = tls_moduleSpecifier @ ''::ConnectionOptions''"

definition tls_serverOptionsId :: "string" where
  "tls_serverOptionsId = tls_moduleSpecifier @ ''::TlsOptions''"

definition tls_socketId :: "string" where
  "tls_socketId = tls_moduleSpecifier @ ''::TLSSocket''"

definition tls_serverId :: "string" where
  "tls_serverId = tls_moduleSpecifier @ ''::Server''"

definition tls_bufferType :: "providerType" where
  "tls_bufferType = providerRef ''node:buffer'' ''Buffer''"

definition tls_optionalBufferType :: "providerType" where
  "tls_optionalBufferType = UnionT [tls_bufferType, nullType]"

definition tls_optionalStringType :: "providerType" where
  "tls_optionalStringType = UnionT [stringType, undefinedType]"

definition tls_negotiatedStringType :: "providerType" where
  "tls_negotiatedStringType = UnionT [stringType, LiteralT (BoolLiteral False)]"

definition tls_negotiatedStringCarrier :: "'o mojoApi \<Rightarrow> 'o targetType" where
  "tls_negotiatedStringCarrier api =
     mojoUnionTargetType api [nativeString api, boolCarrier api]"

definition tlsModule :: "'o mojoApi \<Rightarrow> providerModule" where
  "tlsModule api =
     moduleOf tls_moduleSpecifier ''tsonic.mojo.node.tls''
       (Some
          [importOf ''node:buffer'' [''Buffer''],
           importOf ''node:net'' ([''AddressInfo''] @ imp_namedImports listenOptionsImport)])
       [interfaceDeclaration ''node:tls::SecureContext'' ''SecureContext'' [],
        tlsOptionDeclaration ''node:tls::SecureContextOptions'' ''SecureContextOptions''
          (secureContextFields api),
        overloadedFunctionExport tls_moduleSpecifier ''createSecureContext''
          [overloadOf [] (providerRef tls_moduleSpecifier ''SecureContext''),
           overloadOf
             [param ''options'' (providerRef tls_moduleSpecifier ''SecureContextOptions'')]
             (providerRef tls_moduleSpecifier ''SecureContext'')],
        tlsOptionDeclaration tls_connectOptionsId ''ConnectionOptions''
          (tlsConnectionFields api),
        tlsOptionDeclaration tls_serverOptionsId ''TlsOptions'' (tlsServerFields api),
        classDeclaration tls_socketId ''TLSSocket''
          ((tlsEventMembers api ''TLSSocket'') @
           [methodMember tls_socketId ''isPaused'' [] booleanType,
            overloadedMethodMember tls_socketId ''write''
              [overloadAs ''buffer'' [param ''value'' tls_bufferType] booleanType,
               overloadAs ''string'' [param ''value'' stringType] booleanType],
            callableMember (tls_socketId @ ''.read'') ''read'' MethodMember False
              [plainSignature (tls_socketId @ ''.read()'') ''read'' [] tls_optionalBufferType],
            overloadedMethodMember tls_socketId ''end''
              [overloadAs '''' [] (providerRef tls_moduleSpecifier ''TLSSocket''),
               overloadAs ''buffer'' [param ''data'' tls_bufferType]
                 (providerRef tls_moduleSpecifier ''TLSSocket''),
               overloadAs ''string'' [param ''data'' stringType]
                 (providerRef tls_moduleSpecifier ''TLSSocket'')],
            overloadedMethodMember tls_socketId ''setNoDelay''
              [overloadAs '''' [] (providerRef tls_moduleSpecifier ''TLSSocket''),
               overloadAs ''value'' [param ''value'' booleanType]
                 (providerRef tls_moduleSpecifier ''TLSSocket'')],
            overloadedMethodMember tls_socketId ''setTimeout''
              [overloadAs ''timeout'' [param ''timeout'' numberType]
                 (providerRef tls_moduleSpecifier ''TLSSocket''),
               overloadAs ''timeout,callback''
                 [param ''timeout'' numberType,
                  param ''callback''
                    (providerCallbackType (tls_socketId @ ''.setTimeout(timeout,callback)'')
                       ''callback'' [])] (providerRef tls_moduleSpecifier ''TLSSocket'')]] @
           (map
              (\<lambda>name.
                 (callableMember (tls_socketId @ ''.'' @ name) name MethodMember False
                    [plainSignature (tls_socketId @ ''.'' @ name @ ''()'') name []
                       (providerRef tls_moduleSpecifier ''TLSSocket'')]))
              [''ref'', ''unref'', ''pause'', ''resume'', ''destroy'']) @
           [propertyMember tls_socketId ''authorized'' booleanType,
            propertyMember tls_socketId ''authorizationError'' tls_optionalStringType,
            propertyMember tls_socketId ''encrypted'' booleanType,
            propertyMember tls_socketId ''servername''
              (UnionT [tls_negotiatedStringType, nullType]),
            propertyMember tls_socketId ''alpnProtocol'' tls_negotiatedStringType,
            propertyMember tls_socketId ''bytesRead'' numberType,
            propertyMember tls_socketId ''bytesWritten'' numberType,
            propertyMember tls_socketId ''destroyed'' booleanType]),
        classDeclaration tls_serverId ''Server''
          ((tlsEventMembers api ''Server'') @
           [methodMember tls_serverId ''address'' [] (UnionT [addressType, nullType]),
            serverListenMember api tls_moduleSpecifier] @
           (map
              (\<lambda>name.
                 (callableMember (tls_serverId @ ''.'' @ name) name MethodMember False
                    [plainSignature (tls_serverId @ ''.'' @ name @ ''()'') name []
                       (providerRef tls_moduleSpecifier ''Server'')]))
              [''close'', ''ref'', ''unref'']) @
           [propertyMember tls_serverId ''listening'' booleanType]),
        functionDeclaration (tls_moduleSpecifier @ ''::connect'') ''connect'' False
          [plainSignature (tls_moduleSpecifier @ ''::connect(options)'') ''connect''
             [param ''options'' (providerRef tls_moduleSpecifier ''ConnectionOptions'')]
             (providerRef tls_moduleSpecifier ''TLSSocket''),
           plainSignature (tls_moduleSpecifier @ ''::connect(options,callback)'') ''connect''
             [param ''options'' (providerRef tls_moduleSpecifier ''ConnectionOptions''),
              param ''callback''
                (providerCallbackType (tls_moduleSpecifier @ ''::connect(options,callback)'')
                   ''callback'' [])] (providerRef tls_moduleSpecifier ''TLSSocket'')],
        functionDeclaration (tls_moduleSpecifier @ ''::createServer'') ''createServer'' False
          [plainSignature (tls_moduleSpecifier @ ''::createServer(options)'') ''createServer''
             [param ''options'' (providerRef tls_moduleSpecifier ''TlsOptions'')]
             (providerRef tls_moduleSpecifier ''Server''),
           plainSignature (tls_moduleSpecifier @ ''::createServer(options,callback)'')
             ''createServer''
             [param ''options'' (providerRef tls_moduleSpecifier ''TlsOptions''),
              param ''callback''
                (providerCallbackType
                   (tls_moduleSpecifier @ ''::createServer(options,callback)'') ''callback''
                   [param ''socket'' (providerRef tls_moduleSpecifier ''TLSSocket'')])]
             (providerRef tls_moduleSpecifier ''Server'')]]"

definition tlsTypes :: "'o mojoApi \<Rightarrow> 'o typeDefinition list" where
  "tlsTypes api =
     [nodeProviderType api ''node:tls::SecureContext'' (secureContextCarrier api)
        ImplicitlyCopyable,
      nodeProviderRecordType api ''node:tls::SecureContextOptions''
        (secureContextOptionsCarrier api) Copyable,
      nodeProviderRecordType api tls_connectOptionsId (tlsConnectOptionsCarrier api) Copyable,
      nodeProviderRecordType api tls_serverOptionsId (tlsServerOptionsCarrier api) Copyable,
      withDuplexView api
        (nodeProviderType api tls_socketId (tlsSocketCarrier api) ImplicitlyCopyable) ''tls'',
      nodeProviderType api tls_serverId (tlsServerCarrier api) ImplicitlyCopyable]"

definition tls_socketCall ::
    "'o mojoApi \<Rightarrow> string \<Rightarrow> string option \<Rightarrow>
      string \<Rightarrow> 'o targetType list \<Rightarrow> 'o targetType \<Rightarrow>
      bool \<Rightarrow> 'o operation" where
  "tls_socketCall api member signature targetName parameters resultType raises =
     instanceCall tls_socketId (tls_socketId @ ''.'' @ member)
       (tls_socketId @
        ''.'' @
        member @
        ''('' @
        (case signature of None \<Rightarrow> '''' | Some value \<Rightarrow> value) @
        '')'') targetName (tlsSocketCarrier api) parameters resultType raises ''mut''"

definition tls_socketProperty ::
    "'o mojoApi \<Rightarrow> string \<Rightarrow> string \<Rightarrow>
      'o targetType \<Rightarrow> 'o operation list" where
  "tls_socketProperty api member targetName resultType =
     [propertyReadVia MethodAccess tls_socketId (tls_socketId @ ''.'' @ member) targetName
        (tlsSocketCarrier api) resultType]"

definition tlsOperations :: "'o mojoApi \<Rightarrow> 'o operation list" where
  "tlsOperations api =
     (let rows =
            (tlsOptionOperations api ''node:tls::SecureContextOptions''
               (secureContextOptionsCarrier api) (secureContextFields api)) @
            [functionCall ''node:tls::createSecureContext'' ''node:tls::createSecureContext()''
               ''tls'' ''create_secure_context'' [] (secureContextCarrier api) True,
             functionCall ''node:tls::createSecureContext''
               ''node:tls::createSecureContext(options)'' ''tls'' ''create_secure_context''
               [secureContextOptionsCarrier api] (secureContextCarrier api) True] @
            (tlsEventOperations api ''TLSSocket'' (tlsSocketCarrier api)) @
            (tlsEventOperations api ''Server'' (tlsServerCarrier api)) @
            (tlsOptionOperations api tls_connectOptionsId (tlsConnectOptionsCarrier api)
               (tlsConnectionFields api)) @
            (tlsOptionOperations api tls_serverOptionsId (tlsServerOptionsCarrier api)
               (tlsServerFields api)) @
            [functionCall (tls_moduleSpecifier @ ''::connect'')
               (tls_moduleSpecifier @ ''::connect(options)'') ''tls'' ''connect''
               [tlsConnectOptionsCarrier api] (tlsSocketCarrier api) True,
             functionCall (tls_moduleSpecifier @ ''::connect'')
               (tls_moduleSpecifier @ ''::connect(options,callback)'') ''tls''
               ''connect_callback'' [tlsConnectOptionsCarrier api, emptyCallbackCarrier api]
               (tlsSocketCarrier api) True,
             functionCall (tls_moduleSpecifier @ ''::createServer'')
               (tls_moduleSpecifier @ ''::createServer(options,callback)'') ''tls''
               ''create_server'' [tlsServerOptionsCarrier api, tlsSocketCallbackCarrier api]
               (tlsServerCarrier api) True,
             tls_socketCall api ''write'' (Some ''buffer'') ''write_buffer'' [bufferCarrier api]
               (boolCarrier api) True,
             tls_socketCall api ''write'' (Some ''string'') ''write_string'' [nativeString api]
               (boolCarrier api) True,
             tls_socketCall api ''read'' None ''read'' []
               (mojoOptionalTargetType api (bufferCarrier api)) True,
             tls_socketCall api ''end'' None ''end'' [] (tlsSocketCarrier api) True,
             tls_socketCall api ''end'' (Some ''buffer'') ''end_buffer'' [bufferCarrier api]
               (tlsSocketCarrier api) True,
             tls_socketCall api ''end'' (Some ''string'') ''end_string'' [nativeString api]
               (tlsSocketCarrier api) True,
             tls_socketCall api ''setNoDelay'' None ''set_no_delay'' [] (tlsSocketCarrier api)
               True,
             tls_socketCall api ''setNoDelay'' (Some ''value'') ''set_no_delay''
               [boolCarrier api] (tlsSocketCarrier api) True,
             tls_socketCall api ''setTimeout'' (Some ''timeout'') ''set_timeout''
               [float64Carrier api] (tlsSocketCarrier api) True,
             tls_socketCall api ''setTimeout'' (Some ''timeout,callback'')
               ''set_timeout_callback'' [float64Carrier api, emptyCallbackCarrier api]
               (tlsSocketCarrier api) True,
             tls_socketCall api ''isPaused'' None ''is_paused'' [] (boolCarrier api) False] @
            (map
               (\<lambda>name.
                  (tls_socketCall api name None name [] (tlsSocketCarrier api) False))
               [''pause'', ''resume'', ''destroy'']) @
            [tls_socketCall api ''ref'' None ''ref'' [] (tlsSocketCarrier api) False,
             tls_socketCall api ''unref'' None ''unref'' [] (tlsSocketCarrier api) False] @
            (tls_socketProperty api ''authorized'' ''authorized'' (boolCarrier api)) @
            (tls_socketProperty api ''authorizationError'' ''authorization_error''
               (mojoOptionalTargetType api (nativeString api))) @
            (tls_socketProperty api ''encrypted'' ''encrypted'' (boolCarrier api)) @
            (tls_socketProperty api ''servername'' ''servername_value''
               (mojoOptionalTargetType api (tls_negotiatedStringCarrier api))) @
            (tls_socketProperty api ''alpnProtocol'' ''alpn_protocol''
               (tls_negotiatedStringCarrier api)) @
            (tls_socketProperty api ''bytesRead'' ''bytes_read'' (float64Carrier api)) @
            (tls_socketProperty api ''bytesWritten'' ''bytes_written'' (float64Carrier api)) @
            (tls_socketProperty api ''destroyed'' ''closed'' (boolCarrier api)) @
            [functionCall (tls_moduleSpecifier @ ''::createServer'')
               (tls_moduleSpecifier @ ''::createServer(options)'') ''tls'' ''create_server''
               [tlsServerOptionsCarrier api] (tlsServerCarrier api) True,
             instanceCall tls_serverId (tls_serverId @ ''.address'')
               (tls_serverId @ ''.address()'') ''address'' (tlsServerCarrier api) []
               (mojoOptionalTargetType api (addressCarrier api)) True ''imm''] @
            (serverListenOperations api tls_moduleSpecifier (tlsServerCarrier api)) @
            [instanceCall tls_serverId (tls_serverId @ ''.close'') (tls_serverId @ ''.close()'')
               ''close'' (tlsServerCarrier api) [] (tlsServerCarrier api) True ''mut'',
             instanceCall tls_serverId (tls_serverId @ ''.ref'') (tls_serverId @ ''.ref()'')
               ''ref'' (tlsServerCarrier api) [] (tlsServerCarrier api) False ''mut'',
             instanceCall tls_serverId (tls_serverId @ ''.unref'') (tls_serverId @ ''.unref()'')
               ''unref'' (tlsServerCarrier api) [] (tlsServerCarrier api) False ''mut'',
             propertyReadVia MethodAccess tls_serverId (tls_serverId @ ''.listening'')
               ''listening'' (tlsServerCarrier api) (boolCarrier api)]
      in rows)"

section \<open>The contract\<close>

lemmas tls_defs = tlsEvent_error_def tlsEvent_socket_def tlsEvent_errorEvent_def
  tlsEvent_socketEvents_def tlsEvent_serverEvents_def tlsEventMembers_def
  tlsEventOperations_def tls_moduleSpecifier_def tls_connectOptionsId_def
  tls_serverOptionsId_def tls_socketId_def tls_serverId_def tls_bufferType_def
  tls_optionalBufferType_def tls_optionalStringType_def tls_negotiatedStringType_def
  tls_negotiatedStringCarrier_def tlsModule_def tls_socketCall_def tls_socketProperty_def
  tlsOperations_def
  tls_option_eval net_eval

lemma tls_implements: "implements (tlsOperations api) (mod_exports (tlsModule api))"
  by (rule permCheck_implements)
    (simp only: tls_defs point_eval cong: weak_congs, simp only: perm_eval cong: perm_congs)

lemma tls_ids:
  "distinct (map exp_id (mod_exports (tlsModule api))) \<and> moduleScoped (tlsModule api) \<and>
   defaultFree (tlsModule api)"
  by (simp only: tls_defs moduleScoped_def defaultFree_def id_eval cong: weak_congs)

lemma tls_index: "memberIndexWrites (tlsOperations api)"
  by (simp only: tls_defs point_eval cong: weak_congs)

text \<open>
  The native side of the operations has its shape and receivers, and the references of the
  declarations are resolved.
\<close>

lemma tls_native: "nativeOperations (tlsTypes api) (tlsOperations api)"
  by (simp only: tls_defs tlsTypes_def withDuplexView_def native_eval cong: weak_congs)

lemma tls_refs: "refsResolved (tlsModule api)"
  by (rule refsResolvedI, simp only: tls_defs addressType_def connectionOptionsType_def
      serverOptionsType_def listenOptionsType_def listenOptionsImport_def duplex_source_def
      duplex_buffer_def readableCall_result_def readableCall_size_def writableCall_bufferType_def
      writableCall_chunkType_def writableCall_completionError_def writableLifecycle_errorType_def
      writableLifecycle_nullableError_def writableLifecycle_optionalError_def visible_eval cong:
      weak_congs)
    (simp only: tls_defs addressType_def connectionOptionsType_def serverOptionsType_def
      listenOptionsType_def listenOptionsImport_def duplex_source_def duplex_buffer_def
      readableCall_result_def readableCall_size_def writableCall_bufferType_def
      writableCall_chunkType_def writableCall_completionError_def writableLifecycle_errorType_def
      writableLifecycle_nullableError_def writableLifecycle_optionalError_def resolve_eval cong:
      weak_congs)

text \<open>
  Type definitions exist for exactly the declared types with instances, and no point is declared
  twice.
\<close>

lemma tls_types: "typesExact (tlsTypes api) (mod_exports (tlsModule api))"
  by (rule permCheck_typesExact)
    (simp only: tls_defs tlsTypes_def withDuplexView_def type_eval cong: weak_congs,
      simp only: perm_eval cong: perm_congs)

lemma tls_points: "pointsDistinct (mod_exports (tlsModule api))"
  by (simp only: tls_defs point_eval cong: weak_congs,
      simp only: distinct_eval cong: perm_congs)

interpretation tls_component:
  component "[tlsModule api]" "tlsOperations api" for api
  by (rule componentI [OF tls_implements tls_ids tls_index])

end
