(* ===== verification/Node_Util.thy ===== *)
theory Node_Util
  imports Provider_References
begin

text \<open>
  \<^verbatim>\<open>nodejs/src/provider/modules/util.ts\<close>: the class \<open>TextDecoder\<close> with its two
  constructors, and the formatting and error-name functions.
\<close>

section \<open>Declarations and operations\<close>

definition util_moduleSpecifier :: "string" where
  "util_moduleSpecifier = ''node:util''"

definition util_textDecoderId :: "string" where
  "util_textDecoderId = util_moduleSpecifier @ ''::TextDecoder''"

definition utilModule :: "providerModule" where
  "utilModule =
     moduleOf util_moduleSpecifier ''tsonic.mojo.node.util''
       (Some [importOf ''node:buffer'' [''Buffer'']])
       [classDeclaration util_textDecoderId ''TextDecoder''
          [callableMember (util_textDecoderId @ ''.constructor'') ''constructor''
             ConstructorMember False
             [plainSignature (util_textDecoderId @ ''.constructor()'') ''constructor'' [] VoidT,
              plainSignature (util_textDecoderId @ ''.constructor(encoding)'') ''constructor''
                [param ''encoding'' stringType] VoidT],
           overloadedMethodMember util_textDecoderId ''decode''
             [overloadAs '''' [] stringType,
              overloadAs ''input'' [param ''input'' (providerRef ''node:buffer'' ''Buffer'')]
                stringType],
           propertyMember util_textDecoderId ''encoding'' stringType,
           propertyMember util_textDecoderId ''fatal'' booleanType,
           propertyMember util_textDecoderId ''ignoreBOM'' booleanType],
        fnExport util_moduleSpecifier ''stripVTControlCharacters'' [param ''value'' stringType]
          stringType,
        fnExport util_moduleSpecifier ''toUSVString'' [param ''value'' stringType] stringType,
        fnExport util_moduleSpecifier ''styleText''
          [param ''style'' stringType, param ''text'' stringType] stringType,
        fnExport util_moduleSpecifier ''getSystemErrorName'' [param ''code'' numberType]
          stringType,
        fnExport util_moduleSpecifier ''getSystemErrorMessage'' [param ''code'' numberType]
          stringType,
        fnExport util_moduleSpecifier ''inspect'' [param ''value'' AnyT] stringType,
        fnExport util_moduleSpecifier ''convertProcessSignalToExitCode''
          [param ''signal'' stringType] numberType,
        fnExport util_moduleSpecifier ''format'' [restParam ''values'' (ArrayT AnyT)] stringType]"

definition utilTypes :: "'o mojoApi \<Rightarrow> 'o typeDefinition list" where
  "utilTypes api =
     [nodeProviderType api util_textDecoderId (textDecoderCarrier api) Copyable]"

definition util_constructorOperation ::
    "string \<Rightarrow> string \<Rightarrow> 'o targetType list \<Rightarrow>
      'o targetType \<Rightarrow> bool \<Rightarrow> 'o operation" where
  "util_constructorOperation signatureId name parameterTypes resultType raises =
     \<lparr>op_exportId = util_textDecoderId,
      op_memberId = Some (util_textDecoderId @ ''.constructor''),
      op_signatureId = Some signatureId, op_operationKind = ConstructorOperation,
      op_target = FunctionCallTarget [''tsonic_node'', ''util''] name []
        (map (\<lambda>_. (argumentOf ''imm'')) parameterTypes) None, op_receiverType = None,
      op_parameterTypes = Some parameterTypes, op_resultType = resultType, op_errorType = None,
      op_raises = raises\<rparr>"

definition utilOperations :: "'o mojoApi \<Rightarrow> 'o operation list" where
  "utilOperations api =
     [util_constructorOperation (util_textDecoderId @ ''.constructor()'') ''text_decoder_new''
        [] (textDecoderCarrier api) False,
      util_constructorOperation (util_textDecoderId @ ''.constructor(encoding)'')
        ''text_decoder_new_encoding'' [nativeString api] (textDecoderCarrier api) True,
      instanceCall util_textDecoderId (util_textDecoderId @ ''.decode'')
        (util_textDecoderId @ ''.decode()'') ''decode_empty'' (textDecoderCarrier api) []
        (nativeString api) False ''imm'',
      instanceCall util_textDecoderId (util_textDecoderId @ ''.decode'')
        (util_textDecoderId @ ''.decode(input)'') ''decode'' (textDecoderCarrier api)
        [bufferCarrier api] (nativeString api) True ''imm'',
      propertyReadVia MethodAccess util_textDecoderId (util_textDecoderId @ ''.encoding'')
        ''encoding'' (textDecoderCarrier api) (nativeString api),
      propertyReadVia MethodAccess util_textDecoderId (util_textDecoderId @ ''.fatal'')
        ''fatal'' (textDecoderCarrier api) (boolCarrier api),
      propertyReadVia MethodAccess util_textDecoderId (util_textDecoderId @ ''.ignoreBOM'')
        ''ignore_bom'' (textDecoderCarrier api) (boolCarrier api),
      functionCall (util_moduleSpecifier @ ''::stripVTControlCharacters'')
        (util_moduleSpecifier @ ''::stripVTControlCharacters(value)'') ''util''
        ''strip_vt_control_characters'' [nativeString api] (nativeString api) False,
      functionCall (util_moduleSpecifier @ ''::toUSVString'')
        (util_moduleSpecifier @ ''::toUSVString(value)'') ''util'' ''to_usv_string''
        [nativeString api] (nativeString api) False,
      functionCall (util_moduleSpecifier @ ''::styleText'')
        (util_moduleSpecifier @ ''::styleText(style,text)'') ''util'' ''style_text''
        [nativeString api, nativeString api] (nativeString api) True,
      functionCall (util_moduleSpecifier @ ''::getSystemErrorName'')
        (util_moduleSpecifier @ ''::getSystemErrorName(code)'') ''system_errors''
        ''get_system_error_name'' [float64Carrier api] (nativeString api) True,
      functionCall (util_moduleSpecifier @ ''::getSystemErrorMessage'')
        (util_moduleSpecifier @ ''::getSystemErrorMessage(code)'') ''system_errors''
        ''get_system_error_message'' [float64Carrier api] (nativeString api) True,
      functionCall (util_moduleSpecifier @ ''::inspect'')
        (util_moduleSpecifier @ ''::inspect(value)'') ''util'' ''inspect'' [jsValueCarrier api]
        (nativeString api) False,
      variadicFunctionCall (util_moduleSpecifier @ ''::format'')
        (util_moduleSpecifier @ ''::format(values)'') ''util_format'' ''format''
        (jsValueCarrier api) (nativeString api) True,
      functionCall (util_moduleSpecifier @ ''::convertProcessSignalToExitCode'')
        (util_moduleSpecifier @ ''::convertProcessSignalToExitCode(signal)'') ''signals''
        ''convert_process_signal_to_exit_code'' [nativeString api] (float64Carrier api) True]"

section \<open>The contract\<close>

lemmas util_defs = util_moduleSpecifier_def util_textDecoderId_def utilModule_def
  util_constructorOperation_def utilOperations_def

lemma util_implements: "implements (utilOperations api) (mod_exports utilModule)"
  by (rule permCheck_implements)
    (simp only: util_defs point_eval cong: weak_congs, simp only: perm_eval cong: perm_congs)

lemma util_ids:
  "distinct (map exp_id (mod_exports utilModule)) \<and> moduleScoped utilModule \<and>
   defaultFree utilModule"
  by (simp only: util_defs moduleScoped_def defaultFree_def id_eval cong: weak_congs)

lemma util_index: "memberIndexWrites (utilOperations api)"
  by (simp only: util_defs point_eval cong: weak_congs)

text \<open>
  The native side of the operations has its shape and receivers, and the references of the
  declarations are resolved.
\<close>

lemma util_native: "nativeOperations (utilTypes api) (utilOperations api)"
  by (simp only: util_defs utilTypes_def native_eval cong: weak_congs)

lemma util_refs: "refsResolved utilModule"
  by (rule refsResolvedI, simp only: util_defs visible_eval cong: weak_congs)
    (simp only: util_defs resolve_eval cong: weak_congs)

text \<open>
  Type definitions exist for exactly the declared types with instances, and no point is declared
  twice.
\<close>

lemma util_types: "typesExact (utilTypes api) (mod_exports utilModule)"
  by (rule permCheck_typesExact)
    (simp only: util_defs utilTypes_def type_eval cong: weak_congs,
      simp only: perm_eval cong: perm_congs)

lemma util_points: "pointsDistinct (mod_exports utilModule)"
  by (simp only: util_defs point_eval cong: weak_congs,
      simp only: distinct_eval cong: perm_congs)

interpretation util_component:
  component "[utilModule]" "utilOperations api" for api
  by (rule componentI [OF util_implements util_ids util_index])

end
