(* ===== verification/Node_Url.thy ===== *)
theory Node_Url
  imports Provider_References
begin

text \<open>
  \<^verbatim>\<open>nodejs/src/provider/modules/url\<close>: the legacy URL records and functions, the classes
  \<open>URL\<close> and \<open>URLSearchParams\<close>, and the module that joins them.
\<close>

section \<open>Legacy URLs (url/legacy.ts)\<close>

definition urlLegacy_moduleSpecifier :: "string" where
  "urlLegacy_moduleSpecifier = ''node:url''"

definition urlLegacy_urlId :: "string" where
  "urlLegacy_urlId = urlLegacy_moduleSpecifier @ ''::Url''"

definition urlLegacy_stringQueryUrlId :: "string" where
  "urlLegacy_stringQueryUrlId = urlLegacy_moduleSpecifier @ ''::UrlWithStringQuery''"

definition urlLegacy_objectId :: "string" where
  "urlLegacy_objectId = urlLegacy_moduleSpecifier @ ''::UrlObject''"

definition urlLegacy_nullableStringType :: "providerType" where
  "urlLegacy_nullableStringType = UnionT [stringType, LiteralT NullLiteral]"

definition urlLegacy_nullableBooleanType :: "providerType" where
  "urlLegacy_nullableBooleanType = UnionT [BooleanT, LiteralT NullLiteral]"

definition urlLegacy_stringProperties :: "string list" where
  "urlLegacy_stringProperties =
     [''protocol'',
      ''auth'',
      ''host'',
      ''hostname'',
      ''port'',
      ''pathname'',
      ''search'',
      ''query'',
      ''hash'',
      ''path'']"

definition urlLegacy_legacyUrlExport ::
    "string \<Rightarrow> string \<Rightarrow> providerExport" where
  "urlLegacy_legacyUrlExport ident name =
     interfaceDeclaration ident name
       ([propertyMemberWith ident ''href'' urlLegacy_nullableStringType False False False] @
        (map
           (\<lambda>propertyName.
              (propertyMemberWith ident propertyName urlLegacy_nullableStringType False False
                 False)) urlLegacy_stringProperties) @
        [propertyMemberWith ident ''slashes'' urlLegacy_nullableBooleanType False False False])"

definition legacyUrlModule :: "providerModule" where
  "legacyUrlModule =
     moduleOf urlLegacy_moduleSpecifier ''tsonic.mojo.node.url'' None
       [urlLegacy_legacyUrlExport urlLegacy_urlId ''Url'',
        urlLegacy_legacyUrlExport urlLegacy_stringQueryUrlId ''UrlWithStringQuery'',
        (urlLegacy_legacyUrlExport urlLegacy_objectId ''UrlObject'')
          \<lparr>exp_members :=
             Some
               ((map
                   (\<lambda>name.
                      (propertyMemberWith urlLegacy_objectId name urlLegacy_nullableStringType
                         False False True)) ([''href''] @ urlLegacy_stringProperties)) @
                [propertyMemberWith urlLegacy_objectId ''slashes''
                   urlLegacy_nullableBooleanType False False True])\<rparr>,
        overloadedFunctionExport urlLegacy_moduleSpecifier ''format''
          [overloadAs ''object''
             [param ''value'' (providerRef urlLegacy_moduleSpecifier ''UrlObject'')] stringType,
           overloadAs ''string'' [param ''value'' stringType] stringType,
           overloadAs ''URL'' [param ''value'' (providerRef urlLegacy_moduleSpecifier ''URL'')]
             stringType],
        fnExport urlLegacy_moduleSpecifier ''parse'' [param ''input'' stringType]
          (providerRef urlLegacy_moduleSpecifier ''UrlWithStringQuery''),
        fnExport urlLegacy_moduleSpecifier ''resolve''
          [param ''from'' stringType, param ''to'' stringType] stringType]"

definition legacyUrlTypes :: "'o mojoApi \<Rightarrow> 'o typeDefinition list" where
  "legacyUrlTypes api =
     (map (\<lambda>exportId. (nodeProviderType api exportId (legacyUrlCarrier api) Copyable))
        [urlLegacy_urlId, urlLegacy_stringQueryUrlId]) @
     [nodeProviderRecordType api urlLegacy_objectId (legacyUrlCarrier api) Copyable]"

definition legacyUrlOperations :: "'o mojoApi \<Rightarrow> 'o operation list" where
  "legacyUrlOperations api =
     [functionCall (urlLegacy_moduleSpecifier @ ''::resolve'')
        (urlLegacy_moduleSpecifier @ ''::resolve(from,to)'') ''url'' ''resolve''
        [NativeStringTarget, NativeStringTarget] NativeStringTarget True,
      functionCall (urlLegacy_moduleSpecifier @ ''::parse'')
        (urlLegacy_moduleSpecifier @ ''::parse(input)'') ''url'' ''parse_legacy''
        [NativeStringTarget] (legacyUrlCarrier api) True,
      functionCall (urlLegacy_moduleSpecifier @ ''::format'')
        (urlLegacy_moduleSpecifier @ ''::format(object)'') ''url'' ''format_url''
        [legacyUrlCarrier api] NativeStringTarget True,
      functionCall (urlLegacy_moduleSpecifier @ ''::format'')
        (urlLegacy_moduleSpecifier @ ''::format(string)'') ''url'' ''format_url''
        [NativeStringTarget] NativeStringTarget True] @
     (concat
        (map
           (\<lambda>exportId.
              ((concat
                  (map
                     (\<lambda>name.
                        [propertyRead exportId (exportId @ ''.'' @ name) name
                           (legacyUrlCarrier api) (optionalStringCarrier api),
                         propertyWrite api exportId (exportId @ ''.'' @ name) name
                           (legacyUrlCarrier api) (optionalStringCarrier api)])
                     ([''href''] @ urlLegacy_stringProperties))) @
               [propertyRead exportId (exportId @ ''.slashes'') ''slashes''
                  (legacyUrlCarrier api) (optionalBoolCarrier api),
                propertyWrite api exportId (exportId @ ''.slashes'') ''slashes''
                  (legacyUrlCarrier api) (optionalBoolCarrier api)]))
           [urlLegacy_urlId, urlLegacy_stringQueryUrlId, urlLegacy_objectId]))"

section \<open>Web URLs (url/web.ts)\<close>

definition urlWeb_moduleSpecifier :: "string" where
  "urlWeb_moduleSpecifier = ''node:url''"

definition urlWeb_urlId :: "string" where
  "urlWeb_urlId = urlWeb_moduleSpecifier @ ''::URL''"

definition urlWeb_paramsId :: "string" where
  "urlWeb_paramsId = urlWeb_moduleSpecifier @ ''::URLSearchParams''"

definition urlWeb_urlType :: "providerType" where
  "urlWeb_urlType = providerRef urlWeb_moduleSpecifier ''URL''"

definition urlWeb_paramsType :: "providerType" where
  "urlWeb_paramsType = providerRef urlWeb_moduleSpecifier ''URLSearchParams''"

definition urlWeb_urlCarrier :: "'o mojoApi \<Rightarrow> 'o targetType" where
  "urlWeb_urlCarrier api =
     mojoNamedTargetType api ''tsonic.mojo.node.URL'' [''tsonic_node'', ''url''] ''URL''"

definition urlWeb_paramsCarrier :: "'o mojoApi \<Rightarrow> 'o targetType" where
  "urlWeb_paramsCarrier api =
     mojoNamedTargetType api ''tsonic.mojo.node.URLSearchParams'' [''tsonic_node'', ''url'']
       ''URLSearchParams''"

definition urlWeb_nullableString :: "providerType" where
  "urlWeb_nullableString = UnionT [stringType, LiteralT NullLiteral]"

definition urlWeb_nullableUrl :: "providerType" where
  "urlWeb_nullableUrl = UnionT [urlWeb_urlType, LiteralT NullLiteral]"

definition urlWeb_fields :: "string list" where
  "urlWeb_fields =
     [''href'',
      ''protocol'',
      ''username'',
      ''password'',
      ''host'',
      ''hostname'',
      ''port'',
      ''pathname'',
      ''search'',
      ''hash'']"

record 'o urlRow =
  ur_suffix :: string
  ur_parameters :: "providerParameter list"
  ur_carriers :: "'o targetType list"

definition urlWeb_constructors :: "'o mojoApi \<Rightarrow> 'o urlRow list" where
  "urlWeb_constructors api =
     [\<lparr>ur_suffix = ''input'', ur_parameters = [param ''input'' stringType],
      ur_carriers = [nativeString api]\<rparr>,
      \<lparr>ur_suffix = ''input,baseString'', ur_parameters = [param ''input'' stringType,
       param ''base'' stringType], ur_carriers = [nativeString api, nativeString api]\<rparr>,
      \<lparr>ur_suffix = ''input,baseURL'', ur_parameters = [param ''input'' stringType,
       param ''base'' urlWeb_urlType], ur_carriers = [nativeString api,
       urlWeb_urlCarrier api]\<rparr>]"

definition urlWeb_paramInitializers :: "'o mojoApi \<Rightarrow> 'o urlRow list" where
  "urlWeb_paramInitializers api =
     [\<lparr>ur_suffix = '''', ur_parameters = [], ur_carriers = []\<rparr>,
      \<lparr>ur_suffix = ''input'', ur_parameters = [param ''input'' stringType],
       ur_carriers = [nativeString api]\<rparr>]"

definition urlWeb_namedValue :: "providerParameter list" where
  "urlWeb_namedValue = [param ''name'' stringType, param ''value'' stringType]"

definition urlWeb_constructor :: "string \<Rightarrow> 'o urlRow list \<Rightarrow> providerMember" where
  "urlWeb_constructor ident rows =
     callableMember (ident @ ''.constructor'') ''constructor'' ConstructorMember False
       (map
          (\<lambda>row.
             (plainSignature (ident @ ''.constructor('' @ (ur_suffix row) @ '')'') ''constructor''
                (ur_parameters row) voidType)) rows)"

definition webUrlExports :: "'o mojoApi \<Rightarrow> providerExport list" where
  "webUrlExports api =
     [classDeclaration urlWeb_urlId ''URL''
        ([urlWeb_constructor urlWeb_urlId (urlWeb_constructors api)] @
         (map
            (\<lambda>name. (propertyMemberWith urlWeb_urlId name stringType False False False))
            urlWeb_fields) @
         [propertyMember urlWeb_urlId ''origin'' stringType,
          propertyMember urlWeb_urlId ''searchParams'' urlWeb_paramsType,
          methodMember urlWeb_urlId ''toString'' [] stringType,
          methodMember urlWeb_urlId ''toJSON'' [] stringType] @
         (map
            (\<lambda>name.
               (overloadedMethodMemberWith urlWeb_urlId name
                  (map
                     (\<lambda>row.
                        (overloadAs (ur_suffix row) (ur_parameters row)
                           (if (name = ''canParse'') then booleanType else urlWeb_nullableUrl)))
                     (urlWeb_constructors api)) True)) [''canParse'', ''parse''])),
      classDeclaration urlWeb_paramsId ''URLSearchParams''
        ([urlWeb_constructor urlWeb_paramsId (urlWeb_paramInitializers api),
          propertyMember urlWeb_paramsId ''size'' numberType,
          methodMember urlWeb_paramsId ''get'' [param ''name'' stringType] urlWeb_nullableString,
          methodMember urlWeb_paramsId ''getAll'' [param ''name'' stringType] stringArrayType] @
         (map (\<lambda>name. (methodMember urlWeb_paramsId name urlWeb_namedValue voidType))
            [''set'', ''append'']) @
         (map
            (\<lambda>name.
               (overloadedMethodMember urlWeb_paramsId name
                  [overloadOf [urlWeb_namedValue ! 0]
                     (if (name = ''has'') then booleanType else voidType),
                   overloadOf urlWeb_namedValue
                     (if (name = ''has'') then booleanType else voidType)]))
            [''has'', ''delete'']) @
         [methodMember urlWeb_paramsId ''sort'' [] voidType,
          methodMember urlWeb_paramsId ''toString'' [] stringType]),
      fnExport urlWeb_moduleSpecifier ''pathToFileURL'' [param ''path'' stringType]
        urlWeb_urlType] @
     (map
        (\<lambda>name.
           (fnExport urlWeb_moduleSpecifier name [param ''domain'' stringType] stringType))
        [''domainToASCII'', ''domainToUnicode'']) @
     [overloadedFunctionExport urlWeb_moduleSpecifier ''fileURLToPathBuffer''
        [overloadAs ''url'' [param ''url'' urlWeb_urlType]
           (providerRef ''node:buffer'' ''Buffer''),
         overloadAs ''input'' [param ''input'' stringType]
           (providerRef ''node:buffer'' ''Buffer'')],
      overloadedFunctionExport urlWeb_moduleSpecifier ''fileURLToPath''
        [overloadAs ''url'' [param ''url'' urlWeb_urlType] stringType,
         overloadAs ''input'' [param ''input'' stringType] stringType],
      overloadedFunctionExport urlWeb_moduleSpecifier ''canParse''
        (map (\<lambda>row. (overloadAs (ur_suffix row) (ur_parameters row) booleanType))
           (urlWeb_constructors api))]"

definition webUrlTypes :: "'o mojoApi \<Rightarrow> 'o typeDefinition list" where
  "webUrlTypes api =
     [nodeProviderType api urlWeb_urlId (urlWeb_urlCarrier api) ImplicitlyCopyable,
      nodeProviderType api urlWeb_paramsId (urlWeb_paramsCarrier api) ImplicitlyCopyable]"

definition urlWeb_constructOperation ::
    "string \<Rightarrow> string \<Rightarrow> string \<Rightarrow>
      'o targetType list \<Rightarrow> 'o targetType \<Rightarrow> 'o operation" where
  "urlWeb_constructOperation ident suffix name parameters result =
     (functionCall ident (ident @ ''.constructor('' @ suffix @ '')'') ''url'' name parameters
        result True)
       \<lparr>op_memberId := Some (ident @ ''.constructor''),
        op_operationKind := ConstructorOperation\<rparr>"

definition webUrlOperations :: "'o mojoApi \<Rightarrow> 'o operation list" where
  "webUrlOperations api =
     ((map
         (\<lambda>row.
            (urlWeb_constructOperation urlWeb_urlId (ur_suffix row) ''url_new'' (ur_carriers row)
               (urlWeb_urlCarrier api))) (urlWeb_constructors api)) @
      (map
         (\<lambda>row.
            (urlWeb_constructOperation urlWeb_paramsId (ur_suffix row) ''search_params_new''
               (ur_carriers row) (urlWeb_paramsCarrier api))) (urlWeb_paramInitializers api)) @
      (concat
         (map
            (\<lambda>name.
               [(propertyReadVia MethodAccess urlWeb_urlId (urlWeb_urlId @ ''.'' @ name) name
                   (urlWeb_urlCarrier api) (nativeString api))\<lparr>op_raises := True\<rparr>,
                (propertyWriteVia MethodAccess api urlWeb_urlId (urlWeb_urlId @ ''.'' @ name)
                   (''set_'' @ name) (urlWeb_urlCarrier api) (nativeString api))
                  \<lparr>op_raises := True\<rparr>]) urlWeb_fields)) @
      [(propertyReadVia MethodAccess urlWeb_urlId (urlWeb_urlId @ ''.origin'') ''origin''
          (urlWeb_urlCarrier api) (nativeString api))\<lparr>op_raises := True\<rparr>,
       propertyReadVia MethodAccess urlWeb_urlId (urlWeb_urlId @ ''.searchParams'')
         ''search_params'' (urlWeb_urlCarrier api) (urlWeb_paramsCarrier api),
       propertyReadVia MethodAccess urlWeb_paramsId (urlWeb_paramsId @ ''.size'') ''size''
         (urlWeb_paramsCarrier api) (float64Carrier api)] @
      (map
         (\<lambda>name.
            (instanceCall urlWeb_urlId (urlWeb_urlId @ ''.'' @ name)
               (urlWeb_urlId @ ''.'' @ name @ ''()'') ''to_string'' (urlWeb_urlCarrier api) []
               (nativeString api) True ''imm'')) [''toString'', ''toJSON'']) @
      (concat
         (map
            (\<lambda>row.
               [staticCall urlWeb_urlId (urlWeb_urlId @ ''.canParse'')
                  (urlWeb_urlId @ ''.canParse('' @ (ur_suffix row) @ '')'') ''url'' ''can_parse''
                  (ur_carriers row) (boolCarrier api) True,
                staticCall urlWeb_urlId (urlWeb_urlId @ ''.parse'')
                  (urlWeb_urlId @ ''.parse('' @ (ur_suffix row) @ '')'') ''url'' ''url_parse''
                  (ur_carriers row) (mojoOptionalTargetType api (urlWeb_urlCarrier api)) True,
                functionCall (urlWeb_moduleSpecifier @ ''::canParse'')
                  (urlWeb_moduleSpecifier @ ''::canParse('' @ (ur_suffix row) @ '')'') ''url''
                  ''can_parse'' (ur_carriers row) (boolCarrier api) True])
            (urlWeb_constructors api))) @
      [functionCall (urlWeb_moduleSpecifier @ ''::pathToFileURL'')
         (urlWeb_moduleSpecifier @ ''::pathToFileURL(path)'') ''url'' ''path_to_file_url''
         [nativeString api] (urlWeb_urlCarrier api) True,
       functionCall (urlWeb_moduleSpecifier @ ''::format'')
         (urlWeb_moduleSpecifier @ ''::format(URL)'') ''url'' ''format_url''
         [urlWeb_urlCarrier api] (nativeString api) True,
       functionCall (urlWeb_moduleSpecifier @ ''::domainToASCII'')
         (urlWeb_moduleSpecifier @ ''::domainToASCII(domain)'') ''url'' ''domain_to_ascii''
         [nativeString api] (nativeString api) True,
       functionCall (urlWeb_moduleSpecifier @ ''::domainToUnicode'')
         (urlWeb_moduleSpecifier @ ''::domainToUnicode(domain)'') ''url'' ''domain_to_unicode''
         [nativeString api] (nativeString api) True,
       functionCall (urlWeb_moduleSpecifier @ ''::fileURLToPathBuffer'')
         (urlWeb_moduleSpecifier @ ''::fileURLToPathBuffer(url)'') ''url''
         ''file_url_to_path_buffer'' [urlWeb_urlCarrier api] (bufferCarrier api) True,
       functionCall (urlWeb_moduleSpecifier @ ''::fileURLToPathBuffer'')
         (urlWeb_moduleSpecifier @ ''::fileURLToPathBuffer(input)'') ''url''
         ''file_url_to_path_buffer'' [nativeString api] (bufferCarrier api) True,
       functionCall (urlWeb_moduleSpecifier @ ''::fileURLToPath'')
         (urlWeb_moduleSpecifier @ ''::fileURLToPath(url)'') ''url'' ''file_url_to_path''
         [urlWeb_urlCarrier api] (nativeString api) True,
       functionCall (urlWeb_moduleSpecifier @ ''::fileURLToPath'')
         (urlWeb_moduleSpecifier @ ''::fileURLToPath(input)'') ''url'' ''file_url_to_path''
         [nativeString api] (nativeString api) True,
       instanceCall urlWeb_paramsId (urlWeb_paramsId @ ''.get'')
         (urlWeb_paramsId @ ''.get(name)'') ''get'' (urlWeb_paramsCarrier api)
         [nativeString api] (optionalStringCarrier api) False ''imm'',
       instanceCall urlWeb_paramsId (urlWeb_paramsId @ ''.getAll'')
         (urlWeb_paramsId @ ''.getAll(name)'') ''get_all'' (urlWeb_paramsCarrier api)
         [nativeString api] (stringListCarrier api) False ''imm'',
       instanceCall urlWeb_paramsId (urlWeb_paramsId @ ''.sort'')
         (urlWeb_paramsId @ ''.sort()'') ''sort'' (urlWeb_paramsCarrier api) []
         (unitCarrier api) True ''imm'',
       instanceCall urlWeb_paramsId (urlWeb_paramsId @ ''.toString'')
         (urlWeb_paramsId @ ''.toString()'') ''to_string'' (urlWeb_paramsCarrier api) []
         (nativeString api) True ''imm'']) @
     (concat
        (map
           (\<lambda>name.
              (let arities =
                     if ((name = ''has'') \<or> (name = ''delete'')) then [1 :: nat, 2] else [2]
               in map
                    (\<lambda>arity.
                       (let suffix = if (arity = 1) then ''name'' else ''name,value''
                        in instanceCall urlWeb_paramsId (urlWeb_paramsId @ ''.'' @ name)
                             (urlWeb_paramsId @ ''.'' @ name @ ''('' @ suffix @ '')'') name
                             (urlWeb_paramsCarrier api)
                             (if (arity = 1) then [nativeString api] else
                                [nativeString api, nativeString api])
                             (if (name = ''has'') then (boolCarrier api) else (unitCarrier api))
                             (name \<noteq> ''has'') ''imm'')) arities))
           [''append'', ''set'', ''has'', ''delete'']))"

section \<open>The module (url/index.ts)\<close>

definition urlModule :: "'o mojoApi \<Rightarrow> providerModule" where
  "urlModule api =
     (let legacy = legacyUrlModule
      in legacy
           \<lparr>mod_imports := Some [importOf ''node:buffer'' [''Buffer'']],
            mod_exports := mod_exports legacy @ webUrlExports api\<rparr>)"

definition urlTypes :: "'o mojoApi \<Rightarrow> 'o typeDefinition list" where
  "urlTypes api = (legacyUrlTypes api) @ (webUrlTypes api)"

definition urlOperations :: "'o mojoApi \<Rightarrow> 'o operation list" where
  "urlOperations api = (legacyUrlOperations api) @ (webUrlOperations api)"

section \<open>The contract\<close>

lemmas url_defs = urlLegacy_moduleSpecifier_def urlLegacy_urlId_def
  urlLegacy_stringQueryUrlId_def urlLegacy_objectId_def urlLegacy_nullableStringType_def
  urlLegacy_nullableBooleanType_def urlLegacy_stringProperties_def
  urlLegacy_legacyUrlExport_def legacyUrlModule_def legacyUrlOperations_def
  urlWeb_moduleSpecifier_def urlWeb_urlId_def urlWeb_paramsId_def urlWeb_urlType_def
  urlWeb_paramsType_def urlWeb_urlCarrier_def urlWeb_paramsCarrier_def
  urlWeb_nullableString_def urlWeb_nullableUrl_def urlWeb_fields_def urlWeb_constructors_def
  urlWeb_paramInitializers_def urlWeb_namedValue_def urlWeb_constructor_def
  webUrlExports_def urlWeb_constructOperation_def webUrlOperations_def urlModule_def
  urlOperations_def
  urlRow.select_convs nth_Cons_0 One_nat_def numeral_2_eq_2
  nat.distinct nat.inject

lemma url_implements: "implements (urlOperations api) (mod_exports (urlModule api))"
  by (rule permCheck_implements)
    (simp only: url_defs point_eval cong: weak_congs, simp only: perm_eval cong: perm_congs)

lemma url_ids:
  "distinct (map exp_id (mod_exports (urlModule api))) \<and> moduleScoped (urlModule api) \<and>
   defaultFree (urlModule api)"
  by (simp only: url_defs moduleScoped_def defaultFree_def id_eval cong: weak_congs)

lemma url_index: "memberIndexWrites (urlOperations api)"
  by (simp only: url_defs point_eval cong: weak_congs)

text \<open>
  The native side of the operations has its shape and receivers, and the references of the
  declarations are resolved.
\<close>

lemma url_native: "nativeOperations (urlTypes api) (urlOperations api)"
  by (simp only: url_defs urlTypes_def legacyUrlTypes_def webUrlTypes_def native_eval cong:
      weak_congs)

lemma url_refs: "refsResolved (urlModule api)"
  by (rule refsResolvedI, simp only: url_defs visible_eval cong: weak_congs)
    (simp only: url_defs resolve_eval cong: weak_congs)

text \<open>
  Type definitions exist for exactly the declared types with instances, and no point is declared
  twice.
\<close>

lemma url_types: "typesExact (urlTypes api) (mod_exports (urlModule api))"
  by (rule permCheck_typesExact)
    (simp only: url_defs urlTypes_def legacyUrlTypes_def webUrlTypes_def type_eval cong:
      weak_congs,
      simp only: perm_eval cong: perm_congs)

lemma url_points: "pointsDistinct (mod_exports (urlModule api))"
  by (simp only: url_defs point_eval cong: weak_congs,
      simp only: distinct_eval cong: perm_congs)

interpretation url_component:
  component "[urlModule api]" "urlOperations api" for api
  by (rule componentI [OF url_implements url_ids url_index])

end
