(* ===== verification/Node_Worker_Threads.thy ===== *)
theory Node_Worker_Threads
  imports Provider_References
begin

text \<open>
  \<^verbatim>\<open>nodejs/src/provider/modules/worker-threads.ts\<close>: workers, message ports and
  channels, the environment data functions and the values of the current thread.
\<close>

section \<open>Declarations and operations\<close>

definition worker_moduleSpecifier :: "string" where
  "worker_moduleSpecifier = ''node:worker_threads''"

definition worker_workerId :: "string" where
  "worker_workerId = worker_moduleSpecifier @ ''::Worker''"

definition worker_workerOptionsId :: "string" where
  "worker_workerOptionsId = worker_moduleSpecifier @ ''::WorkerOptions''"

definition worker_messagePortId :: "string" where
  "worker_messagePortId = worker_moduleSpecifier @ ''::MessagePort''"

definition worker_messageChannelId :: "string" where
  "worker_messageChannelId = worker_moduleSpecifier @ ''::MessageChannel''"

definition worker_messageResultId :: "string" where
  "worker_messageResultId = worker_moduleSpecifier @ ''::MessagePortMessage''"

definition worker_messageResultCarrier :: "'o mojoApi \<Rightarrow> 'o targetType" where
  "worker_messageResultCarrier api =
     mojoNamedTargetType api ''tsonic.mojo.node.MessagePortMessage''
       [''tsonic_node'', ''worker_threads''] ''MessagePortMessage''"

definition worker_anyType :: "providerType" where
  "worker_anyType = AnyT"

definition worker_eventNameType :: "providerType" where
  "worker_eventNameType = UnionT [stringType, SourceGlobalT ''Symbol'' None]"

definition worker_oneValueWorkerEventNames :: "string list" where
  "worker_oneValueWorkerEventNames =
     [''error'', ''exit'', ''message'', ''messageerror'']"

definition worker_oneValuePortEventNames :: "string list" where
  "worker_oneValuePortEventNames = [''message'', ''messageerror'']"

definition worker_optionalUnknownType :: "providerType" where
  "worker_optionalUnknownType = UnionT [worker_anyType, undefinedType]"

definition worker_optionalPortType :: "providerType" where
  "worker_optionalPortType =
     UnionT [providerRef worker_moduleSpecifier ''MessagePort'', undefinedType]"

definition worker_oneValueEventNames :: "string \<Rightarrow> string list" where
  "worker_oneValueEventNames ownerId =
     (if (ownerId = worker_workerId) then worker_oneValueWorkerEventNames else
        worker_oneValuePortEventNames)"

definition worker_eventMembers ::
    "string \<Rightarrow> string \<Rightarrow> providerMember list" where
  "worker_eventMembers ownerId ownerName =
     map
       (\<lambda>name.
          (callableMember (ownerId @ ''.'' @ name) name MethodMember False
             ([plainSignature (ownerId @ ''.'' @ name @ ''(0)'') name
                 [param ''eventName'' worker_eventNameType,
                  param ''listener''
                    (providerCallbackType (ownerId @ ''.'' @ name @ ''(0)'') ''listener'' [])]
                 (providerRef worker_moduleSpecifier ownerName)] @
              (map
                 (\<lambda>eventName.
                    (plainSignature (ownerId @ ''.'' @ name @ ''(1:'' @ eventName @ '')'') name
                       [param ''eventName'' (LiteralT (StringLiteral eventName)),
                        param ''listener''
                          (providerCallbackType
                             (ownerId @ ''.'' @ name @ ''(1:'' @ eventName @ '')'') ''listener''
                             [param ''value0'' worker_anyType])]
                       (providerRef worker_moduleSpecifier ownerName)))
                 (worker_oneValueEventNames ownerId))))) [''on'', ''once'', ''off'']"

definition worker_functionExport ::
    "string \<Rightarrow> providerParameter list \<Rightarrow> providerType \<Rightarrow>
      providerParameter list list \<Rightarrow> providerExport" where
  "worker_functionExport name parameters returnType overloads =
     functionDeclaration (worker_moduleSpecifier @ ''::'' @ name) name False
       (map
          (\<lambda>signatureParameters.
             (plainSignature
                (worker_moduleSpecifier @
                 ''::'' @
                 name @
                 ''('' @
                 (joinWith '',''
                    (map par_name signatureParameters)) @
                 '')'') name
                signatureParameters
                returnType)) ([parameters] @ overloads))"

definition workerThreadsModule :: "providerModule" where
  "workerThreadsModule =
     moduleOf worker_moduleSpecifier ''tsonic.mojo.node.worker-threads'' None
       [interfaceDeclaration worker_messageResultId ''MessagePortMessage''
          [propertyMember worker_messageResultId ''message'' worker_anyType],
        classDeclaration worker_workerId ''Worker''
          ([callableMember (worker_workerId @ ''.constructor'') ''constructor''
              ConstructorMember False
              [plainSignature (worker_workerId @ ''.constructor(modulePath)'') ''constructor''
                 [param ''modulePath'' stringType] voidType,
               plainSignature (worker_workerId @ ''.constructor(modulePath,options)'')
                 ''constructor''
                 [param ''modulePath'' stringType,
                  param ''options'' (providerRef worker_moduleSpecifier ''WorkerOptions'')]
                 voidType],
            methodMember worker_workerId ''postMessage'' [param ''value'' worker_anyType]
              voidType,
            methodMember worker_workerId ''terminate'' []
              (SourceGlobalT ''Promise'' (Some [numberType])),
            methodMember worker_workerId ''ref'' []
              (providerRef worker_moduleSpecifier ''Worker''),
            methodMember worker_workerId ''unref'' []
              (providerRef worker_moduleSpecifier ''Worker'')] @
           (worker_eventMembers worker_workerId ''Worker'') @
           [propertyMember worker_workerId ''threadId'' numberType]),
        interfaceDeclaration worker_workerOptionsId ''WorkerOptions''
          [propertyMemberWith worker_workerOptionsId ''name'' stringType False False True,
           propertyMemberWith worker_workerOptionsId ''argv'' stringArrayType False False True,
           propertyMemberWith worker_workerOptionsId ''env'' worker_anyType False False True,
           propertyMemberWith worker_workerOptionsId ''workerData'' worker_anyType False False
             True],
        classDeclaration worker_messagePortId ''MessagePort''
          ([methodMember worker_messagePortId ''postMessage'' [param ''value'' worker_anyType]
              voidType,
            methodMember worker_messagePortId ''start'' [] voidType,
            methodMember worker_messagePortId ''close'' [] voidType,
            methodMember worker_messagePortId ''ref'' []
              (providerRef worker_moduleSpecifier ''MessagePort''),
            methodMember worker_messagePortId ''unref'' []
              (providerRef worker_moduleSpecifier ''MessagePort''),
            methodMember worker_messagePortId ''hasRef'' [] booleanType] @
           (worker_eventMembers worker_messagePortId ''MessagePort'')),
        classDeclaration worker_messageChannelId ''MessageChannel''
          [constructorMember worker_messageChannelId [],
           propertyMember worker_messageChannelId ''port1''
             (providerRef worker_moduleSpecifier ''MessagePort''),
           propertyMember worker_messageChannelId ''port2''
             (providerRef worker_moduleSpecifier ''MessagePort'')],
        worker_functionExport ''receiveMessageOnPort''
          [param ''port'' (providerRef worker_moduleSpecifier ''MessagePort'')]
          (UnionT [providerRef worker_moduleSpecifier ''MessagePortMessage'', undefinedType]) [],
        worker_functionExport ''getEnvironmentData'' [param ''key'' worker_anyType]
          worker_optionalUnknownType [],
        worker_functionExport ''setEnvironmentData''
          [param ''key'' worker_anyType, param ''value'' worker_anyType] voidType
          [[param ''key'' worker_anyType]],
        worker_functionExport ''markAsUntransferable'' [param ''value'' worker_anyType] voidType
          [],
        worker_functionExport ''isMarkedAsUntransferable'' [param ''value'' worker_anyType]
          booleanType [],
        valueExport worker_moduleSpecifier ''isMainThread'' booleanType,
        valueExport worker_moduleSpecifier ''threadId'' numberType,
        valueExport worker_moduleSpecifier ''workerData'' worker_anyType,
        valueExport worker_moduleSpecifier ''parentPort'' worker_optionalPortType]"

definition workerThreadsTypes :: "'o mojoApi \<Rightarrow> 'o typeDefinition list" where
  "workerThreadsTypes api =
     [nodeProviderType api worker_messageResultId (worker_messageResultCarrier api)
        ImplicitlyCopyable,
      nodeProviderType api worker_workerId (workerCarrier api) ImplicitlyCopyable,
      nodeProviderRecordType api worker_workerOptionsId (workerOptionsCarrier api) Copyable,
      nodeProviderType api worker_messagePortId (messagePortCarrier api) ImplicitlyCopyable,
      nodeProviderType api worker_messageChannelId (messageChannelCarrier api)
        ImplicitlyCopyable]"

definition worker_workerConstructor ::
    "'o mojoApi \<Rightarrow> string \<Rightarrow> 'o targetType list \<Rightarrow> 'o operation" where
  "worker_workerConstructor api signatureId parameterTypes =
     \<lparr>op_exportId = worker_workerId, op_memberId = Some (worker_workerId @ ''.constructor''),
      op_signatureId = Some signatureId, op_operationKind = ConstructorOperation,
      op_target = FunctionCallTarget [''tsonic_node'', ''worker_threads''] ''worker_new'' []
        (map (\<lambda>_. (argumentOf ''imm'')) parameterTypes)
        (Some
           \<lparr>boot_parameterIndex = 0, boot_id = ''tsonic.mojo.node.worker-threads'',
            boot_modulePath = [''tsonic_node'', ''worker_threads''],
            boot_entryName = ''source_module_entry'',
            boot_completeName = ''source_module_complete''\<rparr>), op_receiverType = None,
      op_parameterTypes = Some parameterTypes, op_resultType = workerCarrier api,
      op_errorType = None, op_raises = True\<rparr>"

definition worker_eventOperations ::
    "'o mojoApi \<Rightarrow> string \<Rightarrow> 'o targetType \<Rightarrow> 'o operation list" where
  "worker_eventOperations api ownerId receiverType =
     concat
       (map
          (\<lambda>name.
             ([instanceCall ownerId (ownerId @ ''.'' @ name) (ownerId @ ''.'' @ name @ ''(0)'')
                 (name @ ''_callable'') receiverType
                 [jsValueCarrier api, emptyCallbackCarrier api] receiverType True ''mut''] @
              (map
                 (\<lambda>eventName.
                    (instanceCall ownerId (ownerId @ ''.'' @ name)
                       (ownerId @ ''.'' @ name @ ''(1:'' @ eventName @ '')'')
                       (name @ ''_callable1'') receiverType
                       [jsValueCarrier api, oneValueCallbackCarrier api] receiverType True
                       ''mut'')) (worker_oneValueEventNames ownerId))))
          [''on'', ''once'', ''off''])"

definition worker_optionProperty ::
    "'o mojoApi \<Rightarrow> string \<Rightarrow> string \<Rightarrow>
      'o targetType \<Rightarrow> 'o operation list" where
  "worker_optionProperty api sourceName targetName type =
     [propertyRead worker_workerOptionsId (worker_workerOptionsId @ ''.'' @ sourceName)
        targetName (workerOptionsCarrier api) type,
      propertyWrite api worker_workerOptionsId (worker_workerOptionsId @ ''.'' @ sourceName)
        targetName (workerOptionsCarrier api) type]"

definition worker_optionOperations :: "'o mojoApi \<Rightarrow> 'o operation list" where
  "worker_optionOperations api =
     (worker_optionProperty api ''name'' ''name'' (optionalStringCarrier api)) @
     (worker_optionProperty api ''argv'' ''argv''
        (mojoOptionalTargetType api (stringListCarrier api))) @
     (worker_optionProperty api ''env'' ''env'' (jsValueCarrier api)) @
     (worker_optionProperty api ''workerData'' ''worker_data'' (jsValueCarrier api))"

definition workerThreadsOperations :: "'o mojoApi \<Rightarrow> 'o operation list" where
  "workerThreadsOperations api =
     [worker_workerConstructor api (worker_workerId @ ''.constructor(modulePath)'')
        [nativeString api],
      worker_workerConstructor api (worker_workerId @ ''.constructor(modulePath,options)'')
        [nativeString api, workerOptionsCarrier api],
      instanceCall worker_workerId (worker_workerId @ ''.postMessage'')
        (worker_workerId @ ''.postMessage(value)'') ''post_message'' (workerCarrier api)
        [jsValueCarrier api] (unitCarrier api) True ''imm'',
      instanceCall worker_workerId (worker_workerId @ ''.terminate'')
        (worker_workerId @ ''.terminate()'') ''terminate'' (workerCarrier api) []
        (FutureTarget ''native'' (float64Carrier api) True) True ''imm'',
      instanceCall worker_workerId (worker_workerId @ ''.ref'') (worker_workerId @ ''.ref()'')
        ''ref_chain'' (workerCarrier api) [] (workerCarrier api) False ''mut'',
      instanceCall worker_workerId (worker_workerId @ ''.unref'')
        (worker_workerId @ ''.unref()'') ''unref_chain'' (workerCarrier api) []
        (workerCarrier api) False ''mut'',
      propertyReadVia MethodAccess worker_workerId (worker_workerId @ ''.threadId'')
        ''thread_id'' (workerCarrier api) (float64Carrier api)] @
     (worker_eventOperations api worker_workerId (workerCarrier api)) @
     [\<lparr>op_exportId = worker_messageChannelId,
       op_memberId = Some (worker_messageChannelId @ ''.constructor''),
       op_signatureId = Some (worker_messageChannelId @ ''.constructor()''),
       op_operationKind = ConstructorOperation,
       op_target = FunctionCallTarget [''tsonic_node'', ''worker_threads'']
         ''message_channel_new'' [] [] None, op_receiverType = None,
       op_parameterTypes = Some [], op_resultType = messageChannelCarrier api,
       op_errorType = None, op_raises = True\<rparr>,
      instanceCall worker_messagePortId (worker_messagePortId @ ''.postMessage'')
        (worker_messagePortId @ ''.postMessage(value)'') ''post_message''
        (messagePortCarrier api) [jsValueCarrier api] (unitCarrier api) True ''mut'',
      instanceCall worker_messagePortId (worker_messagePortId @ ''.start'')
        (worker_messagePortId @ ''.start()'') ''start'' (messagePortCarrier api) []
        (unitCarrier api) False ''mut'',
      instanceCall worker_messagePortId (worker_messagePortId @ ''.close'')
        (worker_messagePortId @ ''.close()'') ''close'' (messagePortCarrier api) []
        (unitCarrier api) True ''mut'',
      instanceCall worker_messagePortId (worker_messagePortId @ ''.ref'')
        (worker_messagePortId @ ''.ref()'') ''ref_chain'' (messagePortCarrier api) []
        (messagePortCarrier api) False ''mut'',
      instanceCall worker_messagePortId (worker_messagePortId @ ''.unref'')
        (worker_messagePortId @ ''.unref()'') ''unref_chain'' (messagePortCarrier api) []
        (messagePortCarrier api) False ''mut'',
      instanceCall worker_messagePortId (worker_messagePortId @ ''.hasRef'')
        (worker_messagePortId @ ''.hasRef()'') ''has_ref'' (messagePortCarrier api) []
        (boolCarrier api) False ''imm''] @
     (worker_eventOperations api worker_messagePortId (messagePortCarrier api)) @
     [propertyRead worker_messageChannelId (worker_messageChannelId @ ''.port1'') ''port1''
        (messageChannelCarrier api) (messagePortCarrier api),
      propertyRead worker_messageChannelId (worker_messageChannelId @ ''.port2'') ''port2''
        (messageChannelCarrier api) (messagePortCarrier api),
      functionCall (worker_moduleSpecifier @ ''::receiveMessageOnPort'')
        (worker_moduleSpecifier @ ''::receiveMessageOnPort(port)'') ''worker_threads''
        ''receive_message_on_port'' [messagePortCarrier api]
        (mojoOptionalTargetType api (worker_messageResultCarrier api)) True,
      propertyRead worker_messageResultId (worker_messageResultId @ ''.message'') ''message''
        (worker_messageResultCarrier api) (jsValueCarrier api),
      functionCall (worker_moduleSpecifier @ ''::getEnvironmentData'')
        (worker_moduleSpecifier @ ''::getEnvironmentData(key)'') ''worker_threads''
        ''get_environment_data'' [jsValueCarrier api] (jsValueCarrier api) False,
      functionCall (worker_moduleSpecifier @ ''::setEnvironmentData'')
        (worker_moduleSpecifier @ ''::setEnvironmentData(key,value)'') ''worker_threads''
        ''set_environment_data'' [jsValueCarrier api, jsValueCarrier api] (unitCarrier api) True,
      functionCall (worker_moduleSpecifier @ ''::setEnvironmentData'')
        (worker_moduleSpecifier @ ''::setEnvironmentData(key)'') ''worker_threads''
        ''set_environment_data'' [jsValueCarrier api] (unitCarrier api) True,
      functionCall (worker_moduleSpecifier @ ''::markAsUntransferable'')
        (worker_moduleSpecifier @ ''::markAsUntransferable(value)'') ''worker_threads''
        ''mark_as_untransferable'' [jsValueCarrier api] (unitCarrier api) True,
      functionCall (worker_moduleSpecifier @ ''::isMarkedAsUntransferable'')
        (worker_moduleSpecifier @ ''::isMarkedAsUntransferable(value)'') ''worker_threads''
        ''is_marked_as_untransferable'' [jsValueCarrier api] (boolCarrier api) False,
      functionValue (worker_moduleSpecifier @ ''::isMainThread'') ''worker_threads''
        ''is_main_thread'' (boolCarrier api) False,
      functionValue (worker_moduleSpecifier @ ''::threadId'') ''worker_threads'' ''thread_id''
        (float64Carrier api) False,
      functionValue (worker_moduleSpecifier @ ''::workerData'') ''worker_threads''
        ''worker_data'' (jsValueCarrier api) False,
      functionValue (worker_moduleSpecifier @ ''::parentPort'') ''worker_threads''
        ''parent_port'' (mojoOptionalTargetType api (messagePortCarrier api)) False] @
     (worker_optionOperations api)"

section \<open>The contract\<close>

lemmas worker_defs = worker_moduleSpecifier_def worker_workerId_def
  worker_workerOptionsId_def worker_messagePortId_def worker_messageChannelId_def
  worker_messageResultId_def worker_messageResultCarrier_def worker_anyType_def
  worker_eventNameType_def worker_oneValueWorkerEventNames_def
  worker_oneValuePortEventNames_def worker_optionalUnknownType_def
  worker_optionalPortType_def worker_oneValueEventNames_def worker_eventMembers_def
  worker_functionExport_def workerThreadsModule_def worker_workerConstructor_def
  worker_eventOperations_def worker_optionProperty_def worker_optionOperations_def
  workerThreadsOperations_def

lemma worker_implements: "implements (workerThreadsOperations api) (mod_exports workerThreadsModule)"
  by (rule permCheck_implements)
    (simp only: worker_defs point_eval cong: weak_congs, simp only: perm_eval cong: perm_congs)

lemma worker_ids:
  "distinct (map exp_id (mod_exports workerThreadsModule)) \<and> moduleScoped workerThreadsModule \<and>
   defaultFree workerThreadsModule"
  by (simp only: worker_defs moduleScoped_def defaultFree_def id_eval cong: weak_congs)

lemma worker_index: "memberIndexWrites (workerThreadsOperations api)"
  by (simp only: worker_defs point_eval cong: weak_congs)

text \<open>
  The native side of the operations has its shape and receivers, and the references of the
  declarations are resolved.
\<close>

lemma worker_native: "nativeOperations (workerThreadsTypes api) (workerThreadsOperations api)"
  by (simp only: worker_defs workerThreadsTypes_def native_eval cong: weak_congs)

lemma worker_refs: "refsResolved workerThreadsModule"
  by (rule refsResolvedI, simp only: worker_defs visible_eval cong: weak_congs)
    (simp only: worker_defs resolve_eval cong: weak_congs)

text \<open>
  Type definitions exist for exactly the declared types with instances, and no point is declared
  twice.
\<close>

lemma worker_types: "typesExact (workerThreadsTypes api) (mod_exports workerThreadsModule)"
  by (rule permCheck_typesExact)
    (simp only: worker_defs workerThreadsTypes_def type_eval cong: weak_congs,
      simp only: perm_eval cong: perm_congs)

lemma worker_points: "pointsDistinct (mod_exports workerThreadsModule)"
  by (simp only: worker_defs point_eval cong: weak_congs,
      simp only: distinct_eval cong: perm_congs)

interpretation worker_component:
  component "[workerThreadsModule]" "workerThreadsOperations api" for api
  by (rule componentI [OF worker_implements worker_ids worker_index])

end
