(* ===== verification/Node_Zlib.thy ===== *)
theory Node_Zlib
  imports Node_Stream_Parts
begin

text \<open>
  \<^verbatim>\<open>nodejs/src/provider/modules/zlib\<close>: the compression constants, option records,
  results, the stream class and the codecs of \<open>node:zlib\<close>. The stream class and its
  operations are derived from one table of rows.
\<close>

section \<open>Constants (zlib/constants.ts)\<close>

definition zlibConstant_owner :: "string" where
  "zlibConstant_owner = ''node:zlib::constants''"

definition zlibConstant_constants :: "(string \<times> string) list" where
  "zlibConstant_constants =
     [(''Z_NO_FLUSH'', ''z_no_flush''),
      (''Z_PARTIAL_FLUSH'', ''z_partial_flush''),
      (''Z_SYNC_FLUSH'', ''z_sync_flush''),
      (''Z_FULL_FLUSH'', ''z_full_flush''),
      (''Z_FINISH'', ''z_finish''),
      (''Z_BLOCK'', ''z_block''),
      (''Z_DEFAULT_COMPRESSION'', ''z_default_compression''),
      (''Z_BEST_SPEED'', ''z_best_speed''),
      (''Z_BEST_COMPRESSION'', ''z_best_compression''),
      (''Z_NO_COMPRESSION'', ''z_no_compression''),
      (''Z_DEFAULT_STRATEGY'', ''z_default_strategy''),
      (''Z_FILTERED'', ''z_filtered''),
      (''Z_HUFFMAN_ONLY'', ''z_huffman_only''),
      (''Z_RLE'', ''z_rle''),
      (''Z_FIXED'', ''z_fixed''),
      (''BROTLI_OPERATION_PROCESS'', ''brotli_operation_process''),
      (''BROTLI_OPERATION_FLUSH'', ''brotli_operation_flush''),
      (''BROTLI_OPERATION_FINISH'', ''brotli_operation_finish''),
      (''BROTLI_PARAM_MODE'', ''brotli_param_mode''),
      (''BROTLI_PARAM_QUALITY'', ''brotli_param_quality''),
      (''BROTLI_PARAM_LGWIN'', ''brotli_param_lgwin''),
      (''BROTLI_PARAM_LGBLOCK'', ''brotli_param_lgblock''),
      (''BROTLI_PARAM_DISABLE_LITERAL_CONTEXT_MODELING'',
       ''brotli_param_disable_literal_context_modeling''),
      (''BROTLI_PARAM_SIZE_HINT'', ''brotli_param_size_hint''),
      (''BROTLI_PARAM_LARGE_WINDOW'', ''brotli_param_large_window''),
      (''BROTLI_MODE_GENERIC'', ''brotli_mode_generic''),
      (''BROTLI_MODE_TEXT'', ''brotli_mode_text''),
      (''BROTLI_MODE_FONT'', ''brotli_mode_font''),
      (''BROTLI_MIN_QUALITY'', ''brotli_min_quality''),
      (''BROTLI_MAX_QUALITY'', ''brotli_max_quality''),
      (''BROTLI_DEFAULT_QUALITY'', ''brotli_default_quality''),
      (''BROTLI_MIN_WINDOW_BITS'', ''brotli_min_window_bits''),
      (''BROTLI_MAX_WINDOW_BITS'', ''brotli_max_window_bits''),
      (''BROTLI_DEFAULT_WINDOW'', ''brotli_default_window''),
      (''BROTLI_DECODER_PARAM_DISABLE_RING_BUFFER_REALLOCATION'',
       ''brotli_decoder_param_disable_ring_buffer_reallocation''),
      (''BROTLI_DECODER_PARAM_LARGE_WINDOW'', ''brotli_decoder_param_large_window'')]"

definition compressionConstantsExport :: "providerExport" where
  "compressionConstantsExport =
     classDeclaration zlibConstant_owner ''constants''
       (map
          (\<lambda>(name, _).
             (propertyMemberWith zlibConstant_owner name numberType True True False))
          zlibConstant_constants)"

definition compressionConstantsOperations :: "'o mojoApi \<Rightarrow> 'o operation list" where
  "compressionConstantsOperations api =
     map
       (\<lambda>(name, helper).
          (staticPropertyRead zlibConstant_owner (zlibConstant_owner @ ''.'' @ name) ''zlib''
             helper (float64Carrier api) False)) zlibConstant_constants"

section \<open>Options (zlib/options.ts)\<close>

definition zlibOption_brotliCarrier :: "'o mojoApi \<Rightarrow> 'o targetType" where
  "zlibOption_brotliCarrier api =
     mojoNamedTargetType api ''tsonic.mojo.node.BrotliOptions'' [''tsonic_node'', ''zlib'']
       ''BrotliOptions''"

definition zlibOption_brotliValue :: "providerType" where
  "zlibOption_brotliValue = UnionT [booleanType, numberType]"

definition zlibOption_parametersType :: "providerType" where
  "zlibOption_parametersType =
     SourceGlobalT ''Record'' (Some [numberType, zlibOption_brotliValue])"

definition zlibOption_parametersCarrier :: "'o mojoApi \<Rightarrow> 'o targetType" where
  "zlibOption_parametersCarrier api =
     mojoDictionaryTargetType api (float64Carrier api)
       (mojoUnionTargetType api [float64Carrier api, boolCarrier api])"

definition zlibOption_commonFields :: "(string \<times> string) list" where
  "zlibOption_commonFields =
     [(''flush'', ''flush''),
      (''finishFlush'', ''finish_flush''),
      (''chunkSize'', ''chunk_size''),
      (''maxOutputLength'', ''max_output_length'')]"

definition zlibOption_zlibFields :: "(string \<times> string) list" where
  "zlibOption_zlibFields =
     [(''windowBits'', ''window_bits''),
      (''level'', ''level''),
      (''memLevel'', ''mem_level''),
      (''strategy'', ''strategy'')]"

definition zlibOption_optionName ::
    "string \<Rightarrow> string \<Rightarrow> string" where
  "zlibOption_optionName family mode =
     (if (family = ''zlib'') then ''Zlib'' else ''Brotli'') @
     (if (mode = ''info'') then ''Info'' else (if (mode = ''buffer'') then ''Buffer'' else '''')) @
     ''Options''"

definition sourceOptions ::
    "string \<Rightarrow> string \<Rightarrow> providerType" where
  "sourceOptions family mode =
     providerRef ''node:zlib'' (zlibOption_optionName family mode)"

definition targetOptions ::
    "'o mojoApi \<Rightarrow> string \<Rightarrow> 'o targetType" where
  "targetOptions api family =
     (if (family = ''zlib'') then (zlibOptionsCarrier api) else (zlibOption_brotliCarrier api))"

record 'o zlibField =
  zf_source :: string
  zf_target :: string
  zf_sourceType :: providerType
  zf_targetType :: "'o targetType"
  zf_optional :: bool

definition zlibOption_fields ::
    "'o mojoApi \<Rightarrow> string \<Rightarrow> string \<Rightarrow> 'o zlibField list" where
  "zlibOption_fields api family mode =
     (let numeric =
            if (family = ''zlib'') then (zlibOption_commonFields @ zlibOption_zlibFields) else
              zlibOption_commonFields
      in (map
            (\<lambda>(source, target). \<lparr>zf_source = source, zf_target = target,
             zf_sourceType = numberType, zf_targetType = (float64Carrier api),
             zf_optional = True\<rparr>) numeric) @
         [if (family = ''zlib'') then \<lparr>zf_source = ''dictionary'',
          zf_target = ''dictionary'', zf_sourceType = (providerRef ''node:buffer'' ''Buffer''),
          zf_targetType = (bufferCarrier api),
          zf_optional = True\<rparr> else \<lparr>zf_source = ''params'', zf_target = ''params'',
          zf_sourceType = zlibOption_parametersType,
          zf_targetType = (zlibOption_parametersCarrier api), zf_optional = True\<rparr>,
          \<lparr>zf_source = ''info'', zf_target = ''info'',
           zf_sourceType = (if (mode = ''result'') then booleanType else (LiteralT (BoolLiteral (mode = ''info'')))),
           zf_targetType = (boolCarrier api), zf_optional = (mode \<noteq> ''info'')\<rparr>])"

definition compressionOptionExports :: "'o mojoApi \<Rightarrow> providerExport list" where
  "compressionOptionExports api =
     concat
       (map
          (\<lambda>family.
             (map
                (\<lambda>mode.
                   (let name = zlibOption_optionName family mode;
                        ident = ''node:zlib::'' @ name
                    in interfaceDeclaration ident name
                         (map
                            (\<lambda>field.
                               (propertyMemberWith ident (zf_source field) (zf_sourceType field) False
                                  False (zf_optional field))) (zlibOption_fields api family mode))))
                [''result'', ''buffer'', ''info''])) [''zlib'', ''brotli''])"

definition compressionOptionTypes :: "'o mojoApi \<Rightarrow> 'o typeDefinition list" where
  "compressionOptionTypes api =
     concat
       (map
          (\<lambda>family.
             (map
                (\<lambda>mode.
                   (nodeProviderRecordType api
                      (''node:zlib::'' @ (zlibOption_optionName family mode))
                      (targetOptions api family)
                      (if (family = ''zlib'') then ImplicitlyCopyable else Copyable)))
                [''result'', ''buffer'', ''info''])) [''zlib'', ''brotli''])"

definition compressionOptionOperations :: "'o mojoApi \<Rightarrow> 'o operation list" where
  "compressionOptionOperations api =
     concat
       (map
          (\<lambda>family.
             (concat
                (map
                   (\<lambda>mode.
                      (let ident = ''node:zlib::'' @ (zlibOption_optionName family mode);
                           carrier = targetOptions api family
                       in concat
                            (map
                               (\<lambda>field.
                                  [propertyReadVia
                                     (if (zf_optional field) then MemberAccess else MethodAccess) ident
                                     (ident @ ''.'' @ (zf_source field))
                                     (if (zf_optional field) then (zf_target field) else
                                        ''info_value'') carrier
                                     (if (zf_optional field) then
                                        (mojoOptionalTargetType api (zf_targetType field)) else
                                        (zf_targetType field)),
                                   propertyWrite api ident (ident @ ''.'' @ (zf_source field))
                                     (zf_target field) carrier
                                     (mojoOptionalTargetType api (zf_targetType field))])
                               (zlibOption_fields api family mode))))
                   [''result'', ''buffer'', ''info'']))) [''zlib'', ''brotli''])"

section \<open>Results (zlib/results.ts)\<close>

definition zlibResult_bufferType :: "providerType" where
  "zlibResult_bufferType = providerRef ''node:buffer'' ''Buffer''"

definition zlibResult_infoType :: "providerType" where
  "zlibResult_infoType = providerRef ''node:zlib'' ''ZlibInfo''"

definition zlibResult_infoCarrier :: "'o mojoApi \<Rightarrow> 'o targetType" where
  "zlibResult_infoCarrier api =
     mojoNamedTargetType api ''tsonic.mojo.node.ZlibInfo'' [''tsonic_node'', ''zlib'']
       ''ZlibInfo''"

definition zlibResult_unionType :: "providerType" where
  "zlibResult_unionType = UnionT [zlibResult_bufferType, zlibResult_infoType]"

definition zlibResult_unionCarrier :: "'o mojoApi \<Rightarrow> 'o targetType" where
  "zlibResult_unionCarrier api =
     mojoUnionTargetType api [bufferCarrier api, zlibResult_infoCarrier api]"

definition sourceResult :: "string \<Rightarrow> providerType" where
  "sourceResult mode =
     (if (mode = ''buffer'') then zlibResult_bufferType else
        (if (mode = ''info'') then zlibResult_infoType else zlibResult_unionType))"

definition targetResult :: "'o mojoApi \<Rightarrow> string \<Rightarrow> 'o targetType" where
  "targetResult api mode =
     (if (mode = ''buffer'') then (bufferCarrier api) else
        (if (mode = ''info'') then (zlibResult_infoCarrier api) else
           (zlibResult_unionCarrier api)))"

definition compressionCallbackType ::
    "string \<Rightarrow> string \<Rightarrow> providerType" where
  "compressionCallbackType signature mode =
     providerCallbackType signature ''callback''
       [param ''error'' AnyT, param ''result'' (UnionT [sourceResult mode, undefinedType])]"

definition compressionCallbackCarrier ::
    "'o mojoApi \<Rightarrow> string \<Rightarrow> 'o targetType" where
  "compressionCallbackCarrier api mode =
     mojoCallableTargetType api
       (map (\<lambda>type. (immPlain type))
          [jsValueCarrier api, mojoOptionalTargetType api (targetResult api mode)])
       (unitCarrier api) True"

definition compressionInfoExport :: "providerExport" where
  "compressionInfoExport =
     interfaceDeclaration ''node:zlib::ZlibInfo'' ''ZlibInfo''
       [propertyMember ''node:zlib::ZlibInfo'' ''buffer'' zlibResult_bufferType,
        propertyMember ''node:zlib::ZlibInfo'' ''engine'' (providerRef ''node:zlib'' ''Zlib'')]"

definition compressionInfoType :: "'o mojoApi \<Rightarrow> 'o typeDefinition" where
  "compressionInfoType api =
     nodeProviderType api (exp_id compressionInfoExport) (zlibResult_infoCarrier api)
       ImplicitlyCopyable"

definition compressionInfoOperations :: "'o mojoApi \<Rightarrow> 'o operation list" where
  "compressionInfoOperations api =
     [propertyRead (exp_id compressionInfoExport) ((exp_id compressionInfoExport) @ ''.buffer'')
        ''buffer'' (zlibResult_infoCarrier api) (bufferCarrier api),
      propertyRead (exp_id compressionInfoExport) ((exp_id compressionInfoExport) @ ''.engine'')
        ''engine'' (zlibResult_infoCarrier api) (zlibTransformCarrier api)]"

section \<open>Streams (zlib/stream.ts)\<close>

definition zlibStream_owner :: "string" where
  "zlibStream_owner = ''node:zlib::Zlib''"

record 'o zlibArgument =
  za_name :: string
  za_source :: providerType
  za_target :: "'o targetType"

record 'o zlibRow =
  zr_name :: string
  zr_target :: string
  zr_suffix :: string
  zr_arguments :: "'o zlibArgument list"
  zr_result :: providerType
  zr_carrier :: "'o targetType"
  zr_raises :: bool

definition zlibStream_input :: "'o mojoApi \<Rightarrow> 'o zlibArgument" where
  "zlibStream_input api =
     \<lparr>za_name = ''input'', za_source = providerRef ''node:buffer'' ''Buffer'',
      za_target = bufferCarrier api\<rparr>"

definition zlibStream_text :: "'o mojoApi \<Rightarrow> 'o zlibArgument" where
  "zlibStream_text api =
     \<lparr>za_name = ''input'', za_source = stringType, za_target = nativeString api\<rparr>"

definition zlibStream_kind :: "'o mojoApi \<Rightarrow> 'o zlibArgument" where
  "zlibStream_kind api =
     \<lparr>za_name = ''kind'', za_source = numberType, za_target = float64Carrier api\<rparr>"

definition zlibStream_callback :: "'o mojoApi \<Rightarrow> string \<Rightarrow> 'o zlibArgument" where
  "zlibStream_callback api signature =
     \<lparr>za_name = ''callback'', za_source = providerCallbackType signature ''callback'' [],
      za_target = emptyCallbackCarrier api\<rparr>"

definition zlibStream_rows :: "'o mojoApi \<Rightarrow> 'o zlibRow list" where
  "zlibStream_rows api =
     [\<lparr>zr_name = ''write'', zr_target = ''write'', zr_suffix = ''input'',
      zr_arguments = [zlibStream_input api], zr_result = booleanType,
      zr_carrier = (boolCarrier api), zr_raises = True\<rparr>,
      \<lparr>zr_name = ''write'', zr_target = ''write_string'', zr_suffix = ''text'',
       zr_arguments = [zlibStream_text api], zr_result = booleanType,
       zr_carrier = (boolCarrier api), zr_raises = True\<rparr>,
      \<lparr>zr_name = ''read'', zr_target = ''read'', zr_suffix = '''', zr_arguments = [],
       zr_result = (UnionT [za_source (zlibStream_input api), undefinedType]),
       zr_carrier = (mojoOptionalTargetType api (bufferCarrier api)), zr_raises = True\<rparr>] @
     (map
        (\<lambda>(target, suffix, arguments).
           \<lparr>zr_name = ''end'', zr_target = target, zr_suffix = suffix,
            zr_arguments = arguments,
            zr_result = providerRef ''node:zlib'' ''Zlib'',
             zr_carrier = zlibTransformCarrier api, zr_raises = True\<rparr>)
        [(''end'', '''', []),
         (''end_buffer'', ''input'', [zlibStream_input api]),
         (''end_string'', ''text'', [zlibStream_text api])]) @
     (map
        (\<lambda>(target, suffix, arguments).
           \<lparr>zr_name = ''flush'', zr_target = target, zr_suffix = suffix,
            zr_arguments = arguments,
            zr_result = voidType, zr_carrier = unitCarrier api, zr_raises = True\<rparr>)
        [(''flush'', '''', []),
         (''flush_kind'', ''kind'', [zlibStream_kind api]),
         (''flush_callback'', ''callback'', [zlibStream_callback api (zlibStream_owner @
          ''.flush(callback)'')]),
         (''flush_kind_callback'', ''kind,callback'', [zlibStream_kind api,
            zlibStream_callback api (zlibStream_owner @ ''.flush(kind,callback)'')])]) @
     [\<lparr>zr_name = ''params'', zr_target = ''params_callback'',
      zr_suffix = ''level,strategy,callback'', zr_arguments = [\<lparr>za_name = ''level'',
      za_source = numberType, za_target = float64Carrier api\<rparr>,
      \<lparr>za_name = ''strategy'', za_source = numberType,
      za_target = float64Carrier api\<rparr>, zlibStream_callback api (zlibStream_owner @
      ''.params(level,strategy,callback)'')], zr_result = voidType,
      zr_carrier = (unitCarrier api), zr_raises = True\<rparr>,
      \<lparr>zr_name = ''reset'', zr_target = ''reset'', zr_suffix = '''', zr_arguments = [],
       zr_result = voidType, zr_carrier = (unitCarrier api), zr_raises = True\<rparr>,
      \<lparr>zr_name = ''destroy'', zr_target = ''destroy'', zr_suffix = '''',
       zr_arguments = [], zr_result = voidType, zr_carrier = (unitCarrier api),
       zr_raises = False\<rparr>,
      \<lparr>zr_name = ''close'', zr_target = ''close'', zr_suffix = '''', zr_arguments = [],
       zr_result = voidType, zr_carrier = (unitCarrier api), zr_raises = False\<rparr>,
      \<lparr>zr_name = ''close'', zr_target = ''close_callback'', zr_suffix = ''callback'',
       zr_arguments = [zlibStream_callback api (zlibStream_owner @ ''.close(callback)'')],
       zr_result = voidType, zr_carrier = (unitCarrier api), zr_raises = True\<rparr>]"

definition compressionStreamExport :: "'o mojoApi \<Rightarrow> providerExport" where
  "compressionStreamExport api =
     classDeclaration zlibStream_owner ''Zlib''
       ((map
           (\<lambda>name.
              (overloadedMethodMember zlibStream_owner name
                 (map
                    (\<lambda>row.
                       (overloadAs (zr_suffix row)
                          (map (\<lambda>argument. (param (za_name argument) (za_source argument)))
                             (zr_arguments row)) (zr_result row)))
                    (filter (\<lambda>row. ((zr_name row) = name)) (zlibStream_rows api)))))
           (unique (map (\<lambda>row. (zr_name row)) (zlibStream_rows api)))) @
        [propertyMember zlibStream_owner ''bytesWritten'' numberType,
         propertyMember zlibStream_owner ''closed'' booleanType])"

definition compressionStreamOperations :: "'o mojoApi \<Rightarrow> 'o operation list" where
  "compressionStreamOperations api =
     (map
        (\<lambda>row.
           (instanceCall zlibStream_owner (zlibStream_owner @ ''.'' @ (zr_name row))
              (zlibStream_owner @ ''.'' @ (zr_name row) @ ''('' @ (zr_suffix row) @ '')'')
              (zr_target row) (zlibTransformCarrier api)
              (map (\<lambda>argument. (za_target argument)) (zr_arguments row)) (zr_carrier row)
              (zr_raises row) ''imm'')) (zlibStream_rows api)) @
     [propertyReadVia MethodAccess zlibStream_owner (zlibStream_owner @ ''.bytesWritten'')
        ''bytes_written'' (zlibTransformCarrier api) (float64Carrier api),
      propertyReadVia MethodAccess zlibStream_owner (zlibStream_owner @ ''.closed'') ''closed''
        (zlibTransformCarrier api) (boolCarrier api)]"

section \<open>The module (zlib/index.ts)\<close>

definition zlib_moduleSpecifier :: "string" where
  "zlib_moduleSpecifier = ''node:zlib''"

definition zlib_bufferType :: "providerType" where
  "zlib_bufferType = providerRef ''node:buffer'' ''Buffer''"

definition zlib_codecs :: "(string \<times> string \<times> string \<times> string) list" where
  "zlib_codecs =
     [(''gzip'', ''gzip'', ''createGzip'', ''zlib''),
      (''gunzip'', ''gunzip'', ''createGunzip'', ''zlib''),
      (''deflate'', ''deflate'', ''createDeflate'', ''zlib''),
      (''inflate'', ''inflate'', ''createInflate'', ''zlib''),
      (''deflateRaw'', ''deflate_raw'', ''createDeflateRaw'', ''zlib''),
      (''inflateRaw'', ''inflate_raw'', ''createInflateRaw'', ''zlib''),
      (''unzip'', ''unzip'', ''createUnzip'', ''zlib''),
      (''brotliCompress'', ''brotli_compress'', ''createBrotliCompress'', ''brotli''),
      (''brotliDecompress'', ''brotli_decompress'', ''createBrotliDecompress'', ''brotli'')]"

definition zlib_modes :: "string list" where
  "zlib_modes = [''info'', ''buffer'', ''result'']"

definition zlib_optionSuffix :: "string \<Rightarrow> string" where
  "zlib_optionSuffix mode =
     (if (mode = ''result'') then ''options'' else (mode @ ''Options''))"

definition zlib_targetSuffix :: "string \<Rightarrow> string" where
  "zlib_targetSuffix mode =
     (if (mode = ''buffer'') then ''options'' else (mode @ ''_options''))"

definition zlibModule :: "'o mojoApi \<Rightarrow> providerModule" where
  "zlibModule api =
     moduleOf zlib_moduleSpecifier ''tsonic.mojo.node.zlib''
       (Some [importOf ''node:buffer'' [''Buffer'']])
       ([compressionConstantsExport] @
        (compressionOptionExports api) @
        [compressionInfoExport, compressionStreamExport api] @
        (concat
           (map
              (\<lambda>(name, _, factory, family).
                 [overloadedFunctionExport zlib_moduleSpecifier (name @ ''Sync'')
                    ([overloadAs ''input'' [param ''input'' zlib_bufferType] zlib_bufferType] @
                     (map
                        (\<lambda>mode.
                           (overloadAs (''input,'' @ (zlib_optionSuffix mode))
                              [param ''input'' zlib_bufferType,
                               param ''options'' (sourceOptions family mode)]
                              (sourceResult mode))) zlib_modes)),
                  overloadedFunctionExport zlib_moduleSpecifier name
                    ([overloadAs ''input,callback''
                        [param ''input'' zlib_bufferType,
                         param ''callback''
                           (compressionCallbackType
                              (zlib_moduleSpecifier @ ''::'' @ name @ ''(input,callback)'')
                              ''buffer'')] voidType] @
                     (map
                        (\<lambda>mode.
                           (overloadAs (''input,'' @ (zlib_optionSuffix mode) @ '',callback'')
                              [param ''input'' zlib_bufferType,
                               param ''options'' (sourceOptions family mode),
                               param ''callback''
                                 (compressionCallbackType
                                    (zlib_moduleSpecifier @ ''::'' @ name @ ''(input,'' @
                                     (zlib_optionSuffix mode) @ '',callback)'') mode)] voidType))
                        zlib_modes)),
                  overloadedFunctionExport zlib_moduleSpecifier factory
                    [overloadAs '''' [] (providerRef zlib_moduleSpecifier ''Zlib''),
                     overloadAs ''options'' [param ''options'' (sourceOptions family ''result'')]
                       (providerRef zlib_moduleSpecifier ''Zlib'')]]) zlib_codecs)))"

definition zlibTypes :: "'o mojoApi \<Rightarrow> 'o typeDefinition list" where
  "zlibTypes api =
     (compressionOptionTypes api) @
     [compressionInfoType api,
      withDuplexView api
        (nodeProviderType api (exp_id (compressionStreamExport api)) (zlibTransformCarrier api)
           ImplicitlyCopyable) ''zlib'']"

definition zlibOperations :: "'o mojoApi \<Rightarrow> 'o operation list" where
  "zlibOperations api =
     ((compressionConstantsOperations api) @ (compressionOptionOperations api) @
      (compressionInfoOperations api) @ (compressionStreamOperations api)) @
     (concat
        (map
           (\<lambda>(name, target, factory, family).
              ([functionCall (zlib_moduleSpecifier @ ''::'' @ name @ ''Sync'')
                  (zlib_moduleSpecifier @ ''::'' @ name @ ''Sync(input)'') ''zlib''
                  (target @ ''_sync'') [bufferCarrier api] (bufferCarrier api) True,
                functionCall (zlib_moduleSpecifier @ ''::'' @ name)
                  (zlib_moduleSpecifier @ ''::'' @ name @ ''(input,callback)'') ''zlib''
                  (target @ ''_callback'')
                  [bufferCarrier api, compressionCallbackCarrier api ''buffer'']
                  (unitCarrier api) True,
                functionCall (zlib_moduleSpecifier @ ''::'' @ factory)
                  (zlib_moduleSpecifier @ ''::'' @ factory @ ''()'') ''zlib''
                  (''create_'' @ target) [] (zlibTransformCarrier api) True,
                functionCall (zlib_moduleSpecifier @ ''::'' @ factory)
                  (zlib_moduleSpecifier @ ''::'' @ factory @ ''(options)'') ''zlib''
                  (''create_'' @ target @ ''_options'') [targetOptions api family]
                  (zlibTransformCarrier api) True] @
               (concat
                  (map
                     (\<lambda>mode.
                        [functionCall (zlib_moduleSpecifier @ ''::'' @ name @ ''Sync'')
                           (zlib_moduleSpecifier @ ''::'' @ name @ ''Sync(input,'' @
                            (zlib_optionSuffix mode) @ '')'') ''zlib''
                           (target @ ''_sync_'' @ (zlib_targetSuffix mode))
                           [bufferCarrier api, targetOptions api family] (targetResult api mode)
                           True,
                         functionCall (zlib_moduleSpecifier @ ''::'' @ name)
                           (zlib_moduleSpecifier @ ''::'' @ name @ ''(input,'' @
                            (zlib_optionSuffix mode) @ '',callback)'') ''zlib''
                           (target @ ''_callback_'' @ (zlib_targetSuffix mode))
                           [bufferCarrier api,
                            targetOptions api family,
                            compressionCallbackCarrier api mode] (unitCarrier api) True])
                     zlib_modes)))) zlib_codecs))"

section \<open>The stream table is implemented\<close>

definition zlibStream_overload :: "'o zlibRow \<Rightarrow> overload" where
  "zlibStream_overload row =
     overloadAs (zr_suffix row)
       (map (\<lambda>argument. param (za_name argument) (za_source argument)) (zr_arguments row))
       (zr_result row)"

definition zlibStream_operation :: "'o mojoApi \<Rightarrow> 'o zlibRow \<Rightarrow> 'o operation" where
  "zlibStream_operation api row =
     instanceCall zlibStream_owner (zlibStream_owner @ ''.'' @ zr_name row)
       (zlibStream_owner @ ''.'' @ zr_name row @ ''('' @ zr_suffix row @ '')'')
       (zr_target row) (zlibTransformCarrier api)
       (map (\<lambda>argument. za_target argument) (zr_arguments row)) (zr_carrier row)
       (zr_raises row) ''imm''"

interpretation zlib_rows: method_rows zlibStream_owner zr_name zlibStream_overload
    "zlibStream_operation api" for api
  by unfold_locales (simp add: zlibStream_operation_def zlibStream_overload_def point_simps)

text \<open>
  One member per name that \<open>new Set(rows.map(...))\<close> keeps, one operation per row: for every
  table of rows they have the same points.
\<close>

lemma zlibRows_implemented:
  "implementsMembers (map (zlibStream_operation api) rows) zlibStream_owner
     (map (\<lambda>n. overloadedMethodMember zlibStream_owner n
        (map zlibStream_overload (filter (\<lambda>row. zr_name row = n) rows)))
        (unique (map zr_name rows)))"
  by (rule zlib_rows.rows_implement) simp_all

lemma compressionStream_implemented:
  "implements (compressionStreamOperations api) [compressionStreamExport api]"
proof -
  have "implementsMembers (compressionStreamOperations api) zlibStream_owner
      (map (\<lambda>n. overloadedMethodMember zlibStream_owner n
        (map zlibStream_overload (filter (\<lambda>row. zr_name row = n) (zlibStream_rows api))))
        (unique (map zr_name (zlibStream_rows api))) @
       [propertyMember zlibStream_owner ''bytesWritten'' numberType,
        propertyMember zlibStream_owner ''closed'' booleanType])"
    unfolding compressionStreamOperations_def zlibStream_operation_def [symmetric]
    by (rule implementsMembers_append [OF zlibRows_implemented])
      (simp add: implementsMembers_def point_simps)
  then show ?thesis
    unfolding compressionStreamExport_def
    by (intro implements_typeDeclaration) (simp add: zlibStream_overload_def [abs_def])
qed

section \<open>The contract\<close>

lemmas zlib_defs = zlibConstant_owner_def zlibConstant_constants_def
  compressionConstantsExport_def compressionConstantsOperations_def
  zlibOption_brotliCarrier_def zlibOption_brotliValue_def zlibOption_parametersType_def
  zlibOption_parametersCarrier_def zlibOption_commonFields_def zlibOption_zlibFields_def
  zlibOption_optionName_def sourceOptions_def targetOptions_def zlibOption_fields_def
  compressionOptionExports_def compressionOptionOperations_def zlibResult_bufferType_def
  zlibResult_infoType_def zlibResult_infoCarrier_def zlibResult_unionType_def
  zlibResult_unionCarrier_def sourceResult_def targetResult_def compressionCallbackType_def
  compressionCallbackCarrier_def compressionInfoExport_def compressionInfoOperations_def
  zlibStream_owner_def zlibStream_input_def zlibStream_text_def zlibStream_kind_def
  zlibStream_callback_def zlibStream_rows_def compressionStreamExport_def
  compressionStreamOperations_def zlib_moduleSpecifier_def zlib_bufferType_def
  zlib_codecs_def zlib_modes_def zlib_optionSuffix_def zlib_targetSuffix_def zlibModule_def
  zlibOperations_def
  zlibField.select_convs zlibArgument.select_convs zlibRow.select_convs unique_def uniqueFrom.simps filter.simps
  list.set insert_iff empty_iff export_ids
  accessKind.distinct

lemma zlib_implements: "implements (zlibOperations api) (mod_exports (zlibModule api))"
  by (rule permCheck_implements)
    (simp only: zlib_defs point_eval cong: weak_congs, simp only: perm_eval cong: perm_congs)

lemma zlib_ids:
  "distinct (map exp_id (mod_exports (zlibModule api))) \<and> moduleScoped (zlibModule api) \<and>
   defaultFree (zlibModule api)"
  by (simp only: zlib_defs moduleScoped_def defaultFree_def id_eval cong: weak_congs)

lemma zlib_index: "memberIndexWrites (zlibOperations api)"
  by (simp only: zlib_defs point_eval cong: weak_congs)

text \<open>
  The native side of the operations has its shape and receivers, and the references of the
  declarations are resolved.
\<close>

lemma zlib_native: "nativeOperations (zlibTypes api) (zlibOperations api)"
  by (simp only: zlib_defs zlibTypes_def compressionOptionTypes_def compressionInfoType_def
      withDuplexView_def native_eval cong: weak_congs)

lemma zlib_refs: "refsResolved (zlibModule api)"
  by (rule refsResolvedI, simp only: zlib_defs duplex_source_def duplex_buffer_def
      readableCall_result_def readableCall_size_def writableCall_bufferType_def
      writableCall_chunkType_def writableCall_completionError_def writableLifecycle_errorType_def
      writableLifecycle_nullableError_def writableLifecycle_optionalError_def visible_eval cong:
      weak_congs)
    (simp only: zlib_defs duplex_source_def duplex_buffer_def readableCall_result_def
      readableCall_size_def writableCall_bufferType_def writableCall_chunkType_def
      writableCall_completionError_def writableLifecycle_errorType_def
      writableLifecycle_nullableError_def writableLifecycle_optionalError_def resolve_eval cong:
      weak_congs)

text \<open>
  Type definitions exist for exactly the declared types with instances, and no point is declared
  twice.
\<close>

lemma zlib_types: "typesExact (zlibTypes api) (mod_exports (zlibModule api))"
  by (rule permCheck_typesExact)
    (simp only: zlib_defs zlibTypes_def compressionOptionTypes_def compressionInfoType_def
      withDuplexView_def type_eval cong: weak_congs,
      simp only: perm_eval cong: perm_congs)

lemma zlib_points: "pointsDistinct (mod_exports (zlibModule api))"
  by (simp only: zlib_defs point_eval cong: weak_congs,
      simp only: distinct_eval cong: perm_congs)

interpretation zlib_component:
  component "[zlibModule api]" "zlibOperations api" for api
  by (rule componentI [OF zlib_implements zlib_ids zlib_index])

end
