(* ===== verification/Node_Package.thy ===== *)
theory Node_Package
  imports Module_Objects Node_Assert Node_Buffer Node_Child_Process Node_Crypto Node_Dns Node_Events Node_Fs
    Node_Http Node_Https Node_Net Node_Os Node_Path Node_Process Node_Readline Node_Stream Node_Timers Node_Tls
    Node_Util Node_Url Node_Worker_Threads Node_Zlib
begin

text \<open>
  \<^verbatim>\<open>nodejs/src/provider/package.ts\<close>, \<^verbatim>\<open>nodejs/src/capability.ts\<close> and
  \<^verbatim>\<open>nodejs/src/index.ts\<close>: the modules are put together, the module objects are added
  and the result is handed to the target package.

  \<open>createMojoProviderPackage\<close> and the constructors of native types belong to
  \<^verbatim>\<open>@tsonic/target-mojo/provider\<close> and the four functions of \<open>nodeHost\<close> to the
  platform; all of them are parameters.

  That the modules and operations collected here satisfy the contract of a package, and that the
  pass of \<^verbatim>\<open>module-objects.ts\<close> keeps it, is proved in \<open>Node_Contract\<close>.
\<close>

section \<open>The definition\<close>

record nodeHost =
  host_importMetaUrl :: string
  host_fileURLToPath :: "string \<Rightarrow> string"
  host_dirname :: "string \<Rightarrow> string"
  host_resolve :: "string \<Rightarrow> string \<Rightarrow> string"

definition packageRoot :: "nodeHost \<Rightarrow> string" where
  "packageRoot host =
     host_resolve host (host_dirname host (host_fileURLToPath host (host_importMetaUrl host)))
       ''../..''"

definition nodeModuleAliases :: "(string \<times> string) list" where
  "nodeModuleAliases =
     [(''assert'', ''node:assert''),
      (''assert/strict'', ''node:assert''),
      (''node:assert/strict'', ''node:assert''),
      (''buffer'', ''node:buffer''),
      (''child_process'', ''node:child_process''),
      (''crypto'', ''node:crypto''),
      (''dns'', ''node:dns''),
      (''dns/promises'', ''node:dns/promises''),
      (''events'', ''node:events''),
      (''fs'', ''node:fs''),
      (''fs/promises'', ''node:fs/promises''),
      (''http'', ''node:http''),
      (''https'', ''node:https''),
      (''net'', ''node:net''),
      (''os'', ''node:os''),
      (''path'', ''node:path''),
      (''process'', ''node:process''),
      (''readline'', ''node:readline''),
      (''stream'', ''node:stream''),
      (''timers'', ''node:timers''),
      (''tls'', ''node:tls''),
      (''util'', ''node:util''),
      (''url'', ''node:url''),
      (''worker_threads'', ''node:worker_threads''),
      (''zlib'', ''node:zlib'')]"

definition nodeModules :: "'o mojoApi \<Rightarrow> providerModule list" where
  "nodeModules api =
     [assertModule,
      bufferModule api,
      childProcessModule,
      cryptoModule api,
      dnsModule api,
      dnsPromisesModule api,
      eventsModule,
      filesystemModule api,
      filesystemPromisesModule api,
      httpModule api,
      httpsModule api,
      netModule api,
      osModule,
      pathModule api,
      processModule api,
      readlineModule api,
      streamModule api,
      timersModule,
      tlsModule api,
      utilModule,
      urlModule api,
      workerThreadsModule,
      zlibModule api]"

definition nodeTypes :: "'o mojoApi \<Rightarrow> 'o typeDefinition list" where
  "nodeTypes api =
     bufferTypes api @
     childProcessTypes api @
     cryptoTypes api @
     dnsTypes api @
     eventsTypes api @
     filesystemTypes api @
     pathTypes api @
     httpTypes api @
     httpsTypes api @
     netTypes api @
     processTypes api @
     readlineTypes api @
     streamTypes api @
     timersTypes api @
     tlsTypes api @
     utilTypes api @
     urlTypes api @
     workerThreadsTypes api @
     zlibTypes api"

text \<open>
  The spread of all operations. \<open>pathOperations()\<close> and \<open>readlineOperations()\<close> may
  throw, in this order.
\<close>

definition nodeOperations :: "'o mojoApi \<Rightarrow> providerError + 'o operation list" where
  "nodeOperations api =
     (case pathOperations api of
        Inl e \<Rightarrow> Inl e
      | Inr pathCalls \<Rightarrow>
          (case readlineOperations api of
             Inl e \<Rightarrow> Inl e
           | Inr readlineCalls \<Rightarrow> Inr
               (assertOperations api @
                bufferOperations api @
                childProcessOperations api @
                cryptoOperations api @
                dnsOperations api @
                eventsOperations api @
                filesystemOperations api @
                filesystemPromisesOperations api @
                httpOperations api @
                httpsOperations api @
                netOperations api @
                osOperations api @
                pathCalls @
                processOperations api @
                readlineCalls @
                streamOperations api @
                timersOperations api @
                tlsOperations api @
                utilOperations api @
                urlOperations api @
                workerThreadsOperations api @
                zlibOperations api)))"

definition nodeBinaryEpilogues :: "binaryEpilogue list" where
  "nodeBinaryEpilogues =
     [\<lparr>epi_id = ''node-event-loop'', epi_modulePath = [''tsonic_node'', ''event_loop''],
       epi_name = ''run_event_loop'', epi_raises = True\<rparr>,
      \<lparr>epi_id = ''node-process-exit-code'', epi_modulePath = [''tsonic_node'', ''process''],
       epi_name = ''apply_exit_code'', epi_raises = False\<rparr>]"

definition nodeRuntimePackages :: "nodeHost \<Rightarrow> runtimePackage list" where
  "nodeRuntimePackages host =
     [\<lparr>run_packageName = ''tsonic_node'',
       run_packagePath = host_resolve host (packageRoot host) ''mojo''\<rparr>,
      \<lparr>run_packageName = ''tsonic_js'',
       run_packagePath =
         host_resolve host (packageRoot host) ''node_modules/@tsonic/mojo-js/mojo''\<rparr>]"

text \<open>The object literal that \<open>withNodeModuleObjects\<close> is called with.\<close>

definition nodePackageWith ::
    "nodeHost \<Rightarrow> 'o mojoApi \<Rightarrow> 'o operation list \<Rightarrow> 'o packageDefinition" where
  "nodePackageWith host api operations =
     \<lparr>pkg_id = ''@tsonic/mojo-nodejs'', pkg_displayName = ''Node.js for Mojo'',
      pkg_version = ''0.0.1'', pkg_moduleAliases = nodeModuleAliases,
      pkg_modules = nodeModules api, pkg_types = nodeTypes api,
      pkg_surfaceMembers = [filesystemSurfaceMembers api], pkg_operations = operations,
      pkg_binaryEpilogues = nodeBinaryEpilogues,
      pkg_runtimePackages = nodeRuntimePackages host\<rparr>"

definition createMojoNodejsProviderPackage ::
    "('o packageDefinition \<Rightarrow> 'p) \<Rightarrow> nodeHost \<Rightarrow> 'o mojoApi \<Rightarrow> providerError + 'p" where
  "createMojoNodejsProviderPackage createMojoProviderPackage host api =
     (case nodeOperations api of
        Inl e \<Rightarrow> Inl e
      | Inr operations \<Rightarrow>
          (case withNodeModuleObjects (nodePackageWith host api operations) of
             Inl e \<Rightarrow> Inl e
           | Inr def \<Rightarrow> Inr (createMojoProviderPackage def)))"

definition createMojoNodejsCapability ::
    "('o packageDefinition \<Rightarrow> 'p) \<Rightarrow> nodeHost \<Rightarrow> 'o mojoApi \<Rightarrow> providerError + 'p" where
  "createMojoNodejsCapability createMojoProviderPackage host api =
     createMojoNodejsProviderPackage createMojoProviderPackage host api"

definition createTsonicPlugin ::
    "('o packageDefinition \<Rightarrow> 'p) \<Rightarrow> nodeHost \<Rightarrow> 'o mojoApi \<Rightarrow> providerError + 'p" where
  "createTsonicPlugin createMojoProviderPackage host api =
     createMojoNodejsCapability createMojoProviderPackage host api"

end
