(* ===== verification/Node_Contract.thy ===== *)
theory Node_Contract
  imports Node_Package
begin

text \<open>
  The contract of the assembled package. The interpretations of \<open>component\<close>, one per
  module, are put side by side; the two partial parts (\<open>pathOperations\<close> and
  \<open>readlineOperations\<close>) return, so the object literal of
  \<open>createMojoNodejsProviderPackage\<close> exists and meets the assumptions of the module
  object pass (\<open>node_package\<close>, the interpretation of \<open>projectable_package\<close>).
\<close>

section \<open>The operations\<close>

definition nodeOperationList :: "'o mojoApi \<Rightarrow> 'o operation list" where
  "nodeOperationList api =
     assertOperations api @
     bufferOperations api @
     childProcessOperations api @
     cryptoOperations api @
     dnsOperations api @
     eventsOperations api @
     filesystemOperations api @
     filesystemPromisesOperations api @
     httpOperations api @
     httpsOperations api @
     netOperations api @
     osOperations api @
     pathOperationList api @
     processOperations api @
     readlineOperationList api @
     streamOperations api @
     timersOperations api @
     tlsOperations api @
     utilOperations api @
     urlOperations api @
     workerThreadsOperations api @
     zlibOperations api"

lemma nodeOperations_returns: "nodeOperations api = Inr (nodeOperationList api)"
  by (simp add: nodeOperations_def nodeOperationList_def pathOperations_returns
      readlineOperations_returns)

abbreviation nodePackage :: "nodeHost \<Rightarrow> 'o mojoApi \<Rightarrow> 'o packageDefinition" where
  "nodePackage host api \<equiv> nodePackageWith host api (nodeOperationList api)"

section \<open>The components side by side\<close>

lemma component_split:
  assumes "component [m, n] ps" and "component ms qs"
  shows "component (m # n # ms) (ps @ qs)"
  using component_append [OF assms] by simp

interpretation node: component "nodeModules api" "nodeOperationList api" for api
  unfolding nodeModules_def nodeOperationList_def
  by (intro component_Cons [OF assert_component.component_axioms]
      component_Cons [OF buffer_component.component_axioms]
      component_Cons [OF childProcess_component.component_axioms]
      component_Cons [OF crypto_component.component_axioms]
      component_split [OF dns_component.component_axioms]
      component_Cons [OF events_component.component_axioms]
      component_Cons [OF fs_component.component_axioms]
      component_Cons [OF fsPromises_component.component_axioms]
      component_Cons [OF http_component.component_axioms]
      component_Cons [OF https_component.component_axioms]
      component_Cons [OF net_component.component_axioms]
      component_Cons [OF os_component.component_axioms]
      component_Cons [OF path_component.component_axioms]
      component_Cons [OF process_component.component_axioms]
      component_Cons [OF readline_component.component_axioms]
      component_Cons [OF stream_component.component_axioms]
      component_Cons [OF timers_component.component_axioms]
      component_Cons [OF tls_component.component_axioms]
      component_Cons [OF util_component.component_axioms]
      component_Cons [OF url_component.component_axioms]
      component_Cons [OF worker_component.component_axioms]
      zlib_component.component_axioms)

lemmas module_defs = assertModule_def bufferModule_def childProcessModule_def cryptoModule_def
  dnsModule_def dnsPromisesModule_def eventsModule_def filesystemModule_def
  filesystemPromisesModule_def httpModule_def httpsModule_def netModule_def osModule_def
  pathModule_def processModule_def readlineModule_def streamModule_def timersModule_def
  tlsModule_def utilModule_def urlModule_def legacyUrlModule_def workerThreadsModule_def
  zlibModule_def

lemmas specifier_defs = assert_moduleSpecifier_def buffer_moduleSpecifier_def
  childProcess_moduleSpecifier_def crypto_moduleSpecifier_def dns_moduleSpecifier_def
  dns_promisesSpecifier_def events_moduleSpecifier_def fs_moduleSpecifier_def
  fsPromises_moduleSpecifier_def http_moduleSpecifier_def https_moduleSpecifier_def
  net_moduleSpecifier_def os_moduleSpecifier_def path_moduleSpecifier_def
  process_moduleSpecifier_def readline_moduleSpecifier_def stream_moduleSpecifier_def
  timers_moduleSpecifier_def tls_moduleSpecifier_def util_moduleSpecifier_def
  urlLegacy_moduleSpecifier_def worker_moduleSpecifier_def zlib_moduleSpecifier_def

definition nodeSpecifiers :: "string list" where
  "nodeSpecifiers =
     [''node:assert'', ''node:buffer'', ''node:child_process'', ''node:crypto'', ''node:dns'',
      ''node:dns/promises'', ''node:events'', ''node:fs'', ''node:fs/promises'', ''node:http'',
      ''node:https'', ''node:net'', ''node:os'', ''node:path'', ''node:process'',
      ''node:readline'', ''node:stream'', ''node:timers'', ''node:tls'', ''node:util'',
      ''node:url'', ''node:worker_threads'', ''node:zlib'']"

lemma nodeModules_specifiers: "map mod_moduleSpecifier (nodeModules api) = nodeSpecifiers"
  by (simp only: nodeModules_def nodeSpecifiers_def list.map module_defs Let_def
      mod_moduleSpecifier_moduleOf module_update_simps specifier_defs)

lemmas module_ids = assert_ids buffer_ids childProcess_ids crypto_ids dns_ids events_ids fs_ids fsPromises_ids
  http_ids https_ids net_ids os_ids path_ids process_ids readline_ids stream_ids timers_ids
  tls_ids util_ids url_ids worker_ids zlib_ids dnsPromises_ids

lemmas module_points = assert_points buffer_points childProcess_points crypto_points dns_points events_points fs_points
  fsPromises_points http_points https_points net_points os_points path_points process_points
  readline_points stream_points timers_points tls_points util_points url_points worker_points
  zlib_points

lemmas module_refs = assert_refs buffer_refs childProcess_refs crypto_refs dns_refs events_refs fs_refs
  fsPromises_refs http_refs https_refs net_refs os_refs path_refs process_refs readline_refs
  stream_refs timers_refs tls_refs util_refs url_refs worker_refs zlib_refs dnsPromises_refs

lemmas module_natives = assert_native buffer_native childProcess_native crypto_native dns_native events_native fs_native
  fsPromises_native http_native https_native net_native os_native path_native process_native
  readline_native stream_native timers_native tls_native util_native url_native worker_native
  zlib_native

text \<open>
  The modules with a default export of their own are not listed in \<open>moduleObjects\<close>.
\<close>

lemma default_modules_unlisted:
  "objectMetadata assertModule = None"
  "objectMetadata (processModule api) = None"
  by (simp_all only: objectMetadata_def moduleObjects_def assertModule_def processModule_def
      mod_moduleSpecifier_moduleOf assert_moduleSpecifier_def process_moduleSpecifier_def find.simps
      case_prod_conv list.inject list.distinct char.inject simp_thms if_False cong: if_weak_cong)

lemma node_scoped: "scopedPackage (nodePackage host api)"
proof -
  have "distinct nodeSpecifiers" by (simp add: nodeSpecifiers_def)
  moreover have "list_all (\<lambda>m. objectMetadata m = None \<or> defaultFree m) (nodeModules api)"
    by (simp add: nodeModules_def default_modules_unlisted module_ids)
  ultimately show ?thesis
    using node.scoped by (simp add: scopedPackage_def nodePackageWith_def nodeModules_specifiers)
qed

lemma node_ids: "distinct (map exp_id (packageExports (nodeModules api)))"
  by (rule node.package_ids) (simp add: nodeModules_specifiers nodeSpecifiers_def)

interpretation node_package: projectable_package "nodePackage host api" for host api
proof
  show "packageContract (nodePackage host api)"
    by (simp add: packageContract_def nodePackageWith_def node_ids node.implemented node.index_writes)
qed (rule node_scoped)

section \<open>The declarations of the package\<close>

lemma node_points: "distinct (exportsPoints (packageExports (nodeModules api)))"
proof (rule exportsPoints_distinct [OF node_ids])
  show "pointsDistinct (packageExports (nodeModules api))"
    using dns_points [of api]
    by (simp add: nodeModules_def packageExports_def pointsDistinct_simps module_points)
qed

text \<open>\<open>typesExact\<close> holds side by side, and the order of the type definitions is irrelevant.\<close>

lemma types_Cons:
  "typesExact ts (mod_exports m) \<Longrightarrow> typesExact us (packageExports ms) \<Longrightarrow>
   typesExact (ts @ us) (packageExports (m # ms))"
  by (simp add: packageExports_Cons typesExact_append)

lemma types_split:
  "typesExact ts (packageExports [m, n]) \<Longrightarrow> typesExact us (packageExports ms) \<Longrightarrow>
   typesExact (ts @ us) (packageExports (m # n # ms))"
  using typesExact_append [of ts "packageExports [m, n]"] by (simp add: packageExports_def)

lemma node_types: "typesExact (nodeTypes api) (packageExports (nodeModules api))"
proof -
  have "typesExact
      ([] @ bufferTypes api @ childProcessTypes api @ cryptoTypes api @ dnsTypes api @ eventsTypes
      api @ filesystemTypes api @ [] @ httpTypes api @ httpsTypes api @ netTypes api @ [] @
      pathTypes api @ processTypes api @ readlineTypes api @ streamTypes api @ timersTypes api @
      tlsTypes api @ utilTypes api @ urlTypes api @ workerThreadsTypes api @ zlibTypes api @ [])
      (packageExports (nodeModules api))"
    unfolding nodeModules_def
    by (intro types_Cons [OF assert_types] types_Cons [OF buffer_types] types_Cons [OF
        childProcess_types] types_Cons [OF crypto_types] types_split [OF dns_types] types_Cons [OF
        events_types] types_Cons [OF fs_types] types_Cons [OF fsPromises_types] types_Cons [OF
        http_types] types_Cons [OF https_types] types_Cons [OF net_types] types_Cons [OF os_types]
        types_Cons [OF path_types] types_Cons [OF process_types] types_Cons [OF readline_types]
        types_Cons [OF stream_types] types_Cons [OF timers_types] types_Cons [OF tls_types]
        types_Cons [OF util_types] types_Cons [OF url_types] types_Cons [OF worker_types]
        types_Cons [OF zlib_types])
      (simp add: typesExact_def packageExports_def)
  then show ?thesis by (simp add: typesExact_def nodeTypes_def ac_simps)
qed

lemma node_refs: "list_all refsResolved (nodeModules api)"
  by (simp add: nodeModules_def module_refs)

text \<open>
  What the visible types of all modules evaluate to: the imports name declared types, and a
  module that gets an object has a function or a value.
\<close>

lemmas declaration_defs =
  assert_defs buffer_defs childProcess_defs crypto_defs crypto_bufferType_def dns_defs events_defs
  fs_defs fs_call_eval fs_copy_eval fs_stream_eval fs_watch_eval duplex_source_def
  duplex_buffer_def readableCall_result_def readableCall_size_def writableCall_bufferType_def
  writableCall_chunkType_def writableCall_completionError_def writableLifecycle_errorType_def
  writableLifecycle_nullableError_def writableLifecycle_optionalError_def fsPromises_defs
  http_defs addressType_def connectionOptionsType_def serverOptionsType_def listenOptionsType_def
  listenOptionsImport_def https_defs net_defs os_defs path_defs process_defs readline_defs
  event_eval stream_defs timers_defs tls_defs url_defs util_defs worker_defs zlib_defs

lemma node_imports: "importsResolved (nodeModules api)"
  by (rule importsResolvedI,
      simp only: nodeModules_def declaration_defs visible_eval cong: weak_congs,
      simp only: nodeModules_def declaration_defs visible_eval cong: weak_congs)
    (simp only: list.pred_inject list.set insert_iff prod.inject list.inject list.distinct char.inject
      simp_thms)

lemma inhabited_eval:
  "list_ex projectable [] \<longleftrightarrow> False"
  "list_ex projectable (x # xs) \<longleftrightarrow> \<not> typeExport x \<or> list_ex projectable xs"
  "list_ex projectable (xs @ ys) \<longleftrightarrow> list_ex projectable xs \<or> list_ex projectable ys"
proof -
  have "projectable x \<longleftrightarrow> \<not> typeExport x" for x
    by (cases "exp_kind x") (simp_all add: projectable_def typeExport_def)
  then show
    "list_ex projectable [] \<longleftrightarrow> False"
    "list_ex projectable (x # xs) \<longleftrightarrow> \<not> typeExport x \<or> list_ex projectable xs"
    "list_ex projectable (xs @ ys) \<longleftrightarrow> list_ex projectable xs \<or> list_ex projectable ys"
    by simp_all
qed

lemma node_inhabited: "objectsInhabited (nodeModules api)"
  by (simp only: objectsInhabited_def objectMetadata_def moduleObjects_def find.simps list.pred_inject
      inhabited_eval option.distinct nodeModules_def declaration_defs visible_eval cong: weak_congs)

section \<open>The native side of the package\<close>

lemma node_native: "nativeOperations (nodeTypes api) (nodeOperationList api)"
proof -
  have types: "distinct (map type_exportId (nodeTypes api))"
    by (rule typesExact_distinct [OF node_types node_ids])
  note lift = nativeOperations_subset [OF _ types]
  show ?thesis
    unfolding nodeOperationList_def nativeOperations_simps
    by (intro conjI) (rule lift, rule module_natives, force simp: nodeTypes_def)+
qed

section \<open>The result\<close>

text \<open>The definition that the target package is given.\<close>

definition nodeDefinition :: "nodeHost \<Rightarrow> 'o mojoApi \<Rightarrow> 'o packageDefinition" where
  "nodeDefinition host api = objectPackage (nodePackage host api)"

lemma package_returns:
  "createMojoNodejsProviderPackage build host api = Inr (build (nodeDefinition host api))"
  by (simp add: createMojoNodejsProviderPackage_def nodeOperations_returns node_package.pass_returns
      nodeDefinition_def)

lemma nodePackage_simps [simp]:
  "pkg_modules (nodePackage host api) = nodeModules api"
  "pkg_operations (nodePackage host api) = nodeOperationList api"
  "pkg_types (nodePackage host api) = nodeTypes api"
  by (simp_all add: nodePackageWith_def)

lemma nodeDefinition_simps [simp]:
  "pkg_modules (nodeDefinition host api) = map objectModule (nodeModules api)"
  "pkg_types (nodeDefinition host api) = nodeTypes api"
  "pkg_moduleAliases (nodeDefinition host api) = nodeModuleAliases"
  by (simp_all add: nodeDefinition_def objectPackage_def nodePackageWith_def)

interpretation node_result: component "pkg_modules (nodeDefinition host api)"
    "pkg_operations (nodeDefinition host api)" for host api
  unfolding nodeDefinition_def by (rule node_package.result_component)

lemma delivered_contract: "packageContract (nodeDefinition host api)"
  unfolding nodeDefinition_def by (rule node_package.result_contract)

lemma result_types:
  "typesExact (nodeTypes api) (packageExports (map objectModule (nodeModules api)))"
  using objectPackage_typesExact [of "nodePackage host api" "nodeTypes api"] node_types [of api]
  by (simp add: node_inhabited objectPackage_def)

lemma result_native: "nativeOperations (nodeTypes api) (pkg_operations (nodeDefinition host api))"
  unfolding nodeDefinition_def
  by (rule objectPackage_native [OF node_package.contract]) (simp_all add: node_types node_native)

lemma result_refs: "list_all refsResolved (map objectModule (nodeModules api))"
  using node_refs [of api] by (auto simp: list_all_iff objectModule_refsResolved)

lemma result_imports: "importsResolved (map objectModule (nodeModules api))"
  by (rule objectModules_importsResolved [OF node_imports])

lemma result_points: "distinct (exportsPoints (packageExports (map objectModule (nodeModules api))))"
  using objectPackage_points [OF node_package.contract node_package.scoped, of undefined api]
  by (simp add: node_points objectPackage_def)

section \<open>Specifiers, aliases and scopes\<close>

lemma result_specifiers: "map mod_moduleSpecifier (pkg_modules (nodeDefinition host api)) = nodeSpecifiers"
  using nodeModules_specifiers [of api] by (simp add: comp_def)

text \<open>
  The alias table in terms of the specifiers: every module has the alias without its scheme,
  and assert its strict variants.
\<close>

definition specifierAliases :: "string \<Rightarrow> (string \<times> string) list" where
  "specifierAliases s =
     (drop 5 s, s) #
     (if s = ''node:assert'' then [(''assert/strict'', s), (''node:assert/strict'', s)] else [])"

lemma nodeAliases_exact: "nodeModuleAliases = concat (map specifierAliases nodeSpecifiers)"
  by (simp add: nodeModuleAliases_def nodeSpecifiers_def specifierAliases_def)

lemma nodeAliases_distinct:
  "distinct (map fst nodeModuleAliases)"
  "set (map fst nodeModuleAliases) \<inter> set nodeSpecifiers = {}"
  by (simp add: nodeModuleAliases_def)
    (simp add: nodeModuleAliases_def nodeSpecifiers_def)

lemma result_scoped: "list_all moduleScoped (map objectModule (nodeModules api))"
  using node_result.scoped by simp

section \<open>Default exports\<close>

definition defaultCount :: "providerModule \<Rightarrow> nat" where
  "defaultCount m = length (filter exp_isDefault (mod_exports m))"

lemma objectMetadata_iff:
  "objectMetadata m = None \<longleftrightarrow> mod_moduleSpecifier m \<notin> set (map fst moduleObjects)"
  by (force simp: objectMetadata_def find_None_iff)

lemma defaultFree_count:
  "defaultFree m \<Longrightarrow>
   defaultCount (objectModule m) = (if mod_moduleSpecifier m \<in> set (map fst moduleObjects) then 1 else 0)"
  using objectMetadata_iff [of m]
  by (auto simp: defaultFree_def defaultCount_def objectModule_exports list_all_iff filter_empty_conv
      objectExport_def typeDeclaration_def split: option.splits)

text \<open>The two modules that bring a default export of their own.\<close>

lemma own_default:
  "defaultCount assertModule = 1" "mod_moduleSpecifier assertModule = ''node:assert''"
  by (simp_all only: defaultCount_def assert_defs id_eval filter.simps list.size One_nat_def add_0
      add_Suc_right option.distinct cong: weak_congs)

lemma own_process_default:
  "defaultCount (processModule api) = 1" "mod_moduleSpecifier (processModule api) = ''node:process''"
  by (simp_all only: defaultCount_def process_defs id_eval filter.simps list.size One_nat_def add_0
      add_Suc_right option.distinct cong: weak_congs)

lemma node_default_free:
  "list_all (\<lambda>m. m = assertModule \<or> m = processModule api \<or> defaultFree m) (nodeModules api)"
  by (simp add: nodeModules_def module_ids)

lemma result_defaults:
  assumes "m \<in> set (nodeModules api)"
  shows "defaultCount (objectModule m) =
    (if mod_moduleSpecifier m \<in> set (''node:assert'' # ''node:process'' # map fst moduleObjects)
     then 1 else 0)"
proof -
  have unlisted: "objectModule assertModule = assertModule"
      "objectModule (processModule api) = processModule api"
    by (simp_all only: objectModule_def default_modules_unlisted option.case)
  consider "m = assertModule" | "m = processModule api" | "defaultFree m" "m \<noteq> assertModule"
      "m \<noteq> processModule api"
    using node_default_free assms by (fastforce simp: list_all_iff)
  then show ?thesis
  proof cases
    case 3
    have "inj_on mod_moduleSpecifier (set (nodeModules api))"
      using node_scoped [of undefined api] by (simp add: scopedPackage_def distinct_map)
    moreover have "assertModule \<in> set (nodeModules api)" "processModule api \<in> set (nodeModules api)"
      by (simp_all add: nodeModules_def)
    ultimately have "mod_moduleSpecifier m \<noteq> ''node:assert''" "mod_moduleSpecifier m \<noteq> ''node:process''"
      using assms 3 own_default(2) own_process_default(2) by (metis inj_onD)+
    with 3 show ?thesis by (simp add: defaultFree_count)
  qed (simp_all add: unlisted own_default own_process_default)
qed

lemma result_defaultCounts:
  "map defaultCount (map objectModule (nodeModules api)) =
     map (\<lambda>s. if s = ''node:events'' \<or> s = ''node:stream'' then 0 else 1) nodeSpecifiers"
proof -
  have "defaultCount (objectModule m) =
      (if mod_moduleSpecifier m = ''node:events'' \<or> mod_moduleSpecifier m = ''node:stream'' then 0 else 1)"
    if "m \<in> set (nodeModules api)" for m
  proof -
    have "mod_moduleSpecifier m \<in> set nodeSpecifiers"
      using that by (simp flip: nodeModules_specifiers [of api])
    then show ?thesis
      unfolding result_defaults [OF that] by (auto simp: nodeSpecifiers_def moduleObjects_def)
  qed
  then show ?thesis
    by (simp flip: nodeModules_specifiers [of api] add: comp_def)
qed
section \<open>Members of other surfaces\<close>

text \<open>
  Members that are declared only on some surface fit to a package: they extend its types, are
  implemented, each once, by operations with native receivers, and none is declared already.
\<close>

definition surfaceFits ::
    "'o typeDefinition list \<Rightarrow> providerExport list \<Rightarrow> 'o surfaceMembers \<Rightarrow> bool" where
  "surfaceFits ts xs s \<longleftrightarrow>
     surfaceImplemented s \<and> distinct (operationsPoints (sur_operations s)) \<and>
     set (operationsPoints (sur_operations s)) \<inter> set (exportsPoints xs) = {} \<and>
     nativeOperations ts (sur_operations s) \<and>
     list_all (\<lambda>(e, ms). typeOf ts e \<noteq> None) (sur_declarations s)"

lemma stats_type: "typeOf (nodeTypes api) fs_statsId = Some (statsCarrier api)"
proof (rule typeOf_subset)
  show "distinct (map type_exportId (nodeTypes api))"
    by (rule typesExact_distinct [OF node_types node_ids])
  show "set (filesystemTypes api) \<subseteq> set (nodeTypes api)" by (force simp: nodeTypes_def)
  show "typeOf (filesystemTypes api) fs_statsId = Some (statsCarrier api)"
    by (simp add: filesystemTypes_def native_eval filesystemWatchTypes_def filesystemStreamTypes_def
        filesystemCopyTypes_def fs_defs fs_stream_eval fs_watch_eval fs_copy_eval)
qed

lemma result_surface_new:
  "set surfacePoints \<inter> set (exportsPoints (packageExports (map objectModule (nodeModules api)))) = {}"
proof -
  have False if q: "q \<in> set surfacePoints"
      and "q \<in> set (exportsPoints (packageExports (map objectModule (nodeModules api))))" for q
  proof -
    from that obtain m x where m: "m \<in> set (nodeModules api)"
      and x: "x \<in> set (mod_exports (objectModule m))" "q \<in> set (exportPoints x)"
      by (auto simp: exportsPoints_def packageExports_def)
    have e: "exp_id x = ''node:fs::Stats''"
      using q exportPoints_fst [OF x(2)] by (auto simp: surfacePoints_def)
    have "idScope (exp_id x) = mod_moduleSpecifier m"
      using result_scoped [of api] m x(1) by (auto simp: list_all_iff moduleScoped_def)
    then have spec: "mod_moduleSpecifier m = ''node:fs''" by (simp add: e)
    moreover have "mod_moduleSpecifier (filesystemModule api) = ''node:fs''"
      by (simp add: filesystemModule_def mod_moduleSpecifier_moduleOf fs_moduleSpecifier_def)
    moreover have "inj_on mod_moduleSpecifier (set (nodeModules api))"
      using node_scoped [of undefined api] by (simp add: scopedPackage_def distinct_map)
    moreover have "filesystemModule api \<in> set (nodeModules api)" by (simp add: nodeModules_def)
    ultimately have "m = filesystemModule api" using m by (metis inj_onD)
    moreover have "exp_id x \<noteq> objectExportId m" by (simp add: e objectExportId_def spec)
    then have "x \<in> set (mod_exports m)"
      using x(1) by (auto simp: objectModule_exports split: option.splits)
    ultimately have "q \<in> set (exportsPoints (mod_exports (filesystemModule api)))"
      using x(2) by (auto simp: exportsPoints_def)
    then show False
      using fs_surface_new [of api] q by (auto simp: list_all_iff absent_iff)
  qed
  then show ?thesis by blast
qed

lemma result_surfaces:
  "list_all (surfaceFits (nodeTypes api) (packageExports (pkg_modules (nodeDefinition host api))))
     (pkg_surfaceMembers (nodeDefinition host api))"
proof -
  have "nativeOperations (nodeTypes api) (sur_operations (filesystemSurfaceMembers api))"
    by (simp add: filesystemSurfaceMembers_def Let_def native_simps stats_type)
  moreover have "distinct surfacePoints" by (simp add: surfacePoints_def)
  moreover have "list_all (\<lambda>(e, ms). typeOf (nodeTypes api) e \<noteq> None)
      (sur_declarations (filesystemSurfaceMembers api))"
    by (simp add: filesystemSurfaceMembers_def Let_def stats_type)
  ultimately show ?thesis
    by (simp add: nodeDefinition_def objectPackage_def nodePackageWith_def surfaceFits_def
        filesystemSurface_implemented filesystemSurface_points result_surface_new)
qed

end
