(* ===== verification/Provider_Typing.thy ===== *)
theory Provider_Typing
  imports Provider_References
begin

text \<open>
  Which native types may hold the values of a source type. \<open>carries\<close> is the relation;
  \<open>carriersOf\<close> enumerates the native types it allows for a source type, and
  \<open>acceptsOperations\<close> a check of a table of operations
  against the declarations, sound for \<open>carries\<close> (\<open>acceptsOperations_sound\<close>).

  The relation is the one the sources follow: primitive types have fixed carriers, a promise
  is a future, an array a list, a callback a callable that may raise, a reference the native
  type of its type definition, a union a union in any order, optional when \<open>null\<close> or
  \<open>undefined\<close> is among its alternatives, and a dynamic value when an alternative is
  dynamic.
\<close>

named_theorems shape_simps "equations computing the shapes of declarations and operations"

section \<open>The relation\<close>

fun nullish :: "providerType \<Rightarrow> bool" where
  "nullish UndefinedT = True"
| "nullish (LiteralT NullLiteral) = True"
| "nullish _ = False"

fun dynamic :: "providerType \<Rightarrow> bool" where
  "dynamic AnyT = True"
| "dynamic UnknownT = True"
| "dynamic (SourceGlobalT n None) = (n = ''Symbol'')"
| "dynamic _ = False"

fun stringLiteral :: "providerType \<Rightarrow> bool" where
  "stringLiteral (LiteralT (StringLiteral s)) = True"
| "stringLiteral _ = False"

definition alternatives :: "providerType list \<Rightarrow> providerType list" where
  "alternatives us = filter (\<lambda>t. \<not> nullish t) us"

definition optionals :: "'o mojoApi \<Rightarrow> 'o targetType \<Rightarrow> 'o targetType list" where
  "optionals api c = [mojoOptionalTargetType api c, OptionalTarget c]"

definition nullables :: "'o mojoApi \<Rightarrow> providerType list \<Rightarrow> 'o targetType \<Rightarrow> 'o targetType list" where
  "nullables api us c = (if list_ex nullish us then optionals api c else [c])"

definition futures :: "'o mojoApi \<Rightarrow> 'o targetType \<Rightarrow> 'o targetType list" where
  "futures api c =
     [mojoFutureTargetType api c ''native'' True, FutureTarget ''native'' c True,
      CaptureOriginsTarget (mojoFutureTargetType api c ''native'' True) ''empty'']"

inductive carries :: "'o mojoApi \<Rightarrow> 'o typeDefinition list \<Rightarrow> providerType \<Rightarrow> 'o targetType \<Rightarrow> bool"
  for api :: "'o mojoApi" and ts :: "'o typeDefinition list" where
  string: "c = nativeString api \<or> c = NativeStringTarget \<Longrightarrow> carries api ts StringT c"
| number: "c = float64Carrier api \<or> c = nativeIntCarrier api \<or> c = int32Carrier api \<Longrightarrow>
    carries api ts NumberT c"
| boolean: "carries api ts BooleanT (boolCarrier api)"
| void: "carries api ts VoidT (unitCarrier api)"
| undefined: "carries api ts UndefinedT (unitCarrier api)"
| never: "carries api ts NeverT NeverTarget"
| boolLiteral: "carries api ts (LiteralT (BoolLiteral b)) (boolCarrier api)"
| stringLiteral: "c = nativeString api \<or> c = jsValueCarrier api \<Longrightarrow>
    carries api ts (LiteralT (StringLiteral s)) c"
| dynamic: "dynamic t \<Longrightarrow> carries api ts t (jsValueCarrier api)"
| primitive: "carries api ts (SourcePrimitiveT s) (mojoPrimitiveTargetType api s)"
| array: "carries api ts t c \<Longrightarrow> carries api ts (ArrayT t) (mojoListTargetType api c)"
| reference: "typeOf ts (m @ ''::'' @ n) = Some c \<Longrightarrow> carries api ts (ProviderRefT m n args) c"
| typeParameter: "carries api ts (TypeParameterT n) (TypeParameterTarget n)"
| sourceError: "carries api ts (SourceGlobalT ''Error'' None) (mojoSourceErrorType api)"
| promise: "carries api ts t c \<Longrightarrow> f \<in> set (futures api c) \<Longrightarrow>
    carries api ts (SourceGlobalT ''Promise'' (Some [t])) f"
| dictionary: "carries api ts k a \<Longrightarrow> carries api ts v b \<Longrightarrow>
    carries api ts (SourceGlobalT ''Record'' (Some [k, v])) (mojoDictionaryTargetType api a b)"
| callable: "list_all2 (\<lambda>p c. carries api ts (par_type p) c) ps cs \<Longrightarrow> carries api ts r c \<Longrightarrow>
    carries api ts (FunctionT s ps r) (mojoCallableTargetType api (map immPlain cs) c True)"
| union_dynamic: "list_ex dynamic us \<Longrightarrow> carries api ts (UnionT us) (jsValueCarrier api)"
| union_literals: "list_all stringLiteral us \<Longrightarrow> carries api ts (UnionT us) (nativeString api)"
| union_single: "alternatives us = [t] \<Longrightarrow> carries api ts t c \<Longrightarrow> d \<in> set (nullables api us c) \<Longrightarrow>
    carries api ts (UnionT us) d"
| union_many: "list_all2 (carries api ts) (alternatives us) cs \<Longrightarrow> mset ds = mset cs \<Longrightarrow>
    d \<in> set (nullables api us (mojoUnionTargetType api ds)) \<Longrightarrow> carries api ts (UnionT us) d"

text \<open>
  A rest parameter is received element by element, and a native parameter may be optional
  where the source parameter is not.
\<close>

fun passedType :: "providerParameter \<Rightarrow> providerType" where
  "passedType (Parameter n (ArrayT t) True q) = t"
| "passedType (Parameter n t rest q) = t"

definition carriesParameter ::
    "'o mojoApi \<Rightarrow> 'o typeDefinition list \<Rightarrow> providerParameter \<Rightarrow> 'o targetType \<Rightarrow> bool" where
  "carriesParameter api ts p c \<longleftrightarrow>
     (\<exists>d. carries api ts (passedType p) d \<and> (c = d \<or> c \<in> set (optionals api d)))"

section \<open>The carriers of a type\<close>

text \<open>All choices of one element from each list, and all orders of a list.\<close>

fun products :: "'a list list \<Rightarrow> 'a list list" where
  "products [] = [[]]"
| "products (xs # xss) = concat (map (\<lambda>x. map (Cons x) (products xss)) xs)"

fun insertions :: "'a \<Rightarrow> 'a list \<Rightarrow> 'a list list" where
  "insertions x [] = [[x]]"
| "insertions x (y # ys) = (x # y # ys) # map (Cons y) (insertions x ys)"

fun arrangements :: "'a list \<Rightarrow> 'a list list" where
  "arrangements [] = [[]]"
| "arrangements (x # xs) = concat (map (insertions x) (arrangements xs))"

lemma products_iff: "ys \<in> set (products xss) \<longleftrightarrow> list_all2 (\<lambda>xs y. y \<in> set xs) xss ys"
  by (induction xss arbitrary: ys) (auto simp: list_all2_Cons1)

lemma insertions_mset: "ys \<in> set (insertions x xs) \<Longrightarrow> mset ys = add_mset x (mset xs)"
  by (induction x xs arbitrary: ys rule: insertions.induct) auto

lemma arrangements_mset: "ys \<in> set (arrangements xs) \<Longrightarrow> mset ys = mset xs"
  by (induction xs arbitrary: ys) (auto dest: insertions_mset)

definition unionBase ::
    "'o mojoApi \<Rightarrow> 'o targetType list list \<Rightarrow> 'o targetType list" where
  "unionBase api css =
     (case css of
        [cs] \<Rightarrow> cs
      | _ \<Rightarrow> map (mojoUnionTargetType api) (concat (map arrangements (products css))))"

definition unionCarriers ::
    "'o mojoApi \<Rightarrow> providerType list \<Rightarrow> 'o targetType list list \<Rightarrow> 'o targetType list" where
  "unionCarriers api us css =
     (if list_ex dynamic us then [jsValueCarrier api]
      else if list_all stringLiteral us then [nativeString api]
      else concat (map (nullables api us) (unionBase api css)))"

fun literalCarriers :: "'o mojoApi \<Rightarrow> literalValue \<Rightarrow> 'o targetType list" where
  "literalCarriers api NullLiteral = []"
| "literalCarriers api (BoolLiteral b) = [boolCarrier api]"
| "literalCarriers api (StringLiteral s) = [nativeString api, jsValueCarrier api]"

fun globalCarriers :: "'o mojoApi \<Rightarrow> string \<Rightarrow> 'o targetType list list \<Rightarrow> 'o targetType list" where
  "globalCarriers api n [cs] = (if n = ''Promise'' then concat (map (futures api) cs) else [])"
| "globalCarriers api n [ks, vs] =
     (if n = ''Record''
      then concat (map (\<lambda>k. map (mojoDictionaryTargetType api k) vs) ks) else [])"
| "globalCarriers api n css = []"

fun carriersOf :: "'o mojoApi \<Rightarrow> 'o typeDefinition list \<Rightarrow> providerType \<Rightarrow> 'o targetType list"
  and parameterCarriers ::
    "'o mojoApi \<Rightarrow> 'o typeDefinition list \<Rightarrow> providerParameter \<Rightarrow> 'o targetType list" where
  "carriersOf api ts StringT = [nativeString api, NativeStringTarget]"
| "carriersOf api ts NumberT = [float64Carrier api, nativeIntCarrier api, int32Carrier api]"
| "carriersOf api ts BooleanT = [boolCarrier api]"
| "carriersOf api ts VoidT = [unitCarrier api]"
| "carriersOf api ts UndefinedT = [unitCarrier api]"
| "carriersOf api ts NeverT = [NeverTarget]"
| "carriersOf api ts UnknownT = [jsValueCarrier api]"
| "carriersOf api ts AnyT = [jsValueCarrier api]"
| "carriersOf api ts (LiteralT l) = literalCarriers api l"
| "carriersOf api ts (SourcePrimitiveT s) = [mojoPrimitiveTargetType api s]"
| "carriersOf api ts (ArrayT t) = map (mojoListTargetType api) (carriersOf api ts t)"
| "carriersOf api ts (UnionT us) =
     unionCarriers api us (map (carriersOf api ts) (filter (\<lambda>t. \<not> nullish t) us))"
| "carriersOf api ts (ProviderRefT m n args) =
     (case typeOf ts (m @ ''::'' @ n) of None \<Rightarrow> [] | Some c \<Rightarrow> [c])"
| "carriersOf api ts (SourceGlobalT n None) =
     (if n = ''Error'' then [mojoSourceErrorType api]
      else if n = ''Symbol'' then [jsValueCarrier api] else [])"
| "carriersOf api ts (SourceGlobalT n (Some args)) =
     globalCarriers api n (map (carriersOf api ts) args)"
| "carriersOf api ts (TypeParameterT n) = [TypeParameterTarget n]"
| "carriersOf api ts (FunctionT s ps r) =
     concat (map (\<lambda>c. map (\<lambda>cs. mojoCallableTargetType api (map immPlain cs) c True)
       (products (map (parameterCarriers api ts) ps))) (carriersOf api ts r))"
| "parameterCarriers api ts (Parameter n t rest q) = carriersOf api ts t"

lemma unionBase_many:
  assumes "\<not> (\<exists>cs. css = [cs])" and "c \<in> set (unionBase api css)"
  obtains cs ds where "c = mojoUnionTargetType api ds" "list_all2 (\<lambda>xs y. y \<in> set xs) css cs"
    "mset ds = mset cs"
proof -
  have "unionBase api css = map (mojoUnionTargetType api) (concat (map arrangements (products css)))"
    using assms(1) by (auto simp: unionBase_def split: list.split)
  then obtain cs ds where "c = mojoUnionTargetType api ds" "cs \<in> set (products css)"
      "ds \<in> set (arrangements cs)"
    using assms(2) by auto
  then show thesis using that arrangements_mset by (auto simp: products_iff)
qed

lemma unionCarriers_sound:
  assumes "\<And>t c. t \<in> set (alternatives us) \<Longrightarrow> c \<in> set (f t) \<Longrightarrow> carries api ts t c"
    and "d \<in> set (unionCarriers api us (map f (alternatives us)))"
  shows "carries api ts (UnionT us) d"
proof -
  consider "list_ex dynamic us" "d = jsValueCarrier api"
    | "list_all stringLiteral us" "d = nativeString api"
    | c where "c \<in> set (unionBase api (map f (alternatives us)))" "d \<in> set (nullables api us c)"
    using assms(2) by (auto simp: unionCarriers_def split: if_splits)
  then show ?thesis
  proof cases
    case 3
    show ?thesis
    proof (cases "\<exists>t. alternatives us = [t]")
      case True
      then obtain t where t: "alternatives us = [t]" ..
      then show ?thesis
        using 3 assms(1) [of t c] by (intro union_single [OF t]) (auto simp: unionBase_def)
    next
      case False
      then have "\<not> (\<exists>cs. map f (alternatives us) = [cs])" by auto
      then obtain cs ds where c: "c = mojoUnionTargetType api ds"
        and "list_all2 (\<lambda>xs y. y \<in> set xs) (map f (alternatives us)) cs" and ds: "mset ds = mset cs"
        using 3(1) by (rule unionBase_many)
      then have "list_all2 (carries api ts) (alternatives us) cs"
        using assms(1) by (auto simp: list_all2_conv_all_nth)
      then show ?thesis using ds 3(2) unfolding c by (rule union_many)
    qed
  qed (auto intro: union_dynamic union_literals)
qed

lemma globalCarriers_sound:
  assumes "\<And>t c. t \<in> set args \<Longrightarrow> c \<in> set (f t) \<Longrightarrow> carries api ts t c"
    and "d \<in> set (globalCarriers api n (map f args))"
  shows "carries api ts (SourceGlobalT n (Some args)) d"
  using assms(2)
proof (cases "(api, n, map f args)" rule: globalCarriers.cases)
  case (1 api' n' cs)
  then obtain t c where "args = [t]" "n = ''Promise''" "c \<in> set (f t)" "d \<in> set (futures api c)"
    using assms(2) by (auto split: if_splits)
  then show ?thesis using assms(1) by (auto intro: promise)
next
  case (2 api' n' ks vs)
  then obtain k v a b where "args = [k, v]" "n = ''Record''" "a \<in> set (f k)" "b \<in> set (f v)"
      "d = mojoDictionaryTargetType api a b"
    using assms(2) by (auto split: if_splits)
  then show ?thesis using assms(1) by (auto intro: dictionary)
qed auto

lemma literalCarriers_sound: "c \<in> set (literalCarriers api l) \<Longrightarrow> carries api ts (LiteralT l) c"
  by (cases l) (auto intro: carries.boolLiteral carries.stringLiteral)

lemma carriersOf_sound:
  "c \<in> set (carriersOf api ts t) \<Longrightarrow> carries api ts t c"
  "c \<in> set (parameterCarriers api ts p) \<Longrightarrow> carries api ts (par_type p) c"
proof (induction api ts t and api ts p arbitrary: c and c rule: carriersOf_parameterCarriers.induct)
  case (12 api ts us)
  then show ?case
    by (intro unionCarriers_sound [where f = "carriersOf api ts"]) (auto simp: alternatives_def)
next
  case (15 api ts n args)
  then show ?case by (intro globalCarriers_sound [where f = "carriersOf api ts"]) auto
next
  case (17 api ts s ps r)
  then obtain d cs where c: "c = mojoCallableTargetType api (map immPlain cs) d True"
    and "list_all2 (\<lambda>xs y. y \<in> set xs) (map (parameterCarriers api ts) ps) cs"
    and r: "d \<in> set (carriersOf api ts r)"
    by (auto simp: products_iff)
  then have "list_all2 (\<lambda>p c. carries api ts (par_type p) c) ps cs"
    using 17(2) by (auto simp: list_all2_conv_all_nth)
  then show ?case using 17(1) [OF r] unfolding c by (rule callable)
next
  case (14 api ts n)
  then show ?case by (auto split: if_splits intro: sourceError carries.dynamic)
qed (auto split: option.splits intro: carries.intros literalCarriers_sound)

section \<open>Shapes\<close>

text \<open>
  A shape is a point with the source types of its parameters and of its result; a
  constructor has no result type of its own, its result is the native type of its class. An
  optional property may be \<open>undefined\<close>.
\<close>

type_synonym shape = "point \<times> providerParameter list \<times> providerType option"

fun maybeUndefined :: "providerType \<Rightarrow> providerType" where
  "maybeUndefined (UnionT us) = UnionT (us @ [UndefinedT])"
| "maybeUndefined t = UnionT [t, UndefinedT]"

definition memberType :: "providerMember \<Rightarrow> providerType" where
  "memberType m =
     (case mem_type m of
        None \<Rightarrow> UnknownT
      | Some t \<Rightarrow> if mem_optional m then maybeUndefined t else t)"

definition signatureShape ::
    "string \<Rightarrow> string option \<Rightarrow> operationKind \<Rightarrow> providerSignature \<Rightarrow> shape" where
  "signatureShape e m k s =
     (signaturePoint e m k s, sig_parameters s,
      if k = ConstructorOperation then None else Some (sig_returnType s))"

definition memberShapes :: "string \<Rightarrow> providerMember \<Rightarrow> shape list" where
  "memberShapes e m = (case mem_kind m of
      MethodMember \<Rightarrow>
        map (signatureShape e (Some (mem_id m)) CallOperation) (optionalList (mem_signatures m))
    | ConstructorMember \<Rightarrow>
        map (signatureShape e (Some (mem_id m)) ConstructorOperation) (optionalList (mem_signatures m))
    | IndexerMember \<Rightarrow>
        map (signatureShape e (Some (mem_id m)) IndexerOperation) (optionalList (mem_signatures m))
    | PropertyMember \<Rightarrow>
        ((e, Some (mem_id m), None, PropertyOperation, None), [], Some (memberType m)) #
        (if mem_readonly m then []
         else [((e, Some (mem_id m), None, PropertySetOperation, Some 1),
           [Parameter ''value'' (memberType m) False False], Some VoidT)]))"

definition valueType :: "providerExport \<Rightarrow> providerType" where
  "valueType x = (case exp_type x of None \<Rightarrow> UnknownT | Some t \<Rightarrow> t)"

definition exportShapes :: "providerExport \<Rightarrow> shape list" where
  "exportShapes x = (case exp_kind x of
      FunctionExport \<Rightarrow>
        map (signatureShape (exp_id x) None CallOperation) (optionalList (exp_signatures x))
    | ValueExport \<Rightarrow> [((exp_id x, None, None, PropertyOperation, None), [], Some (valueType x))]
    | ClassExport \<Rightarrow> concat (map (memberShapes (exp_id x)) (optionalList (exp_members x)))
    | InterfaceExport \<Rightarrow> concat (map (memberShapes (exp_id x)) (optionalList (exp_members x))))"

definition exportsShapes :: "providerExport list \<Rightarrow> shape list" where
  "exportsShapes xs = concat (map exportShapes xs)"

text \<open>The shapes of a declaration stand on its points.\<close>

lemma memberShapes_points: "map fst (memberShapes e m) = memberPoints e m"
  by (cases "mem_kind m") (simp_all add: memberShapes_def memberPoints_def signatureShape_def comp_def)

lemma exportShapes_points: "map fst (exportShapes x) = exportPoints x"
  by (cases "exp_kind x")
    (simp_all add: exportShapes_def exportPoints_def signatureShape_def comp_def map_concat
      memberShapes_points)

lemma exportsShapes_points: "map fst (exportsShapes xs) = exportsPoints xs"
  by (simp add: exportsShapes_def exportsPoints_def map_concat comp_def exportShapes_points)

section \<open>Typed operations\<close>

text \<open>
  How an argument is passed: whether it is variadic, and how the rest of the arguments is
  packed. A rest parameter is passed as a variadic argument that is packed into a list.
\<close>

type_synonym packing = "bool \<times> string option"

fun parameterPacking :: "providerParameter \<Rightarrow> packing" where
  "parameterPacking (Parameter n t rest q) = (if rest then (True, Some ''list'') else (False, None))"

definition argumentPacking :: "nativeArgument \<Rightarrow> packing" where
  "argumentPacking a = (arg_variadic a, arg_restPacking a)"

fun targetArguments :: "'o operationTarget \<Rightarrow> nativeArgument list" where
  "targetArguments (FunctionCallTarget path name generics arguments source) = arguments"
| "targetArguments (InstanceCallTarget name receiver arguments) = arguments"
| "targetArguments (FunctionWriteTarget path name value) = [value]"
| "targetArguments (PropertyWriteTarget access name receiver value) = [value]"
| "targetArguments (IndexReadTarget access name receiver index) = [index]"
| "targetArguments (IndexWriteTarget access name receiver index value) = [index, value]"
| "targetArguments (ValuePredicateTarget accepted path name generics arguments) = arguments"
| "targetArguments t = []"

definition targetPacking :: "'o operationTarget \<Rightarrow> packing list" where
  "targetPacking t = map argumentPacking (targetArguments t)"

type_synonym 'o nativeShape = "point \<times> 'o targetType list \<times> 'o targetType \<times> packing list"

definition operationShape :: "'o operation \<Rightarrow> 'o nativeShape" where
  "operationShape p = (operationPoint p, optionalList (op_parameterTypes p), op_resultType p,
     targetPacking (op_target p))"

definition operationsShapes :: "'o operation list \<Rightarrow> 'o nativeShape list" where
  "operationsShapes ops =
     map operationShape (filter (\<lambda>p. op_operationKind p \<noteq> IndexSetOperation) ops)"

definition shapeCarried ::
    "'o mojoApi \<Rightarrow> 'o typeDefinition list \<Rightarrow> shape \<Rightarrow> 'o nativeShape \<Rightarrow> bool" where
  "shapeCarried api ts = (\<lambda>(q, ps, r) (q', cs, c, vs).
     q = q' \<and> list_all2 (carriesParameter api ts) ps cs \<and> vs = map parameterPacking ps \<and>
     (case r of None \<Rightarrow> typeOf ts (fst q) = Some c | Some t \<Rightarrow> carries api ts t c))"

text \<open>
  Every operation, save those at the exempt points, carries the types of a declared shape and
  passes its arguments as the parameters are declared.
\<close>

definition operationsTyped ::
    "'o mojoApi \<Rightarrow> 'o typeDefinition list \<Rightarrow> point list \<Rightarrow> 'o operation list \<Rightarrow> providerExport list
      \<Rightarrow> bool" where
  "operationsTyped api ts exempt ops xs \<longleftrightarrow>
     list_all (\<lambda>n. fst n \<in> set exempt \<or> list_ex (\<lambda>s. shapeCarried api ts s n) (exportsShapes xs))
       (operationsShapes ops)"

section \<open>The check\<close>

definition acceptsType :: "'o mojoApi \<Rightarrow> 'o typeDefinition list \<Rightarrow> providerType \<Rightarrow> 'o targetType \<Rightarrow> bool" where
  "acceptsType api ts t c \<longleftrightarrow> c \<in> set (carriersOf api ts t)"

definition acceptsParameter ::
    "'o mojoApi \<Rightarrow> 'o typeDefinition list \<Rightarrow> providerParameter \<Rightarrow> 'o targetType \<Rightarrow> bool" where
  "acceptsParameter api ts p c \<longleftrightarrow>
     acceptsType api ts (passedType p) c \<or>
     c \<in> set (concat (map (optionals api) (carriersOf api ts (passedType p))))"

fun acceptsParameters ::
    "'o mojoApi \<Rightarrow> 'o typeDefinition list \<Rightarrow> providerParameter list \<Rightarrow> 'o targetType list \<Rightarrow> bool" where
  "acceptsParameters api ts [] cs = (cs = [])"
| "acceptsParameters api ts (p # ps) (c # cs) =
     (acceptsParameter api ts p c \<and> acceptsParameters api ts ps cs)"
| "acceptsParameters api ts (p # ps) [] = False"

definition acceptsResult ::
    "'o mojoApi \<Rightarrow> 'o typeDefinition list \<Rightarrow> string \<Rightarrow> providerType option \<Rightarrow> 'o targetType \<Rightarrow> bool" where
  "acceptsResult api ts e r c =
     (case r of
        None \<Rightarrow> (case typeOf ts e of None \<Rightarrow> False | Some d \<Rightarrow> c = d)
      | Some t \<Rightarrow> acceptsType api ts t c)"

definition accepts :: "'o mojoApi \<Rightarrow> 'o typeDefinition list \<Rightarrow> string \<Rightarrow> providerParameter list
    \<Rightarrow> providerType option \<Rightarrow> 'o targetType list \<Rightarrow> 'o targetType \<Rightarrow> packing list \<Rightarrow> bool" where
  "accepts api ts e ps r cs c vs \<longleftrightarrow>
     vs = map parameterPacking ps \<and> acceptsParameters api ts ps cs \<and> acceptsResult api ts e r c"

text \<open>
  An operation is compared with the shape that a lookup \<open>f\<close> gives for its point. A table of
  operations passes when it does for every lookup that knows the declared shapes.
\<close>

type_synonym shapeLookup = "point \<Rightarrow> (providerParameter list \<times> providerType option) option"

definition knowsRows :: "('k \<Rightarrow> 'v option) \<Rightarrow> ('k \<times> 'v) list \<Rightarrow> bool" where
  "knowsRows f rows \<longleftrightarrow> list_all (\<lambda>(k, v). f k = Some v) rows"

lemma knowsRows_map_of: "distinct (map fst rows) \<Longrightarrow> knowsRows (map_of rows) rows"
  by (auto simp: knowsRows_def list_all_iff)

definition acceptsShape :: "'o mojoApi \<Rightarrow> 'o typeDefinition list \<Rightarrow> point list \<Rightarrow> shapeLookup
    \<Rightarrow> 'o nativeShape \<Rightarrow> bool" where
  "acceptsShape api ts exempt f = (\<lambda>(q, cs, c, vs). q \<in> set exempt \<or>
     (case f q of None \<Rightarrow> False | Some (ps, r) \<Rightarrow> accepts api ts (fst q) ps r cs c vs))"

definition acceptsOperations :: "'o mojoApi \<Rightarrow> 'o typeDefinition list \<Rightarrow> point list
    \<Rightarrow> 'o operation list \<Rightarrow> providerExport list \<Rightarrow> bool" where
  "acceptsOperations api ts exempt ops xs \<longleftrightarrow>
     (\<forall>f. knowsRows f (exportsShapes xs) \<longrightarrow>
        list_all (acceptsShape api ts exempt f) (operationsShapes ops))"

lemma acceptsOperationsI:
  "(\<And>f. knowsRows f (exportsShapes xs) \<Longrightarrow>
      list_all (acceptsShape api ts exempt f) (operationsShapes ops)) \<Longrightarrow>
   acceptsOperations api ts exempt ops xs"
  by (simp add: acceptsOperations_def)

lemma acceptsShape_exempt:
  "acceptsShape api ts ds f n \<Longrightarrow> set ds \<subseteq> set es \<Longrightarrow> acceptsShape api ts es f n"
  by (auto simp: acceptsShape_def)

text \<open>Tables are checked module by module and then put together.\<close>

lemma acceptsOperations_mono:
  assumes "acceptsOperations api ts ds ops xs" and "set ds \<subseteq> set es" and "set xs \<subseteq> set ys"
  shows "acceptsOperations api ts es ops ys"
proof (rule acceptsOperationsI)
  fix f assume "knowsRows f (exportsShapes ys)"
  then have "knowsRows f (exportsShapes xs)"
    using assms(3) by (auto simp: knowsRows_def exportsShapes_def list_all_iff)
  then have "list_all (acceptsShape api ts ds f) (operationsShapes ops)"
    using assms(1) by (simp add: acceptsOperations_def)
  then show "list_all (acceptsShape api ts es f) (operationsShapes ops)"
    using assms(2) by (auto elim!: list.pred_mono_strong acceptsShape_exempt)
qed

lemma acceptsOperations_simps:
  "acceptsOperations api ts es [] xs"
  "acceptsOperations api ts es (ps @ qs) xs \<longleftrightarrow>
     acceptsOperations api ts es ps xs \<and> acceptsOperations api ts es qs xs"
  by (auto simp: acceptsOperations_def operationsShapes_def)

lemma acceptsType_sound: "acceptsType api ts t c \<Longrightarrow> carries api ts t c"
  by (simp add: acceptsType_def carriersOf_sound(1))

lemma acceptsParameters_sound:
  "acceptsParameters api ts ps cs \<Longrightarrow> list_all2 (carriesParameter api ts) ps cs"
proof (induction api ts ps cs rule: acceptsParameters.induct)
  case (2 api ts p ps c cs)
  then have "carriesParameter api ts p c"
    by (auto simp: acceptsParameter_def carriesParameter_def dest: acceptsType_sound carriersOf_sound(1))
  with 2 show ?case by simp
qed simp_all

lemma accepts_sound:
  "accepts api ts (fst q) ps r cs c vs \<Longrightarrow> shapeCarried api ts (q, ps, r) (q, cs, c, vs)"
  using acceptsParameters_sound
  by (auto simp: accepts_def shapeCarried_def acceptsResult_def acceptsType_sound split: option.splits)

lemma acceptsOperations_sound:
  assumes "acceptsOperations api ts exempt ops xs" and "distinct (exportsPoints xs)"
  shows "operationsTyped api ts exempt ops xs"
proof -
  let ?ss = "exportsShapes xs"
  have "knowsRows (map_of ?ss) ?ss"
    using assms(2) by (intro knowsRows_map_of) (simp add: exportsShapes_points)
  then have "list_all (acceptsShape api ts exempt (map_of ?ss)) (operationsShapes ops)"
    using assms(1) by (simp add: acceptsOperations_def)
  moreover have "fst n \<in> set exempt \<or> list_ex (\<lambda>s. shapeCarried api ts s n) ?ss"
    if accepted: "acceptsShape api ts exempt (map_of ?ss) n" for n
  proof (cases "fst n \<in> set exempt")
    case False
    obtain q cs c vs where n: "n = (q, cs, c, vs)" by (rule prod_cases4)
    obtain ps r where "map_of ?ss q = Some (ps, r)" "accepts api ts (fst q) ps r cs c vs"
      using accepted False by (auto simp: n acceptsShape_def split: option.splits)
    then show ?thesis
      using map_of_SomeD accepts_sound [of api ts q ps r cs c vs] by (fastforce simp: n list_ex_iff)
  qed simp
  ultimately show ?thesis by (simp add: operationsTyped_def list_all_iff)
qed

section \<open>Evaluation\<close>

lemma operationsShapes_simps [shape_simps]:
  "operationsShapes [] = []"
  "operationsShapes (p # ps) =
     (if op_operationKind p = IndexSetOperation then [] else [operationShape p]) @ operationsShapes ps"
  "operationsShapes (ps @ qs) = operationsShapes ps @ operationsShapes qs"
  by (simp_all add: operationsShapes_def)

lemma packing_simps [shape_simps]:
  "targetPacking (FunctionCallTarget path name generics arguments source) = map argumentPacking arguments"
  "targetPacking (InstanceCallTarget name receiver arguments) = map argumentPacking arguments"
  "targetPacking (ConstantTarget path name) = []"
  "targetPacking (FunctionReadTarget path name) = []"
  "targetPacking (FunctionWriteTarget path name value) = [argumentPacking value]"
  "targetPacking (PropertyReadTarget access name receiver) = []"
  "targetPacking (PropertyWriteTarget access name receiver value) = [argumentPacking value]"
  "targetPacking (IndexReadTarget access name receiver index) = [argumentPacking index]"
  "targetPacking (ValuePredicateTarget accepted path name generics arguments) = map argumentPacking arguments"
  "argumentPacking (argumentOf convention) = (False, None)"
  "argumentPacking \<lparr>arg_convention = x, arg_position = y, arg_variadic = v, arg_restPacking = r\<rparr> = (v, r)"
  by (simp_all add: targetPacking_def argumentPacking_def argumentOf_def)

lemmas packing_defs = targetPacking_def argumentPacking_def argumentOf_def variadicArgument_def comp_def

lemma call_shapes [shape_simps]:
  "operationShape (functionCallPath e s path t ps r ra) =
     ((e, None, Some s, CallOperation, Some (length ps)), ps, r, map (\<lambda>_. (False, None)) ps)"
  "operationShape (functionCall e s m t ps r ra) =
     ((e, None, Some s, CallOperation, Some (length ps)), ps, r, map (\<lambda>_. (False, None)) ps)"
  "operationShape (staticCall e i s m t ps r ra) =
     ((e, Some i, Some s, CallOperation, Some (length ps)), ps, r, map (\<lambda>_. (False, None)) ps)"
  "operationShape (variadicFunctionCall e s m t p r ra) =
     ((e, None, Some s, CallOperation, Some 1), [p], r, [(True, Some ''list'')])"
  "operationShape (instanceCall e i s t rt ps r ra rc) =
     ((e, Some i, Some s, CallOperation, Some (length ps)), ps, r, map (\<lambda>_. (False, None)) ps)"
  by (simp_all add: operationShape_def operationPoint_def functionCallPath_def functionCall_def staticCall_def
      variadicFunctionCall_def instanceCall_def packing_defs)

lemma property_shapes [shape_simps]:
  "operationShape (constantValue e m t r) = ((e, None, None, PropertyOperation, None), [], r, [])"
  "operationShape (functionValue e m t r ra) = ((e, None, None, PropertyOperation, None), [], r, [])"
  "operationShape (staticPropertyRead e i m t r ra) = ((e, Some i, None, PropertyOperation, None), [], r, [])"
  "operationShape (staticPropertyWrite api e i m t v ra) =
     ((e, Some i, None, PropertySetOperation, Some 1), [v], unitCarrier api, [(False, None)])"
  "operationShape (propertyReadVia a e i t rt r) = ((e, Some i, None, PropertyOperation, None), [], r, [])"
  "operationShape (propertyWriteVia a api e i t rt v) =
     ((e, Some i, None, PropertySetOperation, Some 1), [v], unitCarrier api, [(False, None)])"
  "operationShape (indexRead e i s t rt it r ra) =
     ((e, Some i, Some s, IndexerOperation, Some 1), [it], r, [(False, None)])"
  by (simp_all add: operationShape_def operationPoint_def constantValue_def functionValue_def
      staticPropertyRead_def staticPropertyWrite_def propertyReadVia_def propertyWriteVia_def indexRead_def
      packing_defs)

lemma operation_update_shapes [shape_simps]:
  "operationShape (p\<lparr>op_target := t\<rparr>) =
     (case operationShape p of (q, cs, c, _) \<Rightarrow> (q, cs, c, targetPacking t))"
  "operationShape (p\<lparr>op_raises := b\<rparr>) = operationShape p"
  "operationShape (p\<lparr>op_errorType := x\<rparr>) = operationShape p"
  "operationShape (p\<lparr>op_resultType := r\<rparr>) =
     (case operationShape p of (q, cs, _, vs) \<Rightarrow> (q, cs, r, vs))"
  "operationShape (p\<lparr>op_memberId := m\<rparr>) =
     (case operationShape p of ((e, _, s, k, n), cs, r) \<Rightarrow> ((e, m, s, k, n), cs, r))"
  "operationShape (p\<lparr>op_operationKind := k'\<rparr>) =
     (case operationShape p of ((e, m, s, _, n), cs, r) \<Rightarrow> ((e, m, s, k', n), cs, r))"
  by (simp_all add: operationShape_def operationPoint_def)

lemma operation_literal_shapes [shape_simps]:
  "operationShape \<lparr>op_exportId = e, op_memberId = m, op_signatureId = s, op_operationKind = k,
     op_target = t, op_receiverType = rt, op_parameterTypes = ps, op_resultType = r,
     op_errorType = x, op_raises = b\<rparr> =
   ((e, m, s, k, map_option length ps), optionalList ps, r, targetPacking t)"
  by (simp add: operationShape_def operationPoint_def)

definition membersShapes :: "string \<Rightarrow> providerMember list \<Rightarrow> shape list" where
  "membersShapes e ms = concat (map (memberShapes e) ms)"

lemma membersShapes_simps [shape_simps]:
  "membersShapes e [] = []"
  "membersShapes e (m # ms) = memberShapes e m @ membersShapes e ms"
  "membersShapes e (ms @ ns) = membersShapes e ms @ membersShapes e ns"
  by (simp_all add: membersShapes_def)

lemma exportsShapes_simps [shape_simps]:
  "exportsShapes [] = []"
  "exportsShapes (x # xs) = exportShapes x @ exportsShapes xs"
  "exportsShapes (xs @ ys) = exportsShapes xs @ exportsShapes ys"
  by (simp_all add: exportsShapes_def)

definition overloadShape :: "string \<Rightarrow> string option \<Rightarrow> string \<Rightarrow> overload \<Rightarrow> shape" where
  "overloadShape e m i v = (overloadPoint e m i v, ov_parameters v, Some (ov_returnType v))"

lemma overloadShape_simps [shape_simps]:
  "overloadShape e m i (overloadAs s ps r) =
     ((e, m, Some (i @ ''('' @ s @ '')''), CallOperation, Some (length ps)), ps, Some r)"
  "overloadShape e m i (overloadOf ps r) =
     ((e, m, Some (i @ ''('' @ joinComma (map par_name ps) @ '')''), CallOperation, Some (length ps)), ps, Some r)"
  by (simp_all add: overloadShape_def overloadPoint_simps) (simp_all add: overloadAs_def overloadOf_def)

lemma signatureShape_simps [shape_simps]:
  "signatureShape e m CallOperation (plainSignature i n ps r) =
     ((e, m, Some i, CallOperation, Some (length ps)), ps, Some r)"
  "signatureShape e m IndexerOperation (plainSignature i n ps r) =
     ((e, m, Some i, IndexerOperation, Some (length ps)), ps, Some r)"
  "signatureShape e m ConstructorOperation (plainSignature i n ps r) =
     ((e, m, Some i, ConstructorOperation, Some (length ps)), ps, None)"
  "signatureShape e m CallOperation (genericSignature i n tps ps r) =
     ((e, m, Some i, CallOperation, Some (length ps)), ps, Some r)"
  by (simp_all add: signatureShape_def signaturePoint_def plainSignature_def genericSignature_def)

lemma callable_shapes [shape_simps]:
  "memberShapes e (callableMember i n MethodMember st sigs) = map (signatureShape e (Some i) CallOperation) sigs"
  "memberShapes e (callableMember i n ConstructorMember st sigs) =
     map (signatureShape e (Some i) ConstructorOperation) sigs"
  "memberShapes e (callableMember i n IndexerMember st sigs) =
     map (signatureShape e (Some i) IndexerOperation) sigs"
  by (simp_all add: memberShapes_def callableMember_def)

lemma method_shapes [shape_simps]:
  "memberShapes e (methodMemberWith w n ps r st sfx) =
     [((e, Some (w @ ''.'' @ n), Some (w @ ''.'' @ n @ ''('' @ suffixOf sfx ps @ '')''),
       CallOperation, Some (length ps)), ps, Some r)]"
  "memberShapes e (methodMember w n ps r) =
     [((e, Some (w @ ''.'' @ n), Some (w @ ''.'' @ n @ ''('' @ joinComma (map par_name ps) @ '')''),
       CallOperation, Some (length ps)), ps, Some r)]"
  "memberShapes e (overloadedMethodMemberWith w n ovs st) =
     map (overloadShape e (Some (w @ ''.'' @ n)) (w @ ''.'' @ n)) ovs"
  "memberShapes e (overloadedMethodMember w n ovs) =
     map (overloadShape e (Some (w @ ''.'' @ n)) (w @ ''.'' @ n)) ovs"
  "memberShapes e (constructorMember w ps) =
     [((e, Some (w @ ''.constructor''), Some (w @ ''.constructor('' @ joinComma (map par_name ps) @ '')''),
       ConstructorOperation, Some (length ps)), ps, None)]"
  by (simp_all add: methodMember_def methodMemberWith_def overloadedMethodMember_def
      overloadedMethodMemberWith_def constructorMember_def Let_def shape_simps suffixOf_def overloadShape_def
      overloadPoint_def)

lemma property_member_shapes [shape_simps]:
  "memberShapes e (propertyMemberWith w n t ro st opt) =
     ((e, Some (w @ ''.'' @ n), None, PropertyOperation, None), [], Some (if opt then maybeUndefined t else t)) #
     (if ro then [] else [((e, Some (w @ ''.'' @ n), None, PropertySetOperation, Some 1),
        [Parameter ''value'' (if opt then maybeUndefined t else t) False False], Some VoidT)])"
  "memberShapes e (propertyMember w n t) =
     [((e, Some (w @ ''.'' @ n), None, PropertyOperation, None), [], Some t)]"
  by (simp_all add: propertyMember_def propertyMemberWith_def memberShapes_def memberType_def)

lemma export_shapes [shape_simps]:
  "exportShapes (functionDeclaration i n d sigs) = map (signatureShape i None CallOperation) sigs"
  "exportShapes (typeDeclaration ClassExport i n ms) = membersShapes i ms"
  "exportShapes (typeDeclaration InterfaceExport i n ms) = membersShapes i ms"
  "exportShapes (valueExport m n t) = [((m @ ''::'' @ n, None, None, PropertyOperation, None), [], Some t)]"
  "exportShapes (overloadedFunctionExport m n ovs) =
     map (overloadShape (m @ ''::'' @ n) None (m @ ''::'' @ n)) ovs"
  "exportShapes (fnExportWith m n ps r s) =
     [((m @ ''::'' @ n, None, Some (m @ ''::'' @ n @ ''('' @ s @ '')''), CallOperation, Some (length ps)), ps, Some r)]"
  "exportShapes (fnExport m n ps r) =
     [((m @ ''::'' @ n, None, Some (m @ ''::'' @ n @ ''('' @ joinComma (map par_name ps) @ '')''),
       CallOperation, Some (length ps)), ps, Some r)]"
  by (simp_all add: exportShapes_def functionDeclaration_def typeDeclaration_def valueExport_def valueType_def
      membersShapes_def)
    (simp_all add: fnExport_def fnExportWith_def overloadedFunctionExport_def functionDeclaration_def Let_def
      signatureShape_def overloadShape_def overloadPoint_def signaturePoint_def plainSignature_def overloadAs_def suffixOf_def)

lemma export_update_shapes [shape_simps]:
  "exportShapes (x\<lparr>exp_exportName := en\<rparr>) = exportShapes x"
  "exportShapes (x\<lparr>exp_isDefault := d\<rparr>) = exportShapes x"
  "exportShapes (x\<lparr>exp_typeParameters := tps\<rparr>) = exportShapes x"
  "exportShapes (x\<lparr>exp_heritage := h\<rparr>) = exportShapes x"
  "exportShapes ((typeDeclaration ClassExport i n ms)\<lparr>exp_members := Some ms'\<rparr>) = membersShapes i ms'"
  "exportShapes ((typeDeclaration InterfaceExport i n ms)\<lparr>exp_members := Some ms'\<rparr>) = membersShapes i ms'"
  by (simp_all add: exportShapes_def valueType_def split: exportKind.split)
    (simp_all add: typeDeclaration_def membersShapes_def)

lemmas shape_eval = shape_simps mod_exports_moduleOf append.simps append_assoc append_Nil2 list.map
  joinWith.simps param_def restParam_def providerParameter.sel list.size Let_def concat.simps
  case_prod_conv operationKind.distinct simp_thms if_True if_False option.map option.case
  list.inject list.distinct char.inject One_nat_def add_0 add_Suc add_Suc_right suffixOf_simps functionCall_point
  module_update_simps optionalList_simps
  functionCallPath_point(2) functionCall_point(2) staticCall_point(2) variadicFunctionCall_point(2)
  instanceCall_point(2) value_points(2,4) property_points(2,4,6,8) indexRead_point(2)
  operation_update_points(2,4,6,8,10,12) operation_literal_points(2)

lemmas event_shape_eval = nodeEventMembers_def nodeEventOperations_def eventNameType_def
  eventMethods_def nodeEvent.select_convs eventParameter.select_convs list.case comp_def

lemmas type_defs = stringType_def numberType_def booleanType_def voidType_def undefinedType_def nullType_def
  int32Type_def stringArrayType_def numberArrayType_def providerRefWith_def providerRef_def sourcePromise_def
  providerCallbackType_def typeParameter_def param_def restParam_def

lemmas carriers_eval = carriersOf.simps literalCarriers.simps unionCarriers_def

lemmas match_eval = knowsRows_def acceptsShape_def list.pred_inject case_prod_conv option.case fst_conv
  simp_thms list.set empty_iff insert_iff prod.inject option.inject option.distinct list.inject
  list.distinct char.inject operationKind.distinct

lemmas accept_eval = providerType.distinct accepts_def parameterPacking.simps prod.inject option.inject
  option.distinct acceptsType_def acceptsParameter_def acceptsParameters.simps
  acceptsResult_def carriersOf.simps literalCarriers.simps unionCarriers_def parameterCarriers.simps
  globalCarriers.simps unionBase_def products.simps arrangements.simps insertions.simps nullish.simps
  dynamic.simps stringLiteral.simps optionals_def nullables_def futures_def passedType.simps
  maybeUndefined.simps filter.simps list.pred_inject list_ex_Nil_iff list_ex_Cons_iff type_defs
  carrier_defs list.map concat.simps append.simps append_Nil2 list.set insert_iff empty_iff option.case
  list.case list.inject list.distinct char.inject simp_thms if_True if_False list.size
  One_nat_def case_prod_conv Let_def nat.distinct fst_conv

lemma shape_congs:
  "accepts api ts e ps r cs c vs = accepts api ts e ps r cs c vs"
  by simp

text \<open>The arguments of a named native type are closed and are not evaluated again.\<close>

lemma accept_congs:
  "mojoNamedTargetType api i path n = mojoNamedTargetType api i path n"
  "P = P' \<Longrightarrow> (P \<and> Q) = (P' \<and> Q)"
  by simp_all

end
