(* ===== verification/Node_Typing.thy ===== *)
theory Node_Typing
  imports Node_Contract Object_Typing
begin

text \<open>
  The carriers of the package. Every module's operations carry the types of its declarations
  (\<open>carries\<close> of \<open>Provider_Typing\<close>); the modules are checked one by one against
  the type definitions of the whole package and put together, and the module objects inherit
  the types from the exports they forward to (\<open>objectPackage_typed\<close>).
\<close>

section \<open>The native types of the package\<close>

definition nodeTypeTable :: "'o mojoApi \<Rightarrow> (string \<times> 'o targetType) list" where
  "nodeTypeTable api =
     [(''node:buffer::Buffer'', bufferCarrier api),
      (''node:child_process::SpawnSyncReturns'', spawnSyncResultCarrier api),
      (''node:crypto::Hash'', hashCarrier api),
      (''node:crypto::Hmac'', hmacCarrier api),
      (''node:dns::LookupAddress'', dnsLookupAddressCarrier api),
      (''node:dns::LookupAllOptions'',
         mojoNamedTargetType api ''tsonic.mojo.node.dns.LookupOptions'' [''tsonic_node'', ''dns'']
           ''LookupOptions''),
      (''node:dns::LookupOneOptions'',
         mojoNamedTargetType api ''tsonic.mojo.node.dns.LookupOptions'' [''tsonic_node'', ''dns'']
           ''LookupOptions''),
      (''node:dns::LookupOptions'',
         mojoNamedTargetType api ''tsonic.mojo.node.dns.LookupOptions'' [''tsonic_node'', ''dns'']
           ''LookupOptions''),
      (''node:events::EventEmitter'', eventEmitterCarrier api),
      (''node:fs::FSWatcher'',
         mojoNamedTargetType api ''tsonic.mojo.node.FSWatcher'' [''tsonic_node'', ''filesystem'']
           ''FSWatcher''),
      (''node:fs::StatWatcher'',
         mojoNamedTargetType api ''tsonic.mojo.node.FSWatcher'' [''tsonic_node'', ''filesystem'']
           ''FSWatcher''),
      (''node:fs::WatchOptions'',
         mojoNamedTargetType api ''tsonic.mojo.node.WatchOptions'' [''tsonic_node'',
           ''filesystem''] ''WatchOptions''),
      (''node:fs::WatchFileOptions'',
         mojoNamedTargetType api ''tsonic.mojo.node.WatchOptions'' [''tsonic_node'',
           ''filesystem''] ''WatchOptions''),
      (''node:fs::ReadStream'', readableCarrier api),
      (''node:fs::WriteStream'', writableCarrier api),
      (''node:fs::ReadStreamOptions'',
         mojoNamedTargetType api ''tsonic.mojo.node.ReadStreamOptions'' [''tsonic_node'',
           ''filesystem''] ''ReadStreamOptions''),
      (''node:fs::WriteStreamOptions'',
         mojoNamedTargetType api ''tsonic.mojo.node.WriteStreamOptions'' [''tsonic_node'',
           ''filesystem''] ''WriteStreamOptions''),
      (''node:fs::CopySyncOptions'',
         mojoNamedTargetType api ''tsonic.mojo.node.fs.CopyOptions'' [''tsonic_node'',
           ''filesystem''] ''CopyOptions''),
      (''node:fs::CopyOptions'',
         mojoNamedTargetType api ''tsonic.mojo.node.fs.AsyncCopyOptions'' [''tsonic_node'',
           ''filesystem''] ''AsyncCopyOptions''),
      (''node:fs::Stats'', statsCarrier api),
      (''node:fs::Dirent'', direntCarrier api),
      (''node:fs::MakeDirectoryOptions'', mkdirOptionsCarrier api),
      (''node:fs::RmOptions'', rmOptionsCarrier api),
      (''node:fs::ReaddirOptions'', readdirOptionsCarrier api),
      (''node:path::ParsedPath'', parsedCarrier api),
      (''node:path::FormatInputPathObject'', inputCarrier api),
      (''node:path::PlatformPath'', dialectCarrier api),
      (''node:http::ClientRequest'',
         mojoNamedTargetType api ''tsonic.mojo.node.http.ClientRequest'' [''tsonic_node'',
           ''http''] ''ClientRequest''),
      (''node:http::RequestOptions'',
         mojoNamedTargetType api ''tsonic.mojo.node.http.RequestOptions'' [''tsonic_node'',
           ''http''] ''RequestOptions''),
      (''node:http::IncomingMessage'', httpIncomingMessageCarrier api),
      (''node:http::ServerResponse'', httpServerResponseCarrier api),
      (''node:http::Server'', httpServerCarrier api),
      (''node:https::ServerOptions'', tlsServerOptionsCarrier api),
      (''node:https::Server'', httpsServerCarrier api),
      (''node:https::ClientRequest'',
         mojoNamedTargetType api ''tsonic.mojo.node.http.ClientRequest'' [''tsonic_node'',
           ''http''] ''ClientRequest''),
      (''node:https::RequestOptions'',
         mojoNamedTargetType api ''tsonic.mojo.node.http.RequestOptions'' [''tsonic_node'',
           ''http''] ''RequestOptions''),
      (''node:net::AddressInfo'', the (map_of (netRecord_carriers api) ''AddressInfo'')),
      (''node:net::ServerOpts'', the (map_of (netRecord_carriers api) ''ServerOpts'')),
      (''node:net::NetConnectOpts'', the (map_of (netRecord_carriers api) ''NetConnectOpts'')),
      (''node:net::ListenOptions'', the (map_of (netRecord_carriers api) ''ListenOptions'')),
      (''node:net::Socket'', netSocketCarrier api),
      (''node:net::Server'', netServerCarrier api),
      (''node:process::ProcessEnv'', processEnvCarrier api),
      (''node:process::MemoryUsage'', processMemoryUsageCarrier api),
      (''node:process::ProcessWriteStream'', processWriteStreamCarrier api),
      (''node:readline::ReadLineOptions'', readlineOptionsCarrier api),
      (''node:readline::Interface'', readlineInterfaceCarrier api),
      (''node:stream::Readable'', readableCarrier api),
      (''node:stream::Duplex'', duplexCarrier api),
      (''node:stream::Writable'', writableCarrier api),
      (''node:timers::Timeout'', timeoutCarrier api),
      (''node:tls::SecureContext'', secureContextCarrier api),
      (''node:tls::SecureContextOptions'', secureContextOptionsCarrier api),
      (''node:tls::ConnectionOptions'', tlsConnectOptionsCarrier api),
      (''node:tls::TlsOptions'', tlsServerOptionsCarrier api),
      (''node:tls::TLSSocket'', tlsSocketCarrier api),
      (''node:tls::Server'', tlsServerCarrier api),
      (''node:util::TextDecoder'', textDecoderCarrier api),
      (''node:url::Url'', legacyUrlCarrier api),
      (''node:url::UrlWithStringQuery'', legacyUrlCarrier api),
      (''node:url::UrlObject'', legacyUrlCarrier api),
      (''node:url::URL'',
         mojoNamedTargetType api ''tsonic.mojo.node.URL'' [''tsonic_node'', ''url''] ''URL''),
      (''node:url::URLSearchParams'',
         mojoNamedTargetType api ''tsonic.mojo.node.URLSearchParams'' [''tsonic_node'', ''url'']
           ''URLSearchParams''),
      (''node:worker_threads::MessagePortMessage'',
         mojoNamedTargetType api ''tsonic.mojo.node.MessagePortMessage'' [''tsonic_node'',
           ''worker_threads''] ''MessagePortMessage''),
      (''node:worker_threads::Worker'', workerCarrier api),
      (''node:worker_threads::WorkerOptions'', workerOptionsCarrier api),
      (''node:worker_threads::MessagePort'', messagePortCarrier api),
      (''node:worker_threads::MessageChannel'', messageChannelCarrier api),
      (''node:zlib::ZlibOptions'', zlibOptionsCarrier api),
      (''node:zlib::ZlibBufferOptions'', zlibOptionsCarrier api),
      (''node:zlib::ZlibInfoOptions'', zlibOptionsCarrier api),
      (''node:zlib::BrotliOptions'',
         mojoNamedTargetType api ''tsonic.mojo.node.BrotliOptions'' [''tsonic_node'', ''zlib'']
           ''BrotliOptions''),
      (''node:zlib::BrotliBufferOptions'',
         mojoNamedTargetType api ''tsonic.mojo.node.BrotliOptions'' [''tsonic_node'', ''zlib'']
           ''BrotliOptions''),
      (''node:zlib::BrotliInfoOptions'',
         mojoNamedTargetType api ''tsonic.mojo.node.BrotliOptions'' [''tsonic_node'', ''zlib'']
           ''BrotliOptions''),
      (''node:zlib::ZlibInfo'',
         mojoNamedTargetType api ''tsonic.mojo.node.ZlibInfo'' [''tsonic_node'', ''zlib'']
           ''ZlibInfo''),
      (''node:zlib::Zlib'', zlibTransformCarrier api)]"

lemma nodeTypes_table: "map (\<lambda>t. (type_exportId t, type_targetType t)) (nodeTypes api) = nodeTypeTable api"
  by (simp only: nodeTypeTable_def nodeTypes_def declaration_defs bufferTypes_def
    childProcessTypes_def cryptoTypes_def dnsTypes_def lookupOptionTypes_def eventsTypes_def
    filesystemTypes_def filesystemWatchTypes_def filesystemStreamTypes_def filesystemCopyTypes_def
    pathTypes_def pathRecordTypes_def httpTypes_def httpClientTypes_def httpsTypes_def
    netTypes_def networkRecordTypes_def processTypes_def readlineTypes_def streamTypes_def
    duplexType_def timersTypes_def tlsTypes_def utilTypes_def urlTypes_def legacyUrlTypes_def
    webUrlTypes_def workerThreadsTypes_def zlibTypes_def compressionOptionTypes_def
    compressionInfoType_def withDuplexView_def type_eval cong: weak_congs)

lemma node_typeOf: "list_all (\<lambda>(i, c). typeOf (nodeTypes api) i = Some c) (nodeTypeTable api)"
proof -
  have "distinct (map type_exportId (nodeTypes api))"
    by (rule typesExact_distinct [OF node_types node_ids])
  then show ?thesis
    by (auto simp: list_all_iff typeOf_distinct simp flip: nodeTypes_table)
qed
lemmas node_type_eval = node_typeOf [unfolded nodeTypeTable_def list.pred_inject case_prod_conv
  carrier_defs simp_thms conj_assoc]

section \<open>The modules\<close>

text \<open>
  The reads that are left out of the check. \<open>all\<close> of \<open>LookupAllOptions\<close> is
  declared as the required literal \<open>true\<close>, but the operation, shared with the other
  options of \<^verbatim>\<open>dns/lookup-contract.ts\<close>, results in an optional boolean.
  \<open>stdout\<close> and \<open>stderr\<close> of \<open>SpawnSyncReturns\<close> have the class parameter
  \<open>Output\<close> as their type, which \<open>spawnSync\<close> instantiates with \<open>Buffer\<close>; the
  operations result in the instance.
\<close>

definition dnsUnchecked :: "point list" where
  "dnsUnchecked =
     [(''node:dns::LookupAllOptions'', Some ''node:dns::LookupAllOptions.all'', None,
       PropertyOperation, None)]"

definition spawnUnchecked :: "point list" where
  "spawnUnchecked =
     [(''node:child_process::SpawnSyncReturns'', Some ''node:child_process::SpawnSyncReturns.stdout'',
       None, PropertyOperation, None),
      (''node:child_process::SpawnSyncReturns'', Some ''node:child_process::SpawnSyncReturns.stderr'',
       None, PropertyOperation, None)]"

definition uncheckedReads :: "point list" where
  "uncheckedReads = dnsUnchecked @ spawnUnchecked"

lemma assert_typed:
  "acceptsOperations api (nodeTypes api) [] (assertOperations api)
     (mod_exports assertModule)"
  by (rule acceptsOperationsI,
      simp only: assert_defs event_shape_eval shape_eval match_eval cong: weak_congs shape_congs,
      erule thin_rl,
      simp only: assert_defs event_shape_eval accept_eval node_type_eval cong: weak_congs
        accept_congs)

lemma buffer_typed:
  "acceptsOperations api (nodeTypes api) [] (bufferOperations api)
     (mod_exports (bufferModule api))"
  by (rule acceptsOperationsI,
      simp only: buffer_defs signature_ids event_shape_eval shape_eval match_eval cong: weak_congs
        shape_congs,
      erule thin_rl,
      simp only: buffer_defs signature_ids event_shape_eval accept_eval node_type_eval cong:
        weak_congs accept_congs)

lemma childProcess_typed:
  "acceptsOperations api (nodeTypes api) spawnUnchecked (childProcessOperations api)
     (mod_exports childProcessModule)"
  by (rule acceptsOperationsI,
      simp only: spawnUnchecked_def childProcess_defs event_shape_eval shape_eval match_eval cong: weak_congs
        shape_congs,
      erule thin_rl,
      simp only: childProcess_defs event_shape_eval accept_eval node_type_eval cong: weak_congs
        accept_congs)

lemma crypto_typed:
  "acceptsOperations api (nodeTypes api) [] (cryptoOperations api)
     (mod_exports (cryptoModule api))"
  by (rule acceptsOperationsI,
      simp only: crypto_defs event_shape_eval shape_eval match_eval cong: weak_congs shape_congs,
      erule thin_rl,
      simp only: crypto_defs crypto_bufferType_def event_shape_eval accept_eval node_type_eval
        cong: weak_congs accept_congs)

lemma dns_typed:
  "acceptsOperations api (nodeTypes api) dnsUnchecked (dnsOperations api)
     (packageExports [dnsModule api, dnsPromisesModule api])"
  by (rule acceptsOperationsI,
      simp only: dnsUnchecked_def dns_defs event_shape_eval shape_eval match_eval cong: weak_congs
        shape_congs,
      erule thin_rl,
      simp only: dns_defs event_shape_eval accept_eval node_type_eval cong: weak_congs
        accept_congs)

lemma events_typed:
  "acceptsOperations api (nodeTypes api) [] (eventsOperations api)
     (mod_exports eventsModule)"
  by (rule acceptsOperationsI,
      simp only: events_defs replicate.simps replicate_0 replicate_Suc event_shape_eval shape_eval
        match_eval cong: weak_congs shape_congs,
      erule thin_rl,
      simp only: events_defs replicate.simps replicate_0 replicate_Suc event_shape_eval
        accept_eval node_type_eval cong: weak_congs accept_congs)

lemma fs_typed:
  "acceptsOperations api (nodeTypes api) [] (filesystemOperations api)
     (mod_exports (filesystemModule api))"
  by (rule acceptsOperationsI,
      simp only: fs_defs fs_call_eval fs_copy_eval fs_stream_eval fs_watch_eval upt_rec
        Suc_less_eq zero_less_Suc not_less0 event_shape_eval shape_eval match_eval cong:
        weak_congs shape_congs,
      erule thin_rl,
      simp only: fs_defs fs_call_eval fs_copy_eval fs_stream_eval fs_watch_eval upt_rec
        Suc_less_eq zero_less_Suc not_less0 duplex_source_def duplex_buffer_def
        readableCall_result_def readableCall_size_def writableCall_bufferType_def
        writableCall_chunkType_def writableCall_completionError_def
        writableLifecycle_errorType_def writableLifecycle_nullableError_def
        writableLifecycle_optionalError_def duplexCarrier_def readableCall_chunk_def
        writableCall_chunkCarrier_def writableCall_completionCarrier_def event_shape_eval
        accept_eval node_type_eval cong: weak_congs accept_congs)

lemma fsPromises_typed:
  "acceptsOperations api (nodeTypes api) [] (filesystemPromisesOperations api)
     (mod_exports (filesystemPromisesModule api))"
  by (rule acceptsOperationsI,
      simp only: fsPromises_defs fs_call_eval fs_copy_eval upt_rec Suc_less_eq zero_less_Suc
        not_less0 event_shape_eval shape_eval match_eval cong: weak_congs shape_congs,
      erule thin_rl,
      simp only: fsPromises_defs fs_call_eval fs_copy_eval upt_rec Suc_less_eq zero_less_Suc
        not_less0 duplex_source_def duplex_buffer_def readableCall_result_def
        readableCall_size_def writableCall_bufferType_def writableCall_chunkType_def
        writableCall_completionError_def writableLifecycle_errorType_def
        writableLifecycle_nullableError_def writableLifecycle_optionalError_def duplexCarrier_def
        readableCall_chunk_def writableCall_chunkCarrier_def writableCall_completionCarrier_def
        event_shape_eval accept_eval node_type_eval cong: weak_congs accept_congs)

lemma http_typed:
  "acceptsOperations api (nodeTypes api) [] (httpOperations api)
     (mod_exports (httpModule api))"
  by (rule acceptsOperationsI,
      simp only: http_defs event_shape_eval shape_eval match_eval cong: weak_congs shape_congs,
      erule thin_rl,
      simp only: http_defs addressType_def connectionOptionsType_def serverOptionsType_def
        listenOptionsType_def listenOptionsImport_def secureContextCarrier_def
        secureContextOptionsCarrier_def addressCarrier_def connectionOptionsCarrier_def
        serverOptionsCarrier_def listenOptionsCarrier_def event_shape_eval accept_eval
        node_type_eval cong: weak_congs accept_congs)

lemma https_typed:
  "acceptsOperations api (nodeTypes api) [] (httpsOperations api)
     (mod_exports (httpsModule api))"
  by (rule acceptsOperationsI,
      simp only: https_defs event_shape_eval shape_eval match_eval cong: weak_congs shape_congs,
      erule thin_rl,
      simp only: https_defs addressType_def connectionOptionsType_def serverOptionsType_def
        listenOptionsType_def listenOptionsImport_def secureContextCarrier_def
        secureContextOptionsCarrier_def addressCarrier_def connectionOptionsCarrier_def
        serverOptionsCarrier_def listenOptionsCarrier_def event_shape_eval accept_eval
        node_type_eval cong: weak_congs accept_congs)

lemma net_typed:
  "acceptsOperations api (nodeTypes api) [] (netOperations api)
     (mod_exports (netModule api))"
  by (rule acceptsOperationsI,
      simp only: net_defs event_shape_eval shape_eval match_eval cong: weak_congs shape_congs,
      erule thin_rl,
      simp only: net_defs addressType_def connectionOptionsType_def serverOptionsType_def
        listenOptionsType_def listenOptionsImport_def duplex_source_def duplex_buffer_def
        readableCall_result_def readableCall_size_def writableCall_bufferType_def
        writableCall_chunkType_def writableCall_completionError_def
        writableLifecycle_errorType_def writableLifecycle_nullableError_def
        writableLifecycle_optionalError_def addressCarrier_def connectionOptionsCarrier_def
        serverOptionsCarrier_def listenOptionsCarrier_def duplexCarrier_def readableCall_chunk_def
        writableCall_chunkCarrier_def writableCall_completionCarrier_def event_shape_eval
        accept_eval node_type_eval cong: weak_congs accept_congs)

lemma os_typed:
  "acceptsOperations api (nodeTypes api) [] (osOperations api)
     (mod_exports osModule)"
  by (rule acceptsOperationsI,
      simp only: os_defs event_shape_eval shape_eval match_eval cong: weak_congs shape_congs,
      erule thin_rl,
      simp only: os_defs event_shape_eval accept_eval node_type_eval cong: weak_congs
        accept_congs)

lemma process_typed:
  "acceptsOperations api (nodeTypes api) [] (processOperations api)
     (mod_exports (processModule api))"
  by (rule acceptsOperationsI,
      simp only: process_defs event_shape_eval shape_eval match_eval cong: weak_congs shape_congs,
      erule thin_rl,
      simp only: process_defs duplex_source_def duplex_buffer_def readableCall_result_def
        readableCall_size_def writableCall_bufferType_def writableCall_chunkType_def
        writableCall_completionError_def writableLifecycle_errorType_def
        writableLifecycle_nullableError_def writableLifecycle_optionalError_def duplexCarrier_def
        readableCall_chunk_def writableCall_chunkCarrier_def writableCall_completionCarrier_def
        event_shape_eval accept_eval node_type_eval cong: weak_congs accept_congs)

lemma readline_typed:
  "acceptsOperations api (nodeTypes api) [] (readlineOperationList api)
     (mod_exports (readlineModule api))"
  by (rule acceptsOperationsI,
      simp only: readline_defs event_eval event_shape_eval shape_eval match_eval cong: weak_congs
        shape_congs,
      erule thin_rl,
      simp only: readline_defs event_eval event_shape_eval accept_eval node_type_eval cong:
        weak_congs accept_congs)

lemma stream_typed:
  "acceptsOperations api (nodeTypes api) [] (streamOperations api)
     (mod_exports (streamModule api))"
  by (rule acceptsOperationsI,
      simp only: stream_defs event_shape_eval shape_eval match_eval cong: weak_congs shape_congs,
      erule thin_rl,
      simp only: stream_defs duplex_source_def duplex_buffer_def readableCall_result_def
        readableCall_size_def writableCall_bufferType_def writableCall_chunkType_def
        writableCall_completionError_def writableLifecycle_errorType_def
        writableLifecycle_nullableError_def writableLifecycle_optionalError_def duplexCarrier_def
        readableCall_chunk_def writableCall_chunkCarrier_def writableCall_completionCarrier_def
        event_shape_eval accept_eval node_type_eval cong: weak_congs accept_congs)

lemma timers_typed:
  "acceptsOperations api (nodeTypes api) [] (timersOperations api)
     (mod_exports timersModule)"
  by (rule acceptsOperationsI,
      simp only: timers_defs event_shape_eval shape_eval match_eval cong: weak_congs shape_congs,
      erule thin_rl,
      simp only: timers_defs event_shape_eval accept_eval node_type_eval cong: weak_congs
        accept_congs)

lemma tls_typed:
  "acceptsOperations api (nodeTypes api) [] (tlsOperations api)
     (mod_exports (tlsModule api))"
  by (rule acceptsOperationsI,
      simp only: tls_defs event_shape_eval shape_eval match_eval cong: weak_congs shape_congs,
      erule thin_rl,
      simp only: tls_defs addressType_def connectionOptionsType_def serverOptionsType_def
        listenOptionsType_def listenOptionsImport_def duplex_source_def duplex_buffer_def
        readableCall_result_def readableCall_size_def writableCall_bufferType_def
        writableCall_chunkType_def writableCall_completionError_def
        writableLifecycle_errorType_def writableLifecycle_nullableError_def
        writableLifecycle_optionalError_def secureContextCarrier_def
        secureContextOptionsCarrier_def addressCarrier_def connectionOptionsCarrier_def
        serverOptionsCarrier_def listenOptionsCarrier_def duplexCarrier_def readableCall_chunk_def
        writableCall_chunkCarrier_def writableCall_completionCarrier_def event_shape_eval
        accept_eval node_type_eval cong: weak_congs accept_congs)

lemma util_typed:
  "acceptsOperations api (nodeTypes api) [] (utilOperations api)
     (mod_exports utilModule)"
  by (rule acceptsOperationsI,
      simp only: util_defs event_shape_eval shape_eval match_eval cong: weak_congs shape_congs,
      erule thin_rl,
      simp only: util_defs event_shape_eval accept_eval node_type_eval cong: weak_congs
        accept_congs)

lemma url_typed:
  "acceptsOperations api (nodeTypes api) [] (urlOperations api)
     (mod_exports (urlModule api))"
  by (rule acceptsOperationsI,
      simp only: url_defs event_shape_eval shape_eval match_eval cong: weak_congs shape_congs,
      erule thin_rl,
      simp only: url_defs event_shape_eval accept_eval node_type_eval cong: weak_congs
        accept_congs)

lemma worker_typed:
  "acceptsOperations api (nodeTypes api) [] (workerThreadsOperations api)
     (mod_exports workerThreadsModule)"
  by (rule acceptsOperationsI,
      simp only: worker_defs event_shape_eval shape_eval match_eval cong: weak_congs shape_congs,
      erule thin_rl,
      simp only: worker_defs event_shape_eval accept_eval node_type_eval cong: weak_congs
        accept_congs)

lemma zlib_typed:
  "acceptsOperations api (nodeTypes api) [] (zlibOperations api)
     (mod_exports (zlibModule api))"
  by (rule acceptsOperationsI,
      simp only: zlib_defs event_shape_eval shape_eval match_eval cong: weak_congs shape_congs,
      erule thin_rl,
      simp only: zlib_defs duplex_source_def duplex_buffer_def readableCall_result_def
        readableCall_size_def writableCall_bufferType_def writableCall_chunkType_def
        writableCall_completionError_def writableLifecycle_errorType_def
        writableLifecycle_nullableError_def writableLifecycle_optionalError_def duplexCarrier_def
        readableCall_chunk_def writableCall_chunkCarrier_def writableCall_completionCarrier_def
        event_shape_eval accept_eval node_type_eval cong: weak_congs accept_congs)

definition path_suffix :: "'o pathRow \<Rightarrow> string" where
  "path_suffix row = (case pr_suffix row of
     None \<Rightarrow> joinComma (map pp_name (pr_parameters row)) | Some suffix \<Rightarrow> suffix)"

definition path_packing :: "'o pathParameter \<Rightarrow> packing" where
  "path_packing parameter = (if pp_rest parameter then (True, Some ''list'') else (False, None))"

lemma path_restArguments_packing:
  "map argumentPacking (path_restArguments row (map (\<lambda>_. immArgument) (pr_parameters row))) =
     map path_packing (pr_parameters row)"
  by (rule nth_equalityI)
    (auto simp: path_restArguments_def path_packing_def argumentPacking_def argumentOf_def nth_enumerate_eq)

lemma path_call_shape:
  "operationShape (path_call api False row) =
     ((''node:path::'' @ pr_name row, None,
       Some (''node:path::'' @ pr_name row @ ''('' @ path_suffix row @ '')''), CallOperation,
       Some (length (pr_parameters row))), map pp_carrier (pr_parameters row), pr_result row,
      map path_packing (pr_parameters row))"
  "operationShape (path_call api True row) =
     ((dialectId, Some (dialectId @ ''.'' @ pr_name row),
       Some (dialectId @ ''.'' @ pr_name row @ ''('' @ path_suffix row @ '')''), CallOperation,
       Some (length (pr_parameters row))), map pp_carrier (pr_parameters row), pr_result row,
      map path_packing (pr_parameters row))"
  by (simp_all add: path_call_def path_selected_def Let_def path_suffix_def path_overload_def overloadAs_def
      shape_simps option.case_eq_if)
    (simp_all add: functionCall_def functionCallPath_def instanceCall_def targetPacking_def comp_def
      flip: path_restArguments_packing)

lemma path_typed:
  "acceptsOperations api (nodeTypes api) [] (pathOperationList api) (mod_exports (pathModule api))"
  by (rule acceptsOperationsI,
      simp only: path_defs pathDialectMembers_def path_fields_def path_overload_def path_path_def
        path_paths_def pathParameter.simps pathRow.simps filter.simps pathOperationList_def
        pathRecordOperations_def path_valueOperations_def path_call_shape path_call_kind path_suffix_def path_packing_def
        event_shape_eval shape_eval match_eval cong: weak_congs shape_congs,
      erule thin_rl,
      simp only: path_defs path_dialectType_def parsedCarrier_def inputCarrier_def dialectCarrier_def
        event_shape_eval accept_eval node_type_eval cong: weak_congs accept_congs)

section \<open>The package\<close>

lemma node_typed:
  "operationsTyped api (nodeTypes api) uncheckedReads (nodeOperationList api)
     (packageExports (nodeModules api))"
proof (rule acceptsOperations_sound [OF _ node_points])
  note module_typed = assert_typed buffer_typed childProcess_typed crypto_typed dns_typed events_typed
    fs_typed fsPromises_typed http_typed https_typed net_typed os_typed path_typed process_typed
    readline_typed stream_typed timers_typed tls_typed util_typed url_typed worker_typed zlib_typed
  show "acceptsOperations api (nodeTypes api) uncheckedReads (nodeOperationList api)
      (packageExports (nodeModules api))"
    unfolding nodeOperationList_def acceptsOperations_simps
    by (intro conjI)
      (rule acceptsOperations_mono, rule module_typed, simp add: uncheckedReads_def,
        force simp: nodeModules_def packageExports_def)+
qed

section \<open>The delivered package\<close>

lemma result_typed:
  "operationsTyped api (nodeTypes api) uncheckedReads (pkg_operations (nodeDefinition host api))
     (packageExports (pkg_modules (nodeDefinition host api)))"
proof -
  have "list_all (\<lambda>q. fst (snd q) \<noteq> None) uncheckedReads"
    by (simp add: uncheckedReads_def dnsUnchecked_def spawnUnchecked_def)
  then show ?thesis
    unfolding nodeDefinition_def
    by (intro objectPackage_typed node_package.contract) (simp_all add: node_typed)
qed

end
