(* ===== verification/Provider_Overloads.thy ===== *)
theory Provider_Overloads
  imports Object_Typing
begin

text \<open>
  When the overloads of a callable can be told apart: no two signatures of a function, method,
  constructor or indexer have the same parameter types, up to the names of parameters and the
  identities of callback types, which no use shows. The module object pass keeps this.
\<close>

section \<open>Distinguishable overloads\<close>

text \<open>
  A type and a parameter without the names that no use shows: the name of a parameter and the
  identity of a callback type.
\<close>

fun typeKey :: "providerType \<Rightarrow> providerType" and parKey :: "providerParameter \<Rightarrow> providerParameter" where
  "typeKey (FunctionT s ps r) = FunctionT [] (map parKey ps) (typeKey r)"
| "typeKey (ArrayT t) = ArrayT (typeKey t)"
| "typeKey (UnionT us) = UnionT (map typeKey us)"
| "typeKey (ProviderRefT m n args) = ProviderRefT m n (map_option (map typeKey) args)"
| "typeKey (SourceGlobalT n args) = SourceGlobalT n (map_option (map typeKey) args)"
| "typeKey StringT = StringT"
| "typeKey NumberT = NumberT"
| "typeKey BooleanT = BooleanT"
| "typeKey VoidT = VoidT"
| "typeKey UndefinedT = UndefinedT"
| "typeKey NeverT = NeverT"
| "typeKey UnknownT = UnknownT"
| "typeKey AnyT = AnyT"
| "typeKey (LiteralT l) = LiteralT l"
| "typeKey (SourcePrimitiveT s) = SourcePrimitiveT s"
| "typeKey (TypeParameterT n) = TypeParameterT n"
| "parKey (Parameter n t rest q) = Parameter [] (typeKey t) rest q"

text \<open>What a use of a declaration shows of a shape: all but the identity of the signature.\<close>

fun overloadKey :: "shape \<Rightarrow> operationKind \<times> string option \<times> providerParameter list" where
  "overloadKey ((e, m, s, k, n), ps, r) = (k, m, map parKey ps)"

definition overloadsDistinct :: "providerExport list \<Rightarrow> bool" where
  "overloadsDistinct xs \<longleftrightarrow> list_all (\<lambda>x. allDistinct (map overloadKey (exportShapes x))) xs"

lemma overloadsDistinct_simps:
  "overloadsDistinct []"
  "overloadsDistinct (x # xs) \<longleftrightarrow> allDistinct (map overloadKey (exportShapes x)) \<and> overloadsDistinct xs"
  "overloadsDistinct (xs @ ys) \<longleftrightarrow> overloadsDistinct xs \<and> overloadsDistinct ys"
  by (simp_all add: overloadsDistinct_def)

lemmas overload_eval = overloadsDistinct_simps overloadKey.simps parKey.simps typeKey.simps type_defs
  maybeUndefined.simps eventNameType_def shape_eval

lemmas key_eval = distinct_eval providerType.inject providerType.distinct providerParameter.inject
  literalValue.inject literalValue.distinct

section \<open>Module objects\<close>

definition relabelKey ::
    "string \<Rightarrow> operationKind \<times> string option \<times> providerParameter list
      \<Rightarrow> operationKind \<times> string option \<times> providerParameter list" where
  "relabelKey i = (\<lambda>(k, m, ps). (k, Some i, ps))"

lemma relabelKey_inject:
  "fst (snd p) = fst (snd q) \<Longrightarrow> relabelKey i p = relabelKey i q \<Longrightarrow> p = q"
  by (cases p; cases q) (simp add: relabelKey_def)

definition memberKeys ::
    "string \<Rightarrow> providerExport \<Rightarrow> (operationKind \<times> string option \<times> providerParameter list) list" where
  "memberKeys e x = map overloadKey (memberShapes e (objectMember e x))"

lemma memberKeys_eq:
  assumes "projectable x"
  shows "memberKeys e x = map (relabelKey (objectMemberId e x)) (map overloadKey (exportShapes x))"
  by (auto simp: memberKeys_def objectMember_shapes [OF assms] relabelKey_def objectPoint_def)

lemma projectable_keys:
  "projectable x \<Longrightarrow> q \<in> set (map overloadKey (exportShapes x)) \<Longrightarrow> fst (snd q) = None"
  by (auto simp: projectable_def exportShapes_def signatureShape_def signaturePoint_def)

lemma memberKeys_distinct:
  assumes "projectable x" and "distinct (map overloadKey (exportShapes x))"
  shows "distinct (memberKeys e x)"
proof -
  have "inj_on (relabelKey i) (set (map overloadKey (exportShapes x)))" for i
    by (rule inj_onI) (metis relabelKey_inject projectable_keys [OF assms(1)])
  then show ?thesis
    using assms(2) by (simp only: memberKeys_eq [OF assms(1)] distinct_map)
qed

lemma memberKeys_id:
  "projectable x \<Longrightarrow> q \<in> set (memberKeys e x) \<Longrightarrow> fst (snd q) = Some (objectMemberId e x)"
  by (auto simp: memberKeys_eq relabelKey_def)

lemma allMemberKeys_distinct:
  assumes "list_all projectable xs" and "list_all (\<lambda>x. distinct (map overloadKey (exportShapes x))) xs"
    and "distinct (map exp_id xs)"
  shows "distinct (concat (map (memberKeys e) xs))"
  using assms
proof (induction xs)
  case (Cons x xs)
  have "q \<notin> set (memberKeys e y)" if "q \<in> set (memberKeys e x)" "y \<in> set xs" for q y
  proof -
    have "exp_id x \<noteq> exp_id y" "projectable x" "projectable y"
      using Cons.prems that(2) by (auto simp: list_all_iff)
    then show ?thesis
      using memberKeys_id [of x q e] memberKeys_id [of y q e] that(1) by (auto simp: objectMemberId_def)
  qed
  then show ?case using Cons memberKeys_distinct [of x e] by auto
qed simp

lemma objectPackage_overloads:
  assumes "overloadsDistinct (packageExports ms)" and "distinct (map exp_id (packageExports ms))"
  shows "overloadsDistinct (packageExports (map objectModule ms))"
proof -
  have "distinct (map overloadKey (exportShapes (objectExport n m)))" if m: "m \<in> set ms" for n m
  proof -
    let ?xs = "filter projectable (mod_exports m)"
    have "list_all (\<lambda>x. distinct (map overloadKey (exportShapes x))) ?xs"
      using assms(1) exports_subset [OF m]
      by (auto simp: overloadsDistinct_def allDistinct_iff list_all_iff)
    moreover have "distinct (map exp_id ?xs)"
      using assms(2) m by (induction ms) (auto simp: packageExports_Cons distinct_map_filter)
    ultimately show ?thesis
      using allMemberKeys_distinct [of ?xs "objectExportId m"]
      by (simp add: exportShapes_def map_concat comp_def memberKeys_def [abs_def] list_all_iff)
  qed
  then show ?thesis
    using assms(1)
    by (fastforce simp: overloadsDistinct_def allDistinct_iff list_all_iff packageExports_def
        objectModule_exports split: option.splits)
qed

end
