(* ===== verification/Node_Overloads.thy ===== *)
theory Node_Overloads
  imports Node_Contract Provider_Overloads
begin

text \<open>
  The overloads of the package can be told apart: no two signatures of a function, method,
  constructor or indexer have the same parameter types. A consumer resolves a use of a
  declaration by its types, so two signatures with equal types would leave it a choice.
\<close>

section \<open>The modules\<close>

lemma assert_overloads: "overloadsDistinct (mod_exports assertModule)"
  by (simp only: assert_defs event_shape_eval overload_eval cong: weak_congs,
      simp only: key_eval cong: perm_congs)

lemma buffer_overloads: "overloadsDistinct (mod_exports (bufferModule api))"
  by (simp only: buffer_defs signature_ids event_shape_eval overload_eval cong: weak_congs,
      simp only: key_eval cong: perm_congs)

lemma childProcess_overloads: "overloadsDistinct (mod_exports childProcessModule)"
  by (simp only: childProcess_defs event_shape_eval overload_eval cong: weak_congs,
      simp only: key_eval cong: perm_congs)

lemma crypto_overloads: "overloadsDistinct (mod_exports (cryptoModule api))"
  by (simp only: crypto_defs crypto_bufferType_def event_shape_eval overload_eval cong:
    weak_congs,
      simp only: key_eval cong: perm_congs)

lemma dns_overloads: "overloadsDistinct (packageExports [dnsModule api, dnsPromisesModule api])"
  by (simp only: dns_defs event_shape_eval overload_eval cong: weak_congs,
      simp only: key_eval cong: perm_congs)

lemma events_overloads: "overloadsDistinct (mod_exports eventsModule)"
  by (simp only: events_defs replicate.simps replicate_0 replicate_Suc event_shape_eval
    overload_eval cong: weak_congs,
      simp only: key_eval cong: perm_congs)

lemma fs_overloads: "overloadsDistinct (mod_exports (filesystemModule api))"
  by (simp only: fs_defs fs_call_eval fs_copy_eval fs_stream_eval fs_watch_eval upt_rec
    Suc_less_eq zero_less_Suc not_less0 duplex_source_def duplex_buffer_def
    readableCall_result_def readableCall_size_def writableCall_bufferType_def
    writableCall_chunkType_def writableCall_completionError_def writableLifecycle_errorType_def
    writableLifecycle_nullableError_def writableLifecycle_optionalError_def event_shape_eval
    overload_eval cong: weak_congs,
      simp only: key_eval cong: perm_congs)

lemma fsPromises_overloads: "overloadsDistinct (mod_exports (filesystemPromisesModule api))"
  by (simp only: fsPromises_defs fs_call_eval fs_copy_eval upt_rec Suc_less_eq zero_less_Suc
    not_less0 duplex_source_def duplex_buffer_def readableCall_result_def readableCall_size_def
    writableCall_bufferType_def writableCall_chunkType_def writableCall_completionError_def
    writableLifecycle_errorType_def writableLifecycle_nullableError_def
    writableLifecycle_optionalError_def event_shape_eval overload_eval cong: weak_congs,
      simp only: key_eval cong: perm_congs)

lemma http_overloads: "overloadsDistinct (mod_exports (httpModule api))"
  by (simp only: http_defs addressType_def connectionOptionsType_def serverOptionsType_def
    listenOptionsType_def listenOptionsImport_def event_shape_eval overload_eval cong: weak_congs,
      simp only: key_eval cong: perm_congs)

lemma https_overloads: "overloadsDistinct (mod_exports (httpsModule api))"
  by (simp only: https_defs addressType_def connectionOptionsType_def serverOptionsType_def
    listenOptionsType_def listenOptionsImport_def event_shape_eval overload_eval cong: weak_congs,
      simp only: key_eval cong: perm_congs)

lemma net_overloads: "overloadsDistinct (mod_exports (netModule api))"
  by (simp only: net_defs addressType_def connectionOptionsType_def serverOptionsType_def
    listenOptionsType_def listenOptionsImport_def duplex_source_def duplex_buffer_def
    readableCall_result_def readableCall_size_def writableCall_bufferType_def
    writableCall_chunkType_def writableCall_completionError_def writableLifecycle_errorType_def
    writableLifecycle_nullableError_def writableLifecycle_optionalError_def event_shape_eval
    overload_eval cong: weak_congs,
      simp only: key_eval cong: perm_congs)

lemma os_overloads: "overloadsDistinct (mod_exports osModule)"
  by (simp only: os_defs event_shape_eval overload_eval cong: weak_congs,
      simp only: key_eval cong: perm_congs)

lemma process_overloads: "overloadsDistinct (mod_exports (processModule api))"
  by (simp only: process_defs duplex_source_def duplex_buffer_def readableCall_result_def
    readableCall_size_def writableCall_bufferType_def writableCall_chunkType_def
    writableCall_completionError_def writableLifecycle_errorType_def
    writableLifecycle_nullableError_def writableLifecycle_optionalError_def event_shape_eval
    overload_eval cong: weak_congs,
      simp only: key_eval cong: perm_congs)

lemma readline_overloads: "overloadsDistinct (mod_exports (readlineModule api))"
  by (simp only: readline_defs event_eval event_shape_eval overload_eval cong: weak_congs,
      simp only: key_eval cong: perm_congs)

lemma stream_overloads: "overloadsDistinct (mod_exports (streamModule api))"
  by (simp only: stream_defs duplex_source_def duplex_buffer_def readableCall_result_def
    readableCall_size_def writableCall_bufferType_def writableCall_chunkType_def
    writableCall_completionError_def writableLifecycle_errorType_def
    writableLifecycle_nullableError_def writableLifecycle_optionalError_def event_shape_eval
    overload_eval cong: weak_congs,
      simp only: key_eval cong: perm_congs)

lemma timers_overloads: "overloadsDistinct (mod_exports timersModule)"
  by (simp only: timers_defs event_shape_eval overload_eval cong: weak_congs,
      simp only: key_eval cong: perm_congs)

lemma tls_overloads: "overloadsDistinct (mod_exports (tlsModule api))"
  by (simp only: tls_defs addressType_def connectionOptionsType_def serverOptionsType_def
    listenOptionsType_def listenOptionsImport_def duplex_source_def duplex_buffer_def
    readableCall_result_def readableCall_size_def writableCall_bufferType_def
    writableCall_chunkType_def writableCall_completionError_def writableLifecycle_errorType_def
    writableLifecycle_nullableError_def writableLifecycle_optionalError_def event_shape_eval
    overload_eval cong: weak_congs,
      simp only: key_eval cong: perm_congs)

lemma util_overloads: "overloadsDistinct (mod_exports utilModule)"
  by (simp only: util_defs event_shape_eval overload_eval cong: weak_congs,
      simp only: key_eval cong: perm_congs)

lemma url_overloads: "overloadsDistinct (mod_exports (urlModule api))"
  by (simp only: url_defs event_shape_eval overload_eval cong: weak_congs,
      simp only: key_eval cong: perm_congs)

lemma worker_overloads: "overloadsDistinct (mod_exports workerThreadsModule)"
  by (simp only: worker_defs event_shape_eval overload_eval cong: weak_congs,
      simp only: key_eval cong: perm_congs)

lemma zlib_overloads: "overloadsDistinct (mod_exports (zlibModule api))"
  by (simp only: zlib_defs duplex_source_def duplex_buffer_def readableCall_result_def
    readableCall_size_def writableCall_bufferType_def writableCall_chunkType_def
    writableCall_completionError_def writableLifecycle_errorType_def
    writableLifecycle_nullableError_def writableLifecycle_optionalError_def event_shape_eval
    overload_eval cong: weak_congs,
      simp only: key_eval cong: perm_congs)

lemma path_overloads: "overloadsDistinct (mod_exports (pathModule api))"
  by (simp only: path_defs path_dialectType_def pathDialectMembers_def path_fields_def path_overload_def
      path_path_def path_paths_def pathParameter.simps pathRow.simps filter.simps overload_eval
      cong: weak_congs,
      simp only: key_eval cong: perm_congs)

section \<open>The package\<close>

lemmas module_overloads = assert_overloads buffer_overloads childProcess_overloads crypto_overloads
  dns_overloads events_overloads fs_overloads fsPromises_overloads http_overloads https_overloads
  net_overloads os_overloads path_overloads process_overloads readline_overloads stream_overloads
  timers_overloads tls_overloads util_overloads url_overloads worker_overloads zlib_overloads

lemma node_overloads: "overloadsDistinct (packageExports (nodeModules api))"
  using dns_overloads [of api]
  by (simp add: nodeModules_def packageExports_def overloadsDistinct_simps module_overloads)

lemma result_overloads: "overloadsDistinct (packageExports (map objectModule (nodeModules api)))"
  by (rule objectPackage_overloads [OF node_overloads node_ids])

end
