(* ===== verification/Provider_Access.thy ===== *)
theory Provider_Access
  imports Provider_Typing
begin

text \<open>
  Reading and writing a property. An operation that writes a property stands beside the
  operation that reads it, addresses the same native entity and takes the type that is read.
\<close>

section \<open>Paired operations\<close>

text \<open>
  The conventions of the sources: a field is read and written under its name; an accessor
  \<open>x\<close> is written by \<open>set_x\<close>, also as a function of the module; a required field
  whose native field is optional is written as the field and read by an accessor
  \<open>x_value\<close>.
\<close>

fun pairedTargets :: "'o operationTarget \<Rightarrow> 'o operationTarget \<Rightarrow> bool" where
  "pairedTargets (PropertyWriteTarget MemberAccess n rw v) (PropertyReadTarget MemberAccess m rr) = (n = m)"
| "pairedTargets (PropertyWriteTarget MethodAccess n rw v) (PropertyReadTarget MethodAccess m rr) =
     (n = ''set_'' @ m)"
| "pairedTargets (FunctionWriteTarget p n v) (FunctionReadTarget q m) = (p = q \<and> n = ''set_'' @ m)"
| "pairedTargets t u = False"

fun unwrappedTargets :: "'o operationTarget \<Rightarrow> 'o operationTarget \<Rightarrow> bool" where
  "unwrappedTargets (PropertyWriteTarget MemberAccess n rw v) (PropertyReadTarget MethodAccess m rr) =
     (m = n @ ''_value'')"
| "unwrappedTargets t u = False"

definition pairedTypes ::
    "'o mojoApi \<Rightarrow> 'o operationTarget \<Rightarrow> 'o targetType list \<Rightarrow> 'o operationTarget \<Rightarrow> 'o targetType \<Rightarrow> bool" where
  "pairedTypes api t ws u r \<longleftrightarrow>
     pairedTargets t u \<and> ws = [r] \<or> unwrappedTargets t u \<and> ws = [mojoOptionalTargetType api r]"

text \<open>The point at which the property of a point is read.\<close>

fun readPoint :: "point \<Rightarrow> point" where
  "readPoint (e, m, s, k, n) = (e, m, None, PropertyOperation, None)"

definition reads :: "'o mojoApi \<Rightarrow> 'o operation \<Rightarrow> 'o operation \<Rightarrow> bool" where
  "reads api p q \<longleftrightarrow>
     operationPoint q = readPoint (operationPoint p) \<and>
     pairedTypes api (op_target p) (optionalList (op_parameterTypes p)) (op_target q) (op_resultType q)"

definition writesPaired :: "'o mojoApi \<Rightarrow> 'o operation list \<Rightarrow> 'o operation list \<Rightarrow> bool" where
  "writesPaired api ops ps \<longleftrightarrow>
     list_all (\<lambda>p. op_operationKind p \<noteq> PropertySetOperation \<or> list_ex (reads api p) ops) ps"

lemma writesPaired_simps:
  "writesPaired api ops []"
  "writesPaired api ops (ps @ qs) \<longleftrightarrow> writesPaired api ops ps \<and> writesPaired api ops qs"
  by (simp_all add: writesPaired_def)

lemma writesPaired_mono: "writesPaired api ops ps \<Longrightarrow> set ops \<subseteq> set ops' \<Longrightarrow> writesPaired api ops' ps"
  by (fastforce simp: writesPaired_def list_all_iff list_ex_iff)

section \<open>The check\<close>

type_synonym 'o accessRow = "point \<times> 'o operationTarget \<times> 'o targetType list \<times> 'o targetType"

definition accessRow :: "'o operation \<Rightarrow> 'o accessRow" where
  "accessRow p = (operationPoint p, op_target p, optionalList (op_parameterTypes p), op_resultType p)"

definition readRows :: "'o operation list \<Rightarrow> 'o accessRow list" where
  "readRows ops = map accessRow (filter (\<lambda>p. op_operationKind p = PropertyOperation) ops)"

definition writeRows :: "'o operation list \<Rightarrow> 'o accessRow list" where
  "writeRows ops = map accessRow (filter (\<lambda>p. op_operationKind p = PropertySetOperation) ops)"

fun rowPaired ::
    "'o mojoApi \<Rightarrow> (point \<Rightarrow> ('o operationTarget \<times> 'o targetType list \<times> 'o targetType) option)
      \<Rightarrow> 'o accessRow \<Rightarrow> bool" where
  "rowPaired api f (q, t, ws, r) =
     (case f (readPoint q) of None \<Rightarrow> False | Some (u, rs, c) \<Rightarrow> pairedTypes api t ws u c)"

lemma writesPairedI:
  assumes check: "\<And>f. knowsRows f (readRows ops) \<Longrightarrow> list_all (rowPaired api f) (writeRows ops)"
    and distinct: "distinct (operationsPoints ops)"
  shows "writesPaired api ops ops"
proof -
  have "map fst (readRows ops) = filter (\<lambda>(e, m, s, k, n). k = PropertyOperation) (operationsPoints ops)"
    by (induction ops) (auto simp: readRows_def accessRow_def operationsPoints_def operationPoint_def)
  then have "list_all (rowPaired api (map_of (readRows ops))) (writeRows ops)"
    using distinct by (intro check knowsRows_map_of) simp
  moreover have "list_ex (reads api p) ops" if row: "rowPaired api (map_of (readRows ops)) (accessRow p)" for p
  proof -
    obtain u rs c where u: "map_of (readRows ops) (readPoint (operationPoint p)) = Some (u, rs, c)"
      and paired: "pairedTypes api (op_target p) (optionalList (op_parameterTypes p)) u c"
      using row by (auto simp: accessRow_def split: option.splits)
    from map_of_SomeD [OF u] obtain q where "q \<in> set ops" "operationPoint q = readPoint (operationPoint p)"
        "op_target q = u" "op_resultType q = c"
      by (auto simp: readRows_def accessRow_def)
    then show ?thesis using paired by (auto simp: list_ex_iff reads_def)
  qed
  ultimately show ?thesis
    by (auto simp: writesPaired_def writeRows_def list_all_iff)
qed

section \<open>Evaluation\<close>

lemma access_rows:
  "readRows [] = []"
  "readRows (p # ps) = (if op_operationKind p = PropertyOperation then [accessRow p] else []) @ readRows ps"
  "readRows (ps @ qs) = readRows ps @ readRows qs"
  "writeRows [] = []"
  "writeRows (p # ps) = (if op_operationKind p = PropertySetOperation then [accessRow p] else []) @ writeRows ps"
  "writeRows (ps @ qs) = writeRows ps @ writeRows qs"
  by (simp_all add: readRows_def writeRows_def)

lemma property_row:
  "accessRow (constantValue e m t r) =
     ((e, None, None, PropertyOperation, None), ConstantTarget [''tsonic_node'', m] t, [], r)"
  "accessRow (functionValue e m t r ra) =
     ((e, None, None, PropertyOperation, None), FunctionReadTarget [''tsonic_node'', m] t, [], r)"
  "accessRow (staticPropertyRead e i m t r ra) =
     ((e, Some i, None, PropertyOperation, None), FunctionReadTarget [''tsonic_node'', m] t, [], r)"
  "accessRow (staticPropertyWrite api e i m t v ra) =
     ((e, Some i, None, PropertySetOperation, Some 1),
      FunctionWriteTarget [''tsonic_node'', m] t immArgument, [v], unitCarrier api)"
  "accessRow (propertyReadVia a e i t rt r) =
     ((e, Some i, None, PropertyOperation, None), PropertyReadTarget a t ''imm'', [], r)"
  "accessRow (propertyWriteVia a api e i t rt v) =
     ((e, Some i, None, PropertySetOperation, Some 1),
      PropertyWriteTarget a t (if a = MethodAccess then ''imm'' else ''mut'') immArgument, [v], unitCarrier api)"
  by (simp_all add: accessRow_def operationPoint_def constantValue_def functionValue_def
      staticPropertyRead_def staticPropertyWrite_def propertyReadVia_def propertyWriteVia_def)

lemma update_row:
  "accessRow (p\<lparr>op_raises := b\<rparr>) = accessRow p"
  "accessRow (p\<lparr>op_errorType := x\<rparr>) = accessRow p"
  "accessRow (p\<lparr>op_target := u\<rparr>) = (case accessRow p of (q, _, ws, r) \<Rightarrow> (q, u, ws, r))"
  "accessRow (p\<lparr>op_resultType := r\<rparr>) = (case accessRow p of (q, t, ws, _) \<Rightarrow> (q, t, ws, r))"
  "accessRow (p\<lparr>op_memberId := m\<rparr>) =
     (case accessRow p of ((e, _, s, k, n), x) \<Rightarrow> ((e, m, s, k, n), x))"
  "accessRow (p\<lparr>op_operationKind := k'\<rparr>) =
     (case accessRow p of ((e, m, s, _, n), x) \<Rightarrow> ((e, m, s, k', n), x))"
  by (simp_all add: accessRow_def operationPoint_def)

lemma literal_row:
  "accessRow \<lparr>op_exportId = e, op_memberId = m, op_signatureId = s, op_operationKind = k,
     op_target = u, op_receiverType = rt, op_parameterTypes = ps, op_resultType = r,
     op_errorType = x, op_raises = b\<rparr> =
   ((e, m, s, k, map_option length ps), u, optionalList ps, r)"
  by (simp_all add: accessRow_def operationPoint_def)

lemmas access_eval = knowsRows_def access_rows property_row update_row literal_row point_eval list_all_append list.pred_inject
  rowPaired.simps readPoint.simps pairedTypes_def pairedTargets.simps unwrappedTargets.simps accessKind.distinct
  optionalList_simps functionCallPath_point(2) functionCall_point(2) staticCall_point(2)
  variadicFunctionCall_point(2) instanceCall_point(2) value_points(2,4) property_points(2,4,6,8)
  indexRead_point(2) operation_update_points(2,4,6,8,10,12) operation_literal_points(2)

end
