(* ===== verification/Node_Access.thy ===== *)
theory Node_Access
  imports Node_Contract Provider_Access
begin

text \<open>
  Every property that the package writes is read at the same native entity with the same type;
  the modules are checked one by one.
\<close>

section \<open>The modules\<close>

lemma assert_paired:
  "knowsRows f (readRows (assertOperations api)) \<Longrightarrow> list_all (rowPaired api f) (writeRows (assertOperations api))"
  by (simp only: assert_defs event_shape_eval access_eval cong: weak_congs)

lemma buffer_paired:
  "knowsRows f (readRows (bufferOperations api)) \<Longrightarrow> list_all (rowPaired api f) (writeRows (bufferOperations api))"
  by (simp only: buffer_defs signature_ids event_shape_eval access_eval cong: weak_congs)

lemma childProcess_paired:
  "knowsRows f (readRows (childProcessOperations api)) \<Longrightarrow> list_all (rowPaired api f) (writeRows (childProcessOperations api))"
  by (simp only: childProcess_defs event_shape_eval access_eval cong: weak_congs)

lemma crypto_paired:
  "knowsRows f (readRows (cryptoOperations api)) \<Longrightarrow> list_all (rowPaired api f) (writeRows (cryptoOperations api))"
  by (simp only: crypto_defs event_shape_eval access_eval cong: weak_congs)

lemma dns_paired:
  "knowsRows f (readRows (dnsOperations api)) \<Longrightarrow> list_all (rowPaired api f) (writeRows (dnsOperations api))"
  by (simp only: dns_defs event_shape_eval access_eval cong: weak_congs)

lemma events_paired:
  "knowsRows f (readRows (eventsOperations api)) \<Longrightarrow> list_all (rowPaired api f) (writeRows (eventsOperations api))"
  by (simp only: events_defs replicate.simps replicate_0 replicate_Suc event_shape_eval
    access_eval cong: weak_congs)

lemma fs_paired:
  "knowsRows f (readRows (filesystemOperations api)) \<Longrightarrow> list_all (rowPaired api f) (writeRows (filesystemOperations api))"
  by (simp only: fs_defs fs_call_eval fs_copy_eval fs_stream_eval fs_watch_eval upt_rec
    Suc_less_eq zero_less_Suc not_less0 event_shape_eval access_eval cong: weak_congs)

lemma fsPromises_paired:
  "knowsRows f (readRows (filesystemPromisesOperations api)) \<Longrightarrow> list_all (rowPaired api f) (writeRows (filesystemPromisesOperations api))"
  by (simp only: fsPromises_defs fs_call_eval fs_copy_eval upt_rec Suc_less_eq zero_less_Suc
    not_less0 event_shape_eval access_eval cong: weak_congs)

lemma http_paired:
  "knowsRows f (readRows (httpOperations api)) \<Longrightarrow> list_all (rowPaired api f) (writeRows (httpOperations api))"
  by (simp only: http_defs event_shape_eval access_eval cong: weak_congs)

lemma https_paired:
  "knowsRows f (readRows (httpsOperations api)) \<Longrightarrow> list_all (rowPaired api f) (writeRows (httpsOperations api))"
  by (simp only: https_defs event_shape_eval access_eval cong: weak_congs)

lemma net_paired:
  "knowsRows f (readRows (netOperations api)) \<Longrightarrow> list_all (rowPaired api f) (writeRows (netOperations api))"
  by (simp only: net_defs event_shape_eval access_eval cong: weak_congs)

lemma os_paired:
  "knowsRows f (readRows (osOperations api)) \<Longrightarrow> list_all (rowPaired api f) (writeRows (osOperations api))"
  by (simp only: os_defs event_shape_eval access_eval cong: weak_congs)

lemma process_paired:
  "knowsRows f (readRows (processOperations api)) \<Longrightarrow> list_all (rowPaired api f) (writeRows (processOperations api))"
  by (simp only: process_defs event_shape_eval access_eval cong: weak_congs)

lemma readline_paired:
  "knowsRows f (readRows (readlineOperationList api)) \<Longrightarrow> list_all (rowPaired api f) (writeRows (readlineOperationList api))"
  by (simp only: readline_defs event_eval event_shape_eval access_eval cong: weak_congs)

lemma stream_paired:
  "knowsRows f (readRows (streamOperations api)) \<Longrightarrow> list_all (rowPaired api f) (writeRows (streamOperations api))"
  by (simp only: stream_defs event_shape_eval access_eval cong: weak_congs)

lemma timers_paired:
  "knowsRows f (readRows (timersOperations api)) \<Longrightarrow> list_all (rowPaired api f) (writeRows (timersOperations api))"
  by (simp only: timers_defs event_shape_eval access_eval cong: weak_congs)

lemma tls_paired:
  "knowsRows f (readRows (tlsOperations api)) \<Longrightarrow> list_all (rowPaired api f) (writeRows (tlsOperations api))"
  by (simp only: tls_defs event_shape_eval access_eval cong: weak_congs)

lemma util_paired:
  "knowsRows f (readRows (utilOperations api)) \<Longrightarrow> list_all (rowPaired api f) (writeRows (utilOperations api))"
  by (simp only: util_defs event_shape_eval access_eval cong: weak_congs)

lemma url_paired:
  "knowsRows f (readRows (urlOperations api)) \<Longrightarrow> list_all (rowPaired api f) (writeRows (urlOperations api))"
  by (simp only: url_defs event_shape_eval access_eval cong: weak_congs)

lemma worker_paired:
  "knowsRows f (readRows (workerThreadsOperations api)) \<Longrightarrow> list_all (rowPaired api f) (writeRows (workerThreadsOperations api))"
  by (simp only: worker_defs event_shape_eval access_eval cong: weak_congs)

lemma zlib_paired:
  "knowsRows f (readRows (zlibOperations api)) \<Longrightarrow> list_all (rowPaired api f) (writeRows (zlibOperations api))"
  by (simp only: zlib_defs event_shape_eval access_eval cong: weak_congs)

lemma path_call_rows:
  "readRows (map (path_call api dialect) rows) = []" "writeRows (map (path_call api dialect) rows) = []"
  by (simp_all add: readRows_def writeRows_def filter_empty_conv path_call_kind)

lemma path_paired:
  "knowsRows f (readRows (pathOperationList api)) \<Longrightarrow>
   list_all (rowPaired api f) (writeRows (pathOperationList api))"
  by (simp only: pathOperationList_def access_rows path_call_rows append_Nil2 append.simps)
    (simp only: pathRecordOperations_def path_fields_def path_valueOperations_def path_moduleSpecifier_def
      parsedId_def inputId_def dialectId_def access_eval cong: weak_congs)

section \<open>The package\<close>

lemma node_operations_distinct: "distinct (operationsPoints (nodeOperationList api))"
  by (rule implements_distinct [OF node.implemented node_points])

lemma node_paired: "writesPaired api (nodeOperationList api) (nodeOperationList api)"
proof -
  note module_paired = assert_paired buffer_paired childProcess_paired crypto_paired dns_paired
    events_paired fs_paired fsPromises_paired http_paired https_paired net_paired os_paired path_paired
    process_paired readline_paired stream_paired timers_paired tls_paired util_paired url_paired
    worker_paired zlib_paired
  note distinct = node_operations_distinct [of api, unfolded nodeOperationList_def operationsPoints_append
      distinct_append]
  show ?thesis
    unfolding nodeOperationList_def writesPaired_simps
    by (intro conjI)
      (rule writesPaired_mono, rule writesPairedI, erule module_paired, simp add: distinct, force)+
qed

section \<open>The delivered package\<close>

text \<open>The pass adds no writes.\<close>

lemma exportAdditions_kind:
  assumes "implements ops xs" and "memberIndexWrites ops"
    and "x \<in> set xs" and "distinct (map exp_id xs)" and "projectable x"
    and "p' \<in> set (exportAdditions ops e x)"
  shows "op_operationKind p' \<noteq> PropertySetOperation"
proof -
  obtain p where "p \<in> set (filter (belongsTo x) ops)" and p': "p' = objectOperation e x p"
    using assms(6) by (auto simp: exportAdditions_def)
  then have "operationPoint p \<in> set (exportPoints x)"
    using mset_eq_setD [OF export_operations_points [OF assms(1-5)]] by auto
  then have "op_operationKind p \<noteq> PropertySetOperation"
    using assms(5) by (auto simp: exportPoints_def projectable_def operationPoint_def signaturePoint_def)
  then show ?thesis by (simp add: p' objectOperation_kind)
qed

lemma result_paired:
  "writesPaired api (pkg_operations (nodeDefinition host api)) (pkg_operations (nodeDefinition host api))"
proof -
  let ?ops = "nodeOperationList api" and ?xs = "packageExports (nodeModules api)"
  have "op_operationKind p' \<noteq> PropertySetOperation"
    if m: "m \<in> set (nodeModules api)" and p': "p' \<in> set (addedOperations ?ops m)" for m p'
  proof -
    from p' obtain x where "x \<in> set (mod_exports m)" "projectable x"
        "p' \<in> set (exportAdditions ?ops (objectExportId m) x)"
      by (auto simp: addedOperations_def split: if_splits)
    then show ?thesis
      using exports_subset [OF m] exportAdditions_kind [OF node.implemented node.index_writes _ node_ids]
      by blast
  qed
  then have "writesPaired api ps (concat (map (addedOperations ?ops) (nodeModules api)))" for ps
    by (auto simp: writesPaired_def list_all_iff)
  moreover have "writesPaired api (pkg_operations (nodeDefinition host api)) ?ops"
    by (rule writesPaired_mono [OF node_paired]) (simp add: nodeDefinition_def objectPackage_def)
  ultimately show ?thesis
    by (simp add: nodeDefinition_def objectPackage_def writesPaired_simps)
qed

end
