(* ===== verification/Node_Listeners.thy ===== *)
theory Node_Listeners
  imports Node_Contract Provider_Overloads
begin

text \<open>
  Every class that has listeners offers \<open>on\<close>, \<open>once\<close> and \<open>off\<close> for the
  same events with the same listeners: what is added can be removed. Most classes derive the
  three methods from a table of events (\<^verbatim>\<open>model/events.ts\<close>), some list them by
  hand; the modules are checked one by one.
\<close>

section \<open>Listeners\<close>

text \<open>The signatures of the members of one name, up to the names that no use shows.\<close>

definition signatureKey :: "providerSignature \<Rightarrow> providerParameter list \<times> providerType" where
  "signatureKey g = (map parKey (sig_parameters g), typeKey (sig_returnType g))"

definition namedSignatures :: "string \<Rightarrow> providerMember \<Rightarrow> (providerParameter list \<times> providerType) list" where
  "namedSignatures n m = (if mem_name m = n then map signatureKey (optionalList (mem_signatures m)) else [])"

definition methodSignatures :: "string \<Rightarrow> providerMember list \<Rightarrow> (providerParameter list \<times> providerType) list" where
  "methodSignatures n ms = concat (map (namedSignatures n) ms)"

definition uniformListeners :: "providerExport \<Rightarrow> bool" where
  "uniformListeners x \<longleftrightarrow>
     methodSignatures ''once'' (optionalList (exp_members x)) = methodSignatures ''on'' (optionalList (exp_members x)) \<and>
     methodSignatures ''off'' (optionalList (exp_members x)) = methodSignatures ''on'' (optionalList (exp_members x))"

definition listenersUniform :: "providerExport list \<Rightarrow> bool" where
  "listenersUniform xs \<longleftrightarrow> list_all uniformListeners xs"

lemma listenersUniform_simps:
  "listenersUniform []"
  "listenersUniform (x # xs) \<longleftrightarrow> uniformListeners x \<and> listenersUniform xs"
  "listenersUniform (xs @ ys) \<longleftrightarrow> listenersUniform xs \<and> listenersUniform ys"
  by (simp_all add: listenersUniform_def)

lemma methodSignatures_simps:
  "methodSignatures n [] = []"
  "methodSignatures n (m # ms) = namedSignatures n m @ methodSignatures n ms"
  "methodSignatures n (ms @ ns) = methodSignatures n ms @ methodSignatures n ns"
  by (simp_all add: methodSignatures_def)

lemma signatureKey_simps:
  "signatureKey (plainSignature i n ps r) = (map parKey ps, typeKey r)"
  "signatureKey (genericSignature i n tps ps r) = (map parKey ps, typeKey r)"
  by (simp_all add: signatureKey_def plainSignature_def genericSignature_def)

definition overloadSignature :: "overload \<Rightarrow> providerParameter list \<times> providerType" where
  "overloadSignature v = (map parKey (ov_parameters v), typeKey (ov_returnType v))"

lemma overloadSignature_simps:
  "overloadSignature (overloadAs s ps r) = (map parKey ps, typeKey r)"
  "overloadSignature (overloadOf ps r) = (map parKey ps, typeKey r)"
  by (simp_all add: overloadSignature_def overloadAs_def overloadOf_def)

lemma namedSignatures_simps:
  "namedSignatures n (callableMember i c k st sigs) = (if c = n then map signatureKey sigs else [])"
  "namedSignatures n (methodMemberWith w c ps r st sfx) = (if c = n then [(map parKey ps, typeKey r)] else [])"
  "namedSignatures n (methodMember w c ps r) = (if c = n then [(map parKey ps, typeKey r)] else [])"
  "namedSignatures n (overloadedMethodMemberWith w c ovs st) = (if c = n then map overloadSignature ovs else [])"
  "namedSignatures n (overloadedMethodMember w c ovs) = (if c = n then map overloadSignature ovs else [])"
  "namedSignatures n (propertyMemberWith w c t ro st opt) = []"
  "namedSignatures n (propertyMember w c t) = []"
  "namedSignatures n (constructorMember w ps) =
     (if ''constructor'' = n then [(map parKey ps, typeKey voidType)] else [])"
  by (simp_all add: namedSignatures_def builder_defs Let_def signatureKey_def overloadSignature_def comp_def)

lemma uniform_exports:
  "uniformListeners (functionDeclaration i n d sigs)"
  "uniformListeners (overloadedFunctionExport m n ovs)"
  "uniformListeners (fnExportWith m n ps r s)"
  "uniformListeners (fnExport m n ps r)"
  "uniformListeners (valueExport m n t)"
  "uniformListeners (typeDeclaration k i n ms) \<longleftrightarrow>
     methodSignatures ''once'' ms = methodSignatures ''on'' ms \<and>
     methodSignatures ''off'' ms = methodSignatures ''on'' ms"
  "uniformListeners (x\<lparr>exp_exportName := en\<rparr>) \<longleftrightarrow> uniformListeners x"
  "uniformListeners (x\<lparr>exp_isDefault := d\<rparr>) \<longleftrightarrow> uniformListeners x"
  "uniformListeners (x\<lparr>exp_typeParameters := tps\<rparr>) \<longleftrightarrow> uniformListeners x"
  "uniformListeners (x\<lparr>exp_heritage := h\<rparr>) \<longleftrightarrow> uniformListeners x"
  "uniformListeners (x\<lparr>exp_members := Some ms\<rparr>) \<longleftrightarrow>
     methodSignatures ''once'' ms = methodSignatures ''on'' ms \<and>
     methodSignatures ''off'' ms = methodSignatures ''on'' ms"
  by (simp_all add: uniformListeners_def builder_defs Let_def methodSignatures_simps)

lemmas listener_eval = listenersUniform_simps uniform_exports methodSignatures_simps namedSignatures_simps
  signatureKey_simps overloadSignature_simps parKey.simps typeKey.simps type_defs eventNameType_def
  mod_exports_moduleOf module_update_simps append.simps append_assoc append_Nil2 list.map Let_def concat.simps
  case_prod_conv joinWith.simps list.inject list.distinct char.inject simp_thms if_True if_False option.map
  option.case providerParameter.sel

section \<open>The modules\<close>

lemma assert_listeners: "listenersUniform (mod_exports assertModule)"
  by (simp only: assert_defs event_shape_eval listener_eval cong: weak_congs)

lemma buffer_listeners: "listenersUniform (mod_exports (bufferModule api))"
  by (simp only: buffer_defs signature_ids event_shape_eval listener_eval cong: weak_congs)

lemma childProcess_listeners: "listenersUniform (mod_exports childProcessModule)"
  by (simp only: childProcess_defs event_shape_eval listener_eval cong: weak_congs)

lemma crypto_listeners: "listenersUniform (mod_exports (cryptoModule api))"
  by (simp only: crypto_defs crypto_bufferType_def event_shape_eval listener_eval cong:
    weak_congs)

lemma dns_listeners: "listenersUniform (packageExports [dnsModule api, dnsPromisesModule api])"
  by (simp only: dns_defs packageExports_def event_shape_eval listener_eval cong: weak_congs)

lemma events_listeners: "listenersUniform (mod_exports eventsModule)"
  by (simp only: events_defs replicate.simps replicate_0 replicate_Suc event_shape_eval
    listener_eval cong: weak_congs)

lemma fs_listeners: "listenersUniform (mod_exports (filesystemModule api))"
  by (simp only: fs_defs fs_call_eval fs_copy_eval fs_stream_eval fs_watch_eval upt_rec
    Suc_less_eq zero_less_Suc not_less0 duplex_source_def duplex_buffer_def
    readableCall_result_def readableCall_size_def writableCall_bufferType_def
    writableCall_chunkType_def writableCall_completionError_def writableLifecycle_errorType_def
    writableLifecycle_nullableError_def writableLifecycle_optionalError_def event_shape_eval
    listener_eval cong: weak_congs)

lemma fsPromises_listeners: "listenersUniform (mod_exports (filesystemPromisesModule api))"
  by (simp only: fsPromises_defs fs_call_eval fs_copy_eval upt_rec Suc_less_eq zero_less_Suc
    not_less0 duplex_source_def duplex_buffer_def readableCall_result_def readableCall_size_def
    writableCall_bufferType_def writableCall_chunkType_def writableCall_completionError_def
    writableLifecycle_errorType_def writableLifecycle_nullableError_def
    writableLifecycle_optionalError_def event_shape_eval listener_eval cong: weak_congs)

lemma http_listeners: "listenersUniform (mod_exports (httpModule api))"
  by (simp only: http_defs addressType_def connectionOptionsType_def serverOptionsType_def
    listenOptionsType_def listenOptionsImport_def event_shape_eval listener_eval cong: weak_congs)

lemma https_listeners: "listenersUniform (mod_exports (httpsModule api))"
  by (simp only: https_defs addressType_def connectionOptionsType_def serverOptionsType_def
    listenOptionsType_def listenOptionsImport_def event_shape_eval listener_eval cong: weak_congs)

lemma net_listeners: "listenersUniform (mod_exports (netModule api))"
  by (simp only: net_defs addressType_def connectionOptionsType_def serverOptionsType_def
    listenOptionsType_def listenOptionsImport_def duplex_source_def duplex_buffer_def
    readableCall_result_def readableCall_size_def writableCall_bufferType_def
    writableCall_chunkType_def writableCall_completionError_def writableLifecycle_errorType_def
    writableLifecycle_nullableError_def writableLifecycle_optionalError_def event_shape_eval
    listener_eval cong: weak_congs)

lemma os_listeners: "listenersUniform (mod_exports osModule)"
  by (simp only: os_defs event_shape_eval listener_eval cong: weak_congs)

lemma process_listeners: "listenersUniform (mod_exports (processModule api))"
  by (simp only: process_defs duplex_source_def duplex_buffer_def readableCall_result_def
    readableCall_size_def writableCall_bufferType_def writableCall_chunkType_def
    writableCall_completionError_def writableLifecycle_errorType_def
    writableLifecycle_nullableError_def writableLifecycle_optionalError_def event_shape_eval
    listener_eval cong: weak_congs)

lemma readline_listeners: "listenersUniform (mod_exports (readlineModule api))"
  by (simp only: readline_defs event_eval event_shape_eval listener_eval cong: weak_congs)

lemma stream_listeners: "listenersUniform (mod_exports (streamModule api))"
  by (simp only: stream_defs duplex_source_def duplex_buffer_def readableCall_result_def
    readableCall_size_def writableCall_bufferType_def writableCall_chunkType_def
    writableCall_completionError_def writableLifecycle_errorType_def
    writableLifecycle_nullableError_def writableLifecycle_optionalError_def event_shape_eval
    listener_eval cong: weak_congs)

lemma timers_listeners: "listenersUniform (mod_exports timersModule)"
  by (simp only: timers_defs event_shape_eval listener_eval cong: weak_congs)

lemma tls_listeners: "listenersUniform (mod_exports (tlsModule api))"
  by (simp only: tls_defs addressType_def connectionOptionsType_def serverOptionsType_def
    listenOptionsType_def listenOptionsImport_def duplex_source_def duplex_buffer_def
    readableCall_result_def readableCall_size_def writableCall_bufferType_def
    writableCall_chunkType_def writableCall_completionError_def writableLifecycle_errorType_def
    writableLifecycle_nullableError_def writableLifecycle_optionalError_def event_shape_eval
    listener_eval cong: weak_congs)

lemma util_listeners: "listenersUniform (mod_exports utilModule)"
  by (simp only: util_defs event_shape_eval listener_eval cong: weak_congs)

lemma url_listeners: "listenersUniform (mod_exports (urlModule api))"
  by (simp only: url_defs event_shape_eval listener_eval cong: weak_congs)

lemma worker_listeners: "listenersUniform (mod_exports workerThreadsModule)"
  by (simp only: worker_defs event_shape_eval listener_eval cong: weak_congs)

lemma zlib_listeners: "listenersUniform (mod_exports (zlibModule api))"
  by (simp only: zlib_defs duplex_source_def duplex_buffer_def readableCall_result_def
    readableCall_size_def writableCall_bufferType_def writableCall_chunkType_def
    writableCall_completionError_def writableLifecycle_errorType_def
    writableLifecycle_nullableError_def writableLifecycle_optionalError_def event_shape_eval
    listener_eval cong: weak_congs)

lemma path_listeners: "listenersUniform (mod_exports (pathModule api))"
  by (simp only: path_defs pathDialectMembers_def path_fields_def path_overload_def path_path_def
      path_paths_def pathParameter.simps pathRow.simps filter.simps listener_eval cong: weak_congs)

section \<open>The package\<close>

lemmas module_listeners = assert_listeners buffer_listeners childProcess_listeners crypto_listeners
  dns_listeners events_listeners fs_listeners fsPromises_listeners http_listeners https_listeners
  net_listeners os_listeners path_listeners process_listeners readline_listeners stream_listeners
  timers_listeners tls_listeners util_listeners url_listeners worker_listeners zlib_listeners

lemma node_listeners: "listenersUniform (packageExports (nodeModules api))"
  using dns_listeners [of api]
  by (simp add: nodeModules_def packageExports_def listenersUniform_simps module_listeners)

end
