(* ===== verification/Node_Fs_Mirror.thy ===== *)
theory Node_Fs_Mirror
  imports Node_Fs Provider_Typing
begin

text \<open>
  \<open>node:fs/promises\<close> mirrors the synchronous calls of \<open>node:fs\<close>: a call of the
  former has the parameters of the \<open>Sync\<close> call of the same name and signature, a promise
  of its result, and a native future of its native result. The two modules derive most calls
  from shared tables (\<^verbatim>\<open>filesystem/call-records.ts\<close>, \<^verbatim>\<open>contents.ts\<close>,
  \<^verbatim>\<open>copy.ts\<close>) and list the others twice (\<^verbatim>\<open>filesystem/index.ts\<close>,
  \<^verbatim>\<open>filesystem/promises.ts\<close>).
\<close>

section \<open>Mirrored calls\<close>

definition syncId :: "string \<Rightarrow> string" where
  "syncId e = ''node:fs::'' @ drop (length ''node:fs/promises::'') e @ ''Sync''"

fun syncPoint :: "point \<Rightarrow> point" where
  "syncPoint (e, m, s, k, n) = (syncId e, m, map_option (\<lambda>s. syncId e @ drop (length e) s) s, k, n)"

text \<open>A declared shape with the shape of the synchronous call.\<close>

fun mirrorsShape :: "shape \<Rightarrow> shape \<Rightarrow> bool" where
  "mirrorsShape (q, ps, r) (q', ps', r') =
     (q' = syncPoint q \<and> ps' = ps \<and> r = map_option sourcePromise r')"

text \<open>An operation with the synchronous operation.\<close>

definition mirrorsOperation :: "'o mojoApi \<Rightarrow> 'o operation \<Rightarrow> 'o operation \<Rightarrow> bool" where
  "mirrorsOperation api p q \<longleftrightarrow>
     operationPoint q = syncPoint (operationPoint p) \<and>
     op_parameterTypes q = op_parameterTypes p \<and> op_raises q = op_raises p \<and>
     op_resultType p \<in> set (futures api (op_resultType q))"

text \<open>The call with the asynchronous copy options has no synchronous counterpart.\<close>

definition unmirrored :: "point list" where
  "unmirrored =
     [(''node:fs/promises::cp'', None, Some ''node:fs/promises::cp(source,destination,options)'',
       CallOperation, Some 3)]"

section \<open>The comparison\<close>

text \<open>Both sides are looked up by their points.\<close>

definition callRow :: "'o operation \<Rightarrow> point \<times> 'o targetType list option \<times> bool \<times> 'o targetType" where
  "callRow p = (operationPoint p, op_parameterTypes p, op_raises p, op_resultType p)"

definition callRows ::
    "'o operation list \<Rightarrow> (point \<times> 'o targetType list option \<times> bool \<times> 'o targetType) list" where
  "callRows ops = map callRow (filter (\<lambda>p. op_operationKind p \<noteq> IndexSetOperation) ops)"

lemma callRows_fst: "map fst (callRows ops) = operationsPoints ops"
  by (simp add: callRows_def callRow_def operationsPoints_def comp_def)

fun rowMirrored ::
    "'o mojoApi \<Rightarrow> (point \<Rightarrow> ('o targetType list option \<times> bool \<times> 'o targetType) option)
      \<Rightarrow> point \<times> 'o targetType list option \<times> bool \<times> 'o targetType \<Rightarrow> bool" where
  "rowMirrored api f (q, ps, b, r) =
     (q \<in> set unmirrored \<or>
      (case f (syncPoint q) of
         None \<Rightarrow> False
       | Some (ps', b', r') \<Rightarrow> ps' = ps \<and> b' = b \<and> r \<in> set (futures api r')))"

fun shapeMirrored :: "shapeLookup \<Rightarrow> shape \<Rightarrow> bool" where
  "shapeMirrored f (q, ps, r) =
     (q \<in> set unmirrored \<or>
      (case f (syncPoint q) of
         None \<Rightarrow> False
       | Some (ps', r') \<Rightarrow> ps' = ps \<and> r = map_option sourcePromise r'))"

lemma callRows_simps:
  "callRows [] = []"
  "callRows (p # ps) = (if op_operationKind p = IndexSetOperation then [] else [callRow p]) @ callRows ps"
  "callRows (ps @ qs) = callRows ps @ callRows qs"
  by (simp_all add: callRows_def)

lemma callRow_simps:
  "callRow (functionCallPath e s path t ps r b) =
     ((e, None, Some s, CallOperation, Some (length ps)), Some ps, b, r)"
  "callRow (functionCall e s m t ps r b) =
     ((e, None, Some s, CallOperation, Some (length ps)), Some ps, b, r)"
  by (simp_all add: callRow_def operationPoint_def functionCall_def functionCallPath_def)

lemmas mirror_eval = list_all_append list.pred_inject case_prod_conv option.case syncPoint.simps syncId_def drop_Suc_Cons
  drop_0 list.size One_nat_def add_0 add_Suc add_Suc_right option.map unmirrored_def list.set insert_iff
  empty_iff prod.inject option.inject option.distinct list.inject list.distinct char.inject simp_thms
  if_True if_False append.simps append_assoc append_Nil2 list.map joinWith.simps Let_def concat.simps
  numeral_3_eq_3 nat.inject nat.distinct

lemma promises_rows_mirrored:
  assumes "knowsRows f (callRows (filesystemOperations api))"
  shows "list_all (rowMirrored api f) (callRows (filesystemPromisesOperations api))"
  using assms
  by (simp only: knowsRows_def fs_defs fsPromises_defs fs_call_eval fs_copy_eval fs_stream_eval fs_watch_eval
      callRows_simps callRow_simps point_simps operationKind.distinct rowMirrored.simps mirror_eval futures_def
      carrier_defs cong: weak_congs)

lemma promises_shapes_mirrored:
  assumes "knowsRows f (exportsShapes (mod_exports (filesystemModule api)))"
  shows "list_all (shapeMirrored f) (exportsShapes (mod_exports (filesystemPromisesModule api)))"
  using assms
  by (simp only: knowsRows_def fs_defs fsPromises_defs fs_call_eval fs_copy_eval fs_stream_eval fs_watch_eval
      upt_rec Suc_less_eq zero_less_Suc not_less0 shape_eval shapeMirrored.simps mirror_eval
      cong: weak_congs)

lemma fs_exports_distinct: "distinct (exportsPoints (mod_exports (filesystemModule api)))"
  by (rule exportsPoints_distinct [OF _ fs_points]) (simp add: fs_ids)

lemma fs_operations_distinct: "distinct (operationsPoints (filesystemOperations api))"
  by (rule implements_distinct [OF fs_implements fs_exports_distinct])

lemma rowMirrored_sound:
  assumes "rowMirrored api (map_of (callRows ops)) (callRow p)"
  shows "operationPoint p \<in> set unmirrored \<or> list_ex (mirrorsOperation api p) ops"
proof (cases "operationPoint p \<in> set unmirrored")
  case False
  then obtain ps' b' r' where row: "map_of (callRows ops) (syncPoint (operationPoint p)) = Some (ps', b', r')"
    and eq: "ps' = op_parameterTypes p" "b' = op_raises p" "op_resultType p \<in> set (futures api r')"
    using assms by (auto simp: callRow_def split: option.splits)
  from map_of_SomeD [OF row] obtain q where "q \<in> set ops"
      "callRow q = (syncPoint (operationPoint p), ps', b', r')"
    by (auto simp: callRows_def)
  then have "mirrorsOperation api p q"
    using eq by (simp add: mirrorsOperation_def callRow_def)
  then show ?thesis using \<open>q \<in> set ops\<close> by (auto simp: list_ex_iff)
qed simp

lemma shapeMirrored_sound:
  assumes "shapeMirrored (map_of ss) s"
  shows "fst s \<in> set unmirrored \<or> list_ex (mirrorsShape s) ss"
proof (cases "fst s \<in> set unmirrored")
  case False
  obtain q ps r where s: "s = (q, ps, r)" by (rule prod_cases3)
  obtain r' where "map_of ss (syncPoint q) = Some (ps, r')" "r = map_option sourcePromise r'"
    using assms False by (auto simp: s split: option.splits)
  then have "(syncPoint q, ps, r') \<in> set ss" "mirrorsShape s (syncPoint q, ps, r')"
    by (auto simp: s dest: map_of_SomeD)
  then show ?thesis by (auto simp: list_ex_iff)
qed simp

text \<open>No operation of \<open>node:fs/promises\<close> writes to an index.\<close>

lemma promises_calls: "list_all (\<lambda>p. op_operationKind p \<noteq> IndexSetOperation) (filesystemPromisesOperations api)"
  by (auto simp: list_all_iff filesystemPromisesOperations_def filesystemCallOperations_def
      filesystemContentsOperations_def filesystemCopyOperations_def Let_def functionCallPath_def)

section \<open>Properties\<close>

text \<open>
  C13: \<open>node:fs/promises\<close> mirrors \<open>node:fs\<close>. Save for \<open>cp\<close> with options, every
  call that \<open>node:fs/promises\<close> declares has the parameters of the synchronous call of
  its name and signature and returns a promise of its result; and every operation of
  \<open>node:fs/promises\<close> has the parameter types and the errors of the synchronous
  operation and results in a native future of its result.
\<close>

theorem promises_mirror_sync:
  "list_all (\<lambda>s. fst s \<in> set unmirrored \<or>
      list_ex (mirrorsShape s) (exportsShapes (mod_exports (filesystemModule api))))
     (exportsShapes (mod_exports (filesystemPromisesModule api))) \<and>
   list_all (\<lambda>p. operationPoint p \<in> set unmirrored \<or>
      list_ex (mirrorsOperation api p) (filesystemOperations api))
     (filesystemPromisesOperations api)"
proof
  have "knowsRows (map_of (exportsShapes (mod_exports (filesystemModule api))))
      (exportsShapes (mod_exports (filesystemModule api)))"
    by (rule knowsRows_map_of) (simp add: exportsShapes_points fs_exports_distinct)
  from promises_shapes_mirrored [OF this]
  show "list_all (\<lambda>s. fst s \<in> set unmirrored \<or>
      list_ex (mirrorsShape s) (exportsShapes (mod_exports (filesystemModule api))))
     (exportsShapes (mod_exports (filesystemPromisesModule api)))"
    by (rule list.pred_mono_strong) (rule shapeMirrored_sound)
  have "knowsRows (map_of (callRows (filesystemOperations api))) (callRows (filesystemOperations api))"
    by (rule knowsRows_map_of) (simp add: callRows_fst fs_operations_distinct)
  from promises_rows_mirrored [OF this]
  have "rowMirrored api (map_of (callRows (filesystemOperations api))) (callRow p)"
    if "p \<in> set (filesystemPromisesOperations api)" for p
    using that promises_calls by (auto simp: callRows_def list_all_iff)
  then show "list_all (\<lambda>p. operationPoint p \<in> set unmirrored \<or>
      list_ex (mirrorsOperation api p) (filesystemOperations api))
     (filesystemPromisesOperations api)"
    unfolding list_all_iff using rowMirrored_sound by blast
qed

end
