(* ===== verification/Spec2Isabelle.thy ===== *)
theory Spec2Isabelle
  imports Node_Contract Node_Typing Node_Overloads Node_Access Node_Listeners Node_Fs_Mirror
begin

text \<open>
  A verification development of the provider package of Node.js for Mojo, the TypeScript part of
  the repository (\<^verbatim>\<open>nodejs/src\<close>, package \<^verbatim>\<open>@tsonic/mojo-nodejs\<close>).

  \<^bold>\<open>The program.\<close> The package describes to a compiler which declarations the modules of
  Node.js have (modules with exports, members and signatures over source types) and which native
  operation implements each of them (a call, read or write of a Mojo entity with its native
  types). The README calls this exact closed data: operations are selected by identity and a
  missing one is an error, never a lookup by name. The program is a set of tables and of
  functions that derive declarations and operations from common rows, followed by one pass that
  gives modules a default export. It has no state that outlives a call and four throws; what can
  go wrong is that two tables disagree, and what the theorems say is that they agree.

  \<^bold>\<open>The theories\<close>, in the order of the code:

  \<^item> \<open>Provider_Prelude\<close>: lists, the grouping of rows by a \<open>Map\<close>
    (\<open>groupRows\<close>), results with errors, and executable comparison of lists
    (\<open>permCheck\<close>, \<open>allDistinct\<close>);
  \<^item> \<open>Provider_Types\<close>: the data: source types, declarations, operations, native types,
    package definitions; \<open>mojoApi\<close>, the constructors of native types that the target
    package \<^verbatim>\<open>@tsonic/target-mojo/provider\<close> exports, is a record of functions and a
    parameter of all that follows;
  \<^item> \<open>Provider_Carriers\<close>, \<open>Provider_Declarations\<close>, \<open>Provider_Operations\<close>:
    \<^verbatim>\<open>provider/model/\<close> (carriers, source types, declarations, operations, type definitions, events);
  \<^item> \<open>Node_Assert\<close> to \<open>Node_Zlib\<close>: \<^verbatim>\<open>provider/modules/\<close>, one theory per
    module, with \<open>Node_Stream_Parts\<close>, \<open>Node_Net_Parts\<close>, \<open>Node_Tls_Options\<close>,
    \<open>Node_Fs_Calls\<close> and \<open>Node_Fs_Streams\<close> for the tables that several use;
  \<^item> \<open>Module_Objects\<close>: \<^verbatim>\<open>provider/module-objects.ts\<close>, the pass;
  \<^item> \<open>Node_Package\<close>: \<^verbatim>\<open>provider/package.ts\<close>, \<^verbatim>\<open>capability.ts\<close>,
    \<^verbatim>\<open>index.ts\<close>. The functions of \<^verbatim>\<open>node:path\<close> and \<^verbatim>\<open>node:url\<close> that
    locate the package on disk are a parameter (\<open>nodeHost\<close>).

  A definition has the name of the code where there is one (\<open>bufferModule\<close>,
  \<open>netOperations\<close>); a local helper of a module carries the module as a prefix. A default
  argument is passed explicitly, \<open>Object.freeze\<close> is the identity, \<open>undefined\<close> is
  \<open>None\<close>, a throw is the left side of a sum. All functions terminate: loops are over
  lists, so there is no fuel.

  \<^bold>\<open>What is shown.\<close> The specifications are stated over any package:

  \<^item> \<open>Provider_Contract\<close>: a declaration has points (its identity, member, signature,
    kind and arity), and so has an operation; \<open>implements\<close> says that both have the same,
    as multisets. The locales \<open>method_rows\<close> and \<open>function_rows\<close> prove this for
    declarations and operations that a module derives from one table of rows; \<open>component\<close>
    is what a module promises to the package. Every module interprets \<open>component\<close> in its
    own theory;
  \<^item> \<open>Provider_Native\<close>: the native side of an operation: its target has the shape of its
    kind, its parameters their number, its receiver the native type of its class;
  \<^item> \<open>Provider_References\<close>: references and imports lead to declared types, and type
    definitions exist for exactly the types with instances;
  \<^item> \<open>Provider_Typing\<close>: \<open>carries\<close>, which native types may hold the values of a source
    type; every operation carries its declared types and packs its rest parameters.
    \<open>Object_Typing\<close> and \<open>Provider_Overloads\<close> show that the pass keeps this, and
    that overloads stay distinguishable;
  \<^item> \<open>Provider_Access\<close>: writes and reads of a property fit together.

  \<open>Module_Objects\<close> proves the pass equal to a form without loops and derives its laws from
  it, in the locale \<open>projectable_package\<close>. \<open>Node_Contract\<close> puts the modules together
  and interprets that locale on the package, so that what is delivered (\<open>nodeDefinition\<close>)
  satisfies the contract; \<open>Node_Typing\<close>, \<open>Node_Overloads\<close>, \<open>Node_Access\<close>,
  \<open>Node_Listeners\<close> and \<open>Node_Fs_Mirror\<close> do the same for their subjects. The tables
  are evaluated by the simplifier, in two steps: the points or types of both sides, and their
  comparison.

  \<^bold>\<open>Not modelled.\<close> The Mojo runtime (\<^verbatim>\<open>nodejs/mojo\<close>) and its native C parts
  implement the operations and are in other languages; vendored code, tests, scripts and
  documentation carry no logic of the package. \<open>createMojoProviderPackage\<close> and the
  constructors of native types belong to another package and are parameters.
\<close>

section \<open>The delivered package\<close>

text \<open>
  C1: Building the package never throws. For every target package (\<open>build\<close> and
  \<open>api\<close>) and every host, the plugin entry point reaches the call of
  \<open>createMojoProviderPackage\<close> and passes it \<open>nodeDefinition host api\<close>, the assembled
  definition with its module objects.
\<close>

theorem plugin_returns:
  "createTsonicPlugin build host api = Inr (build (nodeDefinition host api))"
  by (simp add: createTsonicPlugin_def createMojoNodejsCapability_def package_returns)

text \<open>
  C2: The operations of the delivered definition implement its declarations exactly: as
  multisets, the points of the operations are the points of the declarations, no point occurs
  twice, and export identities are unique.
\<close>

theorem package_exact:
  "mset (operationsPoints (pkg_operations (nodeDefinition host api))) =
     mset (exportsPoints (packageExports (pkg_modules (nodeDefinition host api)))) \<and>
   distinct (exportsPoints (packageExports (pkg_modules (nodeDefinition host api)))) \<and>
   distinct (map exp_id (packageExports (pkg_modules (nodeDefinition host api))))"
  using delivered_contract [of host api] result_points [of api]
  by (simp add: packageContract_def implements_def)


text \<open>
  C4: The native side of the delivered definition is complete: there is exactly one type
  definition for every declared class or interface that has instances and none for anything
  else, and every operation has the native target of its kind, the declared number of native
  parameters, and the native type of its class as receiver.
\<close>

theorem native_complete:
  "typesExact (pkg_types (nodeDefinition host api))
     (packageExports (pkg_modules (nodeDefinition host api))) \<and>
   nativeOperations (pkg_types (nodeDefinition host api)) (pkg_operations (nodeDefinition host api))"
  using result_types [of api] result_native [of api host] by simp

text \<open>
  C5: The delivered declarations are closed: every reference to a type, in a parameter, result,
  property, heritage clause or type argument, names a type that its module declares or imports,
  and every import names a class or interface that the module it imports from declares.
\<close>

theorem references_closed:
  "list_all refsResolved (pkg_modules (nodeDefinition host api)) \<and>
   importsResolved (pkg_modules (nodeDefinition host api))"
  using result_refs [of api] result_imports [of api] by simp

text \<open>
  C6: The overloads of the delivered declarations can be told apart: no two signatures of one
  function, method, constructor or indexer have the same parameter types, up to the names of
  parameters and the identities of callback types.
\<close>

theorem overloads_distinguishable:
  "overloadsDistinct (packageExports (pkg_modules (nodeDefinition host api)))"
  using result_overloads [of api] by simp

text \<open>
  C7: Every write of a property stands beside its read. For every operation that sets a property
  there is one that reads it, at the same native field, accessor or module variable, and the
  written type is the type read; only where an optional native field is read through an accessor
  that unwraps it, the optional type is written.
\<close>

theorem writes_readable:
  "writesPaired api (pkg_operations (nodeDefinition host api)) (pkg_operations (nodeDefinition host api))"
  by (rule result_paired)

text \<open>
  C8: What listens can stop listening: in every module, a class that declares \<open>on\<close>,
  \<open>once\<close> or \<open>off\<close> declares all three, with the same events, listener types and results
  in the same order.
\<close>

theorem listeners_uniform: "listenersUniform (packageExports (nodeModules api))"
  by (rule node_listeners)

text \<open>
  C9: The alias table is exact: it lists, for the delivered modules in their order, the specifier
  without its scheme, and for \<open>node:assert\<close> its strict variants; no alias is listed twice or
  is the specifier of a module.
\<close>

theorem aliases_exact:
  "pkg_moduleAliases (nodeDefinition host api) =
     concat (map specifierAliases (map mod_moduleSpecifier (pkg_modules (nodeDefinition host api)))) \<and>
   distinct (map fst (pkg_moduleAliases (nodeDefinition host api))) \<and>
   set (map fst (pkg_moduleAliases (nodeDefinition host api))) \<inter>
     set (map mod_moduleSpecifier (pkg_modules (nodeDefinition host api))) = {}"
  unfolding result_specifiers using nodeAliases_exact nodeAliases_distinct by simp

text \<open>
  C10: Every delivered module has exactly one default export, save \<open>node:events\<close> and
  \<open>node:stream\<close>, which have none; \<open>node:assert\<close> and \<open>node:process\<close> bring their own
  and the pass adds the others.
\<close>

theorem defaults_exact:
  "map (\<lambda>m. (mod_moduleSpecifier m, defaultCount m)) (pkg_modules (nodeDefinition host api)) =
     map (\<lambda>s. (s, if s = ''node:events'' \<or> s = ''node:stream'' then 0 else 1)) nodeSpecifiers"
  using result_specifiers [of host api] result_defaultCounts [of api] by (auto simp: list_eq_iff_nth_eq)

text \<open>
  C11: The identities of the delivered exports stay in the scope of their module: the part before
  \<open>::\<close> or \<open>.default\<close> is the specifier of the module that declares the export.
\<close>

theorem exports_scoped: "list_all moduleScoped (pkg_modules (nodeDefinition host api))"
  using result_scoped [of api] by simp

text \<open>
  C12: The members that exist only on the surface \<open>js\<close> fit to the delivered definition:
  they extend types that have a definition, each is implemented by exactly one operation on the
  native type, and none of them is declared by a module.
\<close>

theorem surfaces_fit:
  "list_all (surfaceFits (pkg_types (nodeDefinition host api))
       (packageExports (pkg_modules (nodeDefinition host api))))
     (pkg_surfaceMembers (nodeDefinition host api))"
  using result_surfaces [of api host] by simp

end
